(* ===== verification/Prelude.thy ===== *)
theory Prelude
  imports Main "HOL-Library.Word"
begin

text \<open>
  Shared ground of the development: the outcome of a Go computation that may panic
  (\<open>run\<close>), Go error values with wrapping, byte strings, big- and little-endian integers,
  references (Go pointers) with identity, JSON values, and the theorem collections the component
  theories add to.
\<close>

section \<open>Theorem collections\<close>

named_theorems run_simps \<open>evaluation and inversion of computations that may panic\<close>
named_theorems reader_simps \<open>evaluation of the readers of the WAL parser\<close>
named_theorems frame_simps \<open>fields an operation leaves alone\<close>

section \<open>Computations that may panic\<close>

text \<open>
  A Go statement either completes or panics. The constructors name the run-time checks the
  modelled code can fail: an index or slice bound, a nil dereference, \<open>make\<close> with a negative
  length, and an explicit \<open>panic\<close> call.
\<close>

datatype go_panic = PanicIndex | PanicSlice | PanicNil | PanicMakeLen | PanicMsg string

type_synonym 'a run = "go_panic + 'a"

definition run_bind :: "'a run \<Rightarrow> ('a \<Rightarrow> 'b run) \<Rightarrow> 'b run" where
  "run_bind m f = (case m of Inl p \<Rightarrow> Inl p | Inr x \<Rightarrow> f x)"

lemma run_bind_simps [simp, run_simps]:
  "run_bind (Inl p) f = Inl p"
  "run_bind (Inr x) f = f x"
  by (simp_all add: run_bind_def)

lemma run_bind_eq_Inr [run_simps]: "run_bind m f = Inr y \<longleftrightarrow> (\<exists>x. m = Inr x \<and> f x = Inr y)"
  by (cases m) auto

lemma run_bind_eq_Inl [run_simps]:
  "run_bind m f = Inl p \<longleftrightarrow> m = Inl p \<or> (\<exists>x. m = Inr x \<and> f x = Inl p)"
  by (cases m) auto

lemma run_bind_assoc: "run_bind (run_bind m f) g = run_bind m (\<lambda>x. run_bind (f x) g)"
  by (cases m) auto

lemma run_bind_cong [fundef_cong]:
  "m = m' \<Longrightarrow> (\<And>x. m' = Inr x \<Longrightarrow> f x = f' x) \<Longrightarrow> run_bind m f = run_bind m' f'"
  by (cases m') auto

text \<open>Indexing a slice (\<open>xs[i]\<close>) panics out of range.\<close>

definition slice_get :: "'a list \<Rightarrow> nat \<Rightarrow> 'a run" where
  "slice_get xs i = (if i < length xs then Inr (xs ! i) else Inl PanicIndex)"

lemma slice_get_Inr [run_simps]: "slice_get xs i = Inr x \<longleftrightarrow> i < length xs \<and> x = xs ! i"
  by (auto simp: slice_get_def)

lemma slice_get_Inl [run_simps]: "slice_get xs i = Inl p \<longleftrightarrow> length xs \<le> i \<and> p = PanicIndex"
  by (auto simp: slice_get_def)

text \<open>Dereferencing a pointer that may be nil.\<close>

definition deref :: "'a option \<Rightarrow> 'a run" where
  "deref p = (case p of None \<Rightarrow> Inl PanicNil | Some x \<Rightarrow> Inr x)"

lemma deref_simps [simp, run_simps]:
  "deref None = Inl PanicNil"
  "deref (Some x) = Inr x"
  by (simp_all add: deref_def)

lemma deref_Inr [simp, run_simps]: "deref p = Inr x \<longleftrightarrow> p = Some x"
  by (cases p) auto

text \<open>A loop whose body may panic, over the elements of a slice.\<close>

fun run_map :: "('a \<Rightarrow> 'b run) \<Rightarrow> 'a list \<Rightarrow> 'b list run" where
  "run_map f [] = Inr []"
| "run_map f (x # xs) = run_bind (f x) (\<lambda>y. run_bind (run_map f xs) (\<lambda>ys. Inr (y # ys)))"

lemma run_map_Inr_map: "(\<And>x. x \<in> set xs \<Longrightarrow> f x = Inr (g x)) \<Longrightarrow> run_map f xs = Inr (map g xs)"
  by (induction xs) auto

lemma run_map_length: "run_map f xs = Inr ys \<Longrightarrow> length ys = length xs"
  by (induction xs arbitrary: ys) (auto simp: run_simps)

lemma run_map_nth: "run_map f xs = Inr ys \<Longrightarrow> i < length xs \<Longrightarrow> f (xs ! i) = Inr (ys ! i)"
  by (induction xs arbitrary: ys i) (auto simp: run_simps nth_Cons split: nat.splits)

section \<open>Error values\<close>

text \<open>
  \<open>GoErr m\<close> is an error made with \<open>errors.New\<close>, \<open>WrapErr m e\<close> is \<open>fmt.Errorf\<close> with \<open>%w\<close>
  or \<open>stacktrace.Propagate\<close> of a non-nil error. \<open>errors_Is\<close> walks the chain of wrapped errors.
\<close>

datatype go_error = GoErr string | WrapErr string go_error

text \<open>The message of an error: \<open>Error()\<close>.\<close>

fun error_text :: "go_error \<Rightarrow> string" where
  "error_text (GoErr m) = m"
| "error_text (WrapErr m e) = m @ '': '' @ error_text e"

fun errors_Is :: "go_error \<Rightarrow> go_error \<Rightarrow> bool" where
  "errors_Is (GoErr m) t = (GoErr m = t)"
| "errors_Is (WrapErr m e) t = (WrapErr m e = t \<or> errors_Is e t)"

lemma errors_Is_refl [simp]: "errors_Is e e"
  by (cases e) auto

lemma errors_Is_WrapErr [simp]: "errors_Is e t \<Longrightarrow> errors_Is (WrapErr m e) t"
  by simp

section \<open>Bytes and byte order\<close>

type_synonym byte = "8 word"
type_synonym bytes = "8 word list"

definition bytes_to_string :: "bytes \<Rightarrow> string" where
  "bytes_to_string bs = map (\<lambda>b. char_of (unat b)) bs"

definition string_to_bytes :: "string \<Rightarrow> bytes" where
  "string_to_bytes s = map (\<lambda>c. word_of_nat (of_char c)) s"

lemma unat_of_char [simp]: "unat (word_of_nat (of_char c) :: 8 word) = of_char c"
proof -
  have "(of_char c :: nat) < 256" by (rule nat_of_char_less_256)
  then show ?thesis by (simp add: unat_of_nat)
qed

lemma bytes_to_string_to_bytes [simp]: "bytes_to_string (string_to_bytes s) = s"
  by (induction s) (simp_all add: bytes_to_string_def string_to_bytes_def)

lemma string_to_bytes_length [simp]: "length (string_to_bytes s) = length s"
  by (simp add: string_to_bytes_def)

lemma string_to_bytes_Nil [simp]: "string_to_bytes [] = []"
  by (simp add: string_to_bytes_def)

lemma string_to_bytes_zero: "0 \<in> set (string_to_bytes s) \<longleftrightarrow> CHR 0x00 \<in> set s"
proof -
  have "(word_of_nat (of_char c) :: 8 word) = 0 \<longleftrightarrow> c = CHR 0x00" for c
  proof
    assume "(word_of_nat (of_char c) :: 8 word) = 0"
    then have "unat (word_of_nat (of_char c) :: 8 word) = 0" by simp
    then have "(of_char c :: nat) = 0" by (simp del: unat_eq_zero)
    then have "(of_char c :: nat) = of_char (CHR 0x00)" by simp
    then show "c = CHR 0x00" by (simp only: of_char_eq_iff)
  qed simp
  then show ?thesis unfolding string_to_bytes_def by (auto intro: rev_image_eqI simp: image_iff)
qed

datatype byte_order = BigEndian | LittleEndian

fun be_nat :: "bytes \<Rightarrow> nat" where
  "be_nat [] = 0"
| "be_nat (b # bs) = unat b * 256 ^ length bs + be_nat bs"

fun be_bytes :: "nat \<Rightarrow> nat \<Rightarrow> bytes" where
  "be_bytes 0 n = []"
| "be_bytes (Suc k) n = be_bytes k (n div 256) @ [word_of_nat (n mod 256)]"

lemma be_bytes_length [simp]: "length (be_bytes k n) = k"
  by (induction k arbitrary: n) auto

lemma be_nat_append: "be_nat (xs @ ys) = be_nat xs * 256 ^ length ys + be_nat ys"
  by (induction xs) (auto simp: algebra_simps power_add)

lemma be_nat_be_bytes: "be_nat (be_bytes k n) = n mod 256 ^ k"
proof (induction k arbitrary: n)
  case 0
  then show ?case by simp
next
  case (Suc k)
  have m: "unat (word_of_nat (n mod 256) :: 8 word) = n mod 256"
    by (simp add: unat_of_nat)
  have "be_nat (be_bytes (Suc k) n) = n div 256 mod 256 ^ k * 256 + n mod 256"
    by (simp add: be_nat_append Suc m)
  also have "\<dots> = n mod (256 * 256 ^ k)"
    using mod_mult2_eq [of n 256 "256 ^ k"] by (simp add: algebra_simps)
  finally show ?case by simp
qed

definition order_nat :: "byte_order \<Rightarrow> bytes \<Rightarrow> nat" where
  "order_nat bo bs = (case bo of BigEndian \<Rightarrow> be_nat bs | LittleEndian \<Rightarrow> be_nat (rev bs))"

definition order_bytes :: "byte_order \<Rightarrow> nat \<Rightarrow> nat \<Rightarrow> bytes" where
  "order_bytes bo k n = (case bo of BigEndian \<Rightarrow> be_bytes k n | LittleEndian \<Rightarrow> rev (be_bytes k n))"

lemma order_bytes_length [simp]: "length (order_bytes bo k n) = k"
  by (cases bo) (auto simp: order_bytes_def)

lemma order_nat_order_bytes: "order_nat bo (order_bytes bo k n) = n mod 256 ^ k"
  by (cases bo) (auto simp: order_nat_def order_bytes_def be_nat_be_bytes)

section \<open>References\<close>

text \<open>
  A Go pointer to a string value. Two references are equal in Go when they are the same address;
  \<open>ref_text\<close> is what they point to. \<open>ref_eq\<close> is the language's \<open>==\<close> on pointers.
\<close>

record string_ref =
  ref_addr :: nat
  ref_text :: string

definition ref_eq :: "string_ref \<Rightarrow> string_ref \<Rightarrow> bool" where
  "ref_eq a b = (ref_addr a = ref_addr b)"

lemma ref_eq_refl [simp]: "ref_eq a a"
  by (simp add: ref_eq_def)

lemma ref_eq_sym: "ref_eq a b = ref_eq b a"
  by (auto simp: ref_eq_def)

section \<open>JSON values\<close>

datatype json =
    JNull
  | JBool bool
  | JNum int
  | JStr string
  | JArr "json list"
  | JObj "(string \<times> json) list"

end
