(* ===== verification/GoStd.thy ===== *)
theory GoStd
  imports Prelude
begin

text \<open>
  The part of Go's standard library the modelled code calls on strings and numbers: \<open>strings\<close>
  (prefix tests, trimming, cutting, splitting, joining, replacing, ASCII case) and \<open>strconv\<close>
  (decimal printing and parsing with Go's saturating range errors, booleans). A string is a list
  of bytes; case mapping and white space are those of ASCII.
\<close>

section \<open>strings\<close>

definition ascii_lower :: "char \<Rightarrow> char" where
  "ascii_lower c = (let n = of_char c :: nat in if 65 \<le> n \<and> n \<le> 90 then char_of (n + 32) else c)"

definition strings_ToLower :: "string \<Rightarrow> string" where
  "strings_ToLower s = map ascii_lower s"

lemma ascii_lower_idem [simp]: "ascii_lower (ascii_lower c) = ascii_lower c"
proof -
  have "(of_char (char_of (n + 32) :: char) :: nat) = n + 32" if "n \<le> 90" for n :: nat
    using that by simp
  then show ?thesis by (auto simp: ascii_lower_def Let_def)
qed

lemma strings_ToLower_idem [simp]: "strings_ToLower (strings_ToLower s) = strings_ToLower s"
  by (simp add: strings_ToLower_def)

lemma strings_ToLower_append [simp]:
  "strings_ToLower (s @ t) = strings_ToLower s @ strings_ToLower t"
  by (simp add: strings_ToLower_def)

lemma strings_ToLower_length [simp]: "length (strings_ToLower s) = length s"
  by (simp add: strings_ToLower_def)

definition strings_EqualFold :: "string \<Rightarrow> string \<Rightarrow> bool" where
  "strings_EqualFold s t = (strings_ToLower s = strings_ToLower t)"

definition strings_HasPrefix :: "string \<Rightarrow> string \<Rightarrow> bool" where
  "strings_HasPrefix s p = (take (length p) s = p)"

definition strings_HasSuffix :: "string \<Rightarrow> string \<Rightarrow> bool" where
  "strings_HasSuffix s p = (length p \<le> length s \<and> drop (length s - length p) s = p)"

lemma strings_HasPrefix_append [simp]: "strings_HasPrefix (p @ s) p"
  by (simp add: strings_HasPrefix_def)

lemma strings_HasSuffix_append [simp]: "strings_HasSuffix (s @ p) p"
  by (simp add: strings_HasSuffix_def)

lemma strings_HasPrefix_iff: "strings_HasPrefix s p \<longleftrightarrow> (\<exists>t. s = p @ t)"
  unfolding strings_HasPrefix_def by (metis append_eq_conv_conj append_take_drop_id)

text \<open>\<open>strings.Cut\<close>: the text before and after the first occurrence of a separator.\<close>

fun strings_Cut :: "string \<Rightarrow> string \<Rightarrow> (string \<times> string) option" where
  "strings_Cut sep [] = (if sep = [] then Some ([], []) else None)"
| "strings_Cut sep (c # cs) =
     (if strings_HasPrefix (c # cs) sep then Some ([], drop (length sep) (c # cs))
      else map_option (\<lambda>(a, b). (c # a, b)) (strings_Cut sep cs))"

definition strings_Contains :: "string \<Rightarrow> string \<Rightarrow> bool" where
  "strings_Contains s sub = (strings_Cut sub s \<noteq> None)"

text \<open>\<open>strings.SplitN\<close> with a limit of 2 and a non-empty separator.\<close>

definition strings_SplitN2 :: "string \<Rightarrow> string \<Rightarrow> string list" where
  "strings_SplitN2 s sep = (case strings_Cut sep s of None \<Rightarrow> [s] | Some (a, b) \<Rightarrow> [a, b])"

lemma strings_Cut_Some: "strings_Cut sep s = Some (a, b) \<Longrightarrow> s = a @ sep @ b"
proof (induction s arbitrary: a b)
  case Nil
  then show ?case by (simp split: if_splits)
next
  case (Cons c cs)
  show ?case
  proof (cases "strings_HasPrefix (c # cs) sep")
    case True
    with Cons.prems have "a = []" and "b = drop (length sep) (c # cs)" by auto
    with True show ?thesis
      unfolding strings_HasPrefix_def by (metis append_Nil append_take_drop_id)
  next
    case False
    with Cons.prems obtain a' where "a = c # a'" and "strings_Cut sep cs = Some (a', b)" by auto
    with Cons.IH show ?thesis by simp
  qed
qed

lemma strings_Cut_char:
  "c \<notin> set a \<Longrightarrow> strings_Cut [c] (a @ c # b) = Some (a, b)"
  by (induction a) (auto simp: strings_HasPrefix_def)

lemma strings_Cut_char_None: "strings_Cut [c] s = None \<longleftrightarrow> c \<notin> set s"
  by (induction s) (auto simp: strings_HasPrefix_def)

lemma strings_SplitN2_char:
  "c \<notin> set a \<Longrightarrow> strings_SplitN2 (a @ c # b) [c] = [a, b]"
  by (simp add: strings_SplitN2_def strings_Cut_char)

lemma strings_SplitN2_absent: "c \<notin> set s \<Longrightarrow> strings_SplitN2 s [c] = [s]"
  by (simp add: strings_SplitN2_def strings_Cut_char_None [THEN iffD2])

text \<open>\<open>strings.Split\<close> and \<open>strings.ReplaceAll\<close> at a one-byte separator, \<open>strings.Join\<close>.\<close>

fun strings_Split :: "char \<Rightarrow> string \<Rightarrow> string list" where
  "strings_Split sep [] = [[]]"
| "strings_Split sep (c # cs) =
     (let r = strings_Split sep cs
      in if c = sep then [] # r else (c # hd r) # tl r)"

fun strings_Join :: "string list \<Rightarrow> string \<Rightarrow> string" where
  "strings_Join [] sep = []"
| "strings_Join [s] sep = s"
| "strings_Join (s # t # ss) sep = s @ sep @ strings_Join (t # ss) sep"

definition strings_ReplaceAll :: "string \<Rightarrow> char \<Rightarrow> string \<Rightarrow> string" where
  "strings_ReplaceAll s old new = concat (map (\<lambda>c. if c = old then new else [c]) s)"

lemma strings_Split_nonempty [simp]: "strings_Split sep s \<noteq> []"
  by (induction s) (auto simp: Let_def)

lemma strings_Join_Split: "strings_Join (strings_Split sep s) [sep] = s"
proof (induction s)
  case Nil
  then show ?case by simp
next
  case (Cons c cs)
  obtain h t where r: "strings_Split sep cs = h # t"
    by (cases "strings_Split sep cs") auto
  show ?case
  proof (cases t)
    case Nil
    with Cons r show ?thesis by (auto simp: Let_def)
  next
    case (Cons u us)
    with Cons.IH r show ?thesis by (auto simp: Let_def)
  qed
qed

lemma strings_ReplaceAll_absent: "old \<notin> set s \<Longrightarrow> strings_ReplaceAll s old new = s"
  by (induction s) (auto simp: strings_ReplaceAll_def)

lemma strings_ReplaceAll_Nil_set: "set (strings_ReplaceAll s old []) = set s - {old}"
  by (auto simp: strings_ReplaceAll_def)

text \<open>Trimming.\<close>

definition ascii_space :: "char \<Rightarrow> bool" where
  "ascii_space c = (c \<in> {CHR 0x09, CHR 0x0A, CHR 0x0B, CHR 0x0C, CHR 0x0D, CHR '' ''})"

definition strings_TrimLeft :: "string \<Rightarrow> string \<Rightarrow> string" where
  "strings_TrimLeft s cutset = dropWhile (\<lambda>c. c \<in> set cutset) s"

definition strings_TrimRight :: "string \<Rightarrow> string \<Rightarrow> string" where
  "strings_TrimRight s cutset = rev (dropWhile (\<lambda>c. c \<in> set cutset) (rev s))"

definition strings_TrimSpace :: "string \<Rightarrow> string" where
  "strings_TrimSpace s = rev (dropWhile ascii_space (rev (dropWhile ascii_space s)))"

lemma dropWhile_hd_id: "\<not> P (hd xs) \<Longrightarrow> dropWhile P xs = xs"
  by (cases xs) auto

lemma strings_TrimSpace_id:
  assumes "s = [] \<or> (\<not> ascii_space (hd s) \<and> \<not> ascii_space (last s))"
  shows "strings_TrimSpace s = s"
proof (cases s)
  case Nil
  then show ?thesis by (simp add: strings_TrimSpace_def)
next
  case (Cons c cs)
  with assms have h: "\<not> ascii_space c" and l: "\<not> ascii_space (last s)" by auto
  from Cons h have d: "dropWhile ascii_space s = s" by simp
  from Cons have "rev s \<noteq> []" and "hd (rev s) = last s" by (simp_all add: hd_rev)
  with l have "dropWhile ascii_space (rev s) = rev s"
    by (simp add: dropWhile_hd_id)
  with d show ?thesis by (simp add: strings_TrimSpace_def)
qed

section \<open>strconv\<close>

definition digit_char :: "nat \<Rightarrow> char" where
  "digit_char d = char_of (48 + d)"

definition char_digit :: "char \<Rightarrow> nat option" where
  "char_digit c = (let n = of_char c :: nat in if 48 \<le> n \<and> n \<le> 57 then Some (n - 48) else None)"

lemma char_digit_digit_char [simp]: "d < 10 \<Longrightarrow> char_digit (digit_char d) = Some d"
  by (simp add: char_digit_def digit_char_def)

fun nat_to_string :: "nat \<Rightarrow> string" where
  "nat_to_string n =
     (if n < 10 then [digit_char n] else nat_to_string (n div 10) @ [digit_char (n mod 10)])"

declare nat_to_string.simps [simp del]

definition int_to_string :: "int \<Rightarrow> string" where
  "int_to_string i = (if i < 0 then ''-'' @ nat_to_string (nat (- i)) else nat_to_string (nat i))"

fun digits_value :: "nat \<Rightarrow> string \<Rightarrow> nat option" where
  "digits_value acc [] = Some acc"
| "digits_value acc (c # cs) =
     (case char_digit c of None \<Rightarrow> None | Some d \<Rightarrow> digits_value (acc * 10 + d) cs)"

definition parse_digits :: "string \<Rightarrow> nat option" where
  "parse_digits s = (if s = [] then None else digits_value 0 s)"

lemma digits_value_append:
  "digits_value acc (s @ t) = Option.bind (digits_value acc s) (\<lambda>a. digits_value a t)"
  by (induction s arbitrary: acc) (auto split: option.splits)

lemma nat_to_string_nonempty [simp]: "nat_to_string n \<noteq> []"
  by (subst nat_to_string.simps) simp

lemma digits_value_nat_to_string: "digits_value 0 (nat_to_string n) = Some n"
proof (induction n rule: nat_to_string.induct)
  case (1 n)
  show ?case
  proof (cases "n < 10")
    case True
    then show ?thesis by (subst nat_to_string.simps) simp
  next
    case False
    with 1 have "digits_value 0 (nat_to_string (n div 10)) = Some (n div 10)" by simp
    with False show ?thesis
      by (subst nat_to_string.simps) (simp add: digits_value_append)
  qed
qed

lemma parse_digits_nat_to_string [simp]: "parse_digits (nat_to_string n) = Some n"
  by (simp add: parse_digits_def digits_value_nat_to_string)

text \<open>
  \<open>strconv.ParseUint\<close>'s scan: it stops with the largest value as soon as the digits read so far
  exceed 64 bits, whatever follows them. \<open>Some (2 ^ 64)\<close> stands for that range error, \<open>None\<close> for a
  syntax error.
\<close>

fun uint_scan :: "nat \<Rightarrow> string \<Rightarrow> nat option" where
  "uint_scan acc [] = Some acc"
| "uint_scan acc (c # cs) =
     (case char_digit c of None \<Rightarrow> None
      | Some d \<Rightarrow> if 2 ^ 64 \<le> acc * 10 + d then Some (2 ^ 64) else uint_scan (acc * 10 + d) cs)"

lemma digits_value_ge: "digits_value acc s = Some n \<Longrightarrow> acc \<le> n"
  by (induction s arbitrary: acc) (fastforce split: option.splits)+

lemma uint_scan_digits_value:
  "digits_value acc s = Some n \<Longrightarrow> n < 2 ^ 64 \<Longrightarrow> uint_scan acc s = Some n"
proof (induction s arbitrary: acc)
  case (Cons c cs)
  from Cons.prems obtain d where d: "char_digit c = Some d"
    and v: "digits_value (acc * 10 + d) cs = Some n"
    by (auto split: option.splits)
  from digits_value_ge [OF v] Cons.prems have "acc * 10 + d < 2 ^ 64" by simp
  with d Cons.IH [OF v Cons.prems(2)] show ?case by simp
qed simp

definition scan_digits :: "string \<Rightarrow> nat option" where
  "scan_digits s = (if s = [] then None else uint_scan 0 s)"

lemma scan_digits_nat_to_string [simp]:
  "n < 2 ^ 64 \<Longrightarrow> scan_digits (nat_to_string n) = Some n"
  using uint_scan_digits_value [OF digits_value_nat_to_string] by (simp add: scan_digits_def)

text \<open>
  \<open>strconv.ParseInt(s, 10, 64)\<close> (which \<open>Atoi\<close> equals on 64-bit platforms): an optional sign, then
  digits. A syntax error yields 0, a value out of range the nearest bound, both with an error;
  the second component says whether there was one.
\<close>

definition int64_max :: int where "int64_max = 9223372036854775807"
definition int64_min :: int where "int64_min = - 9223372036854775808"

definition strconv_ParseInt :: "string \<Rightarrow> int \<times> bool" where
  "strconv_ParseInt s =
     (let (neg, ds) = (case s of [] \<Rightarrow> (False, [])
                       | c # cs \<Rightarrow> if c = CHR ''-'' then (True, cs)
                                  else if c = CHR ''+'' then (False, cs) else (False, s))
      in case scan_digits ds of
           None \<Rightarrow> (0, True)
         | Some n \<Rightarrow>
             let v = (if neg then - int n else int n)
             in if int64_max < v then (int64_max, True)
                else if v < int64_min then (int64_min, True) else (v, False))"

definition strconv_Atoi :: "string \<Rightarrow> int \<times> bool" where
  "strconv_Atoi s = strconv_ParseInt s"

text \<open>\<open>strconv.ParseUint(s, 10, 64)\<close>: digits only; \<open>None\<close> is any error.\<close>

definition strconv_ParseUint :: "string \<Rightarrow> nat option" where
  "strconv_ParseUint s =
     (case scan_digits s of None \<Rightarrow> None | Some n \<Rightarrow> if n < 2 ^ 64 then Some n else None)"

definition strconv_ParseBool :: "string \<Rightarrow> bool \<times> bool" where
  "strconv_ParseBool s =
     (if s \<in> {''1'', ''t'', ''T'', ''true'', ''TRUE'', ''True''} then (True, False)
      else if s \<in> {''0'', ''f'', ''F'', ''false'', ''FALSE'', ''False''} then (False, False)
      else (False, True))"

lemma nat_to_string_hd: "\<exists>d < 10. hd (nat_to_string n) = digit_char d"
proof (induction n rule: nat_to_string.induct)
  case (1 n)
  show ?case
  proof (cases "n < 10")
    case True
    then show ?thesis by (subst nat_to_string.simps) auto
  next
    case False
    with 1 show ?thesis by (subst nat_to_string.simps) simp
  qed
qed

lemma digit_char_not_sign: "d < 10 \<Longrightarrow> digit_char d \<noteq> CHR ''-'' \<and> digit_char d \<noteq> CHR ''+''"
proof -
  assume "d < 10"
  then have "(of_char (digit_char d) :: nat) = 48 + d" by (simp add: digit_char_def)
  then show ?thesis by auto
qed

lemma strconv_ParseInt_int_to_string:
  assumes "int64_min \<le> i" and "i \<le> int64_max"
  shows "strconv_ParseInt (int_to_string i) = (i, False)"
proof (cases "i < 0")
  case True
  with assms show ?thesis
    by (simp add: int_to_string_def strconv_ParseInt_def int64_min_def)
next
  case False
  obtain c cs where s: "nat_to_string (nat i) = c # cs"
    by (cases "nat_to_string (nat i)") auto
  from nat_to_string_hd [of "nat i"] s digit_char_not_sign
  have "c \<noteq> CHR ''-'' \<and> c \<noteq> CHR ''+''" by auto
  moreover have "scan_digits (c # cs) = Some (nat i)"
    using scan_digits_nat_to_string [of "nat i"] s assms by (simp add: int64_max_def)
  ultimately show ?thesis
    using False assms s by (simp add: int_to_string_def strconv_ParseInt_def)
qed

lemma strconv_ParseInt_bounds:
  "int64_min \<le> fst (strconv_ParseInt s) \<and> fst (strconv_ParseInt s) \<le> int64_max"
  by (auto simp: strconv_ParseInt_def Let_def int64_min_def int64_max_def
      split: list.splits option.splits prod.splits)

lemma nat_to_string_digits: "c \<in> set (nat_to_string n) \<Longrightarrow> \<exists>d<10. c = digit_char d"
proof (induction n rule: nat_to_string.induct)
  case (1 n)
  show ?case
  proof (cases "n < 10")
    case True
    with 1 show ?thesis by (subst (asm) nat_to_string.simps) auto
  next
    case False
    from 1(2) False have "c \<in> set (nat_to_string (n div 10)) \<or> c = digit_char (n mod 10)"
      by (subst (asm) nat_to_string.simps) auto
    with 1(1) False show ?thesis by (auto intro: exI [of _ "n mod 10"])
  qed
qed

lemma ascii_lower_digit: "d < 10 \<Longrightarrow> ascii_lower (digit_char d) = digit_char d"
  by (simp add: ascii_lower_def digit_char_def)

lemma strings_ToLower_nat [simp]: "strings_ToLower (nat_to_string n) = nat_to_string n"
  unfolding strings_ToLower_def
  by (rule map_idI) (auto dest!: nat_to_string_digits simp: ascii_lower_digit)

lemma nat_to_string_no_letter:
  "char_digit c = None \<Longrightarrow> c \<notin> set (nat_to_string n)"
  using nat_to_string_digits char_digit_digit_char by fastforce

lemma strconv_ParseUint_nat_to_string:
  "n < 2 ^ 64 \<Longrightarrow> strconv_ParseUint (nat_to_string n) = Some n"
  by (simp add: strconv_ParseUint_def)

end
