(* ===== verification/WalProtocol.thy ===== *)
theory WalProtocol
  imports GoStd
begin

text \<open>
  The logical replication messages of \<open>src/wal-listener/listener/protocol.go\<close>, the PostgreSQL
  type oids of \<open>pg_type.go\<close> and the errors of \<open>errors.go\<close>. Integers keep their width: an \<open>int64\<close>
  is a \<open>64 word\<close> read with \<open>sint\<close>. A \<open>time.Time\<close> is its distance to the Unix epoch in nanoseconds.
\<close>

section \<open>Message types and data types\<close>

definition CommitMsgType :: byte where "CommitMsgType = 67"
definition BeginMsgType :: byte where "BeginMsgType = 66"
definition OriginMsgType :: byte where "OriginMsgType = 79"
definition RelationMsgType :: byte where "RelationMsgType = 82"
definition TypeMsgType :: byte where "TypeMsgType = 89"
definition InsertMsgType :: byte where "InsertMsgType = 73"
definition UpdateMsgType :: byte where "UpdateMsgType = 85"
definition DeleteMsgType :: byte where "DeleteMsgType = 68"
definition TruncateMsgType :: byte where "TruncateMsgType = 84"
definition NewTupleDataType :: byte where "NewTupleDataType = 78"
definition TextDataType :: byte where "TextDataType = 116"
definition NullDataType :: byte where "NullDataType = 110"
definition ToastDataType :: byte where "ToastDataType = 117"

definition KeyTupleChar :: byte where "KeyTupleChar = 75"
definition OldTupleChar :: byte where "OldTupleChar = 79"
definition NewTupleChar :: byte where "NewTupleChar = 78"

lemmas msg_types = CommitMsgType_def BeginMsgType_def OriginMsgType_def RelationMsgType_def
  TypeMsgType_def InsertMsgType_def UpdateMsgType_def DeleteMsgType_def TruncateMsgType_def

lemmas data_types = NewTupleDataType_def TextDataType_def NullDataType_def ToastDataType_def
  KeyTupleChar_def OldTupleChar_def NewTupleChar_def

section \<open>Times\<close>

type_synonym go_time = int

definition postgresEpoch :: go_time where
  "postgresEpoch = 946684800 * 1000000000"

section \<open>Messages\<close>

record Begin =
  begin_LSN :: "64 word"
  begin_Timestamp :: go_time
  begin_XID :: "32 word"

record Commit =
  commit_Flags :: "8 word"
  commit_LSN :: "64 word"
  commit_TransactionLSN :: "64 word"
  commit_Timestamp :: go_time

record Origin =
  origin_LSN :: "64 word"
  origin_Name :: string

record DataType =
  dt_ID :: "32 word"
  dt_Namespace :: string
  dt_Name :: string

record RelationColumn =
  rc_Key :: bool
  rc_Name :: string
  rc_TypeID :: "32 word"
  rc_ModifierType :: "32 word"

text \<open>A tuple value is \<open>None\<close> for a nil slice (NULL and unchanged toast values).\<close>

record TupleData =
  td_Value :: "bytes option"

record Relation =
  rel_ID :: "32 word"
  rel_Namespace :: string
  rel_Name :: string
  rel_Replica :: "8 word"
  rel_Columns :: "RelationColumn list"

record Insert =
  ins_RelationID :: "32 word"
  ins_NewTuple :: bool
  ins_NewRow :: "TupleData list"

record Update =
  upd_RelationID :: "32 word"
  upd_KeyTuple :: bool
  upd_OldTuple :: bool
  upd_OldRow :: "TupleData list"
  upd_NewTuple :: bool
  upd_NewRow :: "TupleData list"

record Delete =
  del_RelationID :: "32 word"
  del_KeyTuple :: bool
  del_OldTuple :: bool
  del_OldRow :: "TupleData list"

section \<open>PostgreSQL type oids\<close>

definition Int2OID :: int where "Int2OID = 21"
definition Int4OID :: int where "Int4OID = 23"
definition Int8OID :: int where "Int8OID = 20"
definition TextOID :: int where "TextOID = 25"
definition VarcharOID :: int where "VarcharOID = 1043"
definition TimestampOID :: int where "TimestampOID = 1114"
definition TimestamptzOID :: int where "TimestamptzOID = 1184"
definition DateOID :: int where "DateOID = 1082"
definition TimeOID :: int where "TimeOID = 1083"
definition JSONBOID :: int where "JSONBOID = 3802"
definition UUIDOID :: int where "UUIDOID = 2950"
definition BoolOID :: int where "BoolOID = 16"

lemmas oids = Int2OID_def Int4OID_def Int8OID_def TextOID_def VarcharOID_def TimestampOID_def
  TimestamptzOID_def DateOID_def TimeOID_def JSONBOID_def UUIDOID_def BoolOID_def

section \<open>Errors\<close>

definition errReplConnectionIsLost :: go_error where
  "errReplConnectionIsLost = GoErr ''replication connection to postgres is lost''"

definition errConnectionIsLost :: go_error where
  "errConnectionIsLost = GoErr ''db connection to postgres is lost''"

definition errMessageLost :: go_error where
  "errMessageLost = GoErr ''messages are lost''"

definition errEmptyWALMessage :: go_error where
  "errEmptyWALMessage = GoErr ''empty WAL message''"

definition errUnknownMessageType :: go_error where
  "errUnknownMessageType = GoErr ''unknown message type''"

definition errRelationNotFound :: go_error where
  "errRelationNotFound = GoErr ''relation not found''"

end
