(* ===== verification/WalBuffer.thy ===== *)
theory WalBuffer
  imports WalProtocol
begin

text \<open>
  The read side of \<open>bytes.Buffer\<close> and the primitive readers of
  \<open>src/wal-listener/listener/parser.go\<close> (\<open>readInt32\<close> .. \<open>readTupleData\<close>). A reader takes the
  buffer and returns the value with the rest of the buffer, or panics where the Go code does:
  on \<open>Next(1)[0]\<close> at the end of the buffer, on \<open>Next\<close> of a negative length and on
  \<open>make\<close> of a negative length. Short integers do not fail: \<open>binary.Read\<close>'s error is dropped and
  the value stays 0.
\<close>

section \<open>bytes.Buffer\<close>

record buffer =
  buf_data :: bytes
  buf_off :: nat
  buf_last_read :: bool

definition bytes_NewBuffer :: "bytes \<Rightarrow> buffer" where
  "bytes_NewBuffer bs = \<lparr>buf_data = bs, buf_off = 0, buf_last_read = False\<rparr>"

text \<open>The unread part.\<close>

definition unread :: "buffer \<Rightarrow> bytes" where
  "unread b = drop (buf_off b) (buf_data b)"

definition buf_ok :: "buffer \<Rightarrow> bool" where
  "buf_ok b = (buf_off b \<le> length (buf_data b))"

type_synonym 'a reader = "buffer \<Rightarrow> ('a \<times> buffer) run"

definition rd_return :: "'a \<Rightarrow> 'a reader" where
  "rd_return x b = Inr (x, b)"

definition rd_bind :: "'a reader \<Rightarrow> ('a \<Rightarrow> 'b reader) \<Rightarrow> 'b reader" where
  "rd_bind m f b = run_bind (m b) (\<lambda>(x, b'). f x b')"

definition rd_panic :: "go_panic \<Rightarrow> 'a reader" where
  "rd_panic p b = Inl p"

definition rd_lift :: "'a run \<Rightarrow> 'a reader" where
  "rd_lift r b = run_bind r (\<lambda>x. Inr (x, b))"

definition buf_Next :: "int \<Rightarrow> bytes reader" where
  "buf_Next n b =
     (let m = int (length (buf_data b)) - int (buf_off b);
          n' = (if n > m then m else n)
      in if n' < 0 then Inl PanicSlice
         else Inr (take (nat n') (unread b),
                   b\<lparr>buf_off := buf_off b + nat n', buf_last_read := (0 < n')\<rparr>))"

definition buf_UnreadByte :: "buffer \<Rightarrow> buffer" where
  "buf_UnreadByte b =
     (if buf_last_read b then b\<lparr>buf_last_read := False, buf_off := buf_off b - 1\<rparr> else b)"

definition buf_ReadBytes :: "byte \<Rightarrow> bytes reader" where
  "buf_ReadBytes delim b =
     (let u = unread b;
          line = (if delim \<in> set u then takeWhile (\<lambda>x. x \<noteq> delim) u @ [delim] else u)
      in Inr (line, b\<lparr>buf_off := buf_off b + length line, buf_last_read := True\<rparr>))"

section \<open>Fixed-width integers\<close>

definition binary_Read :: "byte_order \<Rightarrow> nat \<Rightarrow> bytes \<Rightarrow> 'a::len word" where
  "binary_Read bo k bs = (if length bs < k then 0 else word_of_nat (order_nat bo (take k bs)))"

definition readInt32 :: "byte_order \<Rightarrow> 32 word reader" where
  "readInt32 bo = rd_bind (buf_Next 4) (\<lambda>r. rd_return (binary_Read bo 4 r))"

definition readInt64 :: "byte_order \<Rightarrow> 64 word reader" where
  "readInt64 bo = rd_bind (buf_Next 8) (\<lambda>r. rd_return (binary_Read bo 8 r))"

definition readInt8 :: "byte_order \<Rightarrow> 8 word reader" where
  "readInt8 bo = rd_bind (buf_Next 1) (\<lambda>r. rd_return (binary_Read bo 1 r))"

definition readInt16 :: "byte_order \<Rightarrow> 16 word reader" where
  "readInt16 bo = rd_bind (buf_Next 2) (\<lambda>r. rd_return (binary_Read bo 2 r))"

text \<open>
  \<open>time.Duration(ns) * time.Microsecond\<close> is a 64-bit product and wraps; the sum with the epoch is a
  \<open>time.Time\<close>, which does not.
\<close>

definition readTimestamp :: "byte_order \<Rightarrow> go_time reader" where
  "readTimestamp bo =
     rd_bind (readInt64 bo) (\<lambda>ns. rd_return (postgresEpoch + sint (ns * 1000 :: 64 word)))"

section \<open>Strings, flags and rows\<close>

definition bytes_Trim0 :: "bytes \<Rightarrow> bytes" where
  "bytes_Trim0 bs = rev (dropWhile (\<lambda>x. x = 0) (rev (dropWhile (\<lambda>x. x = 0) bs)))"

definition readString :: "string reader" where
  "readString = rd_bind (buf_ReadBytes 0) (\<lambda>s. rd_return (bytes_to_string (bytes_Trim0 s)))"

definition readBool :: "bool reader" where
  "readBool = rd_bind (buf_Next 1) (\<lambda>s. rd_bind (rd_lift (slice_get s 0)) (\<lambda>x. rd_return (x \<noteq> 0)))"

definition charIsExists :: "byte \<Rightarrow> bool reader" where
  "charIsExists ch =
     rd_bind (buf_Next 1) (\<lambda>s. rd_bind (rd_lift (slice_get s 0)) (\<lambda>x b.
       if x = ch then Inr (True, b) else Inr (False, buf_UnreadByte b)))"

definition readColumn :: "byte_order \<Rightarrow> RelationColumn reader" where
  "readColumn bo =
     rd_bind readBool (\<lambda>key. rd_bind readString (\<lambda>name.
     rd_bind (readInt32 bo) (\<lambda>typ. rd_bind (readInt32 bo) (\<lambda>md.
       rd_return \<lparr>rc_Key = key, rc_Name = name, rc_TypeID = typ, rc_ModifierType = md\<rparr>))))"

fun rd_times :: "nat \<Rightarrow> 'a reader \<Rightarrow> 'a list reader" where
  "rd_times 0 r = rd_return []"
| "rd_times (Suc n) r = rd_bind r (\<lambda>x. rd_bind (rd_times n r) (\<lambda>xs. rd_return (x # xs)))"

text \<open>\<open>make([]T, size)\<close> panics for a negative size; the loop then fills the slice in order.\<close>

definition rd_make :: "int \<Rightarrow> 'a reader \<Rightarrow> 'a list reader" where
  "rd_make sz r = (if sz < 0 then rd_panic PanicMakeLen else rd_times (nat sz) r)"

definition readColumns :: "byte_order \<Rightarrow> RelationColumn list reader" where
  "readColumns bo = rd_bind (readInt16 bo) (\<lambda>sz. rd_make (sint sz) (readColumn bo))"

definition readTuple :: "byte_order \<Rightarrow> TupleData reader" where
  "readTuple bo =
     rd_bind (buf_Next 1) (\<lambda>sl. rd_bind (rd_lift (slice_get sl 0)) (\<lambda>c.
       if c = NullDataType then rd_return \<lparr>td_Value = None\<rparr>
       else if c = ToastDataType then rd_return \<lparr>td_Value = None\<rparr>
       else if c = TextDataType then
         rd_bind (readInt32 bo) (\<lambda>vSize. rd_bind (buf_Next (sint vSize))
           (\<lambda>v. rd_return \<lparr>td_Value = Some v\<rparr>))
       else rd_return \<lparr>td_Value = None\<rparr>))"

definition readTupleData :: "byte_order \<Rightarrow> TupleData list reader" where
  "readTupleData bo = rd_bind (readInt16 bo) (\<lambda>sz. rd_make (sint sz) (readTuple bo))"

section \<open>Readers stay inside the buffer\<close>

text \<open>
  A reader is confined when, from an offset within the buffer, it leaves the bytes alone, never
  moves the offset back and never moves it past the end.
\<close>

definition confined :: "'a reader \<Rightarrow> bool" where
  "confined r = (\<forall>b x b'. buf_ok b \<longrightarrow> r b = Inr (x, b') \<longrightarrow>
     buf_ok b' \<and> buf_data b' = buf_data b \<and> buf_off b \<le> buf_off b')"

lemma confinedI:
  "(\<And>b x b'. buf_ok b \<Longrightarrow> r b = Inr (x, b') \<Longrightarrow>
     buf_ok b' \<and> buf_data b' = buf_data b \<and> buf_off b \<le> buf_off b') \<Longrightarrow> confined r"
  unfolding confined_def by blast

lemma confinedD:
  assumes "confined r" and "buf_ok b" and "r b = Inr (x, b')"
  shows "buf_ok b'" and "buf_data b' = buf_data b" and "buf_off b \<le> buf_off b'"
  using assms unfolding confined_def by blast+

lemma confined_return [simp, intro]: "confined (rd_return x)"
  by (rule confinedI) (auto simp: rd_return_def)

lemma confined_panic [simp, intro]: "confined (rd_panic p)"
  by (rule confinedI) (auto simp: rd_panic_def)

lemma confined_lift [simp, intro]: "confined (rd_lift r)"
  by (rule confinedI) (auto simp: rd_lift_def run_bind_eq_Inr)

lemma confined_bind [intro]:
  assumes "confined m" and "\<And>x. confined (f x)"
  shows "confined (rd_bind m f)"
proof (rule confinedI)
  fix b y b'
  assume ok: "buf_ok b" and r: "rd_bind m f b = Inr (y, b')"
  from r obtain x c where m: "m b = Inr (x, c)" and f: "f x c = Inr (y, b')"
    by (auto simp: rd_bind_def run_bind_eq_Inr)
  note c = confinedD [OF assms(1) ok m]
  note d = confinedD [OF assms(2) c(1) f]
  from c d show "buf_ok b' \<and> buf_data b' = buf_data b \<and> buf_off b \<le> buf_off b'" by simp
qed

lemma confined_if [intro]: "confined r \<Longrightarrow> confined s \<Longrightarrow> confined (if c then r else s)"
  by simp

lemma confined_Next [simp, intro]: "confined (buf_Next n)"
  by (rule confinedI)
    (auto simp: buf_Next_def Let_def buf_ok_def split: if_splits)

lemma length_takeWhile_less: "x \<in> set xs \<Longrightarrow> length (takeWhile (\<lambda>y. y \<noteq> x) xs) < length xs"
  by (induction xs) auto

lemma confined_ReadBytes [simp, intro]: "confined (buf_ReadBytes d)"
proof (rule confinedI)
  fix b x b'
  assume ok: "buf_ok b" and r: "buf_ReadBytes d b = Inr (x, b')"
  have "length (unread b) = length (buf_data b) - buf_off b" by (simp add: unread_def)
  with ok r length_takeWhile_less [of d "unread b"]
  show "buf_ok b' \<and> buf_data b' = buf_data b \<and> buf_off b \<le> buf_off b'"
    by (auto simp: buf_ReadBytes_def Let_def buf_ok_def split: if_splits)
qed

lemma confined_charIsExists [simp, intro]: "confined (charIsExists ch)"
proof (rule confinedI)
  fix b x b'
  assume ok: "buf_ok b" and r: "charIsExists ch b = Inr (x, b')"
  from r obtain s c where n: "buf_Next 1 b = Inr (s, c)" and s: "s \<noteq> []"
    and x: "b' = c \<or> b' = buf_UnreadByte c"
    by (auto simp: charIsExists_def rd_bind_def rd_lift_def run_bind_eq_Inr slice_get_Inr
        split: if_splits)
  note cc = confinedD [OF confined_Next ok n]
  from n s have "buf_off c = buf_off b + 1 \<and> buf_last_read c"
    by (auto simp: buf_Next_def Let_def unread_def split: if_splits)
  with cc x show "buf_ok b' \<and> buf_data b' = buf_data b \<and> buf_off b \<le> buf_off b'"
    by (auto simp: buf_UnreadByte_def buf_ok_def)
qed

lemma confined_primitives [simp, intro]:
  "confined (readInt32 bo)" "confined (readInt64 bo)" "confined (readInt8 bo)"
  "confined (readInt16 bo)" "confined readString" "confined readBool"
  unfolding readInt32_def readInt64_def readInt8_def readInt16_def readString_def readBool_def
  by (intro confined_bind confined_Next confined_return confined_ReadBytes confined_lift)+

lemma confined_readTimestamp [simp, intro]: "confined (readTimestamp bo)"
  unfolding readTimestamp_def by (intro confined_bind confined_primitives confined_return)

lemma confined_times: "confined r \<Longrightarrow> confined (rd_times n r)"
  by (induction n) auto

lemma confined_make [intro]: "confined r \<Longrightarrow> confined (rd_make sz r)"
  by (simp add: rd_make_def confined_times)

lemma confined_readColumns [simp, intro]: "confined (readColumns bo)"
  unfolding readColumns_def readColumn_def
  by (intro confined_bind confined_make confined_primitives confined_return)

lemma confined_readTuple [simp, intro]: "confined (readTuple bo)"
  unfolding readTuple_def
  by (intro confined_bind confined_if confined_primitives confined_return confined_Next
      confined_lift)

lemma confined_readTupleData [simp, intro]: "confined (readTupleData bo)"
  unfolding readTupleData_def by (intro confined_bind confined_make confined_primitives) simp

section \<open>What a reader reads\<close>

text \<open>
  \<open>parses r bs x rest\<close>: on any buffer whose unread part is \<open>bs @ rest\<close> the reader returns \<open>x\<close> and
  leaves \<open>rest\<close> unread. The rest is named because \<open>charIsExists\<close> looks ahead.
\<close>

definition parses :: "'a reader \<Rightarrow> bytes \<Rightarrow> 'a \<Rightarrow> bytes \<Rightarrow> bool" where
  "parses r bs x rest = (\<forall>b. buf_ok b \<longrightarrow> unread b = bs @ rest \<longrightarrow>
     (\<exists>b'. r b = Inr (x, b') \<and> buf_ok b' \<and> unread b' = rest))"

lemma parsesI:
  "(\<And>b. buf_ok b \<Longrightarrow> unread b = bs @ rest \<Longrightarrow>
     \<exists>b'. r b = Inr (x, b') \<and> buf_ok b' \<and> unread b' = rest) \<Longrightarrow> parses r bs x rest"
  unfolding parses_def by blast

lemma parsesE:
  assumes "parses r bs x rest" and "buf_ok b" and "unread b = bs @ rest"
  obtains b' where "r b = Inr (x, b')" and "buf_ok b'" and "unread b' = rest"
  using assms unfolding parses_def by blast

lemma parses_return [simp]: "parses (rd_return x) [] x rest"
  by (simp add: parses_def rd_return_def)

lemma parses_bind:
  assumes "parses m bs x (cs @ rest)" and "parses (f x) cs y rest"
  shows "parses (rd_bind m f) (bs @ cs) y rest"
proof (rule parsesI)
  fix b assume b: "buf_ok b" "unread b = (bs @ cs) @ rest"
  from parsesE [OF assms(1) b(1)] b(2) obtain c
    where c: "m b = Inr (x, c)" "buf_ok c" "unread c = cs @ rest" by auto
  from parsesE [OF assms(2) c(2,3)] c(1)
  show "\<exists>b'. rd_bind m f b = Inr (y, b') \<and> buf_ok b' \<and> unread b' = rest"
    by (auto simp: rd_bind_def)
qed

lemma parses_map:
  "parses m bs x rest \<Longrightarrow> parses (rd_bind m (\<lambda>x. rd_return (g x))) bs (g x) rest"
  using parses_bind [of m bs x "[]" rest "\<lambda>x. rd_return (g x)" "g x"] by simp

lemma parses_last:
  "parses m bs x rest \<Longrightarrow> y = g x \<Longrightarrow> parses (rd_bind m (\<lambda>x. rd_return (g x))) bs y rest"
  by (simp add: parses_map)

lemma parses_Next: "n = int (length bs) \<Longrightarrow> parses (buf_Next n) bs bs rest"
proof (rule parsesI)
  fix b assume n: "n = int (length bs)" and b: "buf_ok b" "unread b = bs @ rest"
  have "length (unread b) = length (buf_data b) - buf_off b" by (simp add: unread_def)
  with b have l: "length (buf_data b) = buf_off b + length bs + length rest"
    by (auto simp: buf_ok_def)
  have "drop (buf_off b + length bs) (buf_data b) = drop (length bs) (unread b)"
    by (simp add: unread_def add.commute)
  with n b l show "\<exists>b'. buf_Next n b = Inr (bs, b') \<and> buf_ok b' \<and> unread b' = rest"
    by (simp add: buf_Next_def Let_def buf_ok_def unread_def)
qed

lemma parses_byte:
  "parses (f c) cs x rest \<Longrightarrow>
   parses (rd_bind (buf_Next 1) (\<lambda>s. rd_bind (rd_lift (slice_get s 0)) f)) (c # cs) x rest"
  using parses_bind [OF parses_Next [of 1 "[c]"],
      where f = "\<lambda>s. rd_bind (rd_lift (slice_get s 0)) f" and cs = cs and rest = rest and y = x]
  by (simp add: parses_def rd_bind_def rd_lift_def slice_get_def)

lemma binary_Read_order_bytes:
  "binary_Read bo k (order_bytes bo k (unat (w :: 'a::len word))) =
     (word_of_nat (unat w mod 256 ^ k) :: 'a word)"
  by (simp add: binary_Read_def order_nat_order_bytes)

lemma parses_int:
  assumes "256 ^ k = (2 :: nat) ^ LENGTH('a)" and "n = int k"
  shows "parses (rd_bind (buf_Next n) (\<lambda>r. rd_return (binary_Read bo k r)))
           (order_bytes bo k (unat (w :: 'a::len word))) w rest"
proof -
  have "parses (buf_Next n) (order_bytes bo k (unat w)) (order_bytes bo k (unat w)) rest"
    by (rule parses_Next) (simp add: assms)
  then have "parses (rd_bind (buf_Next n) (\<lambda>r. rd_return (binary_Read bo k r :: 'a word)))
      (order_bytes bo k (unat w)) (binary_Read bo k (order_bytes bo k (unat w))) rest"
    by (rule parses_map)
  moreover have "binary_Read bo k (order_bytes bo k (unat w)) = w"
    using assms by (simp add: binary_Read_order_bytes)
  ultimately show ?thesis by simp
qed

lemma parses_readInts:
  "parses (readInt32 bo) (order_bytes bo 4 (unat w32)) w32 rest"
  "parses (readInt64 bo) (order_bytes bo 8 (unat w64)) w64 rest"
  "parses (readInt16 bo) (order_bytes bo 2 (unat w16)) w16 rest"
  "parses (readInt8 bo) (order_bytes bo 1 (unat w8)) w8 rest"
  unfolding readInt32_def readInt64_def readInt16_def readInt8_def
  by (rule parses_int; simp)+

lemma charIsExists_step:
  assumes "buf_ok b" and "unread b = c # cs"
  shows "charIsExists ch b =
    Inr (c = ch, b\<lparr>buf_off := (if c = ch then buf_off b + 1 else buf_off b),
                   buf_last_read := (c = ch)\<rparr>)"
proof -
  have "length (unread b) = length (buf_data b) - buf_off b" by (simp add: unread_def)
  with assms have l: "int (length (buf_data b)) - int (buf_off b) = 1 + int (length cs)"
    by (auto simp: buf_ok_def)
  with assms show ?thesis
    by (auto simp: charIsExists_def rd_bind_def rd_lift_def buf_Next_def Let_def slice_get_def
        buf_UnreadByte_def)
qed

lemma parses_char_yes: "parses (charIsExists ch) [ch] True rest"
proof (rule parsesI)
  fix b assume b: "buf_ok b" "unread b = [ch] @ rest"
  then have l: "buf_off b < length (buf_data b)"
    by (auto simp: unread_def) (metis drop_all leI list.distinct(1))
  have "drop (Suc (buf_off b)) (buf_data b) = drop 1 (unread b)" by (simp add: unread_def)
  with b have "drop (Suc (buf_off b)) (buf_data b) = rest" by simp
  with l b charIsExists_step [of b ch rest ch]
  show "\<exists>b'. charIsExists ch b = Inr (True, b') \<and> buf_ok b' \<and> unread b' = rest"
    by (auto simp: buf_ok_def unread_def)
qed

lemma parses_char_no: "c \<noteq> ch \<Longrightarrow> parses (charIsExists ch) [] False (c # cs)"
proof (rule parsesI)
  fix b assume b: "c \<noteq> ch" "buf_ok b" "unread b = [] @ c # cs"
  with charIsExists_step [of b c cs ch]
  show "\<exists>b'. charIsExists ch b = Inr (False, b') \<and> buf_ok b' \<and> unread b' = c # cs"
    by (auto simp: buf_ok_def unread_def)
qed

lemma bytes_Trim0_id:
  assumes "0 \<notin> set s" shows "bytes_Trim0 (s @ [0]) = s"
proof -
  have d: "dropWhile (\<lambda>x. x = 0) xs = xs" if "0 \<notin> set xs" for xs :: bytes
    using that by (cases xs) auto
  show ?thesis
  proof (cases s)
    case Nil
    then show ?thesis by (simp add: bytes_Trim0_def)
  next
    case (Cons a as)
    with assms have "dropWhile (\<lambda>x. x = 0) (s @ [0]) = s @ [0]" by auto
    with assms d [of "rev s"] show ?thesis by (simp add: bytes_Trim0_def)
  qed
qed

lemma takeWhile_fresh: "x \<notin> set xs \<Longrightarrow> takeWhile (\<lambda>y. y \<noteq> x) (xs @ x # ys) = xs"
  by (induction xs) auto

lemma parses_ReadBytes:
  assumes "0 \<notin> set s" shows "parses (buf_ReadBytes 0) (s @ [0]) (s @ [0]) rest"
proof (rule parsesI)
  fix b assume b: "buf_ok b" "unread b = (s @ [0]) @ rest"
  have "length (unread b) = length (buf_data b) - buf_off b" by (simp add: unread_def)
  with b have l: "length (buf_data b) = buf_off b + length s + 1 + length rest"
    by (auto simp: buf_ok_def)
  have "drop (buf_off b + Suc (length s)) (buf_data b) = drop (Suc (length s)) (unread b)"
    by (simp add: unread_def add.commute)
  with b l assms
  show "\<exists>b'. buf_ReadBytes 0 b = Inr (s @ [0], b') \<and> buf_ok b' \<and> unread b' = rest"
    by (simp add: buf_ReadBytes_def Let_def buf_ok_def unread_def takeWhile_fresh)
qed

lemma parses_readString:
  assumes "CHR 0x00 \<notin> set s" shows "parses readString (string_to_bytes s @ [0]) s rest"
proof -
  have z: "0 \<notin> set (string_to_bytes s)" using assms by (simp add: string_to_bytes_zero)
  have "bytes_to_string (bytes_Trim0 (string_to_bytes s @ [0])) = s"
    by (simp add: bytes_Trim0_id [OF z])
  with parses_map [OF parses_ReadBytes [OF z], of "\<lambda>s. bytes_to_string (bytes_Trim0 s)" rest]
  show ?thesis by (simp add: readString_def)
qed

lemma sint_word_of_nat:
  assumes "n < 2 ^ (LENGTH('a) - 1)" shows "sint (word_of_nat n :: 'a::len word) = int n"
proof -
  have "(2 :: nat) ^ (LENGTH('a) - 1) \<le> 2 ^ LENGTH('a)" by (rule power_increasing) auto
  with assms have "n < 2 ^ LENGTH('a)" by (rule less_le_trans)
  then have u: "unat (word_of_nat n :: 'a word) = n" by (simp add: unat_of_nat)
  have "int n < 2 ^ (LENGTH('a) - 1)"
    using assms by (metis of_nat_less_iff of_nat_numeral of_nat_power)
  then have "signed_take_bit (LENGTH('a) - 1) (int n) = int n"
    by (intro signed_take_bit_int_eq_self) (auto intro: order_trans [of _ 0])
  with u show ?thesis by (simp add: sint_uint uint_nat)
qed

section \<open>Wire formats\<close>

text \<open>
  A wire format: an encoder, the reader of the code and the values they agree on. From it, the
  arrays of the protocol (a 16-bit count followed by the elements) round trip.
\<close>

locale wire_format =
  fixes enc :: "'a \<Rightarrow> bytes"
    and dec :: "'a reader"
    and valid :: "'a \<Rightarrow> bool"
  assumes roundtrip: "valid x \<Longrightarrow> parses dec (enc x) x rest"
begin

lemma times_roundtrip:
  "\<forall>x\<in>set xs. valid x \<Longrightarrow> parses (rd_times (length xs) dec) (concat (map enc xs)) xs rest"
proof (induction xs)
  case (Cons x xs)
  show ?case
    by (simp, rule parses_bind) (use Cons roundtrip in \<open>auto intro: parses_map\<close>)
qed simp

lemma array_roundtrip:
  assumes "\<forall>x\<in>set xs. valid x" and "length xs < 2 ^ 15"
  shows "parses (rd_bind (readInt16 bo) (\<lambda>sz. rd_make (sint sz) dec))
           (order_bytes bo 2 (length xs) @ concat (map enc xs)) xs rest"
proof -
  define w :: "16 word" where "w = word_of_nat (length xs)"
  have u: "unat w = length xs" using assms(2) by (simp add: w_def unat_of_nat)
  have s: "sint w = int (length xs)"
    unfolding w_def by (rule sint_word_of_nat) (use assms(2) in simp)
  show ?thesis
    by (rule parses_bind [OF parses_readInts(3) [of bo w, unfolded u]])
      (use times_roundtrip [OF assms(1)] s in \<open>simp add: rd_make_def\<close>)
qed

end

end
