(* ===== verification/WalTransaction.thy ===== *)
theory WalTransaction
  imports WalBuffer
begin

text \<open>
  \<open>src/wal-listener/listener/wal_transaction.go\<close> and \<open>publisher/event.go\<close>: the transaction that
  collects the actions between a begin and a commit message, the typed reading of column values,
  and the events made of the actions at the commit.

  Third-party conversions (\<open>time.Parse\<close>'s layouts, \<open>uuid.Parse\<close>, \<open>json.Unmarshal\<close>, \<open>fmt\<close>'s \<open>%v\<close> of
  such values) are the operations of a \<open>codec\<close>, a parameter. Each conversion returns Go's value and
  whether there was an error: the code stores the value either way. A fresh uuid is a draw from a
  supply numbered by the draws made so far.
\<close>

section \<open>Values and codecs\<close>

datatype ActionKind = ActionKindInsert | ActionKindUpdate | ActionKindDelete

fun ActionKind_string :: "ActionKind \<Rightarrow> string" where
  "ActionKind_string ActionKindInsert = ''INSERT''"
| "ActionKind_string ActionKindUpdate = ''UPDATE''"
| "ActionKind_string ActionKindDelete = ''DELETE''"

datatype go_any =
    AnyNil
  | AnyBool bool
  | AnyInt int
  | AnyInt64 int
  | AnyString string
  | AnyTime go_time
  | AnyUuid string
  | AnyJson json

record codec =
  cd_time_parse :: "string \<Rightarrow> string \<Rightarrow> go_time \<times> bool"
  cd_time_parse_utc :: "string \<Rightarrow> string \<Rightarrow> go_time \<times> bool"
  cd_uuid_parse :: "string \<Rightarrow> string \<times> bool"
  cd_json_unmarshal :: "json \<Rightarrow> bytes \<Rightarrow> json \<times> bool"
  cd_fmt_v :: "go_any \<Rightarrow> string"

section \<open>Columns\<close>

record Column =
  col_name :: string
  col_value :: go_any
  col_valueType :: int
  col_isKey :: bool

record RelationData =
  rd_Schema :: string
  rd_Table :: string
  rd_Columns :: "Column list"

record ActionData =
  ad_Schema :: string
  ad_Table :: string
  ad_Kind :: ActionKind
  ad_OldColumns :: "Column list"
  ad_NewColumns :: "Column list"

definition timestampLayout :: string where
  "timestampLayout = ''2006-01-02 15:04:05''"

definition timestampWithTZLayout :: string where
  "timestampWithTZLayout = ''2006-01-02 15:04:05.999999999-07''"

text \<open>
  \<open>AssertValue\<close>. A JSONB column looks at the first byte before parsing, so an empty value panics.
\<close>

definition parse_value :: "codec \<Rightarrow> int \<Rightarrow> bytes \<Rightarrow> go_any run" where
  "parse_value cd ty src =
     (let s = bytes_to_string src
      in if ty = BoolOID then Inr (AnyBool (fst (strconv_ParseBool s)))
         else if ty = Int2OID \<or> ty = Int4OID then Inr (AnyInt (fst (strconv_Atoi s)))
         else if ty = Int8OID then Inr (AnyInt64 (fst (strconv_ParseInt s)))
         else if ty = TextOID \<or> ty = VarcharOID then Inr (AnyString s)
         else if ty = TimestampOID then Inr (AnyTime (fst (cd_time_parse cd timestampLayout s)))
         else if ty = TimestamptzOID
           then Inr (AnyTime (fst (cd_time_parse_utc cd timestampWithTZLayout s)))
         else if ty = DateOID \<or> ty = TimeOID then Inr (AnyString s)
         else if ty = UUIDOID then Inr (AnyUuid (fst (cd_uuid_parse cd s)))
         else if ty = JSONBOID then
           run_bind (slice_get src 0) (\<lambda>c.
             let m = (if c = 91 then JArr [] else JObj [])
             in Inr (AnyJson (fst (cd_json_unmarshal cd m src))))
         else Inr (AnyString s))"

definition AssertValue :: "codec \<Rightarrow> bytes option \<Rightarrow> Column \<Rightarrow> Column run" where
  "AssertValue cd src c =
     (case src of
        None \<Rightarrow> Inr (c\<lparr>col_value := AnyNil\<rparr>)
      | Some bs \<Rightarrow> run_bind (parse_value cd (col_valueType c) bs)
                    (\<lambda>v. Inr (c\<lparr>col_value := v\<rparr>)))"

section \<open>The transaction\<close>

record WalTransaction =
  tx_LSN :: "64 word"
  tx_BeginTime :: "go_time option"
  tx_CommitTime :: "go_time option"
  tx_RelationStore :: "32 word \<Rightarrow> RelationData option"
  tx_Actions :: "ActionData list"

definition NewWalTransaction :: WalTransaction where
  "NewWalTransaction = \<lparr>tx_LSN = 0, tx_BeginTime = None, tx_CommitTime = None,
     tx_RelationStore = Map.empty, tx_Actions = []\<rparr>"

definition tx_Clear :: "WalTransaction \<Rightarrow> WalTransaction" where
  "tx_Clear w = w\<lparr>tx_CommitTime := None, tx_BeginTime := None, tx_Actions := []\<rparr>"

text \<open>
  The loop over a row: column \<open>num\<close> of the relation names and types the value at \<open>num\<close>; a row
  longer than the relation panics.
\<close>

fun row_columns :: "codec \<Rightarrow> Column list \<Rightarrow> nat \<Rightarrow> TupleData list \<Rightarrow> Column list run" where
  "row_columns cd rel num [] = Inr []"
| "row_columns cd rel num (row # rows) =
     run_bind (slice_get rel num) (\<lambda>rc.
     run_bind (AssertValue cd (td_Value row)
                 \<lparr>col_name = col_name rc, col_value = AnyNil, col_valueType = col_valueType rc,
                  col_isKey = col_isKey rc\<rparr>) (\<lambda>column.
     run_bind (row_columns cd rel (Suc num) rows) (\<lambda>rest. Inr (column # rest))))"

definition CreateActionData ::
  "codec \<Rightarrow> WalTransaction \<Rightarrow> 32 word \<Rightarrow> TupleData list \<Rightarrow> TupleData list \<Rightarrow> ActionKind \<Rightarrow>
   (go_error + ActionData) run" where
  "CreateActionData cd w relationID oldRows newRows kind =
     (case tx_RelationStore w relationID of
        None \<Rightarrow> Inr (Inl errRelationNotFound)
      | Some rel \<Rightarrow>
          run_bind (row_columns cd (rd_Columns rel) 0 oldRows) (\<lambda>oldColumns.
          run_bind (row_columns cd (rd_Columns rel) 0 newRows) (\<lambda>newColumns.
            Inr (Inr \<lparr>ad_Schema = rd_Schema rel, ad_Table = rd_Table rel, ad_Kind = kind,
                      ad_OldColumns = oldColumns, ad_NewColumns = newColumns\<rparr>))))"

section \<open>Events\<close>

record Event =
  ev_ID :: string
  ev_Schema :: string
  ev_Table :: string
  ev_Action :: string
  ev_Data :: "string \<Rightarrow> go_any option"
  ev_DataOld :: "string \<Rightarrow> go_any option"
  ev_EventTime :: go_time

fun columns_map :: "(string \<Rightarrow> go_any option) \<Rightarrow> Column list \<Rightarrow> string \<Rightarrow> go_any option" where
  "columns_map m [] = m"
| "columns_map m (c # cs) = columns_map (m(col_name c \<mapsto> col_value c)) cs"

fun inArray :: "string list \<Rightarrow> string \<Rightarrow> bool" where
  "inArray [] value = False"
| "inArray (v # arr) value = (if strings_EqualFold v value then True else inArray arr value)"

text \<open>
  The loop of \<open>CreateEventsWithFilter\<close>: it returns the events, the tables the monitor counted as
  skipped, and the number of uuids drawn so far. The guard is the code's, with its \<open>true ||\<close>.
\<close>

fun create_events_loop ::
  "(nat \<Rightarrow> string) \<Rightarrow> (string \<Rightarrow> string list option) \<Rightarrow> go_time option \<Rightarrow> nat \<Rightarrow> ActionData list \<Rightarrow>
   (Event list \<times> string list \<times> nat) run" where
  "create_events_loop uuid_New tableMap ct n [] = Inr ([], [], n)"
| "create_events_loop uuid_New tableMap ct n (item # items) =
     run_bind (deref ct) (\<lambda>t.
       let event = \<lparr>ev_ID = uuid_New n, ev_Schema = ad_Schema item, ev_Table = ad_Table item,
                    ev_Action = ActionKind_string (ad_Kind item),
                    ev_Data = columns_map Map.empty (ad_NewColumns item),
                    ev_DataOld = columns_map Map.empty (ad_OldColumns item),
                    ev_EventTime = t\<rparr>;
           actions = (case tableMap (ad_Table item) of None \<Rightarrow> [] | Some a \<Rightarrow> a);
           validTable = (tableMap (ad_Table item) \<noteq> None);
           validAction = inArray actions (ActionKind_string (ad_Kind item))
       in run_bind (create_events_loop uuid_New tableMap ct (Suc n) items) (\<lambda>(events, skipped, m).
            if True \<or> (validTable \<and> validAction) then Inr (event # events, skipped, m)
            else Inr (events, ad_Table item # skipped, m)))"

definition CreateEventsWithFilter ::
  "(nat \<Rightarrow> string) \<Rightarrow> (string \<Rightarrow> string list option) \<Rightarrow> WalTransaction \<Rightarrow> nat \<Rightarrow>
   (Event list \<times> string list \<times> nat) run" where
  "CreateEventsWithFilter uuid_New tableMap w n =
     create_events_loop uuid_New tableMap (tx_CommitTime w) n (tx_Actions w)"

text \<open>\<open>Event.SubjectName\<close>; the configuration is read for the publisher's topic only.\<close>

definition SubjectName :: "codec \<Rightarrow> string \<Rightarrow> Event \<Rightarrow> string" where
  "SubjectName cd topic e =
     (let primaryKeySuffix = (case ev_Data e ''uid'' of
            None \<Rightarrow> [] | Some uid \<Rightarrow> strings_ToLower (''.'' @ cd_fmt_v cd uid))
      in topic @ ''.nefario.'' @ ev_Table e @ primaryKeySuffix)"

section \<open>Lemmas\<close>

text \<open>Column \<open>c\<close> is relation column \<open>rc\<close> holding the typed value of the tuple entry \<open>row\<close>.\<close>

definition column_reads :: "codec \<Rightarrow> Column \<Rightarrow> TupleData \<Rightarrow> Column \<Rightarrow> bool" where
  "column_reads cd rc row c =
     (col_name c = col_name rc \<and> col_valueType c = col_valueType rc \<and> col_isKey c = col_isKey rc \<and>
      (case td_Value row of None \<Rightarrow> col_value c = AnyNil
       | Some bs \<Rightarrow> parse_value cd (col_valueType rc) bs = Inr (col_value c)))"

lemma AssertValue_reads:
  "AssertValue cd (td_Value row) \<lparr>col_name = col_name rc, col_value = AnyNil,
     col_valueType = col_valueType rc, col_isKey = col_isKey rc\<rparr> = Inr c \<Longrightarrow>
   column_reads cd rc row c"
  by (auto simp: AssertValue_def column_reads_def run_simps split: option.splits)

lemma row_columns_Inr:
  "row_columns cd rel n rows = Inr cols \<Longrightarrow>
     length cols = length rows \<and> (rows = [] \<or> n + length rows \<le> length rel) \<and>
     (\<forall>i < length rows. column_reads cd (rel ! (n + i)) (rows ! i) (cols ! i))"
proof (induction rows arbitrary: n cols)
  case (Cons row rows)
  from Cons.prems obtain c rest where n: "n < length rel" and
    c: "AssertValue cd (td_Value row) \<lparr>col_name = col_name (rel ! n), col_value = AnyNil,
          col_valueType = col_valueType (rel ! n), col_isKey = col_isKey (rel ! n)\<rparr> = Inr c" and
    r: "row_columns cd rel (Suc n) rows = Inr rest" and cols: "cols = c # rest"
    by (auto simp: run_simps)
  from Cons.IH [OF r] n cols AssertValue_reads [OF c]
  show ?case by (auto simp: nth_Cons split: nat.splits)
qed simp

lemma parse_value_total: "src \<noteq> [] \<Longrightarrow> \<exists>v. parse_value cd ty src = Inr v"
  by (auto simp: parse_value_def Let_def slice_get_def)

lemma AssertValue_total: "src \<noteq> Some [] \<Longrightarrow> \<exists>v. AssertValue cd src c = Inr v"
  using parse_value_total by (cases src) (auto simp: AssertValue_def run_simps)

lemma row_columns_total:
  "n + length rows \<le> length rel \<Longrightarrow> \<forall>r\<in>set rows. td_Value r \<noteq> Some [] \<Longrightarrow>
     \<exists>cols. row_columns cd rel n rows = Inr cols"
proof (induction rows arbitrary: n)
  case (Cons row rows)
  then have "n < length rel" by simp
  moreover from Cons AssertValue_total have "\<exists>v. AssertValue cd (td_Value row) c = Inr v" for c
    by simp
  moreover from Cons.IH [of "Suc n"] Cons.prems obtain cols
    where "row_columns cd rel (Suc n) rows = Inr cols" by auto
  ultimately show ?case by (force simp: run_simps slice_get_def)
qed simp

lemma row_columns_short:
  "n \<le> length rel \<Longrightarrow> length rel < n + length rows \<Longrightarrow> \<forall>r\<in>set rows. td_Value r \<noteq> Some [] \<Longrightarrow>
     row_columns cd rel n rows = Inl PanicIndex"
proof (induction rows arbitrary: n)
  case (Cons row rows)
  show ?case
  proof (cases "n = length rel")
    case True
    then show ?thesis by (simp add: slice_get_def)
  next
    case False
    with Cons.prems have n: "n < length rel" by simp
    from Cons.prems AssertValue_total have "\<exists>v. AssertValue cd (td_Value row) c = Inr v" for c
      by simp
    moreover from Cons.IH [of "Suc n"] Cons.prems n
    have "row_columns cd rel (Suc n) rows = Inl PanicIndex" by simp
    ultimately show ?thesis using n by (force simp: run_simps slice_get_def)
  qed
qed simp

lemma columns_map_eq: "columns_map m cs = m ++ map_of (rev (map (\<lambda>c. (col_name c, col_value c)) cs))"
  by (induction cs arbitrary: m) (auto simp: map_add_def fun_eq_iff split: option.splits)

lemma create_events_loop_Some:
  "create_events_loop u tm (Some t) n items =
     Inr (map (\<lambda>(i, item). \<lparr>ev_ID = u i, ev_Schema = ad_Schema item, ev_Table = ad_Table item,
                ev_Action = ActionKind_string (ad_Kind item),
                ev_Data = columns_map Map.empty (ad_NewColumns item),
                ev_DataOld = columns_map Map.empty (ad_OldColumns item),
                ev_EventTime = t\<rparr>) (zip [n ..< n + length items] items),
          [], n + length items)"
proof (induction items arbitrary: n)
  case (Cons item items)
  show ?case
    by (simp add: Let_def Cons upt_conv_Cons del: upt_Suc)
qed simp

lemma create_events_loop_None:
  "create_events_loop u tm None n items = (if items = [] then Inr ([], [], n) else Inl PanicNil)"
  by (cases items) auto

text \<open>A codec that parses nothing and prints nothing, for concrete runs.\<close>

definition calm_codec :: codec where
  "calm_codec = \<lparr>cd_time_parse = (\<lambda>_ _. (0, True)), cd_time_parse_utc = (\<lambda>_ _. (0, True)),
     cd_uuid_parse = (\<lambda>s. (s, False)), cd_json_unmarshal = (\<lambda>j _. (j, False)),
     cd_fmt_v = (\<lambda>_. [])\<rparr>"

section \<open>The parser's interface\<close>

text \<open>
  The listener sees a parser as a function on the message and the transaction. The contract: an
  error leaves the transaction alone; a success adds at most one action at the end and does not
  unset the commit time.
\<close>

locale wal_parser =
  fixes parse :: "bytes \<Rightarrow> WalTransaction \<Rightarrow> (go_error option \<times> WalTransaction) run"
  assumes error_keeps: "parse m tx = Inr (Some e, tx') \<Longrightarrow> tx' = tx"
    and success_appends:
      "parse m tx = Inr (None, tx') \<Longrightarrow> \<exists>as. length as \<le> 1 \<and> tx_Actions tx' = tx_Actions tx @ as"
    and success_commit:
      "parse m tx = Inr (None, tx') \<Longrightarrow> tx_CommitTime tx \<noteq> None \<Longrightarrow> tx_CommitTime tx' \<noteq> None"
begin

lemma actions_prefix:
  assumes "parse m tx = Inr (err, tx')"
  shows "\<exists>as. tx_Actions tx' = tx_Actions tx @ as"
  using error_keeps [of m tx _ tx'] success_appends [of m tx tx'] assms by (cases err) auto

lemma commit_kept:
  assumes "parse m tx = Inr (err, tx')" and "tx_CommitTime tx \<noteq> None"
  shows "tx_CommitTime tx' \<noteq> None"
  using error_keeps [of m tx _ tx'] success_commit [of m tx tx'] assms by (cases err) auto

end

end
