(* ===== verification/WalParser.thy ===== *)
theory WalParser
  imports WalTransaction
begin

text \<open>
  \<open>BinaryParser\<close> of \<open>src/wal-listener/listener/parser.go\<close>: one reader per message and the dispatch
  of \<open>ParseWalMessage\<close> on the first byte, which updates the transaction. The parser's \<open>msgType\<close> and
  \<open>buffer\<close> fields are written before they are read on every call, so they are not kept.

  The encoders at the end are the pgoutput wire format (the counterpart the program talks to); the
  round trip lemmas show that the readers recover every message from it.
\<close>

section \<open>Messages\<close>

definition getBeginMsg :: "byte_order \<Rightarrow> Begin reader" where
  "getBeginMsg bo =
     rd_bind (readInt64 bo) (\<lambda>lsn. rd_bind (readTimestamp bo) (\<lambda>ts. rd_bind (readInt32 bo) (\<lambda>xid.
       rd_return \<lparr>begin_LSN = lsn, begin_Timestamp = ts, begin_XID = xid\<rparr>)))"

definition getCommitMsg :: "byte_order \<Rightarrow> Commit reader" where
  "getCommitMsg bo =
     rd_bind (readInt8 bo) (\<lambda>fl. rd_bind (readInt64 bo) (\<lambda>lsn. rd_bind (readInt64 bo) (\<lambda>tlsn.
     rd_bind (readTimestamp bo) (\<lambda>ts.
       rd_return \<lparr>commit_Flags = fl, commit_LSN = lsn, commit_TransactionLSN = tlsn,
                  commit_Timestamp = ts\<rparr>))))"

definition getInsertMsg :: "byte_order \<Rightarrow> Insert reader" where
  "getInsertMsg bo =
     rd_bind (readInt32 bo) (\<lambda>rid.
     rd_bind (buf_Next 1) (\<lambda>s. rd_bind (rd_lift (slice_get s 0)) (\<lambda>c.
     rd_bind (readTupleData bo) (\<lambda>row.
       rd_return \<lparr>ins_RelationID = rid, ins_NewTuple = (c = NewTupleDataType), ins_NewRow = row\<rparr>))))"

definition getDeleteMsg :: "byte_order \<Rightarrow> Delete reader" where
  "getDeleteMsg bo =
     rd_bind (readInt32 bo) (\<lambda>rid. rd_bind (charIsExists KeyTupleChar) (\<lambda>k.
     rd_bind (charIsExists OldTupleChar) (\<lambda>ot. rd_bind (readTupleData bo) (\<lambda>row.
       rd_return \<lparr>del_RelationID = rid, del_KeyTuple = k, del_OldTuple = ot, del_OldRow = row\<rparr>))))"

text \<open>The last flag read is stored in \<open>OldTuple\<close>, as the code does; \<open>NewTuple\<close> is never set.\<close>

definition getUpdateMsg :: "byte_order \<Rightarrow> Update reader" where
  "getUpdateMsg bo =
     rd_bind (readInt32 bo) (\<lambda>rid. rd_bind (charIsExists KeyTupleChar) (\<lambda>k.
     rd_bind (charIsExists OldTupleChar) (\<lambda>ot.
     rd_bind (if k \<or> ot then readTupleData bo else rd_return []) (\<lambda>old.
     rd_bind (charIsExists NewTupleChar) (\<lambda>nt. rd_bind (readTupleData bo) (\<lambda>new.
       rd_return \<lparr>upd_RelationID = rid, upd_KeyTuple = k, upd_OldTuple = nt, upd_OldRow = old,
                  upd_NewTuple = False, upd_NewRow = new\<rparr>))))))"

definition getRelationMsg :: "byte_order \<Rightarrow> Relation reader" where
  "getRelationMsg bo =
     rd_bind (readInt32 bo) (\<lambda>rid. rd_bind readString (\<lambda>ns. rd_bind readString (\<lambda>name.
     rd_bind (readInt8 bo) (\<lambda>repl. rd_bind (readColumns bo) (\<lambda>cols.
       rd_return \<lparr>rel_ID = rid, rel_Namespace = ns, rel_Name = name, rel_Replica = repl,
                  rel_Columns = cols\<rparr>)))))"

section \<open>ParseWalMessage\<close>

definition read_from :: "'a reader \<Rightarrow> bytes \<Rightarrow> 'a run" where
  "read_from r bs = run_bind (r (bytes_NewBuffer bs)) (\<lambda>(x, b). Inr x)"

definition relation_data :: "Relation \<Rightarrow> RelationData" where
  "relation_data relation =
     \<lparr>rd_Schema = rel_Namespace relation, rd_Table = rel_Name relation,
      rd_Columns = map (\<lambda>rf. \<lparr>col_name = rc_Name rf, col_value = AnyNil,
                              col_valueType = sint (rc_TypeID rf), col_isKey = rc_Key rf\<rparr>)
                    (rel_Columns relation)\<rparr>"

definition add_action ::
  "WalTransaction \<Rightarrow> (go_error + ActionData) run \<Rightarrow> (go_error option \<times> WalTransaction) run" where
  "add_action tx r =
     run_bind r (\<lambda>res. case res of
         Inl err \<Rightarrow> Inr (Some (WrapErr ''create action data'' err), tx)
       | Inr action \<Rightarrow> Inr (None, tx\<lparr>tx_Actions := tx_Actions tx @ [action]\<rparr>))"

definition ParseWalMessage ::
  "codec \<Rightarrow> byte_order \<Rightarrow> bytes \<Rightarrow> WalTransaction \<Rightarrow> (go_error option \<times> WalTransaction) run" where
  "ParseWalMessage cd bo msg tx =
     (case msg of
        [] \<Rightarrow> Inr (Some errEmptyWALMessage, tx)
      | msgType # body \<Rightarrow>
          if msgType = BeginMsgType then
            run_bind (read_from (getBeginMsg bo) body) (\<lambda>begin.
              Inr (None, tx\<lparr>tx_LSN := begin_LSN begin,
                             tx_BeginTime := Some (begin_Timestamp begin)\<rparr>))
          else if msgType = CommitMsgType then
            run_bind (read_from (getCommitMsg bo) body) (\<lambda>commit.
              if 0 < sint (tx_LSN tx) \<and> tx_LSN tx \<noteq> commit_LSN commit
              then Inr (Some (WrapErr ''commit'' errMessageLost), tx)
              else Inr (None, tx\<lparr>tx_CommitTime := Some (commit_Timestamp commit)\<rparr>))
          else if msgType = OriginMsgType then Inr (None, tx)
          else if msgType = RelationMsgType then
            run_bind (read_from (getRelationMsg bo) body) (\<lambda>relation.
              if tx_LSN tx = 0 then Inr (Some (WrapErr ''commit'' errMessageLost), tx)
              else Inr (None, tx\<lparr>tx_RelationStore :=
                     (tx_RelationStore tx)(rel_ID relation \<mapsto> relation_data relation)\<rparr>))
          else if msgType = TypeMsgType then Inr (None, tx)
          else if msgType = TruncateMsgType then Inr (None, tx)
          else if msgType = InsertMsgType then
            run_bind (read_from (getInsertMsg bo) body) (\<lambda>insert.
              add_action tx (CreateActionData cd tx (ins_RelationID insert) []
                               (ins_NewRow insert) ActionKindInsert))
          else if msgType = UpdateMsgType then
            run_bind (read_from (getUpdateMsg bo) body) (\<lambda>upd.
              add_action tx (CreateActionData cd tx (upd_RelationID upd) (upd_OldRow upd)
                               (upd_NewRow upd) ActionKindUpdate))
          else if msgType = DeleteMsgType then
            run_bind (read_from (getDeleteMsg bo) body) (\<lambda>del.
              add_action tx (CreateActionData cd tx (del_RelationID del) (del_OldRow del) []
                               ActionKindDelete))
          else Inr (Some (WrapErr (bytes_to_string [msgType]) errUnknownMessageType), tx))"

section \<open>Confinement of the message readers\<close>

lemma confined_messages [simp, intro]:
  "confined (getBeginMsg bo)" "confined (getCommitMsg bo)" "confined (getInsertMsg bo)"
  "confined (getDeleteMsg bo)" "confined (getUpdateMsg bo)" "confined (getRelationMsg bo)"
  unfolding getBeginMsg_def getCommitMsg_def getInsertMsg_def getDeleteMsg_def getUpdateMsg_def
    getRelationMsg_def
  by (intro confined_bind confined_primitives confined_readTimestamp confined_readTupleData
      confined_readColumns confined_charIsExists confined_Next confined_lift confined_return
      confined_if)+

section \<open>The wire format\<close>

definition encode_tuple :: "byte_order \<Rightarrow> TupleData \<Rightarrow> bytes" where
  "encode_tuple bo t = (case td_Value t of
       None \<Rightarrow> [NullDataType]
     | Some v \<Rightarrow> TextDataType # order_bytes bo 4 (length v) @ v)"

definition tuple_ok :: "TupleData \<Rightarrow> bool" where
  "tuple_ok t = (case td_Value t of None \<Rightarrow> True | Some v \<Rightarrow> length v < 2 ^ 31)"

definition encode_array :: "byte_order \<Rightarrow> ('a \<Rightarrow> bytes) \<Rightarrow> 'a list \<Rightarrow> bytes" where
  "encode_array bo enc xs = order_bytes bo 2 (length xs) @ concat (map enc xs)"

definition encode_row :: "byte_order \<Rightarrow> TupleData list \<Rightarrow> bytes" where
  "encode_row bo = encode_array bo (encode_tuple bo)"

definition row_ok :: "TupleData list \<Rightarrow> bool" where
  "row_ok row = (length row < 2 ^ 15 \<and> (\<forall>t\<in>set row. tuple_ok t))"

definition encode_column :: "byte_order \<Rightarrow> RelationColumn \<Rightarrow> bytes" where
  "encode_column bo c = (if rc_Key c then 1 else 0) # string_to_bytes (rc_Name c) @ [0] @
     order_bytes bo 4 (unat (rc_TypeID c)) @ order_bytes bo 4 (unat (rc_ModifierType c))"

definition column_ok :: "RelationColumn \<Rightarrow> bool" where
  "column_ok c = (CHR 0x00 \<notin> set (rc_Name c))"

definition encode_begin :: "byte_order \<Rightarrow> 64 word \<Rightarrow> 64 word \<Rightarrow> 32 word \<Rightarrow> bytes" where
  "encode_begin bo lsn us xid = BeginMsgType # order_bytes bo 8 (unat lsn) @
     order_bytes bo 8 (unat us) @ order_bytes bo 4 (unat xid)"

definition encode_commit ::
  "byte_order \<Rightarrow> 8 word \<Rightarrow> 64 word \<Rightarrow> 64 word \<Rightarrow> 64 word \<Rightarrow> bytes" where
  "encode_commit bo fl lsn tlsn us = CommitMsgType # order_bytes bo 1 (unat fl) @
     order_bytes bo 8 (unat lsn) @ order_bytes bo 8 (unat tlsn) @ order_bytes bo 8 (unat us)"

definition encode_relation :: "byte_order \<Rightarrow> Relation \<Rightarrow> bytes" where
  "encode_relation bo r = RelationMsgType # order_bytes bo 4 (unat (rel_ID r)) @
     (string_to_bytes (rel_Namespace r) @ [0]) @ (string_to_bytes (rel_Name r) @ [0]) @
     order_bytes bo 1 (unat (rel_Replica r)) @ encode_array bo (encode_column bo) (rel_Columns r)"

definition relation_ok :: "Relation \<Rightarrow> bool" where
  "relation_ok r = (CHR 0x00 \<notin> set (rel_Namespace r) \<and> CHR 0x00 \<notin> set (rel_Name r) \<and>
     length (rel_Columns r) < 2 ^ 15 \<and> (\<forall>c\<in>set (rel_Columns r). column_ok c))"

definition encode_insert :: "byte_order \<Rightarrow> 32 word \<Rightarrow> TupleData list \<Rightarrow> bytes" where
  "encode_insert bo rid row = InsertMsgType # order_bytes bo 4 (unat rid) @
     (NewTupleChar # encode_row bo row)"

text \<open>
  The old image of an updated or deleted row: absent, its key columns (flag \<open>K\<close>) or the whole row
  (flag \<open>O\<close>).
\<close>

datatype old_image =
    NoOld
  | is_key: KeyOld "TupleData list"
  | is_full: FullOld "TupleData list"

fun old_row :: "old_image \<Rightarrow> TupleData list" where
  "old_row NoOld = []"
| "old_row (KeyOld row) = row"
| "old_row (FullOld row) = row"

fun encode_old :: "byte_order \<Rightarrow> old_image \<Rightarrow> bytes" where
  "encode_old bo NoOld = []"
| "encode_old bo (KeyOld row) = KeyTupleChar # encode_row bo row"
| "encode_old bo (FullOld row) = OldTupleChar # encode_row bo row"

text \<open>After a \<open>K\<close> the code also tests for an \<open>O\<close>, so the count must not begin with that byte.\<close>

fun old_ok :: "byte_order \<Rightarrow> old_image \<Rightarrow> bool" where
  "old_ok bo NoOld = True"
| "old_ok bo (KeyOld row) = (row_ok row \<and> hd (order_bytes bo 2 (length row)) \<noteq> OldTupleChar)"
| "old_ok bo (FullOld row) = row_ok row"

definition encode_update :: "byte_order \<Rightarrow> 32 word \<Rightarrow> old_image \<Rightarrow> TupleData list \<Rightarrow> bytes" where
  "encode_update bo rid old row = UpdateMsgType # order_bytes bo 4 (unat rid) @
     encode_old bo old @ (NewTupleChar # encode_row bo row)"

definition encode_delete :: "byte_order \<Rightarrow> 32 word \<Rightarrow> old_image \<Rightarrow> bytes" where
  "encode_delete bo rid old = DeleteMsgType # order_bytes bo 4 (unat rid) @ encode_old bo old"

section \<open>Round trips of the parts\<close>

lemma parses_tuple: "tuple_ok t \<Longrightarrow> parses (readTuple bo) (encode_tuple bo t) t rest"
proof (cases "td_Value t")
  case None
  then have t: "t = \<lparr>td_Value = None\<rparr>" by (cases t) simp
  show ?thesis
    unfolding readTuple_def encode_tuple_def t
    by simp (rule parses_byte, simp add: data_types)
next
  case (Some v)
  assume ok: "tuple_ok t"
  from Some have t: "t = \<lparr>td_Value = Some v\<rparr>" by (cases t) simp
  from ok t have l: "length v < 2 ^ 31" by (simp add: tuple_ok_def)
  define w :: "32 word" where "w = word_of_nat (length v)"
  have u: "unat w = length v" using l by (simp add: w_def unat_of_nat)
  have s: "sint w = int (length v)"
    unfolding w_def by (rule sint_word_of_nat) (use l in simp)
  have "parses (rd_bind (readInt32 bo) (\<lambda>vSize. rd_bind (buf_Next (sint vSize))
          (\<lambda>v. rd_return \<lparr>td_Value = Some v\<rparr>))) (order_bytes bo 4 (length v) @ v)
          \<lparr>td_Value = Some v\<rparr> rest"
    by (rule parses_bind [OF parses_readInts(1) [of bo w, unfolded u]])
      (rule parses_map, rule parses_Next, simp add: s)
  then show ?thesis
    unfolding readTuple_def encode_tuple_def t
    by simp (rule parses_byte, simp add: data_types)
qed

interpretation tuple_wire: wire_format "encode_tuple bo" "readTuple bo" tuple_ok for bo
  by unfold_locales (rule parses_tuple)

lemma parses_column: "column_ok c \<Longrightarrow> parses (readColumn bo) (encode_column bo c) c rest"
proof -
  assume ok: "column_ok c"
  define k :: byte where "k = (if rc_Key c then 1 else 0)"
  have k: "(k \<noteq> 0) = rc_Key c" by (simp add: k_def)
  have b: "parses readBool [k] (rc_Key c) rest" for rest
    unfolding readBool_def by (rule parses_byte) (simp add: k)
  have "parses (readColumn bo) ([k] @ (string_to_bytes (rc_Name c) @ [0]) @
      order_bytes bo 4 (unat (rc_TypeID c)) @ order_bytes bo 4 (unat (rc_ModifierType c))) c rest"
    unfolding readColumn_def
    by (rule parses_bind [OF b], rule parses_bind [OF parses_readString],
        use ok in \<open>simp add: column_ok_def\<close>, rule parses_bind [OF parses_readInts(1)],
        rule parses_last [OF parses_readInts(1)], simp)
  then show ?thesis by (simp add: encode_column_def k_def)
qed

interpretation column_wire: wire_format "encode_column bo" "readColumn bo" column_ok for bo
  by unfold_locales (rule parses_column)

lemma parses_row: "row_ok row \<Longrightarrow> parses (readTupleData bo) (encode_row bo row) row rest"
  unfolding readTupleData_def encode_row_def encode_array_def row_ok_def
  by (rule tuple_wire.array_roundtrip) auto

lemma parses_columns:
  "\<forall>c\<in>set cs. column_ok c \<Longrightarrow> length cs < 2 ^ 15 \<Longrightarrow>
   parses (readColumns bo) (encode_array bo (encode_column bo) cs) cs rest"
  unfolding readColumns_def encode_array_def by (rule column_wire.array_roundtrip)

lemma parses_timestamp:
  "parses (readTimestamp bo) (order_bytes bo 8 (unat us)) (postgresEpoch + sint (us * 1000)) rest"
  for us :: "64 word"
  unfolding readTimestamp_def
  by (rule parses_last [OF parses_readInts(2)]) simp

section \<open>Round trips of the messages\<close>

lemma read_from_parses:
  assumes "parses r bs x []" shows "read_from r bs = Inr x"
proof -
  have "buf_ok (bytes_NewBuffer bs)" "unread (bytes_NewBuffer bs) = bs @ []"
    by (simp_all add: buf_ok_def bytes_NewBuffer_def unread_def)
  from parsesE [OF assms this] obtain b where "r (bytes_NewBuffer bs) = Inr (x, b)" by metis
  then show ?thesis by (simp add: read_from_def)
qed

lemma encode_row_hd:
  assumes "hd (order_bytes bo 2 (length row)) \<noteq> c"
  shows "\<exists>b bs. encode_row bo row = b # bs \<and> b \<noteq> c"
proof (cases "order_bytes bo 2 (length row)")
  case Nil
  have "length (order_bytes bo 2 (length row)) = 2" by (rule order_bytes_length)
  then have "length ([] :: bytes) = 2" unfolding Nil .
  then show ?thesis by simp
next
  case (Cons b bs)
  with assms show ?thesis by (simp add: encode_row_def encode_array_def)
qed

lemma parses_old:
  assumes "old_ok bo old"
    and that: "parses (f (is_key old) (is_full old) (old_row old)) (NewTupleChar # bs) y rest"
  shows "parses (rd_bind (charIsExists KeyTupleChar) (\<lambda>k.
           rd_bind (charIsExists OldTupleChar) (\<lambda>ot.
           rd_bind (if k \<or> ot then readTupleData bo else rd_return []) (f k ot))))
         (encode_old bo old @ (NewTupleChar # bs)) y rest"
proof (cases old)
  case NoOld
  have "parses (rd_bind (charIsExists KeyTupleChar) (\<lambda>k.
           rd_bind (charIsExists OldTupleChar) (\<lambda>ot.
           rd_bind (if k \<or> ot then readTupleData bo else rd_return []) (f k ot))))
         ([] @ [] @ [] @ (NewTupleChar # bs)) y rest"
    by (rule parses_bind, simp, rule parses_char_no, simp add: data_types,
        rule parses_bind, simp, rule parses_char_no, simp add: data_types,
        rule parses_bind, simp, rule parses_return, use that NoOld in simp)
  with NoOld show ?thesis by simp
next
  case (KeyOld row)
  with assms have ok: "row_ok row" and h: "hd (order_bytes bo 2 (length row)) \<noteq> OldTupleChar"
    by simp_all
  obtain c cs where e: "encode_row bo row = c # cs" and c: "c \<noteq> OldTupleChar"
    using encode_row_hd [OF h] by blast
  have "parses (rd_bind (charIsExists KeyTupleChar) (\<lambda>k.
           rd_bind (charIsExists OldTupleChar) (\<lambda>ot.
           rd_bind (if k \<or> ot then readTupleData bo else rd_return []) (f k ot))))
         ([KeyTupleChar] @ [] @ encode_row bo row @ (NewTupleChar # bs)) y rest"
    by (rule parses_bind, rule parses_char_yes, rule parses_bind,
        simp add: e, rule parses_char_no [OF c], rule parses_bind, simp, rule parses_row [OF ok],
        use that KeyOld in simp)
  with KeyOld show ?thesis by simp
next
  case (FullOld row)
  with assms have ok: "row_ok row" by simp
  have "parses (rd_bind (charIsExists KeyTupleChar) (\<lambda>k.
           rd_bind (charIsExists OldTupleChar) (\<lambda>ot.
           rd_bind (if k \<or> ot then readTupleData bo else rd_return []) (f k ot))))
         ([] @ [OldTupleChar] @ encode_row bo row @ (NewTupleChar # bs)) y rest"
    by (rule parses_bind, simp, rule parses_char_no, simp add: data_types, rule parses_bind,
        rule parses_char_yes, rule parses_bind, simp, rule parses_row [OF ok],
        use that FullOld in simp)
  with FullOld show ?thesis by simp
qed

lemma parses_getUpdate:
  assumes "old_ok bo old" and "row_ok row"
  shows "parses (getUpdateMsg bo) (order_bytes bo 4 (unat rid) @ encode_old bo old @
           (NewTupleChar # encode_row bo row))
         \<lparr>upd_RelationID = rid, upd_KeyTuple = is_key old, upd_OldTuple = True,
          upd_OldRow = old_row old, upd_NewTuple = False, upd_NewRow = row\<rparr> rest"
proof -
  have n: "parses (rd_bind (charIsExists NewTupleChar) (\<lambda>nt. rd_bind (readTupleData bo) (\<lambda>new.
       rd_return \<lparr>upd_RelationID = rid, upd_KeyTuple = k, upd_OldTuple = nt, upd_OldRow = old,
                  upd_NewTuple = False, upd_NewRow = new\<rparr>)))
      ([NewTupleChar] @ encode_row bo row)
      \<lparr>upd_RelationID = rid, upd_KeyTuple = k, upd_OldTuple = True,
          upd_OldRow = old, upd_NewTuple = False, upd_NewRow = row\<rparr> rest" for k old
    by (rule parses_bind [OF parses_char_yes], rule parses_last [OF parses_row [OF assms(2)]], simp)
  show ?thesis
    unfolding getUpdateMsg_def
    by (rule parses_bind [OF parses_readInts(1)], rule parses_old [OF assms(1)])
      (use n in simp)
qed

lemma parses_getDelete:
  assumes "old_ok bo old" and "old \<noteq> NoOld"
  shows "parses (getDeleteMsg bo) (order_bytes bo 4 (unat rid) @ encode_old bo old)
         \<lparr>del_RelationID = rid, del_KeyTuple = is_key old, del_OldTuple = is_full old,
          del_OldRow = old_row old\<rparr> rest"
  unfolding getDeleteMsg_def
proof (rule parses_bind [OF parses_readInts(1)])
  let ?f = "rd_bind (charIsExists KeyTupleChar) (\<lambda>k.
     rd_bind (charIsExists OldTupleChar) (\<lambda>ot. rd_bind (readTupleData bo) (\<lambda>row.
       rd_return \<lparr>del_RelationID = rid, del_KeyTuple = k, del_OldTuple = ot, del_OldRow = row\<rparr>)))"
  have r: "row_ok row \<Longrightarrow> parses (rd_bind (readTupleData bo) (\<lambda>row.
       rd_return \<lparr>del_RelationID = rid, del_KeyTuple = k, del_OldTuple = ot, del_OldRow = row\<rparr>))
       (encode_row bo row) \<lparr>del_RelationID = rid, del_KeyTuple = k, del_OldTuple = ot,
         del_OldRow = row\<rparr> rest" for k ot row
    by (rule parses_last [OF parses_row]) simp_all
  show "parses ?f (encode_old bo old) \<lparr>del_RelationID = rid, del_KeyTuple = is_key old,
          del_OldTuple = is_full old, del_OldRow = old_row old\<rparr> rest"
  proof (cases old)
    case NoOld
    with assms show ?thesis by simp
  next
    case (KeyOld row)
    with assms have ok: "row_ok row" and h: "hd (order_bytes bo 2 (length row)) \<noteq> OldTupleChar"
      by simp_all
    from encode_row_hd [OF h] obtain c cs where e: "encode_row bo row = c # cs" "c \<noteq> OldTupleChar"
      by blast
    have "parses ?f ([KeyTupleChar] @ [] @ encode_row bo row) \<lparr>del_RelationID = rid,
       del_KeyTuple = True, del_OldTuple = False, del_OldRow = row\<rparr> rest"
      by (rule parses_bind [OF parses_char_yes], rule parses_bind, simp add: e,
          rule parses_char_no [OF e(2)], rule r [OF ok])
    with KeyOld show ?thesis by simp
  next
    case (FullOld row)
    with assms have ok: "row_ok row" by simp
    have "parses ?f ([] @ [OldTupleChar] @ encode_row bo row) \<lparr>del_RelationID = rid,
       del_KeyTuple = False, del_OldTuple = True, del_OldRow = row\<rparr> rest"
      by (rule parses_bind, simp, rule parses_char_no, simp add: data_types,
          rule parses_bind [OF parses_char_yes], rule r [OF ok])
    with FullOld show ?thesis by simp
  qed
qed

lemma parses_getInsert:
  assumes "row_ok row"
  shows "parses (getInsertMsg bo) (order_bytes bo 4 (unat rid) @ (NewTupleChar # encode_row bo row))
         \<lparr>ins_RelationID = rid, ins_NewTuple = True, ins_NewRow = row\<rparr> rest"
  unfolding getInsertMsg_def
  by (rule parses_bind [OF parses_readInts(1)], rule parses_byte)
    (rule parses_last [OF parses_row [OF assms]], simp add: data_types)

lemma parses_getRelation:
  assumes "relation_ok r"
  shows "parses (getRelationMsg bo) (tl (encode_relation bo r)) r rest"
proof -
  from assms have s: "CHR 0x00 \<notin> set (rel_Namespace r)" "CHR 0x00 \<notin> set (rel_Name r)"
    and c: "\<forall>c\<in>set (rel_Columns r). column_ok c" "length (rel_Columns r) < 2 ^ 15"
    by (simp_all add: relation_ok_def)
  have "parses (rd_bind (readColumns bo) (\<lambda>cols. rd_return \<lparr>rel_ID = rel_ID r,
       rel_Namespace = rel_Namespace r, rel_Name = rel_Name r, rel_Replica = rel_Replica r,
       rel_Columns = cols\<rparr>)) (encode_array bo (encode_column bo) (rel_Columns r)) r rest"
    by (rule parses_last [OF parses_columns [OF c]]) simp
  then show ?thesis
    unfolding getRelationMsg_def encode_relation_def list.sel
    by (rule parses_bind [OF parses_readInts(1) parses_bind [OF parses_readString [OF s(1)]
          parses_bind [OF parses_readString [OF s(2)] parses_bind [OF parses_readInts(4)]]]])
qed

lemma parses_getCommit:
  "parses (getCommitMsg bo) (tl (encode_commit bo fl lsn tlsn us))
     \<lparr>commit_Flags = fl, commit_LSN = lsn, commit_TransactionLSN = tlsn,
      commit_Timestamp = postgresEpoch + sint (us * 1000)\<rparr> rest"
  unfolding getCommitMsg_def encode_commit_def list.sel
  by (rule parses_bind [OF parses_readInts(4)], rule parses_bind [OF parses_readInts(2)],
      rule parses_bind [OF parses_readInts(2)], rule parses_last [OF parses_timestamp], simp)

lemma parses_getBegin:
  "parses (getBeginMsg bo) (tl (encode_begin bo lsn us xid))
     \<lparr>begin_LSN = lsn, begin_Timestamp = postgresEpoch + sint (us * 1000), begin_XID = xid\<rparr> rest"
  unfolding getBeginMsg_def encode_begin_def list.sel
  by (rule parses_bind [OF parses_readInts(2)], rule parses_bind [OF parses_timestamp],
      rule parses_last [OF parses_readInts(1)], simp)

section \<open>The transaction after a message\<close>

text \<open>The changes a message can make to a transaction.\<close>

inductive tx_step :: "WalTransaction \<Rightarrow> WalTransaction \<Rightarrow> bool" where
  tx_same: "tx_step tx tx"
| tx_begin: "tx_step tx (tx\<lparr>tx_LSN := l, tx_BeginTime := Some t\<rparr>)"
| tx_commit: "sint (tx_LSN tx) \<le> 0 \<or> tx_LSN tx = l \<Longrightarrow> tx_step tx (tx\<lparr>tx_CommitTime := Some t\<rparr>)"
| tx_relation: "tx_LSN tx \<noteq> 0 \<Longrightarrow>
    tx_step tx (tx\<lparr>tx_RelationStore := (tx_RelationStore tx)(k \<mapsto> r)\<rparr>)"
| tx_action: "tx_RelationStore tx rid = Some rel \<Longrightarrow> ad_Schema a = rd_Schema rel \<Longrightarrow>
    ad_Table a = rd_Table rel \<Longrightarrow> tx_step tx (tx\<lparr>tx_Actions := tx_Actions tx @ [a]\<rparr>)"

inductive_cases tx_stepE: "tx_step tx tx'"

lemma add_action_cases:
  assumes "add_action tx (CreateActionData cd tx rid old new kind) = Inr (err, tx')"
  shows "(err \<noteq> None \<longrightarrow> tx' = tx) \<and> (err = None \<longrightarrow> tx_step tx tx')"
proof (cases "tx_RelationStore tx rid")
  case None
  with assms show ?thesis by (auto simp: add_action_def CreateActionData_def)
next
  case (Some rel)
  with assms obtain oc nc where "err = None" and
    "tx' = tx\<lparr>tx_Actions := tx_Actions tx @ [\<lparr>ad_Schema = rd_Schema rel, ad_Table = rd_Table rel,
       ad_Kind = kind, ad_OldColumns = oc, ad_NewColumns = nc\<rparr>]\<rparr>"
    by (auto simp: add_action_def CreateActionData_def run_simps)
  moreover have "tx_step tx (tx\<lparr>tx_Actions := tx_Actions tx @ [\<lparr>ad_Schema = rd_Schema rel,
      ad_Table = rd_Table rel, ad_Kind = kind, ad_OldColumns = oc, ad_NewColumns = nc\<rparr>]\<rparr>)"
    by (rule tx_action [OF Some]) simp_all
  ultimately show ?thesis by simp
qed

lemma ParseWalMessage_step:
  assumes "ParseWalMessage cd bo msg tx = Inr (err, tx')"
  shows "(err \<noteq> None \<longrightarrow> tx' = tx) \<and> (err = None \<longrightarrow> tx_step tx tx')"
proof (cases msg)
  case Nil
  with assms show ?thesis by (auto simp: ParseWalMessage_def)
next
  case (Cons t body)
  from assms show ?thesis
    unfolding Cons ParseWalMessage_def list.case
    by (auto simp: run_simps dest: add_action_cases intro: tx_same tx_begin tx_relation
        tx_commit [where l = "tx_LSN tx"] split: if_splits)
qed

interpretation binary_parser: wal_parser "ParseWalMessage cd bo" for cd bo
proof unfold_locales
  fix m tx e tx'
  assume "ParseWalMessage cd bo m tx = Inr (Some e, tx')"
  from ParseWalMessage_step [OF this] show "tx' = tx" by simp
next
  fix m tx tx'
  assume "ParseWalMessage cd bo m tx = Inr (None, tx')"
  from ParseWalMessage_step [OF this] have "tx_step tx tx'" by simp
  then show "\<exists>as. length as \<le> 1 \<and> tx_Actions tx' = tx_Actions tx @ as"
    by (auto elim!: tx_stepE)
next
  fix m tx tx'
  assume "ParseWalMessage cd bo m tx = Inr (None, tx')" and c: "tx_CommitTime tx \<noteq> None"
  from ParseWalMessage_step [OF this(1)] have "tx_step tx tx'" by simp
  with c show "tx_CommitTime tx' \<noteq> None" by (auto elim!: tx_stepE)
qed

section \<open>Properties\<close>

lemmas parse_dispatch = ParseWalMessage_def msg_types


text \<open>
  A relation message encoded in the pgoutput format and received inside a transaction stores
  exactly that relation (schema, table, column names, types and key flags) under its id, and nothing
  else changes.
\<close>

theorem parse_relation_message:
  assumes "relation_ok r" and "tx_LSN tx \<noteq> 0"
  shows "ParseWalMessage cd bo (encode_relation bo r) tx =
    Inr (None, tx\<lparr>tx_RelationStore := (tx_RelationStore tx)(rel_ID r \<mapsto>
      \<lparr>rd_Schema = rel_Namespace r, rd_Table = rel_Name r,
       rd_Columns = map (\<lambda>c. \<lparr>col_name = rc_Name c, col_value = AnyNil,
         col_valueType = sint (rc_TypeID c), col_isKey = rc_Key c\<rparr>) (rel_Columns r)\<rparr>)\<rparr>)"
proof -
  have e: "encode_relation bo r = RelationMsgType # tl (encode_relation bo r)"
    by (simp add: encode_relation_def)
  have "read_from (getRelationMsg bo) (tl (encode_relation bo r)) = Inr r"
    by (rule read_from_parses [OF parses_getRelation [OF assms(1)]])
  with assms(2) show ?thesis
    by (subst e) (simp add: parse_dispatch relation_data_def)
qed

theorem parse_relation_message_witness:
  "ParseWalMessage calm_codec BigEndian (encode_relation BigEndian
     \<lparr>rel_ID = 7, rel_Namespace = ''public'', rel_Name = ''users'', rel_Replica = 1,
      rel_Columns = [\<lparr>rc_Key = True, rc_Name = ''id'', rc_TypeID = 23, rc_ModifierType = 1\<rparr>]\<rparr>)
     (NewWalTransaction\<lparr>tx_LSN := 4\<rparr>) =
   Inr (None, NewWalTransaction\<lparr>tx_LSN := 4, tx_RelationStore := Map.empty(7 \<mapsto>
     \<lparr>rd_Schema = ''public'', rd_Table = ''users'',
      rd_Columns = [\<lparr>col_name = ''id'', col_value = AnyNil, col_valueType = 23,
        col_isKey = True\<rparr>]\<rparr>)\<rparr>)"
  using parse_relation_message [of "\<lparr>rel_ID = 7, rel_Namespace = ''public'', rel_Name = ''users'',
      rel_Replica = 1, rel_Columns = [\<lparr>rc_Key = True, rc_Name = ''id'', rc_TypeID = 23,
      rc_ModifierType = 1\<rparr>]\<rparr>" "NewWalTransaction\<lparr>tx_LSN := 4\<rparr>" calm_codec BigEndian]
  by (simp add: relation_ok_def column_ok_def NewWalTransaction_def)

lemma create_action_total:
  assumes "tx_RelationStore tx rid = Some rel"
    and "length old \<le> length (rd_Columns rel)" and "\<forall>t\<in>set old. td_Value t \<noteq> Some []"
    and "length new \<le> length (rd_Columns rel)" and "\<forall>t\<in>set new. td_Value t \<noteq> Some []"
  shows "\<exists>oc nc. add_action tx (CreateActionData cd tx rid old new kind) =
      Inr (None, tx\<lparr>tx_Actions := tx_Actions tx @ [\<lparr>ad_Schema = rd_Schema rel,
        ad_Table = rd_Table rel, ad_Kind = kind, ad_OldColumns = oc, ad_NewColumns = nc\<rparr>]\<rparr>) \<and>
    length oc = length old \<and> length nc = length new \<and>
    (\<forall>i<length old. column_reads cd (rd_Columns rel ! i) (old ! i) (oc ! i)) \<and>
    (\<forall>i<length new. column_reads cd (rd_Columns rel ! i) (new ! i) (nc ! i))"
proof -
  from assms row_columns_total [of 0] obtain oc nc
    where o: "row_columns cd (rd_Columns rel) 0 old = Inr oc"
      and n: "row_columns cd (rd_Columns rel) 0 new = Inr nc" by fastforce
  from row_columns_Inr [OF o] row_columns_Inr [OF n] assms(1) o n show ?thesis
    by (auto simp: add_action_def CreateActionData_def)
qed



text \<open>
  An update message in the pgoutput format, with no old row, the old key columns or the whole
  old row, appends one UPDATE action holding the typed old columns it carries and the typed new
  columns.
\<close>

theorem parse_update_message:
  assumes "tx_RelationStore tx rid = Some rel" and "old_ok bo old" and "row_ok row"
    and "length (old_row old) \<le> length (rd_Columns rel)"
    and "\<forall>t\<in>set (old_row old). td_Value t \<noteq> Some []"
    and "length row \<le> length (rd_Columns rel)" and "\<forall>t\<in>set row. td_Value t \<noteq> Some []"
  shows "\<exists>oc nc. ParseWalMessage cd bo (encode_update bo rid old row) tx =
      Inr (None, tx\<lparr>tx_Actions := tx_Actions tx @ [\<lparr>ad_Schema = rd_Schema rel,
        ad_Table = rd_Table rel, ad_Kind = ActionKindUpdate, ad_OldColumns = oc,
        ad_NewColumns = nc\<rparr>]\<rparr>) \<and>
    length oc = length (old_row old) \<and> length nc = length row \<and>
    (\<forall>i<length (old_row old). column_reads cd (rd_Columns rel ! i) (old_row old ! i) (oc ! i)) \<and>
    (\<forall>i<length row. column_reads cd (rd_Columns rel ! i) (row ! i) (nc ! i))"
proof -
  have "read_from (getUpdateMsg bo) (order_bytes bo 4 (unat rid) @ encode_old bo old @
      (NewTupleChar # encode_row bo row)) = Inr \<lparr>upd_RelationID = rid, upd_KeyTuple = is_key old,
        upd_OldTuple = True, upd_OldRow = old_row old, upd_NewTuple = False, upd_NewRow = row\<rparr>"
    by (rule read_from_parses [OF parses_getUpdate [OF assms(2,3)]])
  with create_action_total [of tx rid rel "old_row old" row cd ActionKindUpdate] assms
  show ?thesis by (simp add: parse_dispatch encode_update_def)
qed

theorem parse_update_message_witness:
  "\<exists>oc nc tx'. ParseWalMessage calm_codec BigEndian
     (encode_update BigEndian 7 (KeyOld [\<lparr>td_Value = Some [53]\<rparr>]) [\<lparr>td_Value = None\<rparr>])
     (NewWalTransaction\<lparr>tx_RelationStore := Map.empty(7 \<mapsto> \<lparr>rd_Schema = ''s'', rd_Table = ''t'',
        rd_Columns = [\<lparr>col_name = ''id'', col_value = AnyNil, col_valueType = 23,
          col_isKey = True\<rparr>]\<rparr>)\<rparr>) = Inr (None, tx') \<and>
   tx_Actions tx' = [\<lparr>ad_Schema = ''s'', ad_Table = ''t'', ad_Kind = ActionKindUpdate,
          ad_OldColumns = oc, ad_NewColumns = nc\<rparr>] \<and> length oc = 1 \<and> length nc = 1"
proof -
  have "hd (order_bytes BigEndian 2 1) \<noteq> OldTupleChar"
    by code_simp
  then show ?thesis
    using parse_update_message [of "NewWalTransaction\<lparr>tx_RelationStore := Map.empty(7 \<mapsto>
      \<lparr>rd_Schema = ''s'', rd_Table = ''t'', rd_Columns = [\<lparr>col_name = ''id'',
      col_value = AnyNil, col_valueType = 23, col_isKey = True\<rparr>]\<rparr>)\<rparr>" 7 _ BigEndian
      "KeyOld [\<lparr>td_Value = Some [53]\<rparr>]" "[\<lparr>td_Value = None\<rparr>]" calm_codec]
    by (auto simp: row_ok_def tuple_ok_def NewWalTransaction_def)
qed

text \<open>
  A delete message in the pgoutput format, carrying the old key columns or the whole old row,
  appends one DELETE action with the typed old columns and no new ones.
\<close>

theorem parse_delete_message:
  assumes "tx_RelationStore tx rid = Some rel" and "old_ok bo old" and "old \<noteq> NoOld"
    and "length (old_row old) \<le> length (rd_Columns rel)"
    and "\<forall>t\<in>set (old_row old). td_Value t \<noteq> Some []"
  shows "\<exists>oc. ParseWalMessage cd bo (encode_delete bo rid old) tx =
      Inr (None, tx\<lparr>tx_Actions := tx_Actions tx @ [\<lparr>ad_Schema = rd_Schema rel,
        ad_Table = rd_Table rel, ad_Kind = ActionKindDelete, ad_OldColumns = oc,
        ad_NewColumns = []\<rparr>]\<rparr>) \<and>
    length oc = length (old_row old) \<and>
    (\<forall>i<length (old_row old). column_reads cd (rd_Columns rel ! i) (old_row old ! i) (oc ! i))"
proof -
  have "read_from (getDeleteMsg bo) (order_bytes bo 4 (unat rid) @ encode_old bo old) =
      Inr \<lparr>del_RelationID = rid, del_KeyTuple = is_key old, del_OldTuple = is_full old,
          del_OldRow = old_row old\<rparr>"
    by (rule read_from_parses [OF parses_getDelete [OF assms(2,3)]])
  with create_action_total [of tx rid rel "old_row old" "[]" cd ActionKindDelete] assms
  show ?thesis by (simp add: parse_dispatch encode_delete_def)
qed

theorem parse_delete_message_witness:
  "\<exists>oc tx'. ParseWalMessage calm_codec LittleEndian
     (encode_delete LittleEndian 7 (FullOld [\<lparr>td_Value = Some [53]\<rparr>]))
     (NewWalTransaction\<lparr>tx_RelationStore := Map.empty(7 \<mapsto> \<lparr>rd_Schema = ''s'', rd_Table = ''t'',
        rd_Columns = [\<lparr>col_name = ''id'', col_value = AnyNil, col_valueType = 23,
          col_isKey = True\<rparr>]\<rparr>)\<rparr>) = Inr (None, tx') \<and>
   tx_Actions tx' = [\<lparr>ad_Schema = ''s'', ad_Table = ''t'', ad_Kind = ActionKindDelete,
          ad_OldColumns = oc, ad_NewColumns = []\<rparr>] \<and> length oc = 1"
  using parse_delete_message [of "NewWalTransaction\<lparr>tx_RelationStore := Map.empty(7 \<mapsto>
      \<lparr>rd_Schema = ''s'', rd_Table = ''t'', rd_Columns = [\<lparr>col_name = ''id'',
      col_value = AnyNil, col_valueType = 23, col_isKey = True\<rparr>]\<rparr>)\<rparr>" 7 _ LittleEndian
      "FullOld [\<lparr>td_Value = Some [53]\<rparr>]" calm_codec]
  by (auto simp: row_ok_def tuple_ok_def NewWalTransaction_def)

text \<open>
  The commit check: after a begin message with a positive LSN, a commit message with the same
  LSN sets the commit time it carries, and one with another LSN is refused as lost messages and
  leaves the transaction as it was.
\<close>

theorem parse_begin_commit:
  assumes "0 < sint lsn"
  shows "\<exists>tx1. ParseWalMessage cd bo (encode_begin bo lsn us xid) tx = Inr (None, tx1) \<and>
    tx1 = tx\<lparr>tx_LSN := lsn, tx_BeginTime := Some (postgresEpoch + sint (us * 1000))\<rparr> \<and>
    ParseWalMessage cd bo (encode_commit bo fl lsn' tlsn us') tx1 =
      (if lsn' = lsn
       then Inr (None, tx1\<lparr>tx_CommitTime := Some (postgresEpoch + sint (us' * 1000))\<rparr>)
       else Inr (Some (WrapErr ''commit'' errMessageLost), tx1))"
proof -
  have b: "read_from (getBeginMsg bo) (tl (encode_begin bo lsn us xid)) = Inr \<lparr>begin_LSN = lsn,
      begin_Timestamp = postgresEpoch + sint (us * 1000), begin_XID = xid\<rparr>"
    by (rule read_from_parses [OF parses_getBegin])
  have c: "read_from (getCommitMsg bo) (tl (encode_commit bo fl lsn' tlsn us')) =
      Inr \<lparr>commit_Flags = fl, commit_LSN = lsn', commit_TransactionLSN = tlsn,
        commit_Timestamp = postgresEpoch + sint (us' * 1000)\<rparr>"
    by (rule read_from_parses [OF parses_getCommit])
  have e: "encode_begin bo lsn us xid = BeginMsgType # tl (encode_begin bo lsn us xid)"
    "encode_commit bo fl lsn' tlsn us' = CommitMsgType # tl (encode_commit bo fl lsn' tlsn us')"
    by (simp_all add: encode_begin_def encode_commit_def)
  from assms b c show ?thesis
    by (subst e(1), subst e(2)) (auto simp: parse_dispatch)
qed

theorem parse_begin_commit_witness:
  "\<exists>tx1. ParseWalMessage calm_codec BigEndian (encode_begin BigEndian 9 0 3) NewWalTransaction =
      Inr (None, tx1) \<and> tx_LSN tx1 = 9 \<and>
    ParseWalMessage calm_codec BigEndian (encode_commit BigEndian 0 8 8 5) tx1 =
      Inr (Some (WrapErr ''commit'' errMessageLost), tx1)"
  using parse_begin_commit [of 9 calm_codec BigEndian 0 3 NewWalTransaction 0 8 8 5] by auto

text \<open>
  What any message, well-formed or not, can do to a transaction: an error leaves it unchanged,
  and a success is one of the steps \<open>tx_step\<close> lists (same, begin, commit, a relation inside a
  transaction, one action of a known relation). A message whose row is longer than its relation
  panics instead, so it is neither.
\<close>

theorem parse_changes:
  "case ParseWalMessage cd bo msg tx of
     Inl p \<Rightarrow> msg \<noteq> []
   | Inr (Some e, tx') \<Rightarrow> tx' = tx
   | Inr (None, tx') \<Rightarrow> tx_step tx tx'"
proof (cases "ParseWalMessage cd bo msg tx")
  case (Inl p)
  then show ?thesis by (auto simp: ParseWalMessage_def split: list.splits)
next
  case (Inr r)
  then show ?thesis
    using ParseWalMessage_step [of cd bo msg tx "fst r" "snd r"]
    by (auto split: prod.splits option.splits)
qed

text \<open>
  A row message for a relation id that was never described is an error wrapping
  \<open>errRelationNotFound\<close>, and the transaction is unchanged; a row longer than the relation's column
  list panics with an index out of range.
\<close>

theorem parse_insert_errors:
  assumes "row_ok row" and "\<forall>t\<in>set row. td_Value t \<noteq> Some []"
  shows "case tx_RelationStore tx rid of
      None \<Rightarrow> ParseWalMessage cd bo (encode_insert bo rid row) tx =
        Inr (Some (WrapErr ''create action data'' errRelationNotFound), tx)
    | Some rel \<Rightarrow>
        (ParseWalMessage cd bo (encode_insert bo rid row) tx = Inl PanicIndex) =
          (length (rd_Columns rel) < length row)"
proof -
  have r: "read_from (getInsertMsg bo)
      (order_bytes bo 4 (unat rid) @ (NewTupleChar # encode_row bo row)) =
      Inr \<lparr>ins_RelationID = rid, ins_NewTuple = True, ins_NewRow = row\<rparr>"
    by (rule read_from_parses [OF parses_getInsert [OF assms(1)]])
  show ?thesis
  proof (cases "tx_RelationStore tx rid")
    case None
    with r show ?thesis
      by (simp add: parse_dispatch encode_insert_def add_action_def CreateActionData_def)
  next
    case (Some rel)
    show ?thesis
    proof (cases "length (rd_Columns rel) < length row")
      case True
      with assms row_columns_short [of 0 "rd_Columns rel" row cd]
      have "row_columns cd (rd_Columns rel) 0 row = Inl PanicIndex" by simp
      with Some True r show ?thesis
        by (simp add: parse_dispatch encode_insert_def add_action_def CreateActionData_def)
    next
      case False
      with Some create_action_total [of tx rid rel "[]" row cd ActionKindInsert] assms
      obtain tx' where "add_action tx (CreateActionData cd tx rid [] row ActionKindInsert) =
          Inr (None, tx')" by auto
      with Some False r show ?thesis by (simp add: parse_dispatch encode_insert_def)
    qed
  qed
qed

theorem parse_insert_errors_witness:
  "ParseWalMessage calm_codec BigEndian (encode_insert BigEndian 7 [\<lparr>td_Value = None\<rparr>]) NewWalTransaction =
     Inr (Some (WrapErr ''create action data'' errRelationNotFound), NewWalTransaction)"
  using parse_insert_errors [where row = "[\<lparr>td_Value = None\<rparr>]" and tx = NewWalTransaction
      and rid = 7 and cd = calm_codec and bo = BigEndian]
  by (simp add: row_ok_def tuple_ok_def NewWalTransaction_def)

end
