(* ===== verification/WalListener.thy ===== *)
theory WalListener
  imports WalParser
begin

text \<open>
  \<open>Listener\<close> of \<open>src/wal-listener/listener/listener.go\<close>: start-up (slot lookup or creation), the
  stream loop over replication messages, publication of a committed transaction's events, the
  acknowledged LSN, and the answers to heartbeats.

  The services behind the interfaces (publisher, replicator, repository, monitor) are the functions
  of an \<open>env\<close>, a parameter. A service's answer may depend on everything it was asked before: the
  listener state records the calls in \<open>ln_trace\<close>, newest first, and the functions see that history.
\<close>

section \<open>The environment\<close>

record StandbyStatus =
  ss_WalWritePosition :: "64 word"
  ss_ReplyRequested :: nat

datatype effect =
    Published string Event "go_error option"
  | StatusSent StandbyStatus "go_error option"
  | CountPublished string string
  | CountSkipped string
  | CountProblem string

record env =
  env_codec :: codec
  env_uuid :: "nat \<Rightarrow> string"
  env_publish :: "effect list \<Rightarrow> string \<Rightarrow> Event \<Rightarrow> go_error option"
  env_new_status :: "64 word \<Rightarrow> go_error + StandbyStatus"
  env_send_status :: "effect list \<Rightarrow> StandbyStatus \<Rightarrow> go_error option"

record listener_cfg =
  cfg_SlotName :: string
  cfg_Topic :: string
  cfg_Tables :: "string \<Rightarrow> string list option"

record listener =
  ln_lsn :: "64 word"
  ln_tx :: WalTransaction
  ln_uuids :: nat
  ln_trace :: "effect list"

record WalMessage =
  wm_WalStart :: "64 word"
  wm_WalData :: bytes

record ServerHeartbeat =
  sh_ServerWalEnd :: "64 word"
  sh_ServerTime :: "64 word"
  sh_ReplyRequested :: "8 word"

record ReplicationMessage =
  rm_WalMessage :: "WalMessage option"
  rm_ServerHeartbeat :: "ServerHeartbeat option"

type_synonym parse_fun =
  "bytes \<Rightarrow> WalTransaction \<Rightarrow> (go_error option \<times> WalTransaction) run"

definition problemKindParse :: string where "problemKindParse = ''parse''"
definition problemKindPublish :: string where "problemKindPublish = ''publish''"
definition problemKindAck :: string where "problemKindAck = ''ack''"

definition emit :: "effect \<Rightarrow> listener \<Rightarrow> listener" where
  "emit e l = l\<lparr>ln_trace := e # ln_trace l\<rparr>"

section \<open>Acknowledgement\<close>

definition setLSN :: "64 word \<Rightarrow> listener \<Rightarrow> listener" where
  "setLSN lsn l = l\<lparr>ln_lsn := lsn\<rparr>"

definition SendStandbyStatus :: "env \<Rightarrow> listener \<Rightarrow> go_error option \<times> listener" where
  "SendStandbyStatus env l =
     (case env_new_status env (ln_lsn l) of
        Inl err \<Rightarrow> (Some (WrapErr ''unable to create StandbyStatus object'' err), l)
      | Inr st \<Rightarrow>
          let st' = st\<lparr>ss_ReplyRequested := 0\<rparr>;
              r = env_send_status env (ln_trace l) st';
              l' = emit (StatusSent st' r) l
          in (case r of
                Some err \<Rightarrow> (Some (WrapErr ''unable to send StandbyStatus object'' err), l')
              | None \<Rightarrow> (None, l')))"

definition AckWalMessage :: "env \<Rightarrow> 64 word \<Rightarrow> listener \<Rightarrow> go_error option \<times> listener" where
  "AckWalMessage env lsn l =
     (let (r, l') = SendStandbyStatus env (setLSN lsn l)
      in (case r of Some err \<Rightarrow> (Some (WrapErr ''send status'' err), l') | None \<Rightarrow> (None, l')))"

section \<open>Messages\<close>

text \<open>The loop over the events of a commit: it stops at the first one that is not published.\<close>

fun publish_events ::
  "env \<Rightarrow> listener_cfg \<Rightarrow> Event list \<Rightarrow> listener \<Rightarrow> go_error option \<times> listener" where
  "publish_events env cfg [] l = (None, l)"
| "publish_events env cfg (event # events) l =
     (let subjectName = SubjectName (env_codec env) (cfg_Topic cfg) event;
          r = env_publish env (ln_trace l) subjectName event;
          l' = emit (Published subjectName event r) l
      in (case r of
            Some err \<Rightarrow> (Some (WrapErr ''publish'' err), emit (CountProblem problemKindPublish) l')
          | None \<Rightarrow> publish_events env cfg events
                      (emit (CountPublished subjectName (ev_Table event)) l')))"

definition emit_skipped :: "string list \<Rightarrow> listener \<Rightarrow> listener" where
  "emit_skipped tables l = l\<lparr>ln_trace := rev (map CountSkipped tables) @ ln_trace l\<rparr>"

definition publish_commit ::
  "env \<Rightarrow> listener_cfg \<Rightarrow> listener \<Rightarrow> (go_error option \<times> listener) run" where
  "publish_commit env cfg l =
     (if tx_CommitTime (ln_tx l) = None then Inr (None, l)
      else run_bind (CreateEventsWithFilter (env_uuid env) (cfg_Tables cfg) (ln_tx l) (ln_uuids l))
             (\<lambda>(events, skipped, n).
               let (r, l') = publish_events env cfg events
                               (emit_skipped skipped (l\<lparr>ln_uuids := n\<rparr>))
               in (case r of Some err \<Rightarrow> Inr (Some err, l')
                   | None \<Rightarrow> Inr (None, l'\<lparr>ln_tx := tx_Clear (ln_tx l')\<rparr>))))"

definition ack_message :: "env \<Rightarrow> 64 word \<Rightarrow> listener \<Rightarrow> go_error option \<times> listener" where
  "ack_message env walStart l =
     (if ln_lsn l < walStart then
        (let (r, l') = AckWalMessage env walStart l
         in (case r of
               Some err \<Rightarrow> (Some (WrapErr ''ack'' err), emit (CountProblem problemKindAck) l')
             | None \<Rightarrow> (None, l')))
      else (None, l))"

definition processMessage ::
  "parse_fun \<Rightarrow> env \<Rightarrow> listener_cfg \<Rightarrow> ReplicationMessage \<Rightarrow> listener \<Rightarrow>
   (go_error option \<times> listener) run" where
  "processMessage parse env cfg msg l =
     (case rm_WalMessage msg of
        None \<Rightarrow> Inr (None, l)
      | Some wm \<Rightarrow>
          run_bind (parse (wm_WalData wm) (ln_tx l)) (\<lambda>(perr, tx).
            let l1 = l\<lparr>ln_tx := tx\<rparr>
            in (case perr of
                  Some err \<Rightarrow>
                    Inr (Some (WrapErr ''parse'' err), emit (CountProblem problemKindParse) l1)
                | None \<Rightarrow>
                    run_bind (publish_commit env cfg l1) (\<lambda>(r, l2).
                      case r of Some err \<Rightarrow> Inr (Some err, l2)
                      | None \<Rightarrow> Inr (ack_message env (wm_WalStart wm) l2)))))"

definition processHeartBeat :: "env \<Rightarrow> ReplicationMessage \<Rightarrow> listener \<Rightarrow> listener" where
  "processHeartBeat env msg l =
     (case rm_ServerHeartbeat msg of
        None \<Rightarrow> l
      | Some hb \<Rightarrow> if sh_ReplyRequested hb = 1 then snd (SendStandbyStatus env l) else l)"

section \<open>The stream loop\<close>

text \<open>
  What one turn of the loop meets: a cancelled context, an error of
  \<open>WaitForReplicationMessage\<close>, no message, or a message. The result is \<open>None\<close> while the loop
  is still running at the end of the inputs, \<open>Some None\<close> after a cancelled context and
  \<open>Some (Some err)\<close> after an error.
\<close>

datatype stream_input = CtxDone | WaitFailed go_error | NoMessage | Received ReplicationMessage

fun stream_loop ::
  "parse_fun \<Rightarrow> env \<Rightarrow> listener_cfg \<Rightarrow> stream_input list \<Rightarrow> listener \<Rightarrow>
   (go_error option option \<times> listener) run" where
  "stream_loop parse env cfg [] l = Inr (None, l)"
| "stream_loop parse env cfg (CtxDone # ins) l = Inr (Some None, l)"
| "stream_loop parse env cfg (WaitFailed err # ins) l =
     Inr (Some (Some (WrapErr ''wait for replication message'' err)), l)"
| "stream_loop parse env cfg (NoMessage # ins) l = stream_loop parse env cfg ins l"
| "stream_loop parse env cfg (Received msg # ins) l =
     run_bind (processMessage parse env cfg msg l) (\<lambda>(r, l').
       stream_loop parse env cfg ins (processHeartBeat env msg l'))"

text \<open>\<open>start\<close> is the answer of \<open>StartReplication\<close> for the slot at the current LSN.\<close>

definition Stream ::
  "parse_fun \<Rightarrow> env \<Rightarrow> listener_cfg \<Rightarrow> (string \<Rightarrow> 64 word \<Rightarrow> go_error option) \<Rightarrow>
   stream_input list \<Rightarrow> listener \<Rightarrow> (go_error option option \<times> listener) run" where
  "Stream parse env cfg start ins l =
     (case start (cfg_SlotName cfg) (ln_lsn l) of
        Some err \<Rightarrow> Inr (Some (Some (WrapErr ''start replication'' err)), l)
      | None \<Rightarrow> stream_loop parse env cfg ins (l\<lparr>ln_tx := NewWalTransaction\<rparr>))"

section \<open>Start-up, connection checks and shut-down\<close>

record repo_env =
  re_CreatePublication :: "string \<Rightarrow> go_error option"
  re_GetSlotLSN :: "string \<Rightarrow> string \<times> go_error option"
  re_ParseLSN :: "string \<Rightarrow> go_error + 64 word"
  re_CreateReplicationSlotEx :: "string \<Rightarrow> string \<Rightarrow> go_error + string"

definition slotIsExists ::
  "repo_env \<Rightarrow> listener_cfg \<Rightarrow> listener \<Rightarrow> (go_error + bool) \<times> listener" where
  "slotIsExists re cfg l =
     (let (restartLSNStr, err) = re_GetSlotLSN re (cfg_SlotName cfg)
      in (case err of
            Some e \<Rightarrow> (Inl (WrapErr ''get slot lsn'' e), l)
          | None \<Rightarrow>
              if length restartLSNStr = 0 then (Inr False, l)
              else (case re_ParseLSN re restartLSNStr of
                      Inl e \<Rightarrow> (Inl (WrapErr ''parse lsn'' e), l)
                    | Inr lsn \<Rightarrow> (Inr True, setLSN lsn l))))"

text \<open>
  The part of \<open>Process\<close> before the goroutines start: \<open>Some err\<close> is its early return. A failed
  publication is only logged.
\<close>

definition Process_start ::
  "repo_env \<Rightarrow> listener_cfg \<Rightarrow> listener \<Rightarrow> go_error option \<times> listener" where
  "Process_start re cfg l =
     (let (r, l1) = slotIsExists re cfg l
      in (case r of
            Inl e \<Rightarrow> (Some (WrapErr ''slot is exists'' e), l1)
          | Inr True \<Rightarrow> (None, l1)
          | Inr False \<Rightarrow>
              (case re_CreateReplicationSlotEx re (cfg_SlotName cfg) ''pgoutput'' of
                 Inl e \<Rightarrow> (Some (WrapErr ''create replication slot'' e), l1)
               | Inr consistentPoint \<Rightarrow>
                   (case re_ParseLSN re consistentPoint of
                      Inl e \<Rightarrow> (Some (WrapErr ''parse lsn'' e), l1)
                    | Inr lsn \<Rightarrow> (None, setLSN lsn l1)))))"

datatype check_input = CheckDone | Tick bool bool

text \<open>\<open>checkConnection\<close>: a tick carries the replicator's and the repository's \<open>IsAlive\<close>.\<close>

fun checkConnection :: "check_input list \<Rightarrow> go_error option option" where
  "checkConnection [] = None"
| "checkConnection (CheckDone # ins) = Some None"
| "checkConnection (Tick repl repo # ins) =
     (if \<not> repl then Some (Some (WrapErr ''replicator'' errReplConnectionIsLost))
      else if \<not> repo then Some (Some (WrapErr ''repository'' errConnectionIsLost))
      else checkConnection ins)"

text \<open>\<open>Stop\<close>, given what closing the repository and the replicator return; the second component
  says whether the replicator was closed.\<close>

definition Stop :: "go_error option \<Rightarrow> go_error option \<Rightarrow> go_error option \<times> bool" where
  "Stop repoClose replClose =
     (case repoClose of
        Some e \<Rightarrow> (Some (WrapErr ''repository close'' e), False)
      | None \<Rightarrow> (case replClose of
                   Some e \<Rightarrow> (Some (WrapErr ''replicator close'' e), True)
                 | None \<Rightarrow> (None, True)))"

section \<open>Traces\<close>

text \<open>The events the publisher accepted, and the positions sent to the server, oldest first.\<close>

fun accepted :: "effect list \<Rightarrow> Event list" where
  "accepted [] = []"
| "accepted (Published s e None # tr) = accepted tr @ [e]"
| "accepted (_ # tr) = accepted tr"

fun attempted :: "effect list \<Rightarrow> Event list" where
  "attempted [] = []"
| "attempted (Published s e r # tr) = attempted tr @ [e]"
| "attempted (_ # tr) = attempted tr"

fun positions :: "effect list \<Rightarrow> 64 word list" where
  "positions [] = []"
| "positions (StatusSent st r # tr) = positions tr @ [ss_WalWritePosition st]"
| "positions (_ # tr) = positions tr"

text \<open>The event the code makes of an action, up to its fresh uuid and commit time.\<close>

definition event_for :: "ActionData \<Rightarrow> Event \<Rightarrow> bool" where
  "event_for a e =
     (ev_Schema e = ad_Schema a \<and> ev_Table e = ad_Table a \<and>
      ev_Action e = ActionKind_string (ad_Kind a) \<and>
      ev_Data e = columns_map Map.empty (ad_NewColumns a) \<and>
      ev_DataOld e = columns_map Map.empty (ad_OldColumns a))"

section \<open>Frames\<close>

lemma SendStandbyStatus_frame [frame_simps]:
  "ln_lsn (snd (SendStandbyStatus env l)) = ln_lsn l"
  "ln_tx (snd (SendStandbyStatus env l)) = ln_tx l"
  "accepted (ln_trace (snd (SendStandbyStatus env l))) = accepted (ln_trace l)"
  "attempted (ln_trace (snd (SendStandbyStatus env l))) = attempted (ln_trace l)"
  by (auto simp: SendStandbyStatus_def emit_def Let_def split: sum.splits option.splits)

lemma SendStandbyStatus_positions:
  "positions (ln_trace (snd (SendStandbyStatus env l))) =
     (case env_new_status env (ln_lsn l) of Inl _ \<Rightarrow> positions (ln_trace l)
      | Inr st \<Rightarrow> positions (ln_trace l) @ [ss_WalWritePosition st])"
  by (auto simp: SendStandbyStatus_def emit_def Let_def split: sum.splits option.splits)

lemma AckWalMessage_snd: "snd (AckWalMessage env lsn l) = snd (SendStandbyStatus env (setLSN lsn l))"
  by (auto simp: AckWalMessage_def Let_def split: prod.splits option.splits)

lemma ack_message_frame [frame_simps]:
  "ln_tx (snd (ack_message env w l)) = ln_tx l"
  "accepted (ln_trace (snd (ack_message env w l))) = accepted (ln_trace l)"
  "attempted (ln_trace (snd (ack_message env w l))) = attempted (ln_trace l)"
  "ln_lsn (snd (ack_message env w l)) = max (ln_lsn l) w"
  using SendStandbyStatus_frame [of env "setLSN w l"] AckWalMessage_snd [of env w l]
  by (auto simp: ack_message_def Let_def emit_def setLSN_def max_def
      split: prod.splits option.splits)

lemma ack_message_positions:
  "positions (ln_trace (snd (ack_message env w l))) =
     (if ln_lsn l < w
      then (case env_new_status env w of Inl _ \<Rightarrow> positions (ln_trace l)
            | Inr st \<Rightarrow> positions (ln_trace l) @ [ss_WalWritePosition st])
      else positions (ln_trace l))"
  using SendStandbyStatus_positions [of env "setLSN w l"] AckWalMessage_snd [of env w l]
  by (auto simp: ack_message_def Let_def emit_def setLSN_def
      split: prod.splits option.splits sum.splits)

lemma publish_events_frame [frame_simps]:
  "ln_lsn (snd (publish_events env cfg evs l)) = ln_lsn l"
  "ln_tx (snd (publish_events env cfg evs l)) = ln_tx l"
  "positions (ln_trace (snd (publish_events env cfg evs l))) = positions (ln_trace l)"
  by (induction evs arbitrary: l) (auto simp: Let_def emit_def split: option.splits)

lemma publish_events_attempted:
  "\<exists>k. k \<le> length evs \<and>
     attempted (ln_trace (snd (publish_events env cfg evs l))) = attempted (ln_trace l) @ take k evs"
proof (induction evs arbitrary: l)
  case (Cons e evs)
  let ?s = "SubjectName (env_codec env) (cfg_Topic cfg) e"
  let ?r = "env_publish env (ln_trace l) ?s e"
  show ?case
  proof (cases ?r)
    case (Some err)
    then show ?thesis by (auto simp: Let_def emit_def intro!: exI [of _ 1])
  next
    case None
    from Cons.IH [of "emit (CountPublished ?s (ev_Table e)) (emit (Published ?s e ?r) l)"]
    obtain k where "k \<le> length evs" and
      "attempted (ln_trace (snd (publish_events env cfg evs
          (emit (CountPublished ?s (ev_Table e)) (emit (Published ?s e ?r) l))))) =
       attempted (ln_trace l) @ [e] @ take k evs"
      by (auto simp: emit_def)
    with None show ?thesis by (auto simp: Let_def intro!: exI [of _ "Suc k"])
  qed
qed simp

lemma publish_events_accepted:
  "fst (publish_events env cfg evs l) = None \<Longrightarrow>
     accepted (ln_trace (snd (publish_events env cfg evs l))) = accepted (ln_trace l) @ evs"
  by (induction evs arbitrary: l) (auto simp: Let_def emit_def split: option.splits)

lemma publish_events_accepted_mono:
  "set (accepted (ln_trace l)) \<subseteq> set (accepted (ln_trace (snd (publish_events env cfg evs l))))"
proof (induction evs arbitrary: l)
  case (Cons e evs)
  show ?case
    using Cons [of "emit (CountPublished s (ev_Table e)) (emit (Published s e None) l)" for s]
    by (fastforce simp: Let_def emit_def split: option.splits)
qed simp

lemma publish_events_ok:
  "(\<And>h s e. env_publish env h s e = None) \<Longrightarrow> fst (publish_events env cfg evs l) = None"
  by (induction evs arbitrary: l) (auto simp: Let_def)

lemma emit_skipped_frame [frame_simps]:
  "ln_lsn (emit_skipped ts l) = ln_lsn l"
  "ln_tx (emit_skipped ts l) = ln_tx l"
  "emit_skipped [] l = l"
  by (simp_all add: emit_skipped_def)

section \<open>A commit\<close>

text \<open>The events of a transaction with a commit time, for uuids drawn from \<open>n\<close> on.\<close>

definition tx_events :: "(nat \<Rightarrow> string) \<Rightarrow> WalTransaction \<Rightarrow> go_time \<Rightarrow> nat \<Rightarrow> Event list" where
  "tx_events u tx t n = map (\<lambda>(i, item). \<lparr>ev_ID = u i, ev_Schema = ad_Schema item,
     ev_Table = ad_Table item, ev_Action = ActionKind_string (ad_Kind item),
     ev_Data = columns_map Map.empty (ad_NewColumns item),
     ev_DataOld = columns_map Map.empty (ad_OldColumns item), ev_EventTime = t\<rparr>)
     (zip [n ..< n + length (tx_Actions tx)] (tx_Actions tx))"

lemma tx_events_length [simp]: "length (tx_events u tx t n) = length (tx_Actions tx)"
  by (simp add: tx_events_def)

lemma tx_events_nth:
  "i < length (tx_Actions tx) \<Longrightarrow> event_for (tx_Actions tx ! i) (tx_events u tx t n ! i) \<and>
     ev_ID (tx_events u tx t n ! i) = u (n + i) \<and> ev_EventTime (tx_events u tx t n ! i) = t"
  by (simp add: tx_events_def event_for_def)

lemma tx_events_set: "a \<in> set (tx_Actions tx) \<Longrightarrow> \<exists>e\<in>set (tx_events u tx t n). event_for a e"
  by (metis in_set_conv_nth tx_events_length tx_events_nth)

lemma CreateEvents_Some:
  "tx_CommitTime tx = Some t \<Longrightarrow> CreateEventsWithFilter u tm tx n =
     Inr (tx_events u tx t n, [], n + length (tx_Actions tx))"
  by (simp add: CreateEventsWithFilter_def create_events_loop_Some tx_events_def)

lemma publish_commit_Some:
  assumes "tx_CommitTime (ln_tx l) = Some t"
    and "evs = tx_events (env_uuid env) (ln_tx l) t (ln_uuids l)"
    and "publish_events env cfg evs (l\<lparr>ln_uuids := ln_uuids l + length evs\<rparr>) = (r, x)"
  shows "publish_commit env cfg l =
    Inr (r, if r = None then x\<lparr>ln_tx := tx_Clear (ln_tx l)\<rparr> else x)"
proof -
  have "ln_tx x = ln_tx l"
    using publish_events_frame(2) [of env cfg evs "l\<lparr>ln_uuids := ln_uuids l + length evs\<rparr>"]
      assms(3) by simp
  with assms show ?thesis
    by (cases r) (simp_all add: publish_commit_def CreateEvents_Some frame_simps)
qed

lemma publish_commit_cases:
  assumes "publish_commit env cfg l = Inr (r, l')"
  obtains (uncommitted) "tx_CommitTime (ln_tx l) = None" "r = None" "l' = l"
  | (published) t evs where "tx_CommitTime (ln_tx l) = Some t"
      "evs = tx_events (env_uuid env) (ln_tx l) t (ln_uuids l)" "r = None"
      "ln_tx l' = tx_Clear (ln_tx l)" "ln_lsn l' = ln_lsn l"
      "accepted (ln_trace l') = accepted (ln_trace l) @ evs"
      "positions (ln_trace l') = positions (ln_trace l)"
  | (failed) t err where "tx_CommitTime (ln_tx l) = Some t" "r = Some err"
      "ln_tx l' = ln_tx l" "ln_lsn l' = ln_lsn l"
      "set (accepted (ln_trace l)) \<subseteq> set (accepted (ln_trace l'))"
      "positions (ln_trace l') = positions (ln_trace l)"
proof (cases "tx_CommitTime (ln_tx l)")
  case None
  with assms have "r = None" and "l' = l" by (simp_all add: publish_commit_def)
  with uncommitted [OF None] show ?thesis by blast
next
  case (Some t)
  define evs where evs: "evs = tx_events (env_uuid env) (ln_tx l) t (ln_uuids l)"
  define l1 where l1: "l1 = l\<lparr>ln_uuids := ln_uuids l + length evs\<rparr>"
  obtain r1 x where p: "publish_events env cfg evs l1 = (r1, x)"
    by (cases "publish_events env cfg evs l1")
  from assms publish_commit_Some [OF Some evs p [unfolded l1]] have r: "r = r1" and
    l': "l' = (if r1 = None then x\<lparr>ln_tx := tx_Clear (ln_tx l)\<rparr> else x)"
    by auto
  have f: "ln_tx x = ln_tx l" "ln_lsn x = ln_lsn l"
    "positions (ln_trace x) = positions (ln_trace l)"
    using publish_events_frame [of env cfg evs l1] p by (simp_all add: l1)
  show ?thesis
  proof (cases r1)
    case None
    with publish_events_accepted [of env cfg evs l1] p
    have "accepted (ln_trace x) = accepted (ln_trace l) @ evs" by (simp add: l1)
    with None r l' f show ?thesis by - (rule published [OF Some evs]; simp)
  next
    case (Some err)
    from publish_events_accepted_mono [of l1 env cfg evs] p
    have "set (accepted (ln_trace l)) \<subseteq> set (accepted (ln_trace x))" by (simp add: l1)
    with Some r l' f show ?thesis
      by - (rule failed [OF \<open>tx_CommitTime (ln_tx l) = Some t\<close>]; simp)
  qed
qed

section \<open>A message\<close>

lemma processMessage_cases:
  assumes "processMessage parse env cfg msg l = Inr (r, l')"
  obtains (empty) "rm_WalMessage msg = None" "r = None" "l' = l"
  | (unparsed) wm err tx where "rm_WalMessage msg = Some wm"
      "parse (wm_WalData wm) (ln_tx l) = Inr (Some err, tx)" "r = Some (WrapErr ''parse'' err)"
      "l' = emit (CountProblem problemKindParse) (l\<lparr>ln_tx := tx\<rparr>)"
  | (unpublished) wm tx err where "rm_WalMessage msg = Some wm"
      "parse (wm_WalData wm) (ln_tx l) = Inr (None, tx)"
      "publish_commit env cfg (l\<lparr>ln_tx := tx\<rparr>) = Inr (Some err, l')" "r = Some err"
  | (acked) wm tx l2 where "rm_WalMessage msg = Some wm"
      "parse (wm_WalData wm) (ln_tx l) = Inr (None, tx)"
      "publish_commit env cfg (l\<lparr>ln_tx := tx\<rparr>) = Inr (None, l2)"
      "ack_message env (wm_WalStart wm) l2 = (r, l')"
proof (cases "rm_WalMessage msg")
  case None
  with assms show ?thesis by (intro empty) (auto simp: processMessage_def)
next
  case (Some wm)
  with assms obtain perr tx where p: "parse (wm_WalData wm) (ln_tx l) = Inr (perr, tx)"
    by (auto simp: processMessage_def run_simps)
  show ?thesis
  proof (cases perr)
    case (Some err)
    with assms p \<open>rm_WalMessage msg = Some wm\<close> show ?thesis
      by - (rule unparsed, auto simp: processMessage_def)
  next
    case None
    with assms p Some obtain r2 l2 where c: "publish_commit env cfg (l\<lparr>ln_tx := tx\<rparr>) = Inr (r2, l2)"
      by (auto simp: processMessage_def run_simps)
    show ?thesis
    proof (cases r2)
      case None
      with c assms p \<open>perr = None\<close> Some show ?thesis
        by - (rule acked, auto simp: processMessage_def)
    next
      case (Some err)
      with c assms p \<open>perr = None\<close> \<open>rm_WalMessage msg = Some wm\<close> show ?thesis
        by - (rule unpublished, auto simp: processMessage_def)
    qed
  qed
qed

lemma processMessage_lsn:
  assumes "processMessage parse env cfg msg l = Inr (r, l')"
  shows "ln_lsn l \<le> ln_lsn l' \<and>
    (ln_lsn l' \<noteq> ln_lsn l \<longrightarrow> tx_CommitTime (ln_tx l') = None \<and>
      (\<exists>wm. rm_WalMessage msg = Some wm \<and> ln_lsn l' = wm_WalStart wm))"
  using assms
proof (cases rule: processMessage_cases)
  case (unpublished wm tx err)
  from unpublished(3) show ?thesis
    by (cases rule: publish_commit_cases) auto
next
  case (acked wm tx l2)
  from ack_message_frame [of env "wm_WalStart wm" l2] acked(4)
  have a: "ln_tx l' = ln_tx l2" "ln_lsn l' = max (ln_lsn l2) (wm_WalStart wm)" by simp_all
  from acked(3) have "ln_lsn l2 = ln_lsn l \<and> tx_CommitTime (ln_tx l2) = None"
    by (cases rule: publish_commit_cases) (auto simp: tx_Clear_def)
  with a acked(1) show ?thesis by (auto simp: max_def)
qed (auto simp: emit_def)

lemma processHeartBeat_frame [frame_simps]:
  "ln_lsn (processHeartBeat env msg l) = ln_lsn l"
  "ln_tx (processHeartBeat env msg l) = ln_tx l"
  "accepted (ln_trace (processHeartBeat env msg l)) = accepted (ln_trace l)"
  by (auto simp: processHeartBeat_def frame_simps split: option.splits)

text \<open>
  The positions sent so far are in order and none is past the acknowledged LSN, provided
  \<open>NewStandbyStatus\<close> puts the position it is given into the status.
\<close>

definition status_law :: "env \<Rightarrow> bool" where
  "status_law env = (\<forall>lsn st. env_new_status env lsn = Inr st \<longrightarrow> ss_WalWritePosition st = lsn)"

definition lsn_ok :: "listener \<Rightarrow> bool" where
  "lsn_ok l = (sorted (positions (ln_trace l)) \<and>
     (\<forall>p\<in>set (positions (ln_trace l)). p \<le> ln_lsn l))"

lemma SendStandbyStatus_lsn_ok:
  assumes "status_law env" and "lsn_ok l" shows "lsn_ok (snd (SendStandbyStatus env l))"
  using assms SendStandbyStatus_positions [of env l]
  by (auto simp: lsn_ok_def frame_simps sorted_append status_law_def split: sum.splits)

lemma ack_message_lsn_ok:
  assumes "status_law env" and "lsn_ok l" shows "lsn_ok (snd (ack_message env w l))"
proof (cases "ln_lsn l < w")
  case True
  with assms have "\<forall>p\<in>set (positions (ln_trace l)). p \<le> w"
    by (auto simp: lsn_ok_def)
  with True assms ack_message_positions [of env w l] ack_message_frame(4) [of env w l]
  show ?thesis
    by (auto simp: lsn_ok_def sorted_append status_law_def split: sum.splits)
next
  case False
  with assms show ?thesis by (simp add: ack_message_def)
qed

lemma processMessage_lsn_ok:
  assumes "status_law env" and "lsn_ok l" and "processMessage parse env cfg msg l = Inr (r, l')"
  shows "lsn_ok l'"
  using assms(3)
proof (cases rule: processMessage_cases)
  case (unpublished wm tx err)
  from unpublished(3) assms(2) show ?thesis
    by (cases rule: publish_commit_cases) (auto simp: lsn_ok_def)
next
  case (acked wm tx l2)
  from acked(3) assms(2) have "lsn_ok l2"
    by (cases rule: publish_commit_cases) (auto simp: lsn_ok_def)
  from ack_message_lsn_ok [OF assms(1) this, of "wm_WalStart wm"] acked(4) show ?thesis by simp
qed (use assms(2) in \<open>auto simp: lsn_ok_def emit_def\<close>)

lemma stream_loop_invariant:
  assumes step: "\<And>msg l r l'. I l \<Longrightarrow> processMessage parse env cfg msg l = Inr (r, l') \<Longrightarrow>
      I (processHeartBeat env msg l')"
  shows "I l \<Longrightarrow> stream_loop parse env cfg ins l = Inr (res, l') \<Longrightarrow> I l'"
proof (induction ins arbitrary: l)
  case (Cons i ins)
  show ?case
  proof (cases i)
    case (Received msg)
    with Cons.prems(2) obtain r l1 where p: "processMessage parse env cfg msg l = Inr (r, l1)"
      and s: "stream_loop parse env cfg ins (processHeartBeat env msg l1) = Inr (res, l')"
      by (auto simp: run_simps)
    from Cons.IH [OF step [OF Cons.prems(1) p] s] show ?thesis .
  qed (use Cons in auto)
qed simp

lemma processHeartBeat_lsn_ok:
  "status_law env \<Longrightarrow> lsn_ok l \<Longrightarrow> lsn_ok (processHeartBeat env msg l)"
  using SendStandbyStatus_lsn_ok [of env l] by (auto simp: processHeartBeat_def split: option.splits)

lemma stream_loop_lsn_ok:
  assumes "status_law env" and "lsn_ok l" and "stream_loop parse env cfg ins l = Inr (res, l')"
  shows "lsn_ok l' \<and> ln_lsn l \<le> ln_lsn l'"
proof (rule stream_loop_invariant [of "\<lambda>x. lsn_ok x \<and> ln_lsn l \<le> ln_lsn x", OF _ _ assms(3)])
  fix msg x r y
  assume "lsn_ok x \<and> ln_lsn l \<le> ln_lsn x" and p: "processMessage parse env cfg msg x = Inr (r, y)"
  with processMessage_lsn_ok [OF assms(1) _ p] processMessage_lsn [OF p] processHeartBeat_lsn_ok
    assms(1)
  show "lsn_ok (processHeartBeat env msg y) \<and> ln_lsn l \<le> ln_lsn (processHeartBeat env msg y)"
    by (auto simp: frame_simps)
qed (use assms(2) in simp)

section \<open>No action is lost\<close>

text \<open>
  Whatever the parser, as long as it meets its contract: an action the transaction holds is, after
  any messages, still held or published.
\<close>

definition kept_or_accepted :: "ActionData \<Rightarrow> listener \<Rightarrow> bool" where
  "kept_or_accepted a l =
     (a \<in> set (tx_Actions (ln_tx l)) \<or> (\<exists>e\<in>set (accepted (ln_trace l)). event_for a e))"

lemma publish_commit_kept:
  assumes "publish_commit env cfg l = Inr (r, l')" and "kept_or_accepted a l"
  shows "kept_or_accepted a l'"
  using assms(1)
proof (cases rule: publish_commit_cases)
  case (published t evs)
  with assms(2) tx_events_set [of a "ln_tx l"] show ?thesis
    by (fastforce simp: kept_or_accepted_def)
next
  case (failed t err)
  with assms(2) show ?thesis by (auto simp: kept_or_accepted_def)
qed (use assms(2) in simp)

context wal_parser
begin

lemma parse_kept:
  assumes "parse m (ln_tx l) = Inr (err, tx)" and "kept_or_accepted a l"
  shows "kept_or_accepted a (l\<lparr>ln_tx := tx\<rparr>)"
  using actions_prefix [OF assms(1)] assms(2) by (auto simp: kept_or_accepted_def)

lemma message_kept:
  assumes "processMessage parse env cfg msg l = Inr (r, l')" and "kept_or_accepted a l"
  shows "kept_or_accepted a (processHeartBeat env msg l')"
proof -
  from assms(1) have "kept_or_accepted a l'"
  proof (cases rule: processMessage_cases)
    case empty
    with assms(2) show ?thesis by simp
  next
    case (unparsed wm err tx)
    from parse_kept [OF unparsed(2) assms(2)] unparsed(4) show ?thesis
      by (simp add: kept_or_accepted_def emit_def)
  next
    case (unpublished wm tx err)
    show ?thesis
      by (rule publish_commit_kept [OF unpublished(3) parse_kept [OF unpublished(2) assms(2)]])
  next
    case (acked wm tx l2)
    from publish_commit_kept [OF acked(3) parse_kept [OF acked(2) assms(2)]]
      ack_message_frame [of env "wm_WalStart wm" l2] acked(4)
    show ?thesis by (simp add: kept_or_accepted_def)
  qed
  then show ?thesis by (simp add: kept_or_accepted_def frame_simps)
qed

lemma stream_kept:
  assumes "stream_loop parse env cfg ins l = Inr (res, l')" and "kept_or_accepted a l"
  shows "kept_or_accepted a l'"
  by (rule stream_loop_invariant [of "kept_or_accepted a", OF message_kept assms(2,1)])

end

section \<open>Properties\<close>

text \<open>An environment for the witnesses: every service accepts, values are printed as nothing.\<close>

definition calm_env :: env where
  "calm_env = \<lparr>env_codec = calm_codec, env_uuid = nat_to_string,
     env_publish = (\<lambda>_ _ _. None),
     env_new_status = (\<lambda>lsn. Inr \<lparr>ss_WalWritePosition = lsn, ss_ReplyRequested = 1\<rparr>),
     env_send_status = (\<lambda>_ _. None)\<rparr>"

definition demo_cfg :: listener_cfg where
  "demo_cfg = \<lparr>cfg_SlotName = ''slot'', cfg_Topic = ''wal'', cfg_Tables = Map.empty\<rparr>"

definition demo_action :: ActionData where
  "demo_action = \<lparr>ad_Schema = ''s'', ad_Table = ''t'', ad_Kind = ActionKindDelete,
     ad_OldColumns = [], ad_NewColumns = []\<rparr>"

definition demo_listener :: listener where
  "demo_listener = \<lparr>ln_lsn = 3, ln_tx = NewWalTransaction\<lparr>tx_LSN := 5, tx_CommitTime := Some 0,
     tx_Actions := [demo_action]\<rparr>, ln_uuids = 0, ln_trace = []\<rparr>"

text \<open>An origin message, which the parser ignores, at position 9.\<close>

definition demo_message :: ReplicationMessage where
  "demo_message = \<lparr>rm_WalMessage = Some \<lparr>wm_WalStart = 9, wm_WalData = [OriginMsgType]\<rparr>,
     rm_ServerHeartbeat = None\<rparr>"

lemmas demo_defs = calm_env_def demo_cfg_def demo_listener_def demo_message_def

lemma calm_env_law [simp]: "status_law calm_env"
  by (simp add: status_law_def calm_env_def)

lemma demo_run:
  "\<exists>l'. stream_loop (ParseWalMessage cd bo) calm_env demo_cfg [NoMessage, Received demo_message]
      demo_listener = Inr (None, l') \<and> tx_Actions (ln_tx l') = [] \<and> ln_lsn l' = 9 \<and>
      positions (ln_trace l') = [9] \<and> length (accepted (ln_trace l')) = 1"
  by (simp add: demo_defs processMessage_def ParseWalMessage_def msg_types publish_commit_def
      CreateEventsWithFilter_def create_events_loop_Some emit_skipped_def ack_message_def
      AckWalMessage_def SendStandbyStatus_def setLSN_def emit_def tx_Clear_def
      processHeartBeat_def demo_action_def Let_def)

text \<open>
  C1. The stream never drops a change. Whatever messages arrive, whether or not they parse, and
  whatever the publisher, the replicator and the repository answer: every action held by the
  transaction when the loop starts is at its end still held, or an event with its schema, table,
  kind, old and new values was accepted by the publisher.
\<close>

theorem stream_loses_no_action:
  assumes "stream_loop (ParseWalMessage cd bo) env cfg ins l = Inr (res, l')"
    and "a \<in> set (tx_Actions (ln_tx l))"
  shows "a \<in> set (tx_Actions (ln_tx l')) \<or> (\<exists>e\<in>set (accepted (ln_trace l')). event_for a e)"
proof -
  have "kept_or_accepted a l" using assms(2) by (simp add: kept_or_accepted_def)
  from binary_parser.stream_kept [OF assms(1) this] show ?thesis by (simp add: kept_or_accepted_def)
qed

theorem stream_loses_no_action_witness:
  "\<exists>l'. stream_loop (ParseWalMessage calm_codec BigEndian) calm_env demo_cfg [NoMessage, Received demo_message]
      demo_listener = Inr (None, l') \<and> (\<exists>e\<in>set (accepted (ln_trace l')). event_for demo_action e)"
proof -
  from demo_run obtain l' where l': "stream_loop (ParseWalMessage calm_codec BigEndian) calm_env demo_cfg
      [NoMessage, Received demo_message] demo_listener = Inr (None, l')"
    "tx_Actions (ln_tx l') = []" by blast
  have "demo_action \<in> set (tx_Actions (ln_tx demo_listener))" by (simp add: demo_listener_def)
  from stream_loses_no_action [OF l'(1) this] l' show ?thesis by auto
qed

text \<open>
  C2. A position is acknowledged only when nothing committed is waiting: if processing a message
  changes the LSN, it becomes that message's \<open>WalStart\<close>, it has grown, and the transaction's
  commit has been published and cleared. An LSN never goes back.
\<close>

theorem ack_only_after_publish:
  assumes "processMessage (ParseWalMessage cd bo) env cfg msg l = Inr (r, l')"
  shows "ln_lsn l' = ln_lsn l \<or>
    ln_lsn l < ln_lsn l' \<and> tx_CommitTime (ln_tx l') = None \<and>
      (\<exists>wm. rm_WalMessage msg = Some wm \<and> ln_lsn l' = wm_WalStart wm)"
  using processMessage_lsn [OF assms] by auto

theorem ack_only_after_publish_witness:
  "\<exists>r l'. processMessage (ParseWalMessage calm_codec BigEndian) calm_env demo_cfg demo_message demo_listener =
     Inr (r, l') \<and> ln_lsn demo_listener < ln_lsn l' \<and> tx_CommitTime (ln_tx l') = None"
proof -
  have "\<exists>r l'. processMessage (ParseWalMessage calm_codec BigEndian) calm_env demo_cfg demo_message demo_listener =
     Inr (r, l') \<and> ln_lsn l' \<noteq> ln_lsn demo_listener"
    by (simp add: demo_defs processMessage_def ParseWalMessage_def msg_types publish_commit_def
      CreateEventsWithFilter_def create_events_loop_Some emit_skipped_def ack_message_def
      AckWalMessage_def SendStandbyStatus_def setLSN_def emit_def tx_Clear_def Let_def)
  then show ?thesis using ack_only_after_publish by blast
qed

text \<open>
  The statuses a stream sends are in order and never ahead of the acknowledged LSN, when
  \<open>NewStandbyStatus\<close> builds a status for the position it is given.
\<close>

theorem stream_statuses_ordered:
  assumes "status_law env" and "ln_trace l = []"
    and "stream_loop (ParseWalMessage cd bo) env cfg ins l = Inr (res, l')"
  shows "sorted (positions (ln_trace l')) \<and> (\<forall>p\<in>set (positions (ln_trace l')). p \<le> ln_lsn l')"
proof -
  have "lsn_ok l" using assms(2) by (simp add: lsn_ok_def)
  from stream_loop_lsn_ok [OF assms(1) this assms(3)] show ?thesis by (simp add: lsn_ok_def)
qed

theorem stream_statuses_ordered_witness:
  "\<exists>l'. stream_loop (ParseWalMessage calm_codec BigEndian) calm_env demo_cfg [NoMessage, Received demo_message]
      demo_listener = Inr (None, l') \<and> positions (ln_trace l') = [9] \<and>
      (\<forall>p\<in>set (positions (ln_trace l')). p \<le> ln_lsn l')"
proof -
  from demo_run obtain l' where l': "stream_loop (ParseWalMessage calm_codec BigEndian) calm_env demo_cfg
      [NoMessage, Received demo_message] demo_listener = Inr (None, l')"
    "positions (ln_trace l') = [9]" by blast
  have "ln_trace demo_listener = []" by (simp add: demo_listener_def)
  from stream_statuses_ordered [OF calm_env_law this l'(1)] l' show ?thesis by blast
qed

text \<open>
  C3. A commit message with the transaction's LSN, and a publisher that accepts: the events of all
  actions are accepted in the order of the actions, each with the commit's time and its own uuid,
  the transaction is emptied but keeps its relations, and a larger \<open>WalStart\<close> is acknowledged.
\<close>

theorem commit_publishes_in_order:
  assumes "0 < sint (tx_LSN (ln_tx l))" and "\<And>h s e. env_publish env h s e = None"
    and "rm_WalMessage msg = Some \<lparr>wm_WalStart = w,
           wm_WalData = encode_commit bo fl (tx_LSN (ln_tx l)) tlsn us\<rparr>"
  shows "\<exists>r l'. processMessage (ParseWalMessage cd bo) env cfg msg l = Inr (r, l') \<and>
    accepted (ln_trace l') = accepted (ln_trace l) @
      tx_events (env_uuid env) (ln_tx l) (postgresEpoch + sint (us * 1000)) (ln_uuids l) \<and>
    ln_tx l' = (ln_tx l)\<lparr>tx_BeginTime := None, tx_CommitTime := None, tx_Actions := []\<rparr> \<and>
    ln_lsn l' = max (ln_lsn l) w"
proof -
  let ?t = "postgresEpoch + sint (us * 1000)"
  let ?tx = "(ln_tx l)\<lparr>tx_CommitTime := Some ?t\<rparr>"
  let ?l = "l\<lparr>ln_tx := ?tx\<rparr>"
  have p: "ParseWalMessage cd bo (encode_commit bo fl (tx_LSN (ln_tx l)) tlsn us) (ln_tx l) =
      Inr (None, ?tx)"
  proof -
    have "read_from (getCommitMsg bo) (tl (encode_commit bo fl (tx_LSN (ln_tx l)) tlsn us)) =
      Inr \<lparr>commit_Flags = fl, commit_LSN = tx_LSN (ln_tx l), commit_TransactionLSN = tlsn,
        commit_Timestamp = ?t\<rparr>"
      by (rule read_from_parses [OF parses_getCommit])
    then show ?thesis by (simp add: encode_commit_def parse_dispatch)
  qed
  have c: "tx_CommitTime (ln_tx ?l) = Some ?t" by simp
  obtain r x where e: "publish_events env cfg (tx_events (env_uuid env) (ln_tx ?l) ?t (ln_uuids ?l))
      (?l\<lparr>ln_uuids := ln_uuids ?l + length (tx_events (env_uuid env) (ln_tx ?l) ?t (ln_uuids ?l))\<rparr>)
      = (r, x)" by fastforce
  from publish_events_ok [of env cfg] assms(2) e have "r = None" by (metis fst_conv)
  with publish_commit_Some [OF c refl e] obtain l2 where
    l2: "publish_commit env cfg ?l = Inr (None, l2)" by simp
  from l2 have "accepted (ln_trace l2) = accepted (ln_trace l) @
      tx_events (env_uuid env) (ln_tx l) ?t (ln_uuids l) \<and> ln_lsn l2 = ln_lsn l \<and>
      ln_tx l2 = (ln_tx l)\<lparr>tx_BeginTime := None, tx_CommitTime := None, tx_Actions := []\<rparr>"
    by (cases rule: publish_commit_cases) (auto simp: tx_events_def tx_Clear_def)
  with p l2 assms(3) ack_message_frame [of env w l2] show ?thesis
    by (cases "ack_message env w l2") (simp add: processMessage_def)
qed

theorem commit_publishes_in_order_witness:
  "\<exists>r l'. processMessage (ParseWalMessage calm_codec BigEndian) calm_env demo_cfg
      \<lparr>rm_WalMessage = Some \<lparr>wm_WalStart = 12, wm_WalData = encode_commit BigEndian 0 5 5 0\<rparr>,
       rm_ServerHeartbeat = None\<rparr> demo_listener = Inr (r, l') \<and>
    length (accepted (ln_trace l')) = 1 \<and> tx_Actions (ln_tx l') = [] \<and> ln_lsn l' = 12"
  using commit_publishes_in_order [of demo_listener calm_env
      "\<lparr>rm_WalMessage = Some \<lparr>wm_WalStart = 12, wm_WalData = encode_commit BigEndian 0 5 5 0\<rparr>,
       rm_ServerHeartbeat = None\<rparr>" 12 BigEndian 0 5 0 calm_codec demo_cfg]
  by (auto simp: demo_listener_def calm_env_def)

text \<open>
  When the publisher refuses an event, \<open>processMessage\<close> returns that error, the transaction
  keeps its commit time and all its actions, no position is acknowledged, and the events tried were
  a prefix of the commit's.
\<close>

theorem publish_failure_keeps_commit:
  assumes "parse (wm_WalData wm) (ln_tx l) = Inr (None, tx)" and "tx_CommitTime tx = Some t"
    and "rm_WalMessage msg = Some wm" and "tx_Actions tx \<noteq> []"
    and "\<And>h s e. env_publish env h s e = Some (err e)"
  shows "\<exists>l' e. processMessage parse env cfg msg l = Inr (Some (WrapErr ''publish'' (err e)), l') \<and>
    e = hd (tx_events (env_uuid env) tx t (ln_uuids l)) \<and> ln_tx l' = tx \<and>
    ln_lsn l' = ln_lsn l \<and> positions (ln_trace l') = positions (ln_trace l) \<and>
    attempted (ln_trace l') = attempted (ln_trace l) @ [e]"
proof -
  let ?evs = "tx_events (env_uuid env) tx t (ln_uuids l)"
  from assms(4) have "length ?evs \<noteq> 0" by simp
  then obtain e es where evs: "?evs = e # es" by (cases ?evs) auto
  obtain r x where p: "publish_events env cfg ?evs
      ((l\<lparr>ln_tx := tx\<rparr>)\<lparr>ln_uuids := ln_uuids (l\<lparr>ln_tx := tx\<rparr>) + length ?evs\<rparr>) = (r, x)"
    by fastforce
  with evs assms(5) have "r = Some (WrapErr ''publish'' (err e))" and "ln_tx x = tx" and
    "ln_lsn x = ln_lsn l" and "positions (ln_trace x) = positions (ln_trace l)" and
    "attempted (ln_trace x) = attempted (ln_trace l) @ [e]"
    by (auto simp: Let_def emit_def)
  with publish_commit_Some [of "l\<lparr>ln_tx := tx\<rparr>" t ?evs env cfg r x] assms p evs show ?thesis
    by (simp add: processMessage_def)
qed

theorem publish_failure_keeps_commit_witness:
  "\<exists>l' err. processMessage (ParseWalMessage calm_codec BigEndian)
      (calm_env\<lparr>env_publish := (\<lambda>_ _ _. Some (GoErr ''down''))\<rparr>) demo_cfg demo_message
      demo_listener = Inr (Some err, l') \<and> tx_Actions (ln_tx l') = [demo_action] \<and> ln_lsn l' = 3"
proof -
  let ?tx = "ln_tx demo_listener"
  have p: "ParseWalMessage calm_codec BigEndian (wm_WalData \<lparr>wm_WalStart = 9, wm_WalData = [OriginMsgType]\<rparr>) ?tx =
      Inr (None, ?tx)" by (simp add: ParseWalMessage_def msg_types)
  show ?thesis
    using publish_failure_keeps_commit [where parse = "ParseWalMessage calm_codec BigEndian" and tx = ?tx and t = 0
        and wm = "\<lparr>wm_WalStart = 9, wm_WalData = [OriginMsgType]\<rparr>" and l = demo_listener
        and msg = demo_message and env = "calm_env\<lparr>env_publish := (\<lambda>_ _ _. Some (GoErr ''down''))\<rparr>"
        and err = "\<lambda>_. GoErr ''down''" and cfg = demo_cfg] p
    by (force simp: demo_listener_def demo_message_def)
qed

text \<open>
  The table filter has no effect: for a committed transaction \<open>CreateEventsWithFilter\<close> returns
  one event per action in order, under any two filters the same, and counts no table as skipped.
\<close>

theorem filter_has_no_effect:
  assumes "tx_CommitTime tx = Some t"
  shows "CreateEventsWithFilter u tables tx n =
      Inr (tx_events u tx t n, [], n + length (tx_Actions tx)) \<and>
    CreateEventsWithFilter u tables tx n = CreateEventsWithFilter u tables' tx n \<and>
    (\<forall>i<length (tx_Actions tx). event_for (tx_Actions tx ! i) (tx_events u tx t n ! i))"
  using assms by (simp add: CreateEvents_Some tx_events_nth)

theorem filter_has_no_effect_witness:
  "CreateEventsWithFilter nat_to_string (\<lambda>_. None) (ln_tx demo_listener) 0 =
     Inr (tx_events nat_to_string (ln_tx demo_listener) 0 0, [], 1)"
  using filter_has_no_effect [of "ln_tx demo_listener" 0 nat_to_string "\<lambda>_. None" 0 "\<lambda>_. None"]
  by (simp add: demo_listener_def)

end
