(* ===== verification/WalHeartbeat.thy ===== *)
theory WalHeartbeat
  imports WalListener
begin

text \<open>
  The two goroutines of \<open>Listener\<close> that send statuses: the stream (\<open>AckWalMessage\<close> and
  \<open>processHeartBeat\<close>) and \<open>SendPeriodicHeartbeats\<close>. They share only \<open>lsn\<close>, behind a mutex held for
  a single read or write; \<open>SendStandbyStatus\<close> reads it and sends what it read in a later step.
\<close>

section \<open>Interleaving\<close>

text \<open>
  Where a goroutine is: outside \<open>SendStandbyStatus\<close>, about to read the LSN, or about to send the
  value read. The heartbeat goroutine reads as soon as its ticker fires.
\<close>

datatype phase = Idle | ReadNext | SendNext "64 word"

record shared =
  sh_lsn :: "64 word"
  sh_stream :: phase
  sh_heart :: phase
  sh_sent :: "64 word list"

inductive lsn_step :: "shared \<Rightarrow> shared \<Rightarrow> bool" where
  ack_set: "sh_stream s = Idle \<Longrightarrow> sh_lsn s < w \<Longrightarrow>
    lsn_step s (s\<lparr>sh_lsn := w, sh_stream := ReadNext\<rparr>)"
| reply_requested: "sh_stream s = Idle \<Longrightarrow> lsn_step s (s\<lparr>sh_stream := ReadNext\<rparr>)"
| stream_read: "sh_stream s = ReadNext \<Longrightarrow> lsn_step s (s\<lparr>sh_stream := SendNext (sh_lsn s)\<rparr>)"
| stream_send: "sh_stream s = SendNext v \<Longrightarrow>
    lsn_step s (s\<lparr>sh_sent := sh_sent s @ [v], sh_stream := Idle\<rparr>)"
| heart_tick: "sh_heart s = Idle \<Longrightarrow> lsn_step s (s\<lparr>sh_heart := ReadNext\<rparr>)"
| heart_read: "sh_heart s = ReadNext \<Longrightarrow> lsn_step s (s\<lparr>sh_heart := SendNext (sh_lsn s)\<rparr>)"
| heart_send: "sh_heart s = SendNext v \<Longrightarrow>
    lsn_step s (s\<lparr>sh_sent := sh_sent s @ [v], sh_heart := Idle\<rparr>)"

inductive_cases lsn_stepE: "lsn_step s s'"

inductive lsn_reach :: "shared \<Rightarrow> shared \<Rightarrow> bool" where
  reach_refl: "lsn_reach s s"
| reach_step: "lsn_reach s t \<Longrightarrow> lsn_step t u \<Longrightarrow> lsn_reach s u"

lemma lsn_reach_trans: "lsn_reach s t \<Longrightarrow> lsn_reach t u \<Longrightarrow> lsn_reach s u"
  by (rotate_tac, induction rule: lsn_reach.induct) (auto intro: reach_step)

lemma lsn_reach_one: "lsn_step s t \<Longrightarrow> lsn_reach s t"
  by (rule reach_step [OF reach_refl])

definition shared_start :: "64 word \<Rightarrow> shared" where
  "shared_start w = \<lparr>sh_lsn = w, sh_stream = Idle, sh_heart = Idle, sh_sent = []\<rparr>"

fun phase_le :: "phase \<Rightarrow> 64 word \<Rightarrow> bool" where
  "phase_le (SendNext v) w = (v \<le> w)"
| "phase_le _ w = True"

lemma phase_le_mono: "phase_le p v \<Longrightarrow> v \<le> w \<Longrightarrow> phase_le p w"
  by (cases p) auto

definition shared_ok :: "shared \<Rightarrow> bool" where
  "shared_ok s = (phase_le (sh_stream s) (sh_lsn s) \<and> phase_le (sh_heart s) (sh_lsn s) \<and>
     (\<forall>v\<in>set (sh_sent s). v \<le> sh_lsn s))"

lemma all_le_weaken: "\<forall>v\<in>A. v \<le> w \<Longrightarrow> w < w' \<Longrightarrow> v \<in> A \<Longrightarrow> v \<le> w'" for w :: "64 word"
  by fastforce

lemma lsn_step_ok:
  assumes "lsn_step s t" and "shared_ok s" shows "shared_ok t \<and> sh_lsn s \<le> sh_lsn t"
  using assms
  by (auto simp: shared_ok_def elim!: lsn_stepE intro: phase_le_mono all_le_weaken)

lemma lsn_reach_ok:
  "lsn_reach s t \<Longrightarrow> shared_ok s \<Longrightarrow> shared_ok t \<and> sh_lsn s \<le> sh_lsn t"
  by (induction rule: lsn_reach.induct) (auto dest: lsn_step_ok)

section \<open>The sequential stream as steps\<close>

text \<open>The shared view of a listener while the heartbeat goroutine is idle.\<close>

definition shared_of :: "listener \<Rightarrow> shared" where
  "shared_of l = \<lparr>sh_lsn = ln_lsn l, sh_stream = Idle, sh_heart = Idle,
     sh_sent = positions (ln_trace l)\<rparr>"

lemma send_status_steps:
  assumes "status_law env" and "env_new_status env (ln_lsn l) = Inr st"
  shows "lsn_reach ((shared_of l)\<lparr>sh_stream := ReadNext\<rparr>) (shared_of (snd (SendStandbyStatus env l)))"
proof -
  let ?s = "(shared_of l)\<lparr>sh_stream := ReadNext\<rparr>"
  have "ss_WalWritePosition st = ln_lsn l" using assms by (auto simp: status_law_def)
  then have e: "shared_of (snd (SendStandbyStatus env l)) =
      ?s\<lparr>sh_sent := sh_sent ?s @ [ln_lsn l], sh_stream := Idle\<rparr>"
    using SendStandbyStatus_positions [of env l] assms(2)
    by (simp add: shared_of_def frame_simps)
  have "lsn_step ?s (?s\<lparr>sh_stream := SendNext (sh_lsn ?s)\<rparr>)"
    by (rule stream_read) simp
  moreover have "lsn_step (?s\<lparr>sh_stream := SendNext (sh_lsn ?s)\<rparr>)
      (?s\<lparr>sh_sent := sh_sent ?s @ [ln_lsn l], sh_stream := Idle\<rparr>)"
    using stream_send [of "?s\<lparr>sh_stream := SendNext (sh_lsn ?s)\<rparr>" "ln_lsn l"]
    by (simp add: shared_of_def)
  ultimately show ?thesis unfolding e by (meson lsn_reach_one reach_step)
qed

lemma ack_message_steps:
  assumes "status_law env" and "\<And>w. \<exists>st. env_new_status env w = Inr st"
  shows "lsn_reach (shared_of l) (shared_of (snd (ack_message env w l)))"
proof (cases "ln_lsn l < w")
  case True
  from assms(2) obtain st where st: "env_new_status env w = Inr st" by blast
  have "lsn_step (shared_of l) ((shared_of (setLSN w l))\<lparr>sh_stream := ReadNext\<rparr>)"
    using ack_set [of "shared_of l" w] True by (simp add: shared_of_def setLSN_def)
  moreover have "lsn_reach ((shared_of (setLSN w l))\<lparr>sh_stream := ReadNext\<rparr>)
      (shared_of (snd (SendStandbyStatus env (setLSN w l))))"
    by (rule send_status_steps [OF assms(1)]) (use st in \<open>simp add: setLSN_def\<close>)
  moreover have "shared_of (snd (ack_message env w l)) =
      shared_of (snd (SendStandbyStatus env (setLSN w l)))"
    using True AckWalMessage_snd [of env w l]
    by (auto simp: ack_message_def shared_of_def emit_def split: prod.splits option.splits)
  ultimately show ?thesis by (metis lsn_reach_one lsn_reach_trans)
next
  case False
  then show ?thesis by (simp add: ack_message_def reach_refl)
qed

section \<open>Properties\<close>

text \<open>
  C4. Under any interleaving of the stream and the heartbeat goroutine, the LSN never goes back and
  no status was ever sent for a position that had not been acknowledged by then.
\<close>

theorem interleaved_statuses_bounded:
  assumes "lsn_reach (shared_start w) s"
  shows "w \<le> sh_lsn s \<and> (\<forall>v\<in>set (sh_sent s). v \<le> sh_lsn s)"
proof -
  have "shared_ok (shared_start w)" by (simp add: shared_ok_def shared_start_def)
  from lsn_reach_ok [OF assms this] show ?thesis by (simp add: shared_ok_def shared_start_def)
qed

lemma demo_reach:
  "lsn_reach (shared_start 4) \<lparr>sh_lsn = 9, sh_stream = Idle, sh_heart = Idle, sh_sent = [9, 4]\<rparr>"
proof -
  note steps = heart_tick heart_read ack_set stream_read stream_send heart_send
  have "lsn_step (shared_start 4) ((shared_start 4)\<lparr>sh_heart := ReadNext\<rparr>)"
    by (rule heart_tick) (simp add: shared_start_def)
  moreover have "lsn_step ((shared_start 4)\<lparr>sh_heart := ReadNext\<rparr>)
      \<lparr>sh_lsn = 4, sh_stream = Idle, sh_heart = SendNext 4, sh_sent = []\<rparr>"
    using heart_read [of "(shared_start 4)\<lparr>sh_heart := ReadNext\<rparr>"]
    by (simp add: shared_start_def)
  moreover have "lsn_step \<lparr>sh_lsn = 4, sh_stream = Idle, sh_heart = SendNext 4, sh_sent = []\<rparr>
      \<lparr>sh_lsn = 9, sh_stream = ReadNext, sh_heart = SendNext 4, sh_sent = []\<rparr>"
    using ack_set [of "\<lparr>sh_lsn = 4, sh_stream = Idle, sh_heart = SendNext 4, sh_sent = []\<rparr>" 9]
    by simp
  moreover have "lsn_step \<lparr>sh_lsn = 9, sh_stream = ReadNext, sh_heart = SendNext 4, sh_sent = []\<rparr>
      \<lparr>sh_lsn = 9, sh_stream = SendNext 9, sh_heart = SendNext 4, sh_sent = []\<rparr>"
    using stream_read [of "\<lparr>sh_lsn = 9, sh_stream = ReadNext, sh_heart = SendNext 4, sh_sent = []\<rparr>"]
    by simp
  moreover have "lsn_step \<lparr>sh_lsn = 9, sh_stream = SendNext 9, sh_heart = SendNext 4, sh_sent = []\<rparr>
      \<lparr>sh_lsn = 9, sh_stream = Idle, sh_heart = SendNext 4, sh_sent = [9]\<rparr>"
    using stream_send [of "\<lparr>sh_lsn = 9, sh_stream = SendNext 9, sh_heart = SendNext 4, sh_sent = []\<rparr>"]
    by simp
  moreover have "lsn_step \<lparr>sh_lsn = 9, sh_stream = Idle, sh_heart = SendNext 4, sh_sent = [9]\<rparr>
      \<lparr>sh_lsn = 9, sh_stream = Idle, sh_heart = Idle, sh_sent = [9, 4]\<rparr>"
    using heart_send [of "\<lparr>sh_lsn = 9, sh_stream = Idle, sh_heart = SendNext 4, sh_sent = [9]\<rparr>"]
    by simp
  ultimately show ?thesis by (meson lsn_reach_one reach_step)
qed

theorem interleaved_statuses_bounded_witness:
  "\<exists>s. lsn_reach (shared_start 4) s \<and> sh_sent s = [9, 4] \<and> (\<forall>v\<in>set (sh_sent s). v \<le> sh_lsn s)"
proof -
  from interleaved_statuses_bounded [OF demo_reach] demo_reach show ?thesis by force
qed

text \<open>
  The heartbeat can report a stale position: a run exists in which the server receives the
  acknowledgement of 9 and afterwards a status for the older position 4, because the heartbeat read
  the LSN before the acknowledgement and sent it after.
\<close>

theorem heartbeat_can_send_stale_lsn:
  "\<exists>s. lsn_reach (shared_start 4) s \<and> sh_sent s = [9, 4] \<and> \<not> sorted (sh_sent s)"
  using demo_reach by force

text \<open>
  C23. The sequential \<open>ack_message\<close> refines the interleaved model: with the heartbeat idle, setting
  the LSN and sending the status is a run of its steps from the shared view before to the shared
  view after.
\<close>

theorem ack_refines_steps:
  assumes "status_law env" and "\<And>w. \<exists>st. env_new_status env w = Inr st"
  shows "lsn_reach (shared_of l) (shared_of (snd (ack_message env w l)))"
  by (rule ack_message_steps [OF assms])

theorem ack_refines_steps_witness:
  "lsn_reach (shared_of demo_listener) (shared_of (snd (ack_message calm_env 9 demo_listener)))"
  by (rule ack_refines_steps [OF calm_env_law]) (simp add: calm_env_def)

end
