(* ===== verification/WalServices.thy ===== *)
theory WalServices
  imports WalHeartbeat
begin

text \<open>
  The services behind the listener's interfaces: \<open>publisher/nats.go\<close>, \<open>listener/repository.go\<close>,
  \<open>config/metrics.go\<close> and the wiring of \<open>cmd/wal-listener/main.go\<close>. The connections (pgx, NATS) and
  the JSON encoder are parameters.
\<close>

section \<open>NATS publisher\<close>

record stream_config =
  sc_Name :: string
  sc_Subjects :: "string list"

record nats_conn =
  nc_Publish :: "string \<Rightarrow> bytes \<Rightarrow> go_error option"
  nc_StreamInfo :: "string \<Rightarrow> stream_config option \<times> go_error option"
  nc_AddStream :: "stream_config \<Rightarrow> go_error option"

definition NatsPublisher_Publish ::
  "(Event \<Rightarrow> go_error + bytes) \<Rightarrow> nats_conn \<Rightarrow> string \<Rightarrow> Event \<Rightarrow> go_error option" where
  "NatsPublisher_Publish marshal conn subject event =
     (case marshal event of
        Inl err \<Rightarrow> Some (WrapErr ''marshal err'' err)
      | Inr msg \<Rightarrow> (case nc_Publish conn subject msg of
                      Some err \<Rightarrow> Some (WrapErr ''failed to publish'' err)
                    | None \<Rightarrow> None))"

text \<open>\<open>CreateStream\<close> returns its error and the stream it added; a failed lookup is only logged.\<close>

definition CreateStream :: "nats_conn \<Rightarrow> string \<Rightarrow> go_error option \<times> stream_config option" where
  "CreateStream conn streamName =
     (case fst (nc_StreamInfo conn streamName) of
        Some si \<Rightarrow> (None, None)
      | None \<Rightarrow>
          let cfg = \<lparr>sc_Name = streamName, sc_Subjects = [streamName @ ''.>'']\<rparr>
          in (case nc_AddStream conn cfg of
                Some err \<Rightarrow> (Some (WrapErr ''add stream'' err), None)
              | None \<Rightarrow> (None, Some cfg)))"

section \<open>Repository\<close>

definition pgx_ErrNoRows :: go_error where
  "pgx_ErrNoRows = GoErr ''no rows in result set''"

text \<open>\<open>scan\<close> is the query's scanned value and error.\<close>

definition GetSlotLSN :: "(string \<Rightarrow> string \<times> go_error option) \<Rightarrow> string \<Rightarrow> string \<times> go_error option"
  where
  "GetSlotLSN scan slotName =
     (let (restartLSNStr, err) = scan slotName
      in (case err of
            Some e \<Rightarrow> if errors_Is e pgx_ErrNoRows then ([], None) else (restartLSNStr, Some e)
          | None \<Rightarrow> (restartLSNStr, None)))"

definition CreatePublication :: "(string \<Rightarrow> go_error option) \<Rightarrow> string \<Rightarrow> go_error option" where
  "CreatePublication exec name =
     (case exec (''CREATE PUBLICATION '' @ [CHR 0x22] @ name @ [CHR 0x22] @ '' FOR ALL TABLES'') of
        Some err \<Rightarrow> Some (WrapErr ''exec'' err)
      | None \<Rightarrow> None)"

section \<open>Metrics\<close>

text \<open>
  The three counter vectors, each a count per combination of labels (the constant application label
  left out). A \<open>promauto\<close> counter starts at 0 and \<open>Inc\<close> adds one.
\<close>

record Metrics =
  filterSkippedEvents :: "string \<Rightarrow> nat"
  publishedEvents :: "string \<times> string \<Rightarrow> nat"
  problematicEvents :: "string \<Rightarrow> nat"

definition NewMetrics :: Metrics where
  "NewMetrics = \<lparr>filterSkippedEvents = (\<lambda>_. 0), publishedEvents = (\<lambda>_. 0),
     problematicEvents = (\<lambda>_. 0)\<rparr>"

definition IncPublishedEvents :: "string \<Rightarrow> string \<Rightarrow> Metrics \<Rightarrow> Metrics" where
  "IncPublishedEvents subject table m =
     m\<lparr>publishedEvents := (publishedEvents m)((subject, table) := Suc (publishedEvents m (subject, table)))\<rparr>"

definition IncFilterSkippedEvents :: "string \<Rightarrow> Metrics \<Rightarrow> Metrics" where
  "IncFilterSkippedEvents table m =
     m\<lparr>filterSkippedEvents := (filterSkippedEvents m)(table := Suc (filterSkippedEvents m table))\<rparr>"

definition IncProblematicEvents :: "string \<Rightarrow> Metrics \<Rightarrow> Metrics" where
  "IncProblematicEvents kind m =
     m\<lparr>problematicEvents := (problematicEvents m)(kind := Suc (problematicEvents m kind))\<rparr>"

text \<open>The metrics after a listener's trace (newest call first).\<close>

fun metrics_of :: "effect list \<Rightarrow> Metrics" where
  "metrics_of [] = NewMetrics"
| "metrics_of (CountPublished s t # tr) = IncPublishedEvents s t (metrics_of tr)"
| "metrics_of (CountSkipped t # tr) = IncFilterSkippedEvents t (metrics_of tr)"
| "metrics_of (CountProblem k # tr) = IncProblematicEvents k (metrics_of tr)"
| "metrics_of (_ # tr) = metrics_of tr"

section \<open>Wiring\<close>

text \<open>\<open>factoryPublisher\<close>: \<open>connect\<close> is \<open>a8nats.NewConn\<close> at the configured address.\<close>

definition factoryPublisher ::
  "(string \<Rightarrow> go_error + nats_conn) \<Rightarrow> string \<Rightarrow> string \<Rightarrow> string \<Rightarrow> go_error + nats_conn" where
  "factoryPublisher connect typ address topic =
     (if typ = ''nats'' then
        (case connect address of
           Inl err \<Rightarrow> Inl err
         | Inr conn \<Rightarrow> (case fst (CreateStream conn topic) of
                          Some err \<Rightarrow> Inl (WrapErr ''create stream'' err)
                        | None \<Rightarrow> Inr conn))
      else Inl (GoErr (''unknown publisher type: '' @ typ)))"

definition initPgxConnections ::
  "go_error + 'c \<Rightarrow> go_error + 'r \<Rightarrow> go_error + ('c \<times> 'r)" where
  "initPgxConnections pgConn rConn =
     (case pgConn of
        Inl err \<Rightarrow> Inl (WrapErr ''db connection'' err)
      | Inr c \<Rightarrow> (case rConn of
                    Inl err \<Rightarrow> Inl (WrapErr ''replication connect'' err)
                  | Inr r \<Rightarrow> Inr (c, r)))"

section \<open>Counting\<close>

fun problems :: "string \<Rightarrow> effect list \<Rightarrow> nat" where
  "problems k [] = 0"
| "problems k (e # tr) = (if e = CountProblem k then 1 else 0) + problems k tr"

lemma metrics_problems: "problematicEvents (metrics_of tr) k = problems k tr"
  by (induction tr rule: metrics_of.induct)
    (auto simp: NewMetrics_def IncPublishedEvents_def IncFilterSkippedEvents_def
      IncProblematicEvents_def)

lemma problems_append: "problems k (xs @ ys) = problems k xs + problems k ys"
  by (induction xs) auto

lemma publish_events_problems:
  "problems k (ln_trace (snd (publish_events env cfg evs l))) = problems k (ln_trace l) +
     (if fst (publish_events env cfg evs l) \<noteq> None \<and> k = problemKindPublish then 1 else 0)"
  by (induction evs arbitrary: l) (auto simp: Let_def emit_def split: option.splits)

lemma SendStandbyStatus_problems:
  "problems k (ln_trace (snd (SendStandbyStatus env l))) = problems k (ln_trace l)"
  by (auto simp: SendStandbyStatus_def emit_def Let_def split: sum.splits option.splits)

lemma ack_message_problems:
  "problems k (ln_trace (snd (ack_message env w l))) = problems k (ln_trace l) +
     (if fst (ack_message env w l) \<noteq> None \<and> k = problemKindAck then 1 else 0)"
  using SendStandbyStatus_problems [of k env "setLSN w l"] AckWalMessage_snd [of env w l]
  by (auto simp: ack_message_def emit_def setLSN_def split: prod.splits option.splits)

lemma publish_commit_problems:
  assumes "publish_commit env cfg l = Inr (r, l')"
  shows "problems k (ln_trace l') = problems k (ln_trace l) +
     (if r \<noteq> None \<and> k = problemKindPublish then 1 else 0)"
proof (cases "tx_CommitTime (ln_tx l)")
  case None
  with assms show ?thesis by (auto simp: publish_commit_def)
next
  case (Some t)
  define evs where evs: "evs = tx_events (env_uuid env) (ln_tx l) t (ln_uuids l)"
  define l1 where l1: "l1 = l\<lparr>ln_uuids := ln_uuids l + length evs\<rparr>"
  obtain r1 x where p: "publish_events env cfg evs l1 = (r1, x)"
    by (cases "publish_events env cfg evs l1")
  from assms publish_commit_Some [OF Some evs p [unfolded l1]]
  have "r = r1" and "ln_trace l' = ln_trace x" by (auto split: if_splits)
  with publish_events_problems [of k env cfg evs l1] p show ?thesis by (simp add: l1)
qed

section \<open>Properties\<close>

text \<open>
  Every failed message is counted exactly once: the problematic-events counters grow by one in
  total, under the kind of the stage that failed (parse, publish or ack), when \<open>processMessage\<close>
  returns an error, and not at all when it succeeds.
\<close>

theorem failed_message_counted_once:
  assumes "processMessage (ParseWalMessage cd bo) env cfg msg l = Inr (r, l')"
  shows "\<exists>kind\<in>{problemKindParse, problemKindPublish, problemKindAck}.
    \<forall>k. problematicEvents (metrics_of (ln_trace l')) k =
        problematicEvents (metrics_of (ln_trace l)) k + (if r \<noteq> None \<and> k = kind then 1 else 0)"
  using assms
proof (cases rule: processMessage_cases)
  case empty
  then show ?thesis by (intro bexI [of _ problemKindParse]) auto
next
  case (unparsed wm err tx)
  then show ?thesis
    by (intro bexI [of _ problemKindParse])
      (auto simp: metrics_problems emit_def IncProblematicEvents_def)
next
  case (unpublished wm tx err)
  from publish_commit_problems [OF unpublished(3)] unpublished(4) show ?thesis
    by (intro bexI [of _ problemKindPublish]) (auto simp: metrics_problems)
next
  case (acked wm tx l2)
  from publish_commit_problems [OF acked(3)] ack_message_problems [of _ env "wm_WalStart wm" l2]
    acked(4) show ?thesis
    by (intro bexI [of _ problemKindAck]) (auto simp: metrics_problems)
qed

theorem failed_message_counted_once_witness:
  "\<exists>kind\<in>{problemKindParse, problemKindPublish, problemKindAck}.
     \<forall>k. problematicEvents (metrics_of [CountProblem ''parse'']) k =
       problematicEvents (metrics_of []) k + (if k = kind then 1 else 0)"
proof -
  let ?m = "\<lparr>rm_WalMessage = Some \<lparr>wm_WalStart = 9, wm_WalData = []\<rparr>, rm_ServerHeartbeat = None\<rparr>"
  have p: "processMessage (ParseWalMessage calm_codec BigEndian) calm_env demo_cfg ?m demo_listener =
    Inr (Some (WrapErr ''parse'' errEmptyWALMessage),
      demo_listener\<lparr>ln_trace := [CountProblem ''parse'']\<rparr>)"
    by (simp add: processMessage_def ParseWalMessage_def emit_def problemKindParse_def
        demo_listener_def)
  from failed_message_counted_once [OF p] show ?thesis by (simp add: demo_listener_def)
qed

text \<open>
  Start-up: \<open>Process\<close> goes on to stream only with an LSN that was parsed, from the slot when the
  repository knows it and otherwise from the slot it creates; a failed lookup, a failed creation or
  an LSN that does not parse is returned instead, and the LSN is then unchanged.
\<close>

theorem process_start_lsn:
  "case Process_start re cfg l of
     (Some err, l') \<Rightarrow> l' = l
   | (None, l') \<Rightarrow> \<exists>s lsn. re_ParseLSN re s = Inr lsn \<and> l' = l\<lparr>ln_lsn := lsn\<rparr> \<and>
       (if fst (re_GetSlotLSN re (cfg_SlotName cfg)) \<noteq> []
        then s = fst (re_GetSlotLSN re (cfg_SlotName cfg))
        else re_CreateReplicationSlotEx re (cfg_SlotName cfg) ''pgoutput'' = Inr s)"
proof (cases "re_GetSlotLSN re (cfg_SlotName cfg)")
  case (Pair s err)
  then show ?thesis
    by (auto simp: Process_start_def slotIsExists_def setLSN_def split: option.splits sum.splits)
qed

text \<open>
  \<open>GetSlotLSN\<close> turns "no rows", wrapped or not, into an empty position without an error, so that
  start-up creates the slot; any other error is passed on.
\<close>

theorem missing_slot_is_created:
  assumes "scan slot = (s, Some err)" and "errors_Is err pgx_ErrNoRows"
    and "re_GetSlotLSN re = GetSlotLSN scan" and "cfg_SlotName cfg = slot"
    and "re_CreateReplicationSlotEx re slot ''pgoutput'' = Inr point" and "re_ParseLSN re point = Inr lsn"
  shows "Process_start re cfg l = (None, l\<lparr>ln_lsn := lsn\<rparr>)"
  using assms by (simp add: Process_start_def slotIsExists_def GetSlotLSN_def setLSN_def)

theorem missing_slot_is_created_witness:
  "Process_start \<lparr>re_CreatePublication = (\<lambda>_. None),
      re_GetSlotLSN = GetSlotLSN (\<lambda>_. ([], Some (WrapErr ''query'' pgx_ErrNoRows))),
      re_ParseLSN = (\<lambda>_. Inr 77), re_CreateReplicationSlotEx = (\<lambda>_ _. Inr ''0/4D'')\<rparr>
      demo_cfg demo_listener = (None, demo_listener\<lparr>ln_lsn := 77\<rparr>)"
  by (rule missing_slot_is_created [of "\<lambda>_. ([], Some (WrapErr ''query'' pgx_ErrNoRows))" "''slot''" "[]"
        "WrapErr ''query'' pgx_ErrNoRows" _ _ "''0/4D''"]) (simp_all add: demo_cfg_def)

end
