(* ===== verification/WalTypes.thy ===== *)
theory WalTypes
  imports WalParser
begin

text \<open>
  The types of the values a transaction holds. The code keeps the value of a column as an \<open>any\<close> beside
  the oid of its type, and the two must agree: \<open>value_fits\<close> says which Go type goes with which oid, and
  the invariant is preserved by every message, whatever its bytes are, and by \<open>Clear\<close>.
\<close>

definition value_fits :: "int \<Rightarrow> go_any \<Rightarrow> bool" where
  "value_fits ty v =
     (case v of
        AnyNil \<Rightarrow> True
      | AnyBool b \<Rightarrow> ty = BoolOID
      | AnyInt i \<Rightarrow> (ty = Int2OID \<or> ty = Int4OID) \<and> int64_min \<le> i \<and> i \<le> int64_max
      | AnyInt64 i \<Rightarrow> ty = Int8OID \<and> int64_min \<le> i \<and> i \<le> int64_max
      | AnyString s \<Rightarrow> ty \<notin> {BoolOID, Int2OID, Int4OID, Int8OID, TimestampOID, TimestamptzOID, UUIDOID, JSONBOID}
      | AnyTime t \<Rightarrow> ty = TimestampOID \<or> ty = TimestamptzOID
      | AnyUuid u \<Rightarrow> ty = UUIDOID
      | AnyJson j \<Rightarrow> ty = JSONBOID)"

definition column_fits :: "Column \<Rightarrow> bool" where
  "column_fits c \<longleftrightarrow> value_fits (col_valueType c) (col_value c) \<and>
     - (2 ^ 31) \<le> col_valueType c \<and> col_valueType c < 2 ^ 31"

definition action_fits :: "ActionData \<Rightarrow> bool" where
  "action_fits a \<longleftrightarrow> list_all column_fits (ad_OldColumns a) \<and> list_all column_fits (ad_NewColumns a) \<and>
     (ad_Kind a = ActionKindInsert \<longrightarrow> ad_OldColumns a = []) \<and>
     (ad_Kind a = ActionKindDelete \<longrightarrow> ad_NewColumns a = [])"

definition transaction_fits :: "WalTransaction \<Rightarrow> bool" where
  "transaction_fits tx \<longleftrightarrow> list_all action_fits (tx_Actions tx) \<and>
     (\<forall>k rel. tx_RelationStore tx k = Some rel \<longrightarrow>
        list_all (\<lambda>c. column_fits c \<and> col_value c = AnyNil) (rd_Columns rel))"

text \<open>The transactions that messages, refused ones too, and \<open>Clear\<close> lead to.\<close>

inductive tx_reach :: "codec \<Rightarrow> byte_order \<Rightarrow> WalTransaction \<Rightarrow> bool" for cd bo where
  tx_new: "tx_reach cd bo NewWalTransaction"
| tx_message: "tx_reach cd bo tx \<Longrightarrow> ParseWalMessage cd bo msg tx = Inr (err, tx') \<Longrightarrow> tx_reach cd bo tx'"
| tx_cleared: "tx_reach cd bo tx \<Longrightarrow> tx_reach cd bo (tx_Clear tx)"

section \<open>Each operation keeps the types\<close>

lemma parse_value_fits:
  assumes "parse_value cd ty src = Inr v"
  shows "value_fits ty v"
  using assms strconv_ParseInt_bounds [of "bytes_to_string src"]
  unfolding parse_value_def Let_def strconv_Atoi_def
  by (auto simp: value_fits_def run_simps oids split: if_splits)

lemma column_reads_fits:
  assumes "column_reads cd rc row c" and "column_fits rc"
  shows "column_fits c"
proof -
  have "value_fits (col_valueType rc) (col_value c)"
  proof (cases "td_Value row")
    case None
    with assms(1) have "col_value c = AnyNil" by (simp add: column_reads_def)
    then show ?thesis by (simp add: value_fits_def)
  next
    case (Some bs)
    with assms(1) have "parse_value cd (col_valueType rc) bs = Inr (col_value c)"
      by (simp add: column_reads_def)
    then show ?thesis by (rule parse_value_fits)
  qed
  with assms show ?thesis by (simp add: column_reads_def column_fits_def)
qed

lemma row_columns_fit:
  assumes "row_columns cd rel 0 rows = Inr cols" and "list_all column_fits rel"
  shows "list_all column_fits cols"
proof -
  from row_columns_Inr [OF assms(1)] have len: "length cols = length rows" "length cols \<le> length rel"
    and cs: "\<And>i. i < length rows \<Longrightarrow> column_reads cd (rel ! i) (rows ! i) (cols ! i)" by auto
  show ?thesis unfolding list_all_length
  proof (intro allI impI)
    fix i assume i: "i < length cols"
    with len assms(2) have "column_fits (rel ! i)" by (simp add: list_all_length)
    with cs [of i] i len show "column_fits (cols ! i)" by (simp add: column_reads_fits)
  qed
qed

lemma CreateActionData_fits:
  assumes "CreateActionData cd tx rid old new kind = Inr (Inr a)" and "transaction_fits tx"
    and "kind = ActionKindInsert \<Longrightarrow> old = []" and "kind = ActionKindDelete \<Longrightarrow> new = []"
  shows "action_fits a"
proof -
  obtain rel oc nc where rel: "tx_RelationStore tx rid = Some rel"
    and oc: "row_columns cd (rd_Columns rel) 0 old = Inr oc"
    and nc: "row_columns cd (rd_Columns rel) 0 new = Inr nc"
    and a: "ad_OldColumns a = oc" "ad_NewColumns a = nc" "ad_Kind a = kind"
    using assms(1) by (auto simp: CreateActionData_def run_simps split: option.splits)
  have "list_all column_fits (rd_Columns rel)"
    using assms(2) rel by (auto simp: transaction_fits_def list_all_iff)
  moreover have "oc = []" if "kind = ActionKindInsert" using oc assms(3) [OF that] by simp
  moreover have "nc = []" if "kind = ActionKindDelete" using nc assms(4) [OF that] by simp
  ultimately show ?thesis using row_columns_fit oc nc a by (auto simp: action_fits_def)
qed

lemma add_action_fits:
  assumes "add_action tx (CreateActionData cd tx rid old new kind) = Inr (err, tx')" and "transaction_fits tx"
    and "kind = ActionKindInsert \<Longrightarrow> old = []" and "kind = ActionKindDelete \<Longrightarrow> new = []"
  shows "transaction_fits tx'"
proof (cases "CreateActionData cd tx rid old new kind")
  case (Inl p)
  with assms(1,2) show ?thesis by (simp add: add_action_def)
next
  case (Inr r)
  show ?thesis
  proof (cases r)
    case (Inl e)
    with Inr assms(1,2) show ?thesis by (simp add: add_action_def)
  next
    case ok: (Inr a)
    with Inr assms(1) have "tx' = tx\<lparr>tx_Actions := tx_Actions tx @ [a]\<rparr>" by (simp add: add_action_def)
    with CreateActionData_fits [OF Inr [unfolded ok] assms(2-4)] assms(2)
    show ?thesis by (simp add: transaction_fits_def)
  qed
qed

lemma relation_data_fits: "list_all (\<lambda>c. column_fits c \<and> col_value c = AnyNil) (rd_Columns (relation_data r))"
  using sint_range_size [of "rc_TypeID c" for c :: RelationColumn]
  by (auto simp: relation_data_def column_fits_def value_fits_def list_all_iff word_size)

lemma ParseWalMessage_fits:
  assumes "ParseWalMessage cd bo msg tx = Inr (err, tx')" and "transaction_fits tx"
  shows "transaction_fits tx'"
proof (cases msg)
  case Nil
  with assms show ?thesis by (auto simp: ParseWalMessage_def)
next
  case (Cons t body)
  have same: "transaction_fits (tx\<lparr>tx_LSN := l, tx_BeginTime := b\<rparr>)" "transaction_fits (tx\<lparr>tx_CommitTime := c\<rparr>)"
    "transaction_fits (tx\<lparr>tx_RelationStore := (tx_RelationStore tx)(k \<mapsto> relation_data r)\<rparr>)" for l b c k r
    using assms(2) relation_data_fits by (auto simp: transaction_fits_def)
  from assms show ?thesis
    unfolding Cons ParseWalMessage_def list.case
    by (auto simp: run_simps same dest: add_action_fits split: if_splits)
qed

lemma tx_reach_fits: "tx_reach cd bo tx \<Longrightarrow> transaction_fits tx"
proof (induction rule: tx_reach.induct)
  case tx_new
  then show ?case by (simp add: transaction_fits_def NewWalTransaction_def)
next
  case (tx_message tx msg err tx')
  then show ?case by (blast intro: ParseWalMessage_fits)
next
  case (tx_cleared tx)
  then show ?case by (simp add: transaction_fits_def tx_Clear_def)
qed

text \<open>
  C8. Whatever bytes the listener is sent, every column of every action the transaction holds has a value
  of the Go type its oid asks for (or nil), an integer within 64 bits; the columns of the stored relations
  hold no value, and every oid is one of 32 bits. An insertion holds no old columns, a deletion no new ones.
\<close>

theorem transaction_values_typed:
  assumes "tx_reach cd bo tx"
  shows "transaction_fits tx"
  using assms by (rule tx_reach_fits)

text \<open>A transaction that begins, and is told of a table with one integer column and of one of its rows.\<close>

definition typed_relation :: Relation where
  "typed_relation = \<lparr>rel_ID = 7, rel_Namespace = ''public'', rel_Name = ''users'', rel_Replica = 1,
     rel_Columns = [\<lparr>rc_Key = True, rc_Name = ''id'', rc_TypeID = 23, rc_ModifierType = 1\<rparr>]\<rparr>"

definition typed_tx :: WalTransaction where
  "typed_tx = NewWalTransaction\<lparr>tx_LSN := 4, tx_BeginTime := Some postgresEpoch,
     tx_RelationStore := Map.empty(7 \<mapsto> relation_data typed_relation)\<rparr>"

lemma typed_tx_reach: "tx_reach calm_codec BigEndian typed_tx"
proof -
  define tx1 where "tx1 = NewWalTransaction\<lparr>tx_LSN := 4, tx_BeginTime := Some postgresEpoch\<rparr>"
  have "ParseWalMessage calm_codec BigEndian (encode_begin BigEndian 4 0 1) NewWalTransaction = Inr (None, tx1)"
    using read_from_parses [OF parses_getBegin [of BigEndian 4 0 1]]
    by (simp add: parse_dispatch encode_begin_def tx1_def)
  with tx_new have r1: "tx_reach calm_codec BigEndian tx1" by (rule tx_message)
  have e: "encode_relation BigEndian typed_relation = RelationMsgType # tl (encode_relation BigEndian typed_relation)"
    by (simp add: encode_relation_def)
  have ok: "relation_ok typed_relation" by (simp add: relation_ok_def column_ok_def typed_relation_def)
  have "ParseWalMessage calm_codec BigEndian (encode_relation BigEndian typed_relation) tx1 = Inr (None, typed_tx)"
    using read_from_parses [OF parses_getRelation [OF ok, of BigEndian]]
    by (subst e) (simp add: parse_dispatch tx1_def typed_tx_def NewWalTransaction_def typed_relation_def)
  with r1 show ?thesis by (rule tx_message)
qed

lemma typed_value:
  "parse_value calm_codec 23 [53] = Inr (AnyInt 5)"
proof -
  have "bytes_to_string [53] = int_to_string 5" by (simp add: bytes_to_string_def int_to_string_def nat_to_string.simps [of 5] digit_char_def)
  with strconv_ParseInt_int_to_string [of 5] show ?thesis
    by (simp add: parse_value_def oids strconv_Atoi_def int64_min_def int64_max_def)
qed

theorem transaction_values_typed_witness:
  "\<exists>tx a. tx_reach calm_codec BigEndian tx \<and> tx_Actions tx = [a] \<and> transaction_fits tx \<and>
     ad_NewColumns a = [\<lparr>col_name = ''id'', col_value = AnyInt 5, col_valueType = 23, col_isKey = True\<rparr>]"
proof -
  define a where "a = \<lparr>ad_Schema = ''public'', ad_Table = ''users'', ad_Kind = ActionKindInsert, ad_OldColumns = [],
      ad_NewColumns = [\<lparr>col_name = ''id'', col_value = AnyInt 5, col_valueType = 23, col_isKey = True\<rparr>]\<rparr>"
  have "read_from (getInsertMsg BigEndian) (order_bytes BigEndian 4 (unat (7 :: 32 word)) @
      (NewTupleChar # encode_row BigEndian [\<lparr>td_Value = Some [53]\<rparr>])) =
      Inr \<lparr>ins_RelationID = 7, ins_NewTuple = True, ins_NewRow = [\<lparr>td_Value = Some [53]\<rparr>]\<rparr>"
    by (rule read_from_parses [OF parses_getInsert]) (simp add: row_ok_def tuple_ok_def)
  moreover have "CreateActionData calm_codec typed_tx 7 [] [\<lparr>td_Value = Some [53]\<rparr>] ActionKindInsert = Inr (Inr a)"
    by (simp add: CreateActionData_def typed_tx_def relation_data_def typed_relation_def a_def
        AssertValue_def slice_get_def typed_value)
  ultimately have "ParseWalMessage calm_codec BigEndian (encode_insert BigEndian 7 [\<lparr>td_Value = Some [53]\<rparr>]) typed_tx =
      Inr (None, typed_tx\<lparr>tx_Actions := [a]\<rparr>)"
    by (simp add: parse_dispatch encode_insert_def add_action_def typed_tx_def NewWalTransaction_def)
  with typed_tx_reach have "tx_reach calm_codec BigEndian (typed_tx\<lparr>tx_Actions := [a]\<rparr>)" by (rule tx_message)
  from transaction_values_typed [OF this] this show ?thesis
    by (intro exI [of _ "typed_tx\<lparr>tx_Actions := [a]\<rparr>"] exI [of _ a]) (simp add: a_def)
qed

end
