(* ===== verification/Iter.thy ===== *)
theory Iter
  imports GoStd
begin

text \<open>
  The lazy iterators of \<open>src/iter/iter.go\<close> and the re-iterable sequences of
  \<open>src/iterable/iterable.go\<close>. An iterator is a pair of closures over variables they share; here the
  variables are an explicit state, \<open>it_next\<close> the closure that advances it and \<open>it_value\<close> the one
  that reads it. A call may panic, and a loop over an iterator may not end: the outcome is \<open>None\<close>
  for a computation that never returns, and otherwise a \<open>run\<close>.
\<close>

section \<open>Computations that may not return\<close>

type_synonym 'a comp = "'a run option"

definition comp_bind :: "'a comp \<Rightarrow> ('a \<Rightarrow> 'b comp) \<Rightarrow> 'b comp" where
  "comp_bind m f = Option.bind m (\<lambda>r. case r of Inl p \<Rightarrow> Some (Inl p) | Inr x \<Rightarrow> f x)"

definition comp_return :: "'a \<Rightarrow> 'a comp" where
  "comp_return x = Some (Inr x)"

lemma comp_bind_simps [simp]:
  "comp_bind None f = None"
  "comp_bind (Some (Inl p)) f = Some (Inl p)"
  "comp_bind (Some (Inr x)) f = f x"
  "comp_bind (comp_return x) f = f x"
  by (simp_all add: comp_bind_def comp_return_def)

lemma comp_return_eq [simp]: "comp_return x = comp_return y \<longleftrightarrow> x = y"
  by (simp add: comp_return_def)

lemma comp_bind_mono [partial_function_mono]:
  assumes "mono_option B" and "\<And>y. mono_option (\<lambda>f. C y f)"
  shows "mono_option (\<lambda>f. comp_bind (B f) (\<lambda>y. C y f))"
proof -
  have "mono_option (\<lambda>f. case r of Inl p \<Rightarrow> Some (Inl p) | Inr x \<Rightarrow> C x f)" for r
    by (cases r) (simp_all add: assms(2) option.const_mono)
  then show ?thesis unfolding comp_bind_def by (intro bind_mono assms(1))
qed

section \<open>Iterators\<close>

record ('s, 'a) IteratorS =
  it_next :: "'s \<Rightarrow> (bool \<times> 's) comp"
  it_value :: "'s \<Rightarrow> 'a comp"

text \<open>The loop of \<open>ForEach\<close>, over a variable \<open>acc\<close> the function updates.\<close>

partial_function (option) ForEach ::
  "('s, 'a) IteratorS \<Rightarrow> ('a \<Rightarrow> 'b \<Rightarrow> 'b comp) \<Rightarrow> 's \<Rightarrow> 'b \<Rightarrow> ('b \<times> 's) comp" where
  [code]: "ForEach it fn s acc =
     comp_bind (it_next it s) (\<lambda>(b, s').
       if b then comp_bind (it_value it s') (\<lambda>x. comp_bind (fn x acc) (\<lambda>acc'. ForEach it fn s' acc'))
       else comp_return (acc, s'))"

text \<open>\<open>ForEachE\<close> stops at the first error.\<close>

partial_function (option) ForEachE ::
  "('s, 'a) IteratorS \<Rightarrow> ('a \<Rightarrow> 'b \<Rightarrow> (go_error option \<times> 'b) comp) \<Rightarrow> 's \<Rightarrow> 'b \<Rightarrow>
   (go_error option \<times> 'b \<times> 's) comp" where
  [code]: "ForEachE it fn s acc =
     comp_bind (it_next it s) (\<lambda>(b, s').
       if b then comp_bind (it_value it s') (\<lambda>x. comp_bind (fn x acc) (\<lambda>(err, acc').
         if err \<noteq> None then comp_return (err, acc', s') else ForEachE it fn s' acc'))
       else comp_return (None, acc, s'))"

definition iter_Empty :: "(unit, 'a) IteratorS" where
  "iter_Empty = \<lparr>it_next = (\<lambda>_. comp_return (False, ())),
     it_value = (\<lambda>_. Some (Inl (PanicMsg ''Empty iterator'')))\<rparr>"

definition ToArray :: "('s, 'a) IteratorS \<Rightarrow> 's \<Rightarrow> 'a list comp" where
  "ToArray it s = comp_bind (ForEach it (\<lambda>a arr. comp_return (arr @ [a])) s []) (\<lambda>(arr, _). comp_return arr)"

text \<open>\<open>FromSlice\<close>: the state is the index, -1 before the first call of \<open>Next\<close>.\<close>

definition slice_index :: "'a list \<Rightarrow> int \<Rightarrow> 'a comp" where
  "slice_index xs i = Some (if 0 \<le> i \<and> nat i < length xs then Inr (xs ! nat i) else Inl PanicIndex)"

definition iter_FromSlice :: "'a list \<Rightarrow> (int, 'a) IteratorS" where
  "iter_FromSlice sl = \<lparr>it_next = (\<lambda>i. comp_return (i + 1 < int (length sl), i + 1)),
     it_value = (\<lambda>i. slice_index sl i)\<rparr>"

text \<open>\<open>FromFn\<close>: the state is the caller's, with the last value.\<close>

definition iter_FromFn :: "('w \<Rightarrow> ('a \<times> bool) \<times> 'w) \<Rightarrow> ('w \<times> 'a, 'a) IteratorS" where
  "iter_FromFn fn = \<lparr>it_next = (\<lambda>(w, val). let ((val0, ok), w') = fn w in comp_return (ok, (w', val0))),
     it_value = (\<lambda>(w, val). comp_return val)\<rparr>"

definition ToMap :: "('s, 'a) IteratorS \<Rightarrow> ('a \<Rightarrow> string) \<Rightarrow> 's \<Rightarrow> (string \<Rightarrow> 'a option) comp" where
  "ToMap it keyGetterFn s =
     comp_bind (ForEach it (\<lambda>a result. comp_return (result(keyGetterFn a \<mapsto> a))) s Map.empty)
       (\<lambda>(result, _). comp_return result)"

definition iter_Map :: "('s, 'a) IteratorS \<Rightarrow> ('a \<Rightarrow> 'b) \<Rightarrow> ('s, 'b) IteratorS" where
  "iter_Map source fn = \<lparr>it_next = it_next source,
     it_value = (\<lambda>s. comp_bind (it_value source s) (\<lambda>a. comp_return (fn a)))\<rparr>"

definition iter_MapA :: "('s, 'a) IteratorS \<Rightarrow> ('a \<Rightarrow> 'a) \<Rightarrow> ('s, 'a) IteratorS" where
  "iter_MapA it fn = \<lparr>it_next = it_next it,
     it_value = (\<lambda>s. comp_bind (it_value it s) (\<lambda>a. comp_return (fn a)))\<rparr>"

partial_function (option) filter_next ::
  "('s, 'a) IteratorS \<Rightarrow> ('a \<Rightarrow> bool) \<Rightarrow> 's \<Rightarrow> (bool \<times> 's) comp" where
  [code]: "filter_next it fn s =
     comp_bind (it_next it s) (\<lambda>(b, s').
       if b then comp_bind (it_value it s') (\<lambda>x. if fn x then comp_return (True, s')
                                                else filter_next it fn s')
       else comp_return (False, s'))"

definition iter_Filter :: "('s, 'a) IteratorS \<Rightarrow> ('a \<Rightarrow> bool) \<Rightarrow> ('s, 'a) IteratorS" where
  "iter_Filter it fn = \<lparr>it_next = filter_next it fn, it_value = it_value it\<rparr>"

text \<open>
  \<open>Concat\<close>: the variable \<open>i\<close>, which of \<open>iter # iters\<close> is \<open>current\<close>, and the states of all of them.
  \<open>Value\<close> is the field \<open>current.Value\<close> at the time of the call of \<open>Concat\<close>, so it is the
  receiver's.
\<close>

record 's concat_state =
  cs_i :: int
  cs_current :: nat
  cs_states :: "'s list"

function concat_next ::
  "('s, 'a) IteratorS list \<Rightarrow> 's concat_state \<Rightarrow> (bool \<times> 's concat_state) comp" where
  "concat_next its cs =
     comp_bind (it_next (its ! cs_current cs) (cs_states cs ! cs_current cs)) (\<lambda>(b, s').
       let cs1 = cs\<lparr>cs_states := (cs_states cs)[cs_current cs := s']\<rparr> in
       if b then comp_return (True, cs1)
       else let cs2 = cs1\<lparr>cs_i := cs_i cs + 1\<rparr> in
            if int (length its) - 1 \<le> cs_i cs2 then comp_return (False, cs2)
            else concat_next its (cs2\<lparr>cs_current := nat (cs_i cs2) + 1\<rparr>))"
  by auto

termination
  by (relation "measure (\<lambda>(its, cs). nat (int (length its) - cs_i cs))") auto

declare concat_next.simps [simp del]

definition iter_Concat ::
  "('s, 'a) IteratorS \<Rightarrow> ('s, 'a) IteratorS list \<Rightarrow> ('s concat_state, 'a) IteratorS" where
  "iter_Concat it iters = \<lparr>it_next = concat_next (it # iters),
     it_value = (\<lambda>cs. it_value it (cs_states cs ! 0))\<rparr>"

definition concat_start :: "'s list \<Rightarrow> 's concat_state" where
  "concat_start states = \<lparr>cs_i = -1, cs_current = 0, cs_states = states\<rparr>"

section \<open>Iterables\<close>

text \<open>\<open>Iterator\<close> makes a fresh iterator: the closures with their initial variables.\<close>

record ('s, 'a) IterableS =
  ib_iter :: "('s, 'a) IteratorS"
  ib_init :: 's

definition FromIterFn :: "('s, 'a) IteratorS \<times> 's \<Rightarrow> ('s, 'a) IterableS" where
  "FromIterFn fn = \<lparr>ib_iter = fst fn, ib_init = snd fn\<rparr>"

definition ib_ForEach :: "('s, 'a) IterableS \<Rightarrow> ('a \<Rightarrow> 'b \<Rightarrow> 'b comp) \<Rightarrow> 'b \<Rightarrow> 'b comp" where
  "ib_ForEach ib fn acc =
     comp_bind (ForEach (ib_iter ib) fn (ib_init ib) acc) (\<lambda>(acc', _). comp_return acc')"

definition NonEmpty :: "('s, 'a) IterableS \<Rightarrow> bool comp" where
  "NonEmpty ib = comp_bind (it_next (ib_iter ib) (ib_init ib)) (\<lambda>(b, _). comp_return b)"

definition ib_IsEmpty :: "('s, 'a) IterableS \<Rightarrow> bool comp" where
  "ib_IsEmpty ib = comp_bind (it_next (ib_iter ib) (ib_init ib)) (\<lambda>(b, _). comp_return (\<not> b))"

definition ib_Empty :: "(unit, 'a) IterableS" where
  "ib_Empty = FromIterFn (iter_Empty, ())"

definition ib_ToArray :: "('s, 'a) IterableS \<Rightarrow> 'a list comp" where
  "ib_ToArray ib = ToArray (ib_iter ib) (ib_init ib)"

definition ib_FromSlice :: "'a list \<Rightarrow> (int, 'a) IterableS" where
  "ib_FromSlice sl = FromIterFn (iter_FromSlice sl, -1)"

definition ib_ToMap :: "('s, 'a) IterableS \<Rightarrow> ('a \<Rightarrow> string) \<Rightarrow> (string \<Rightarrow> 'a option) comp" where
  "ib_ToMap ib keyGetterFn = ToMap (ib_iter ib) keyGetterFn (ib_init ib)"

definition ib_Map :: "('s, 'a) IterableS \<Rightarrow> ('a \<Rightarrow> 'b) \<Rightarrow> ('s, 'b) IterableS" where
  "ib_Map source fn = FromIterFn (iter_Map (ib_iter source) fn, ib_init source)"

definition ib_MapA :: "('s, 'a) IterableS \<Rightarrow> ('a \<Rightarrow> 'a) \<Rightarrow> ('s, 'a) IterableS" where
  "ib_MapA ib fn = ib_Map ib fn"

definition ib_Filter :: "('s, 'a) IterableS \<Rightarrow> ('a \<Rightarrow> bool) \<Rightarrow> ('s, 'a) IterableS" where
  "ib_Filter ib fn = FromIterFn (iter_Filter (ib_iter ib) fn, ib_init ib)"

text \<open>The loop of \<open>Find\<close>; \<open>zero\<close> is the element type's zero value.\<close>

partial_function (option) find_loop ::
  "('s, 'a) IteratorS \<Rightarrow> ('a \<Rightarrow> bool) \<Rightarrow> 'a \<Rightarrow> 's \<Rightarrow> ('a \<times> bool) comp" where
  [code]: "find_loop it fn zero s =
     comp_bind (it_next it s) (\<lambda>(b, s').
       if b then comp_bind (it_value it s') (\<lambda>x. if fn x then comp_return (x, True)
                                                else find_loop it fn zero s')
       else comp_return (zero, False))"

definition ib_Find :: "('s, 'a) IterableS \<Rightarrow> ('a \<Rightarrow> bool) \<Rightarrow> 'a \<Rightarrow> ('a \<times> bool) comp" where
  "ib_Find ib fn zero = find_loop (ib_iter ib) fn zero (ib_init ib)"

text \<open>\<open>copy(result[i:], s)\<close>: the slice after the copy and the number of elements copied.\<close>

definition copy_at :: "'a list \<Rightarrow> nat \<Rightarrow> 'a list \<Rightarrow> 'a list \<times> nat" where
  "copy_at result i s =
     (let n = min (length result - i) (length s)
      in (take i result @ take n s @ drop (i + n) result, n))"

definition FlattenSlices :: "('s, 't list) IterableS \<Rightarrow> 't \<Rightarrow> 't list comp" where
  "FlattenSlices seq zero =
     comp_bind (ib_ForEach seq (\<lambda>t totalLen. comp_return (totalLen + length t)) 0) (\<lambda>totalLen.
     comp_bind (ib_ForEach seq (\<lambda>s (result, i). let (result', n) = copy_at result i s
                                  in comp_return (result', i + n)) (replicate totalLen zero, 0))
       (\<lambda>(result, i). comp_return result))"

section \<open>What an iterator yields\<close>

inductive yields :: "('s, 'a) IteratorS \<Rightarrow> 's \<Rightarrow> 'a list \<Rightarrow> bool" for it where
  yields_Nil: "it_next it s = comp_return (False, s') \<Longrightarrow> yields it s []"
| yields_Cons: "it_next it s = comp_return (True, s') \<Longrightarrow> it_value it s' = comp_return x \<Longrightarrow>
    yields it s' xs \<Longrightarrow> yields it s (x # xs)"

inductive_cases yields_NilE: "yields it s []"
inductive_cases yields_ConsE: "yields it s (x # xs)"

lemma ForEach_yields:
  "yields it s xs \<Longrightarrow> \<exists>s'. ForEach it (\<lambda>x acc. comp_return (f x acc)) s acc =
     comp_return (fold f xs acc, s')"
proof (induction arbitrary: acc rule: yields.induct)
  case (yields_Nil s s')
  then show ?case by (subst ForEach.simps) simp
next
  case (yields_Cons s s' x xs)
  from yields_Cons.IH [of "f x acc"] yields_Cons.hyps show ?case
    by (subst ForEach.simps) simp
qed

lemma fold_append: "fold (\<lambda>a arr. arr @ [a]) xs ys = ys @ xs"
  by (induction xs arbitrary: ys) auto

lemma find_loop_yields:
  "yields it s xs \<Longrightarrow> find_loop it p z s =
     comp_return (case find p xs of Some x \<Rightarrow> (x, True) | None \<Rightarrow> (z, False))"
proof (induction rule: yields.induct)
  case (yields_Nil s s')
  then show ?case by (subst find_loop.simps) simp
next
  case (yields_Cons s s' x xs)
  then show ?case by (subst find_loop.simps) simp
qed

lemma Map_yields: "yields it s xs \<Longrightarrow> yields (iter_Map it f) s (map f xs)"
  by (induction rule: yields.induct)
    (auto simp: iter_Map_def intro: yields.intros)

lemma filter_next_yields:
  "yields it s xs \<Longrightarrow>
     (filter p xs = [] \<longrightarrow> (\<exists>s'. filter_next it p s = comp_return (False, s'))) \<and>
     (\<forall>y ys. filter p xs = y # ys \<longrightarrow>
        (\<exists>s' zs. filter_next it p s = comp_return (True, s') \<and> it_value it s' = comp_return y \<and>
           yields it s' zs \<and> filter p zs = ys \<and> length zs < length xs))"
proof (induction rule: yields.induct)
  case (yields_Nil s s')
  then show ?case by (subst filter_next.simps) simp
next
  case (yields_Cons s s' x xs)
  have e: "filter_next it p s =
      (if p x then comp_return (True, s') else filter_next it p s')"
    using yields_Cons.hyps by (subst filter_next.simps) simp
  show ?case
  proof (cases "p x")
    case True
    with e yields_Cons show ?thesis by auto
  next
    case False
    with e yields_Cons.IH show ?thesis by (auto intro: less_SucI) (metis less_SucI)
  qed
qed

lemma Filter_yields: "yields it s xs \<Longrightarrow> yields (iter_Filter it p) s (filter p xs)"
proof (induction "length xs" arbitrary: s xs rule: less_induct)
  case less
  show ?case
  proof (cases "filter p xs")
    case Nil
    with filter_next_yields [OF less.prems, of p] show ?thesis
      by (auto simp: iter_Filter_def intro: yields_Nil)
  next
    case (Cons y ys)
    with filter_next_yields [OF less.prems, of p] obtain s' zs where
      n: "filter_next it p s = comp_return (True, s')" "it_value it s' = comp_return y"
        "yields it s' zs" "filter p zs = ys" "length zs < length xs" by blast
    from less.hyps [OF n(5,3)] n(4) have "yields (iter_Filter it p) s' ys" by simp
    with n(1,2) Cons show ?thesis
      by (auto simp: iter_Filter_def intro: yields_Cons)
  qed
qed

text \<open>
  The contract of an iterator that ends: from its initial state it yields a list. What the
  operations then return is determined by that list.
\<close>

locale finite_iterator =
  fixes it :: "('s, 'a) IteratorS" and s0 :: 's and xs :: "'a list"
  assumes yields_list: "yields it s0 xs"
begin

lemma to_array: "ToArray it s0 = comp_return xs"
  using ForEach_yields [OF yields_list, where f = "\<lambda>a arr. arr @ [a]" and acc = "[]"]
  by (auto simp: ToArray_def fold_append)

lemma to_map: "ToMap it k s0 = comp_return (fold (\<lambda>a m. m(k a \<mapsto> a)) xs Map.empty)"
  using ForEach_yields [OF yields_list, where f = "\<lambda>a m. m(k a \<mapsto> a)" and acc = Map.empty]
  by (auto simp: ToMap_def)

lemma map_filter_array: "ToArray (iter_Map (iter_Filter it p) f) s0 = comp_return (map f (filter p xs))"
proof -
  have y: "yields (iter_Map (iter_Filter it p) f) s0 (map f (filter p xs))"
    by (rule Map_yields [OF Filter_yields [OF yields_list]])
  from ForEach_yields [OF y, where f = "\<lambda>a arr. arr @ [a]" and acc = "[]"]
  show ?thesis by (auto simp: ToArray_def fold_append)
qed

lemma find_first: "find_loop it p z s0 =
    comp_return (case find p xs of Some x \<Rightarrow> (x, True) | None \<Rightarrow> (z, False))"
  by (rule find_loop_yields [OF yields_list])

end

lemma FromSlice_yields:
  "i + length ys = length xs \<Longrightarrow> drop i xs = ys \<Longrightarrow> yields (iter_FromSlice xs) (int i - 1) ys"
proof (induction ys arbitrary: i)
  case Nil
  then show ?case
    by (intro yields_Nil [where s' = "int i"]) (simp add: iter_FromSlice_def comp_return_def)
next
  case (Cons y ys)
  then have i: "i < length xs" "xs ! i = y" "drop (Suc i) xs = ys"
    by (auto simp: drop_Suc tl_drop [symmetric] nth_via_drop)
  with Cons.IH [of "Suc i"] Cons.prems have "yields (iter_FromSlice xs) (int (Suc i) - 1) ys" by simp
  with i show ?case
    by (intro yields_Cons [where s' = "int i"])
      (simp_all add: iter_FromSlice_def comp_return_def slice_index_def)
qed

interpretation slice_iter: finite_iterator "iter_FromSlice xs" "-1" xs for xs
  using FromSlice_yields [of 0 xs xs] by unfold_locales simp

lemma copy_at_fill:
  "length s \<le> length result - i \<Longrightarrow> i \<le> length result \<Longrightarrow>
     copy_at result i s = (take i result @ s @ drop (i + length s) result, length s)"
  by (simp add: copy_at_def Let_def)

lemma copy_fold:
  "i = length done0 \<Longrightarrow> length rest = length (concat ss) \<Longrightarrow>
     fst (fold (\<lambda>s (result, i). let (result', n) = copy_at result i s in (result', i + n)) ss
            (done0 @ rest, i)) = done0 @ concat ss"
proof (induction ss arbitrary: done0 rest i)
  case (Cons s ss)
  have "copy_at (done0 @ rest) i s = ((done0 @ s) @ drop (length s) rest, length s)"
    using Cons.prems by (simp add: copy_at_fill)
  with Cons.IH [of "i + length s" "done0 @ s" "drop (length s) rest"] Cons.prems show ?case
    by simp
qed simp

lemma sum_lengths_fold: "fold (\<lambda>t n. n + length t) xss n = n + length (concat xss)"
  by (induction xss arbitrary: n) auto

lemma FlattenSlices_yields:
  assumes "yields (ib_iter seq) (ib_init seq) xss"
  shows "FlattenSlices seq zero = comp_return (concat xss)"
proof -
  let ?g = "\<lambda>s (result, i). let (result', n) = copy_at result i s in (result', i + n)"
  have g: "(\<lambda>s (result, i). let (result', n) = copy_at result i s in comp_return (result', i + n)) =
      (\<lambda>s p. comp_return (?g s p))"
    by (simp add: fun_eq_iff split: prod.splits)
  have a: "ib_ForEach seq (\<lambda>t totalLen. comp_return (totalLen + length t)) 0 =
      comp_return (length (concat xss))"
    using ForEach_yields [OF assms, where f = "\<lambda>t n. n + length t" and acc = 0]
    by (auto simp: ib_ForEach_def sum_lengths_fold)
  have "ib_ForEach seq (\<lambda>s p. comp_return (?g s p)) (replicate n zero, 0) =
      comp_return (fold ?g xss (replicate n zero, 0))" for n
    using ForEach_yields [OF assms, where f = ?g and acc = "(replicate n zero, 0)"]
    by (auto simp: ib_ForEach_def)
  moreover have "fst (fold ?g xss (replicate (length (concat xss)) zero, 0)) = concat xss"
    using copy_fold [of 0 "[]" "replicate (length (concat xss)) zero" xss] by simp
  ultimately show ?thesis
    unfolding FlattenSlices_def a g
    by (cases "fold ?g xss (replicate (length (concat xss)) zero, 0)") simp
qed

section \<open>Properties\<close>

text \<open>
  Filtering, mapping and collecting an iterator over a slice returns, and returns the mapped
  elements that satisfy the predicate, in order; the inner loop of \<open>Filter\<close> ends.
\<close>

theorem slice_pipeline:
  "ToArray (iter_Map (iter_Filter (iter_FromSlice xs) p) f) (-1) = comp_return (map f (filter p xs))"
  by (rule slice_iter.map_filter_array)

text \<open>
  \<open>FlattenSlices\<close> over an iterable of slices returns their concatenation: the two passes agree on
  the total length and \<open>copy\<close> fills the result exactly.
\<close>

theorem flatten_slices_concat:
  "FlattenSlices (ib_FromSlice xss) zero = comp_return (concat xss)"
  by (rule FlattenSlices_yields) (simp add: ib_FromSlice_def FromIterFn_def slice_iter.yields_list)

text \<open>
  \<open>Find\<close> over an iterable of a slice returns the first element that satisfies the predicate, with
  true, and otherwise the zero value with false.
\<close>

theorem find_first_of_slice:
  "ib_Find (ib_FromSlice xs) p zero =
     comp_return (case find p xs of Some x \<Rightarrow> (x, True) | None \<Rightarrow> (zero, False))"
  by (simp add: ib_Find_def ib_FromSlice_def FromIterFn_def slice_iter.find_first)

lemma concat_value_panics:
  "it_value (iter_Concat (iter_FromSlice xs) its)
     \<lparr>cs_i = i, cs_current = c, cs_states = int (length xs) # ss\<rparr> = Some (Inl PanicIndex)"
  by (simp add: iter_Concat_def iter_FromSlice_def slice_index_def)

lemma concat_receiver_step:
  assumes "i + 1 < int (length xs)" and "-1 \<le> i"
  shows "concat_next (iter_FromSlice xs # its)
      \<lparr>cs_i = -1, cs_current = 0, cs_states = i # ss\<rparr> =
    comp_return (True, \<lparr>cs_i = -1, cs_current = 0, cs_states = (i + 1) # ss\<rparr>)"
  using assms by (subst concat_next.simps) (simp add: iter_FromSlice_def)

lemma concat_second_step:
  "concat_next [iter_FromSlice xs, iter_FromSlice (y # ys)]
      \<lparr>cs_i = -1, cs_current = 0, cs_states = [int (length xs) - 1, -1]\<rparr> =
    comp_return (True, \<lparr>cs_i = 0, cs_current = 1, cs_states = [int (length xs), 0]\<rparr>)"
  by (subst concat_next.simps, simp add: iter_FromSlice_def, subst concat_next.simps)
    (simp add: iter_FromSlice_def)

lemma concat_panics_from:
  assumes "k \<le> length xs"
  shows "ForEach (iter_Concat (iter_FromSlice xs) [iter_FromSlice (y # ys)])
      (\<lambda>a arr. comp_return (arr @ [a]))
      \<lparr>cs_i = -1, cs_current = 0, cs_states = [int k - 1, -1]\<rparr> acc = Some (Inl PanicIndex)"
  using assms
proof (induction "length xs - k" arbitrary: k acc)
  case 0
  then have k: "int k = int (length xs)" by simp
  show ?case
    unfolding k
    by (subst ForEach.simps, simp add: iter_Concat_def concat_second_step)
      (use concat_value_panics [of xs "[iter_FromSlice (y # ys)]" 0 1 "[0]"] in
        \<open>simp add: iter_Concat_def\<close>)
next
  case (Suc n)
  then have k: "k < length xs" by simp
  have n: "concat_next [iter_FromSlice xs, iter_FromSlice (y # ys)]
      \<lparr>cs_i = -1, cs_current = 0, cs_states = [int k - 1, -1]\<rparr> =
    comp_return (True, \<lparr>cs_i = -1, cs_current = 0, cs_states = [int (Suc k) - 1, -1]\<rparr>)"
    using concat_receiver_step [of "int k - 1" xs "[iter_FromSlice (y # ys)]" "[-1]"] k by simp
  have v: "it_value (iter_FromSlice xs) (int (Suc k) - 1) = comp_return (xs ! k)"
    using k by (simp add: iter_FromSlice_def slice_index_def comp_return_def)
  show ?case
    by (subst ForEach.simps)
      (use n v Suc(1) [of "Suc k" "acc @ [xs ! k]"] Suc(2) k in \<open>simp add: iter_Concat_def\<close>)
qed

text \<open>
  \<open>Concat\<close> does not concatenate: collecting the concatenation of two slices, the second one
  non-empty, always panics with an index out of range, because \<open>Value\<close> stays the receiver's and the
  receiver is exhausted.
\<close>

theorem concat_of_slices_panics:
  "ToArray (iter_Concat (iter_FromSlice xs) [iter_FromSlice (y # ys)]) (concat_start [-1, -1]) =
     Some (Inl PanicIndex)"
  using concat_panics_from [of 0 xs y ys "[]"]
  by (simp add: ToArray_def concat_start_def)

end
