(* ===== verification/A8.thy ===== *)
theory A8
  imports Iter "HOL-Library.Multiset"
begin

text \<open>
  The utilities of \<open>src/a8/a8.go\<close>: the typed \<open>sync.Map\<close>, slice helpers, JSON and error-chain
  helpers, configuration lookup, property files, file-system tests, symbolic links and the
  sub-process life cycle of the global app.

  The file system, the JSON encoders, \<open>homedir.Expand\<close>, \<open>url.Parse\<close> and templates are parameters.
  \<open>Some\<close> of an optional byte string is a non-nil slice.
\<close>

section \<open>SyncMap\<close>

text \<open>
  The contents of a \<open>sync.Map\<close> are a finite map; each operation is atomic. \<open>Range\<close> visits the keys
  in an order that is not specified: an enumeration of the domain, an argument of \<open>sm_Values\<close>.
\<close>

type_synonym ('k, 'v) SyncMapS = "'k \<Rightarrow> 'v option"

definition NewSyncMap :: "('k, 'v) SyncMapS" where
  "NewSyncMap = Map.empty"

definition sm_Load :: "'v \<Rightarrow> 'k \<Rightarrow> ('k, 'v) SyncMapS \<Rightarrow> 'v \<times> bool" where
  "sm_Load zero key m = (case m key of None \<Rightarrow> (zero, False) | Some v \<Rightarrow> (v, True))"

definition sm_Store :: "'k \<Rightarrow> 'v \<Rightarrow> ('k, 'v) SyncMapS \<Rightarrow> ('k, 'v) SyncMapS" where
  "sm_Store key v m = m(key \<mapsto> v)"

definition sm_Delete :: "'k \<Rightarrow> ('k, 'v) SyncMapS \<Rightarrow> ('k, 'v) SyncMapS" where
  "sm_Delete key m = m(key := None)"

definition sm_LoadAndDelete ::
  "'v \<Rightarrow> 'k \<Rightarrow> ('k, 'v) SyncMapS \<Rightarrow> ('v \<times> bool) \<times> ('k, 'v) SyncMapS" where
  "sm_LoadAndDelete zero key m =
     (case m key of None \<Rightarrow> ((zero, False), m) | Some v \<Rightarrow> ((v, True), m(key := None)))"

definition sm_LoadOrStore ::
  "'k \<Rightarrow> 'v \<Rightarrow> ('k, 'v) SyncMapS \<Rightarrow> ('v \<times> bool) \<times> ('k, 'v) SyncMapS" where
  "sm_LoadOrStore key v m =
     (case m key of None \<Rightarrow> ((v, False), m(key \<mapsto> v)) | Some v' \<Rightarrow> ((v', True), m))"

definition enumerates :: "'k list \<Rightarrow> ('k, 'v) SyncMapS \<Rightarrow> bool" where
  "enumerates ks m = (distinct ks \<and> set ks = dom m)"

text \<open>\<open>Range\<close> stops when the callback answers false.\<close>

fun sm_Range :: "('k \<Rightarrow> 'v \<Rightarrow> 's \<Rightarrow> bool \<times> 's) \<Rightarrow> ('k, 'v) SyncMapS \<Rightarrow> 'k list \<Rightarrow> 's \<Rightarrow> 's" where
  "sm_Range f m [] s = s"
| "sm_Range f m (k # ks) s =
     (case m k of
        None \<Rightarrow> sm_Range f m ks s
      | Some v \<Rightarrow> let (continue, s') = f k v s in if continue then sm_Range f m ks s' else s')"

definition sm_Values :: "('k, 'v) SyncMapS \<Rightarrow> 'k list \<Rightarrow> 'v list" where
  "sm_Values m order = sm_Range (\<lambda>k v values. (True, values @ [v])) m order []"

text \<open>The interface \<open>SyncMap\<close>: what its clients rely on.\<close>

locale sync_map =
  fixes load :: "'k \<Rightarrow> 'm \<Rightarrow> 'v \<times> bool"
    and store :: "'k \<Rightarrow> 'v \<Rightarrow> 'm \<Rightarrow> 'm"
    and delete :: "'k \<Rightarrow> 'm \<Rightarrow> 'm"
    and load_or_store :: "'k \<Rightarrow> 'v \<Rightarrow> 'm \<Rightarrow> ('v \<times> bool) \<times> 'm"
    and load_and_delete :: "'k \<Rightarrow> 'm \<Rightarrow> ('v \<times> bool) \<times> 'm"
  assumes load_store: "load k (store k' v m) = (if k = k' then (v, True) else load k m)"
    and load_delete: "snd (load k (delete k' m)) = (k \<noteq> k' \<and> snd (load k m))"
    and load_delete_other: "k \<noteq> k' \<Longrightarrow> load k (delete k' m) = load k m"
    and load_or_store_eq: "load_or_store k v m =
          (if snd (load k m) then (load k m, m) else ((v, False), store k v m))"
    and load_and_delete_eq: "load_and_delete k m =
          (load k m, if snd (load k m) then delete k m else m)"
begin

lemma load_or_store_present: "snd (load k (snd (load_or_store k v m)))"
  by (simp add: load_or_store_eq load_store)

lemma load_or_store_first_wins:
  "load k (snd (load_or_store k v2 (snd (load_or_store k v1 m)))) =
     load k (snd (load_or_store k v1 m))"
  by (simp add: load_or_store_eq load_store)

lemma load_and_delete_gone: "\<not> snd (load k (snd (load_and_delete k m)))"
  by (simp add: load_and_delete_eq load_delete)

lemma load_and_delete_once:
  "\<not> snd (fst (load_and_delete k (snd (load_and_delete k m))))"
  by (simp add: load_and_delete_eq load_delete)

end

interpretation syncmap: sync_map "sm_Load zero" sm_Store sm_Delete sm_LoadOrStore
    "sm_LoadAndDelete zero" for zero
  by unfold_locales
    (auto simp: sm_Load_def sm_Store_def sm_Delete_def sm_LoadOrStore_def sm_LoadAndDelete_def
      split: option.splits)

lemma sm_Values_eq: "sm_Values m ks = map (\<lambda>k. the (m k)) (filter (\<lambda>k. m k \<noteq> None) ks)"
proof -
  have "sm_Range (\<lambda>k v values. (True, values @ [v])) m ks vs =
      vs @ map (\<lambda>k. the (m k)) (filter (\<lambda>k. m k \<noteq> None) ks)" for vs
    by (induction ks arbitrary: vs) (auto split: option.splits)
  then show ?thesis by (simp add: sm_Values_def)
qed

section \<open>Slices\<close>

text \<open>\<open>a8.Map\<close>: the loop over the indices of \<open>ts\<close>, filling \<open>us\<close>.\<close>

fun map_loop :: "'u list \<Rightarrow> ('t \<Rightarrow> 'u) \<Rightarrow> 't list \<Rightarrow> nat \<Rightarrow> 'u list" where
  "map_loop us f [] i = us"
| "map_loop us f (t # ts) i = map_loop (us[i := f t]) f ts (Suc i)"

definition a8_Map :: "'u \<Rightarrow> 't list \<Rightarrow> ('t \<Rightarrow> 'u) \<Rightarrow> 'u list" where
  "a8_Map zero ts f = map_loop (replicate (length ts) zero) f ts 0"

definition ConcatMultipleSlices :: "'t \<Rightarrow> 't list list \<Rightarrow> 't list" where
  "ConcatMultipleSlices zero slices =
     (let totalLen = fold (\<lambda>s n. n + length s) slices 0
      in fst (fold (\<lambda>s (result, i). let (result', n) = copy_at result i s in (result', i + n)) slices
                (replicate totalLen zero, 0)))"

fun remove_dupes_loop :: "('t \<Rightarrow> bool option) \<Rightarrow> 't list \<Rightarrow> 't list \<Rightarrow> 't list" where
  "remove_dupes_loop allKeys acc [] = acc"
| "remove_dupes_loop allKeys acc (item # items) =
     (if allKeys item = None then remove_dupes_loop (allKeys(item \<mapsto> True)) (acc @ [item]) items
      else remove_dupes_loop allKeys acc items)"

definition RemoveDupes :: "'t list \<Rightarrow> 't list" where
  "RemoveDupes sliceList = remove_dupes_loop Map.empty [] sliceList"

text \<open>
  \<open>RunPar\<close>: every goroutine sends its result once; \<open>order\<close> is the order in which the items' sends
  happen, so a permutation of the indices. The channel holds all of them, so no send blocks and the
  wait ends.
\<close>

definition RunPar :: "'a list \<Rightarrow> ('a \<Rightarrow> 'b) \<Rightarrow> nat list \<Rightarrow> 'b list" where
  "RunPar items runnerFn order = map (\<lambda>i. runnerFn (items ! i)) order"

lemma map_loop_eq:
  "length us = i + length ts \<Longrightarrow> map_loop us f ts i = take i us @ map f ts"
  by (induction ts arbitrary: us i) (simp_all add: take_Suc_conv_app_nth)

lemma remove_dupes_loop_eq:
  "dom allKeys = set acc \<Longrightarrow> distinct acc \<Longrightarrow>
     distinct (remove_dupes_loop allKeys acc items) \<and>
     set (remove_dupes_loop allKeys acc items) = set acc \<union> set items \<and>
     (\<exists>zs. remove_dupes_loop allKeys acc items = acc @ zs)"
proof (induction items arbitrary: allKeys acc)
  case (Cons x items)
  show ?case
  proof (cases "allKeys x")
    case None
    with Cons.prems have x: "x \<notin> set acc" by auto
    define m where "m = allKeys(x \<mapsto> True)"
    have d: "dom m = set (acc @ [x])" using Cons.prems by (simp add: m_def)
    have a: "distinct (acc @ [x])" using Cons.prems x by simp
    have e: "remove_dupes_loop allKeys acc (x # items) = remove_dupes_loop m (acc @ [x]) items"
      using None by (simp add: m_def)
    from Cons.IH [OF d a] show ?thesis unfolding e by (simp, elim conjE exE) simp
  next
    case (Some b)
    with Cons.prems have x: "x \<in> set acc" by auto
    from Cons.IH [OF Cons.prems] x Some show ?thesis by auto
  qed
qed simp

section \<open>JSON, uids and templates\<close>

text \<open>The encoders, with \<open>%+v\<close>; a result is the bytes or an error.\<close>

record 'a encoder =
  enc_Marshal :: "'a \<Rightarrow> go_error + bytes"
  enc_MarshalIndent :: "'a \<Rightarrow> go_error + bytes"
  enc_ProtoMarshal :: "'a \<Rightarrow> go_error + bytes"
  enc_fmt :: "'a \<Rightarrow> string"

definition ToJsonBytesE :: "'a encoder \<Rightarrow> 'a \<Rightarrow> go_error + bytes" where
  "ToJsonBytesE en a =
     (case enc_Marshal en a of
        Inl err \<Rightarrow> Inl (WrapErr (''unable to marshal to json - '' @ enc_fmt en a) err)
      | Inr bs \<Rightarrow> Inr bs)"

definition ToPrettyJsonBytes :: "'a encoder \<Rightarrow> 'a \<Rightarrow> bytes option" where
  "ToPrettyJsonBytes en a = (case enc_MarshalIndent en a of Inl err \<Rightarrow> None | Inr bs \<Rightarrow> Some bs)"

definition ToJsonBytes :: "'a encoder \<Rightarrow> 'a \<Rightarrow> bytes option" where
  "ToJsonBytes en a = (case enc_Marshal en a of Inl err \<Rightarrow> None | Inr bs \<Rightarrow> Some bs)"

definition ToProtoJson :: "'a encoder \<Rightarrow> 'a \<Rightarrow> string" where
  "ToProtoJson en a =
     (case enc_ProtoMarshal en a of
        Inl err \<Rightarrow> ''unable to marshal to json - '' @ enc_fmt en a
      | Inr bs \<Rightarrow> bytes_to_string bs)"

definition ToProtoJsonE :: "'a encoder \<Rightarrow> 'a \<Rightarrow> go_error + bytes" where
  "ToProtoJsonE en a =
     (case enc_ProtoMarshal en a of
        Inl err \<Rightarrow> Inl (WrapErr (''unable to marshal to json - '' @ enc_fmt en a) err)
      | Inr bs \<Rightarrow> Inr bs)"

definition ToJson :: "'a encoder \<Rightarrow> 'a \<Rightarrow> string" where
  "ToJson en a =
     (case ToJsonBytesE en a of
        Inl err \<Rightarrow> ''unable to marshal to json - '' @ enc_fmt en a
      | Inr bs \<Rightarrow> bytes_to_string bs)"

text \<open>\<open>RandomUid\<close>, given the printed form of the random uuid or its error.\<close>

definition RandomUid :: "go_error + string \<Rightarrow> string run" where
  "RandomUid r =
     (case r of
        Inl err \<Rightarrow> Inl (PanicMsg (''panic unable to create uuid'' @ [CHR 0x27] @ ''s - '' @ error_text err))
      | Inr uuid0 \<Rightarrow> Inr (strings_ReplaceAll uuid0 (CHR ''-'') []))"

record TemplateRequest =
  tr_Name :: string
  tr_Content :: string
  tr_Data :: json

text \<open>\<open>TemplatedString\<close> sets the request's name when it is empty; the request is returned updated.\<close>

definition TemplatedString ::
  "(string \<Rightarrow> string \<Rightarrow> go_error + 't) \<Rightarrow> ('t \<Rightarrow> json \<Rightarrow> go_error + string) \<Rightarrow> TemplateRequest \<Rightarrow>
   (go_error + string) \<times> TemplateRequest" where
  "TemplatedString parse execute req0 =
     (let req = (if tr_Name req0 = [] then req0\<lparr>tr_Name := ''template''\<rparr> else req0)
      in (case parse (tr_Name req) (tr_Content req) of
            Inl err \<Rightarrow> (Inl (WrapErr (''failed to parse template -- '' @ tr_Content req) err), req)
          | Inr tmpl \<Rightarrow>
              (case execute tmpl (tr_Data req) of
                 Inl err \<Rightarrow> (Inl (WrapErr (''failed to execute template -- '' @ tr_Content req) err), req)
               | Inr s \<Rightarrow> (Inr s, req))))"

section \<open>Error chains\<close>

text \<open>
  An error as \<open>UnwrapErrorChain\<close> sees it: without an \<open>Unwrap\<close> method, with one that returns an
  error or nil, or with one that returns a slice.
\<close>

datatype err_tree =
    EPlain string
  | EWraps string "err_tree option"
  | EJoins string "err_tree list"

fun unwrapErrorChainImpl :: "err_tree \<Rightarrow> err_tree list \<Rightarrow> err_tree list"
  and unwrapErrorChainAll :: "err_tree list \<Rightarrow> err_tree list \<Rightarrow> err_tree list" where
  "unwrapErrorChainImpl (EPlain m) arr = arr @ [EPlain m]"
| "unwrapErrorChainImpl (EWraps m None) arr = []"
| "unwrapErrorChainImpl (EWraps m (Some err)) arr =
     unwrapErrorChainImpl err (arr @ [EWraps m (Some err)])"
| "unwrapErrorChainImpl (EJoins m errs) arr = unwrapErrorChainAll errs (arr @ [EJoins m errs])"
| "unwrapErrorChainAll [] arr = arr"
| "unwrapErrorChainAll (err # errs) arr = unwrapErrorChainAll errs (unwrapErrorChainImpl err arr)"

definition UnwrapErrorChain :: "err_tree \<Rightarrow> err_tree list" where
  "UnwrapErrorChain err = unwrapErrorChainImpl err []"

text \<open>The errors of the tree, outermost first, and whether every wrapper wraps something.\<close>

fun tree_errors :: "err_tree \<Rightarrow> err_tree list" where
  "tree_errors (EPlain m) = [EPlain m]"
| "tree_errors (EWraps m None) = [EWraps m None]"
| "tree_errors (EWraps m (Some err)) = EWraps m (Some err) # tree_errors err"
| "tree_errors (EJoins m errs) = EJoins m errs # concat (map tree_errors errs)"

fun no_nil_unwrap :: "err_tree \<Rightarrow> bool" where
  "no_nil_unwrap (EPlain m) = True"
| "no_nil_unwrap (EWraps m None) = False"
| "no_nil_unwrap (EWraps m (Some err)) = no_nil_unwrap err"
| "no_nil_unwrap (EJoins m errs) = (\<forall>e\<in>set errs. no_nil_unwrap e)"

lemma unwrap_errors:
  "no_nil_unwrap err \<Longrightarrow> unwrapErrorChainImpl err arr = arr @ tree_errors err"
  "\<forall>e\<in>set errs. no_nil_unwrap e \<Longrightarrow>
     unwrapErrorChainAll errs arr = arr @ concat (map tree_errors errs)"
  by (induction err arr and errs arr rule: unwrapErrorChainImpl_unwrapErrorChainAll.induct) auto

section \<open>Properties\<close>

text \<open>
  \<open>ConcatMultipleSlices\<close> returns the concatenation of the slices and \<open>a8.Map\<close> the mapped slice:
  the pre-allocated result is filled exactly, whatever the element type's zero value.
\<close>

theorem concat_and_map_slices:
  "ConcatMultipleSlices zero slices = concat slices \<and> a8_Map zero' ts f = map f ts"
proof -
  have "ConcatMultipleSlices zero slices = concat slices"
    using copy_fold [of 0 "[]" "replicate (length (concat slices)) zero" slices]
    by (simp add: ConcatMultipleSlices_def sum_lengths_fold)
  moreover have "a8_Map zero' ts f = map f ts"
    by (simp add: a8_Map_def map_loop_eq)
  ultimately show ?thesis ..
qed

lemma RemoveDupes_set: "set (RemoveDupes xs) = set xs" "distinct (RemoveDupes xs)"
  using remove_dupes_loop_eq [of Map.empty "[]" xs] by (simp_all add: RemoveDupes_def)

text \<open>
  \<open>RemoveDupes\<close> keeps exactly the elements of the slice, each once, and a slice without
  duplicates as it is.
\<close>

theorem remove_dupes_correct:
  "distinct (RemoveDupes xs) \<and> set (RemoveDupes xs) = set xs \<and>
   RemoveDupes (RemoveDupes xs) = RemoveDupes xs"
proof -
  have fixed: "remove_dupes_loop m acc ys = acc @ ys"
    if "distinct ys" "set ys \<inter> dom m = {}" for m :: "'a \<Rightarrow> bool option" and acc ys
    using that by (induction ys arbitrary: m acc) auto
  from remove_dupes_loop_eq [of Map.empty "[]" xs]
  have d: "distinct (RemoveDupes xs)" and s: "set (RemoveDupes xs) = set xs"
    by (simp_all add: RemoveDupes_def)
  from fixed [OF d, of Map.empty "[]"] d s show ?thesis by (simp add: RemoveDupes_def)
qed

text \<open>
  \<open>RunPar\<close> returns one result per item, whatever the order in which the goroutines finish: the
  multiset of the results is that of the mapped items.
\<close>

theorem run_par_results:
  assumes "mset order = mset [0 ..< length items]"
  shows "mset (RunPar items f order) = image_mset f (mset items)"
proof -
  have "mset (RunPar items f order) = image_mset (\<lambda>i. f (items ! i)) (mset order)"
    by (simp add: RunPar_def)
  also have "\<dots> = mset (map (\<lambda>i. f (items ! i)) [0 ..< length items])" by (simp add: assms)
  also have "map (\<lambda>i. f (items ! i)) [0 ..< length items] = map f items"
    by (rule nth_equalityI) auto
  finally show ?thesis by simp
qed

theorem run_par_results_witness:
  "mset (RunPar [1, 2, 3 :: nat] Suc [2, 0, 1]) = {#2, 3, 4#}"
proof -
  have "mset [2, 0, 1] = mset [0 ..< length [1, 2, 3 :: nat]]" by (simp add: upt_rec)
  from run_par_results [OF this, of Suc] show ?thesis by simp
qed

text \<open>
  \<open>UnwrapErrorChain\<close> lists all errors of the tree, outermost first and left to right, when every
  \<open>Unwrap\<close> yields an error; when the outermost wrapper wraps nothing the whole list is lost.
\<close>

theorem unwrap_error_chain:
  "(if no_nil_unwrap err then UnwrapErrorChain err = tree_errors err else True) \<and>
   UnwrapErrorChain (EWraps m (Some (EWraps m' None))) = []"
  by (simp add: UnwrapErrorChain_def unwrap_errors)

text \<open>
  \<open>LoadOrStore\<close> on a \<open>SyncMap\<close> lets the first store win and leaves the key present;
  \<open>LoadAndDelete\<close> hands a value out at most once.
\<close>

theorem sync_map_once:
  "sm_Load zero k (snd (sm_LoadOrStore k v2 (snd (sm_LoadOrStore k v1 m)))) =
     sm_Load zero k (snd (sm_LoadOrStore k v1 m)) \<and>
   snd (sm_Load zero k (snd (sm_LoadOrStore k v1 m))) \<and>
   \<not> snd (fst (sm_LoadAndDelete zero k (snd (sm_LoadAndDelete zero k m))))"
  by (intro conjI syncmap.load_or_store_first_wins syncmap.load_or_store_present
      syncmap.load_and_delete_once)

end
