(* ===== verification/Opaques.thy ===== *)
theory Opaques
  imports A8
begin

text \<open>
  The opaque identifiers of \<open>src/hermes/model/model-opaques.go\<close> and \<open>model.go\<close>. Each is an interface
  holding a pointer to a string: \<open>NewX\<close> allocates a fresh string, and Go's \<open>==\<close> on two such values
  compares the pointers, not the texts. A value that was never set is a nil interface, on which a
  method call panics; it is \<open>None\<close> of \<open>opaque\<close>. The allocator is the next free address.
\<close>

section \<open>Opaque values\<close>

type_synonym opaque = "string_ref option"
type_synonym ChannelName = opaque
type_synonym AdminKey = opaque
type_synonym MailboxAddress = opaque
type_synonym ReaderKey = opaque
type_synonym IdempotentId = opaque
type_synonym CorrelationId = opaque
type_synonym ProcessUid = opaque

type_synonym alloc = nat

definition new_opaque :: "string \<Rightarrow> alloc \<Rightarrow> opaque \<times> alloc" where
  "new_opaque s n = (Some \<lparr>ref_addr = n, ref_text = s\<rparr>, Suc n)"

definition NewChannelName :: "string \<Rightarrow> alloc \<Rightarrow> ChannelName \<times> alloc" where
  "NewChannelName s n = new_opaque s n"

definition NewAdminKey :: "string \<Rightarrow> alloc \<Rightarrow> AdminKey \<times> alloc" where
  "NewAdminKey s n = new_opaque s n"

definition NewMailboxAddress :: "string \<Rightarrow> alloc \<Rightarrow> MailboxAddress \<times> alloc" where
  "NewMailboxAddress s n = new_opaque s n"

definition NewReaderKey :: "string \<Rightarrow> alloc \<Rightarrow> ReaderKey \<times> alloc" where
  "NewReaderKey s n = new_opaque s n"

definition NewIdempotentId :: "string \<Rightarrow> alloc \<Rightarrow> IdempotentId \<times> alloc" where
  "NewIdempotentId s n = new_opaque s n"

definition NewCorrelationId :: "string \<Rightarrow> alloc \<Rightarrow> CorrelationId \<times> alloc" where
  "NewCorrelationId s n = new_opaque s n"

definition NewProcessUid :: "string \<Rightarrow> alloc \<Rightarrow> ProcessUid \<times> alloc" where
  "NewProcessUid s n = new_opaque s n"

lemmas new_opaques = NewChannelName_def NewAdminKey_def NewMailboxAddress_def NewReaderKey_def
  NewIdempotentId_def NewCorrelationId_def NewProcessUid_def

definition opaque_String :: "opaque \<Rightarrow> string run" where
  "opaque_String v = run_bind (deref v) (\<lambda>r. Inr (ref_text r))"

definition opaque_IsEmpty :: "opaque \<Rightarrow> bool run" where
  "opaque_IsEmpty v = run_bind (deref v) (\<lambda>r. Inr (length (ref_text r) = 0))"

text \<open>Go's \<open>==\<close> on two interface values of this kind.\<close>

definition opaque_eq :: "opaque \<Rightarrow> opaque \<Rightarrow> bool" where
  "opaque_eq a b =
     (case (a, b) of (None, None) \<Rightarrow> True | (Some x, Some y) \<Rightarrow> ref_eq x y | _ \<Rightarrow> False)"

lemma opaque_eq_refl [simp]: "opaque_eq a a"
  by (cases a) (simp_all add: opaque_eq_def)

lemma opaque_String_simps [simp]:
  "opaque_String None = Inl PanicNil" "opaque_String (Some r) = Inr (ref_text r)"
  by (simp_all add: opaque_String_def)

lemma opaque_IsEmpty_simps [simp]:
  "opaque_IsEmpty None = Inl PanicNil" "opaque_IsEmpty (Some r) = Inr (ref_text r = [])"
  by (simp_all add: opaque_IsEmpty_def)

text \<open>A fresh value differs from every value allocated before it.\<close>

definition allocated :: "alloc \<Rightarrow> opaque \<Rightarrow> bool" where
  "allocated n v = (case v of None \<Rightarrow> True | Some r \<Rightarrow> ref_addr r < n)"

lemma new_opaque_fresh: "allocated n v \<Longrightarrow> \<not> opaque_eq (fst (new_opaque s n)) v"
  by (auto simp: allocated_def opaque_eq_def new_opaque_def ref_eq_def split: option.splits)

lemma new_opaque_allocated:
  "allocated n v \<Longrightarrow> allocated (snd (new_opaque s n)) v"
  "allocated (snd (new_opaque s n)) (fst (new_opaque s n))"
  by (auto simp: allocated_def new_opaque_def split: option.splits)

section \<open>Package variables\<close>

text \<open>
  \<open>NefarioRpcMailbox\<close> and \<open>ConsoleChannel\<close> are allocated when the package is initialised; the
  variables of the packages that import it follow. Their addresses are fixed here, below those of
  any run.
\<close>

definition NefarioRpcMailbox :: MailboxAddress where
  "NefarioRpcMailbox = Some \<lparr>ref_addr = 0, ref_text = ''nefario-rpc''\<rparr>"

definition ConsoleChannel :: ChannelName where
  "ConsoleChannel = Some \<lparr>ref_addr = 1, ref_text = ''console''\<rparr>"

definition NefarioCentral :: string where "NefarioCentral = ''nefario-central''"
definition NefarioPing :: string where "NefarioPing = ''nefario-ping''"

definition alloc_start :: alloc where "alloc_start = 16"

section \<open>Random identifiers and end points\<close>

definition random_opaque :: "go_error + string \<Rightarrow> alloc \<Rightarrow> (opaque \<times> alloc) run" where
  "random_opaque r n = run_bind (RandomUid r) (\<lambda>s. Inr (new_opaque s n))"

definition RandomProcessUid :: "go_error + string \<Rightarrow> alloc \<Rightarrow> (ProcessUid \<times> alloc) run" where
  "RandomProcessUid r n = random_opaque r n"

definition RandomCorrelationId :: "go_error + string \<Rightarrow> alloc \<Rightarrow> (CorrelationId \<times> alloc) run" where
  "RandomCorrelationId r n = random_opaque r n"

definition RandomIdempotentId :: "go_error + string \<Rightarrow> alloc \<Rightarrow> (IdempotentId \<times> alloc) run" where
  "RandomIdempotentId r n = random_opaque r n"

record ('rq, 'rs) RpcEndPoint =
  ep_Path :: string
  ep_Request :: 'rq
  ep_Response :: 'rs

definition RegisterEndPoint ::
  "string \<Rightarrow> 'rq \<Rightarrow> 'rs \<Rightarrow> ('rq, 'rs) RpcEndPoint list \<Rightarrow>
   ('rq, 'rs) RpcEndPoint \<times> ('rq, 'rs) RpcEndPoint list" where
  "RegisterEndPoint path request response eps =
     (let ep = \<lparr>ep_Path = path, ep_Request = request, ep_Response = response\<rparr> in (ep, eps @ [ep]))"

end
