(* ===== verification/A8Nats.thy ===== *)
theory A8Nats
  imports Opaques
begin

text \<open>
  \<open>src/a8nats/a8nats.go\<close>: the connection wrapper, the work queue over a JetStream pull subscription
  and the decoding of messages. The NATS client is a parameter; the work-queue loop is a recursion
  over what the context and \<open>Fetch\<close> answer at each turn.
\<close>

section \<open>Names and labels\<close>

type_synonym Subject = string
type_synonym StreamName = string
type_synonym ConsumerName = string

definition NewSubject :: "string \<Rightarrow> Subject" where "NewSubject s = s"
definition NewStreamName :: "string \<Rightarrow> StreamName" where "NewStreamName s = s"
definition NewConsumerName :: "string \<Rightarrow> ConsumerName" where "NewConsumerName s = s"

record ConnArgs =
  ca_NatsUrl :: string
  ca_Name :: string
  ca_MaxReconnects :: int
  ca_RetryWait :: int
  ca_label :: string

definition args_Label :: "ConnArgs \<Rightarrow> string" where
  "args_Label args = (if ca_label args = [] then ca_Name args else ca_label args)"

definition conn_Label :: "ConnArgs \<Rightarrow> string" where
  "conn_Label args = (let label = ca_Name args in if label = [] then ca_NatsUrl args else label)"

text \<open>The options \<open>NewConn\<close> passes to \<open>Connect\<close>; handlers only log.\<close>

datatype nats_option =
    MaxReconnects int
  | OptName string
  | CustomDialer
  | ReconnectWait int
  | DisconnectErrHandler
  | ReconnectHandler
  | ConnectHandler

definition second :: int where "second = 1000000000"

definition conn_options :: "ConnArgs \<Rightarrow> nats_option list" where
  "conn_options args =
     [if 0 < ca_MaxReconnects args then MaxReconnects (ca_MaxReconnects args) else MaxReconnects (-1)] @
     (if ca_Name args \<noteq> [] then [OptName (ca_Name args)] else []) @
     [CustomDialer, ReconnectWait (2 * second), DisconnectErrHandler, ReconnectHandler,
      ConnectHandler]"

definition NewConn ::
  "(string \<Rightarrow> nats_option list \<Rightarrow> go_error + 'c) \<Rightarrow> ('c \<Rightarrow> go_error + 'j) \<Rightarrow> ConnArgs \<Rightarrow>
   go_error + ('c \<times> 'j \<times> ConnArgs)" where
  "NewConn nats_Connect jet_stream args =
     (let msg = ''unable to connect to '' @ args_Label args @ '' nats - '' @ ca_NatsUrl args
      in (case nats_Connect (ca_NatsUrl args) (conn_options args) of
            Inl err \<Rightarrow> Inl (WrapErr msg err)
          | Inr conn \<Rightarrow> (case jet_stream conn of
                           Inl err \<Rightarrow> Inl (WrapErr msg err)
                         | Inr js \<Rightarrow> Inr (conn, js, args))))"

definition ResolveConn :: "'n option \<Rightarrow> go_error + 'n \<Rightarrow> go_error + 'n" where
  "ResolveConn given new_conn = (case given of Some c \<Rightarrow> Inr c | None \<Rightarrow> new_conn)"

text \<open>
  \<open>Dial\<close>: each turn of the loop is an attempt and, when it fails, whether the context was done or
  the ticker fired. \<open>None\<close> while the inputs are used up.
\<close>

datatype dial_wait = DialCtxDone go_error | DialTick

fun Dial :: "((go_error + 'n) \<times> dial_wait) list \<Rightarrow> (go_error + 'n) option" where
  "Dial [] = None"
| "Dial ((Inr conn, w) # turns) = Some (Inr conn)"
| "Dial ((Inl err, DialCtxDone e) # turns) = Some (Inl e)"
| "Dial ((Inl err, DialTick) # turns) = Dial turns"

section \<open>Publishing\<close>

text \<open>The options of a JetStream publication: the message id, when one is passed.\<close>

definition JetStreamPublish ::
  "(string \<Rightarrow> bytes \<Rightarrow> string option \<Rightarrow> 'r) \<Rightarrow> Subject \<Rightarrow> bytes \<Rightarrow> IdempotentId \<Rightarrow> 'r run" where
  "JetStreamPublish js_Publish subject data idempotentId =
     run_bind (opaque_IsEmpty idempotentId) (\<lambda>e.
       if e then run_bind (opaque_String idempotentId) (\<lambda>s. Inr (js_Publish subject data (Some s)))
       else Inr (js_Publish subject data None))"

section \<open>Start positions\<close>

datatype deliver_policy = DeliverLast | DeliverNew | DeliverAll | StartSequence nat

definition StartSeqToSubscriptionOptions :: "string \<Rightarrow> string \<times> deliver_policy" where
  "StartSeqToSubscriptionOptions startSeq =
     (let s = strings_ToLower startSeq
      in if s = ''last'' then (''last'', DeliverLast)
         else if s = ''tail'' then (''new'', DeliverNew)
         else if s = ''new'' then (''new'', DeliverNew)
         else if s = ''first'' then (''all'', DeliverAll)
         else if s = ''all'' then (''all'', DeliverAll)
         else if s = [] then (''all'', DeliverAll)
         else (case strconv_ParseUint startSeq of
                 None \<Rightarrow> (''all'', DeliverAll)
               | Some ssn \<Rightarrow> (nat_to_string ssn, StartSequence ssn)))"

section \<open>Decoding\<close>

text \<open>A header maps a key to its first value, the empty string when it is absent.\<close>

record nats_msg =
  nm_Header :: "(string \<Rightarrow> string) option"
  nm_Data :: bytes

record 'a decoder =
  de_proto :: "bytes \<Rightarrow> go_error + 'a"
  de_json :: "bytes \<Rightarrow> go_error + 'a"
  de_fullname :: string

definition UnmarshalBytes :: "'a decoder \<Rightarrow> bytes \<Rightarrow> bool \<Rightarrow> go_error + 'a" where
  "UnmarshalBytes de bs useProto =
     (if useProto then
        (case de_proto de bs of
           Inl err \<Rightarrow> Inl (WrapErr (''error unmarshalling protobuf '' @ de_fullname de) err)
         | Inr a \<Rightarrow> Inr a)
      else
        (case de_json de bs of
           Inl err \<Rightarrow> Inl (WrapErr ''error unmarshalling json'' err)
         | Inr a \<Rightarrow> Inr a))"

definition nats_Unmarshal :: "'a decoder \<Rightarrow> nats_msg \<Rightarrow> bool \<Rightarrow> go_error + 'a" where
  "nats_Unmarshal de natsMsg assumeProto =
     (let useProto =
        (case nm_Header natsMsg of
           None \<Rightarrow> assumeProto
         | Some h \<Rightarrow>
             let contentType = strings_ToLower (h ''Content-Type'');
                 p1 = (if contentType = ''json'' \<or> contentType = ''application/json''
                       then False else assumeProto)
             in (if contentType = ''proto'' \<or> contentType = ''protobuf'' \<or>
                    contentType = ''application/protobuf'' then True else p1))
      in UnmarshalBytes de (nm_Data natsMsg) useProto)"

section \<open>Work queues\<close>

record WorkQueueConfig =
  wq_Subject :: Subject
  wq_StreamName :: StreamName
  wq_ConsumerName :: ConsumerName
  wq_RetentionPolicy :: nat
  wq_AssumeProto :: bool
  wq_MaxDeliver :: int
  wq_FetchTimeoutMillis :: int
  wq_MaxAge :: int
  wq_MaxMsgs :: int
  wq_MaxBytes :: int
  wq_StartSeq :: string
  wq_CreateStream :: bool
  wq_BatchSize :: int

record js_stream_config =
  js_Name :: string
  js_Description :: string
  js_Subjects :: "string list"
  js_Retention :: nat
  js_MaxMsgs :: int
  js_MaxBytes :: int
  js_MaxAge :: int

datatype sub_opt =
    SubMaxDeliver int
  | SubBindStream string
  | SubDeliver deliver_policy
  | SubInactiveThreshold int

record wq_env =
  we_resolve :: "go_error option"
  we_stream_info :: "string \<Rightarrow> bool"
  we_add_stream :: "js_stream_config \<Rightarrow> bool \<times> go_error option"
  we_pull_subscribe :: "string \<Rightarrow> string \<Rightarrow> sub_opt list \<Rightarrow> go_error option"

definition wq_stream :: "WorkQueueConfig \<Rightarrow> js_stream_config" where
  "wq_stream config = \<lparr>js_Name = wq_StreamName config,
     js_Description = ''stream for '' @ wq_ConsumerName config, js_Subjects = [wq_Subject config],
     js_Retention = wq_RetentionPolicy config, js_MaxMsgs = wq_MaxMsgs config,
     js_MaxBytes = wq_MaxBytes config, js_MaxAge = wq_MaxAge config\<rparr>"

definition wq_sub_opts :: "WorkQueueConfig \<Rightarrow> sub_opt list" where
  "wq_sub_opts config =
     [SubMaxDeliver (wq_MaxDeliver config), SubBindStream (wq_StreamName config)] @
     (if wq_StartSeq config \<noteq> []
      then [SubDeliver (snd (StartSeqToSubscriptionOptions (wq_StartSeq config)))] else []) @
     (if wq_ConsumerName config = [] then [SubInactiveThreshold (24 * 3600 * second)] else [])"

text \<open>Everything before the loop: an error, or the batch size to fetch with.\<close>

definition work_queue_setup :: "wq_env \<Rightarrow> WorkQueueConfig \<Rightarrow> go_error + int" where
  "work_queue_setup env config =
     (case we_resolve env of
        Some err \<Rightarrow> Inl (WrapErr ''ResolveNatsConn error'' err)
      | None \<Rightarrow>
          let (info, err) =
                (if we_stream_info env (wq_StreamName config) then (True, None)
                 else if wq_CreateStream config then
                   (case we_add_stream env (wq_stream config) of
                      (i, Some e) \<Rightarrow> (i, Some (WrapErr (''error creating stream for '' @
                                                  wq_ConsumerName config) e))
                    | (i, None) \<Rightarrow> (i, None))
                 else (False, Some (GoErr (''stream '' @ wq_StreamName config @
                    '' does not exists aka no streamInfo and CreateStream = false''))))
          in (case err of
                Some e \<Rightarrow> Inl e
              | None \<Rightarrow>
                  if \<not> info then Inl (GoErr (''no streamInfo means no stream for '' @
                                         wq_ConsumerName config))
                  else (case we_pull_subscribe env (wq_Subject config) (wq_ConsumerName config)
                                (wq_sub_opts config) of
                          Some e \<Rightarrow> Inl (WrapErr (''PullSubscribe error - '' @ wq_ConsumerName config) e)
                        | None \<Rightarrow> Inr (if wq_BatchSize config = 0 then 1 else wq_BatchSize config))))"

text \<open>
  One turn of the loop: the context is done, or \<open>Fetch\<close> returned messages, timed out, or failed
  while the context was or was not done. The state \<open>'s\<close> is the task's; the settlements are recorded
  in order.
\<close>

datatype 'm fetch_input =
    QueueDone
  | Fetched "'m list"
  | FetchTimeout "'m list"
  | FetchFailed "'m list" go_error bool

datatype 'm settlement = Acked 'm | Naked 'm

type_synonym ('m, 's) task = "'m \<Rightarrow> 's \<Rightarrow> go_error option \<times> 's"

fun process_batch :: "('m, 's) task \<Rightarrow> 'm list \<Rightarrow> 's \<Rightarrow> 'm settlement list \<Rightarrow> 's \<times> 'm settlement list"
  where
  "process_batch taskFn [] s tr = (s, tr)"
| "process_batch taskFn (msg # msgs) s tr =
     (let (err, s') = taskFn msg s
      in if err \<noteq> None then process_batch taskFn msgs s' (tr @ [Naked msg])
         else process_batch taskFn msgs s' (tr @ [Acked msg]))"

fun work_queue_loop ::
  "ConsumerName \<Rightarrow> ('m, 's) task \<Rightarrow> 'm fetch_input list \<Rightarrow> 's \<Rightarrow> 'm settlement list \<Rightarrow>
   go_error option option \<times> 's \<times> 'm settlement list" where
  "work_queue_loop cn taskFn [] s tr = (None, s, tr)"
| "work_queue_loop cn taskFn (QueueDone # ins) s tr = (Some None, s, tr)"
| "work_queue_loop cn taskFn (FetchTimeout msgs # ins) s tr = work_queue_loop cn taskFn ins s tr"
| "work_queue_loop cn taskFn (FetchFailed msgs err ctxDone # ins) s tr =
     (if ctxDone then let (s', tr') = process_batch taskFn msgs s tr in work_queue_loop cn taskFn ins s' tr'
      else (Some (Some (WrapErr (''error on fetch from subscription - '' @ cn) err)), s, tr))"
| "work_queue_loop cn taskFn (Fetched msgs # ins) s tr =
     (let (s', tr') = process_batch taskFn msgs s tr in work_queue_loop cn taskFn ins s' tr')"

definition RunWorkQueue ::
  "wq_env \<Rightarrow> WorkQueueConfig \<Rightarrow> ('m, 's) task \<Rightarrow> 'm fetch_input list \<Rightarrow> 's \<Rightarrow>
   go_error option option \<times> 's \<times> 'm settlement list" where
  "RunWorkQueue env config taskFn ins s =
     (case work_queue_setup env config of
        Inl err \<Rightarrow> (Some (Some err), s, [])
      | Inr batchSize \<Rightarrow> work_queue_loop (wq_ConsumerName config) taskFn ins s [])"

definition proto_task ::
  "'a decoder \<Rightarrow> WorkQueueConfig \<Rightarrow> ('a, 's) task \<Rightarrow> (nats_msg, 's) task" where
  "proto_task de config taskFn msg s =
     (case nats_Unmarshal de msg (wq_AssumeProto config) of
        Inl err \<Rightarrow> (Some (WrapErr (''error on Unmarshal - '' @ wq_ConsumerName config) err), s)
      | Inr a \<Rightarrow>
          (case taskFn a s of
             (Some err, s') \<Rightarrow> (Some (WrapErr (''error processing message in taskFn - '' @
                                  wq_ConsumerName config) err), s')
           | (None, s') \<Rightarrow> (None, s')))"

definition RunProtoWorkQueue ::
  "'a decoder \<Rightarrow> wq_env \<Rightarrow> WorkQueueConfig \<Rightarrow> ('a, 's) task \<Rightarrow> nats_msg fetch_input list \<Rightarrow> 's \<Rightarrow>
   go_error option option \<times> 's \<times> nats_msg settlement list" where
  "RunProtoWorkQueue de env config taskFn ins s =
     RunWorkQueue env config (proto_task de config taskFn) ins s"

section \<open>Properties\<close>

text \<open>The messages a run of the loop hands to the task, in order.\<close>

fun delivered :: "'m fetch_input list \<Rightarrow> 'm list" where
  "delivered [] = []"
| "delivered (QueueDone # ins) = []"
| "delivered (FetchTimeout msgs # ins) = delivered ins"
| "delivered (FetchFailed msgs err ctxDone # ins) = (if ctxDone then msgs @ delivered ins else [])"
| "delivered (Fetched msgs # ins) = msgs @ delivered ins"

text \<open>How a sequence of messages is settled when the task starts in state \<open>s\<close>.\<close>

fun settlements :: "('m, 's) task \<Rightarrow> 's \<Rightarrow> 'm list \<Rightarrow> 'm settlement list" where
  "settlements f s [] = []"
| "settlements f s (m # ms) =
     (if fst (f m s) = None then Acked m else Naked m) # settlements f (snd (f m s)) ms"

fun settled_msg :: "'m settlement \<Rightarrow> 'm" where
  "settled_msg (Acked m) = m"
| "settled_msg (Naked m) = m"

lemma settlements_append:
  "settlements f s (xs @ ys) = settlements f s xs @ settlements f (fold (\<lambda>m s. snd (f m s)) xs s) ys"
  by (induction xs arbitrary: s) auto

lemma settlements_msgs: "map settled_msg (settlements f s ms) = ms"
  by (induction ms arbitrary: s) auto

lemma process_batch_eq:
  "process_batch f ms s tr = (fold (\<lambda>m s. snd (f m s)) ms s, tr @ settlements f s ms)"
  by (induction ms arbitrary: s tr) (auto split: prod.splits)

lemma work_queue_loop_eq:
  "\<exists>r. work_queue_loop cn f ins s tr =
     (r, fold (\<lambda>m s. snd (f m s)) (delivered ins) s, tr @ settlements f s (delivered ins))"
proof (induction ins arbitrary: s tr)
  case (Cons i ins)
  show ?case
  proof (cases i)
    case (Fetched msgs)
    with Cons [of "fold (\<lambda>m s. snd (f m s)) msgs s" "tr @ settlements f s msgs"] show ?thesis
      by (auto simp: process_batch_eq settlements_append)
  next
    case (FetchFailed msgs err d)
    with Cons [of "fold (\<lambda>m s. snd (f m s)) msgs s" "tr @ settlements f s msgs"] show ?thesis
      by (auto simp: process_batch_eq settlements_append)
  qed (use Cons in auto)
qed simp

text \<open>
  C17. A work queue settles every message it is handed exactly once and in order, with an ack when
  the task returns nil and a nak otherwise; an error of one task does not stop the later ones, and
  the task's state is threaded through all of them.
\<close>

theorem work_queue_settles_all:
  assumes "work_queue_setup env config = Inr n" and "RunWorkQueue env config f ins s = (r, s', tr)"
  shows "tr = settlements f s (delivered ins) \<and> map settled_msg tr = delivered ins \<and>
    s' = fold (\<lambda>m s. snd (f m s)) (delivered ins) s"
  using work_queue_loop_eq [of "wq_ConsumerName config" f ins s "[]"] assms
  by (auto simp: RunWorkQueue_def settlements_msgs)

definition demo_queue :: WorkQueueConfig where
  "demo_queue = \<lparr>wq_Subject = ''s'', wq_StreamName = ''st'', wq_ConsumerName = [],
     wq_RetentionPolicy = 0, wq_AssumeProto = True, wq_MaxDeliver = 3, wq_FetchTimeoutMillis = 10,
     wq_MaxAge = 0, wq_MaxMsgs = 0, wq_MaxBytes = 0, wq_StartSeq = ''17'', wq_CreateStream = True,
     wq_BatchSize = 0\<rparr>"

definition demo_wq_env :: wq_env where
  "demo_wq_env = \<lparr>we_resolve = None, we_stream_info = (\<lambda>_. False),
     we_add_stream = (\<lambda>_. (True, None)), we_pull_subscribe = (\<lambda>_ _ _. None)\<rparr>"

theorem work_queue_settles_all_witness:
  "snd (snd (RunWorkQueue demo_wq_env demo_queue
       (\<lambda>m n. (if m = (2 :: nat) then Some (GoErr ''x'') else None, n + m))
       [Fetched [1, 2], FetchTimeout [9], Fetched [3], QueueDone] (0 :: nat))) =
     [Acked 1, Naked 2, Acked 3]"
proof -
  let ?f = "\<lambda>m n. (if m = (2 :: nat) then Some (GoErr ''x'') else None, n + m)"
  let ?ins = "[Fetched [1, 2], FetchTimeout [9], Fetched [3], QueueDone]"
  have "work_queue_setup demo_wq_env demo_queue = Inr 1"
    by (simp add: work_queue_setup_def demo_wq_env_def demo_queue_def)
  from work_queue_settles_all [OF this, of ?f ?ins 0 "fst (RunWorkQueue demo_wq_env demo_queue ?f ?ins 0)"
      "fst (snd (RunWorkQueue demo_wq_env demo_queue ?f ?ins 0))"
      "snd (snd (RunWorkQueue demo_wq_env demo_queue ?f ?ins 0))"]
  show ?thesis by simp
qed

text \<open>
  \<open>JetStreamPublish\<close> never passes a usable message id: a non-empty idempotency key is dropped,
  an empty one is sent as the id, and a nil one panics.
\<close>

theorem publish_drops_idempotent_id:
  "JetStreamPublish js subject data v =
     (case v of None \<Rightarrow> Inl PanicNil
      | Some r \<Rightarrow> Inr (js subject data (if ref_text r = [] then Some [] else None)))"
  by (auto simp: JetStreamPublish_def split: option.splits)

text \<open>
  A start position that is a decimal number of 64 bits starts at that sequence number; the
  keywords are accepted in any case; anything else starts with all messages.
\<close>

theorem start_seq_options:
  "StartSeqToSubscriptionOptions s =
     (if strings_ToLower s = ''last'' then (''last'', DeliverLast)
      else if strings_ToLower s \<in> {''new'', ''tail''} then (''new'', DeliverNew)
      else (case strconv_ParseUint s of Some n \<Rightarrow> (nat_to_string n, StartSequence n)
            | None \<Rightarrow> (''all'', DeliverAll))) \<and>
   (\<forall>n < 2 ^ 64. StartSeqToSubscriptionOptions (nat_to_string n) = (nat_to_string n, StartSequence n))"
proof -
  have kw: "strconv_ParseUint s = None"
    if "strings_ToLower s \<in> {''first'', ''all'', []}" for s
  proof (cases s)
    case Nil
    then show ?thesis by (simp add: strconv_ParseUint_def scan_digits_def)
  next
    case (Cons c cs)
    with that have "ascii_lower c \<in> {CHR ''f'', CHR ''a''}" by (auto simp: strings_ToLower_def)
    then have "char_digit c = None"
      by (auto simp: ascii_lower_def char_digit_def Let_def split: if_splits)
    with Cons show ?thesis by (simp add: strconv_ParseUint_def scan_digits_def)
  qed
  have "StartSeqToSubscriptionOptions (nat_to_string n) = (nat_to_string n, StartSequence n)"
    if "n < 2 ^ 64" for n
  proof -
    have "nat_to_string n \<noteq> w" if "c \<in> set w" "char_digit c = None" for w c
      using nat_to_string_no_letter [OF that(2)] that(1) by blast
    from this [of "CHR ''l''" "''last''"] this [of "CHR ''l''" "''all''"] this [of "CHR ''t''" "''tail''"]
      this [of "CHR ''n''" "''new''"] this [of "CHR ''f''" "''first''"]
    show ?thesis
      using strconv_ParseUint_nat_to_string [OF that]
      by (simp add: StartSeqToSubscriptionOptions_def char_digit_def)
  qed
  moreover have "StartSeqToSubscriptionOptions s =
     (if strings_ToLower s = ''last'' then (''last'', DeliverLast)
      else if strings_ToLower s \<in> {''new'', ''tail''} then (''new'', DeliverNew)
      else (case strconv_ParseUint s of Some n \<Rightarrow> (nat_to_string n, StartSequence n)
            | None \<Rightarrow> (''all'', DeliverAll)))"
    using kw [of s] by (auto simp: StartSeqToSubscriptionOptions_def Let_def split: option.splits)
  ultimately show ?thesis by blast
qed

theorem start_seq_options_witness:
  "StartSeqToSubscriptionOptions (nat_to_string 17) = (nat_to_string 17, StartSequence 17)"
  by (rule start_seq_options [THEN conjunct2, rule_format]) simp

end
