(* ===== verification/NefarioDb.thy ===== *)
theory NefarioDb
  imports A8Nats
begin

text \<open>
  The database of the nefario service: the rows of \<open>src/nefario/db/models.go\<close> the service uses, and
  the statements of \<open>src/nefario/db/query.sql.go\<close> with the meaning of their SQL text. A table is
  the list of its rows with their primary keys. The PostgreSQL server is a parameter: it may refuse
  any connection or statement (the length of a \<open>varchar\<close>, text that is not JSON, a lost
  connection), and it tells the time; a \<open>jsonb\<close> column keeps the bytes it was given.
\<close>

section \<open>Operations that answer an error\<close>

type_synonym 's eop = "'s \<Rightarrow> go_error option \<times> 's"

text \<open>\<open>if err := m; err != nil { return Propagate(err, label) }; k\<close>\<close>

definition try_then :: "string \<Rightarrow> 's eop \<Rightarrow> 's eop \<Rightarrow> 's eop" where
  "try_then label m k s =
     (case m s of (Some e, s') \<Rightarrow> (Some (WrapErr label e), s') | (None, s') \<Rightarrow> k s')"

definition eop_ok :: "'s eop" where
  "eop_ok s = (None, s)"

text \<open>What holds of the state after every outcome of an operation.\<close>

definition eop_keeps :: "('s \<Rightarrow> bool) \<Rightarrow> 's eop \<Rightarrow> bool" where
  "eop_keeps I m \<longleftrightarrow> (\<forall>s. I s \<longrightarrow> I (snd (m s)))"

named_theorems keeps_intros \<open>operations that keep an invariant\<close>

lemma eop_keepsD: "eop_keeps I m \<Longrightarrow> I s \<Longrightarrow> I (snd (m s))"
  by (simp add: eop_keeps_def)

lemma eop_keeps_ok [keeps_intros]: "eop_keeps I eop_ok"
  by (simp add: eop_keeps_def eop_ok_def)

lemma eop_keeps_try_then [keeps_intros]:
  "eop_keeps I m \<Longrightarrow> eop_keeps I k \<Longrightarrow> eop_keeps I (try_then label m k)"
  unfolding eop_keeps_def try_then_def by (fastforce split: prod.splits option.splits)

lemma eop_keeps_if [keeps_intros]:
  "(b \<Longrightarrow> eop_keeps I m) \<Longrightarrow> (\<not> b \<Longrightarrow> eop_keeps I m') \<Longrightarrow> eop_keeps I (if b then m else m')"
  by simp

lemma try_then_cases:
  "fst (try_then label m k s) = None \<longleftrightarrow> fst (m s) = None \<and> fst (k (snd (m s))) = None"
  "fst (m s) = None \<Longrightarrow> try_then label m k s = k (snd (m s))"
  "fst (m s) = Some e \<Longrightarrow> try_then label m k s = (Some (WrapErr label e), snd (m s))"
  by (cases "m s"; auto simp: try_then_def split: option.splits)+

section \<open>Tables\<close>

type_synonym 'r table = "(string \<times> 'r) list"

definition duplicate_key_violation :: go_error where
  "duplicate_key_violation =
     GoErr ''ERROR: duplicate key value violates unique constraint (SQLSTATE 23505)''"

definition row_insert :: "string \<Rightarrow> 'r \<Rightarrow> 'r table \<Rightarrow> go_error + 'r table" where
  "row_insert uid r t =
     (if uid \<in> fst ` set t then Inl duplicate_key_violation else Inr (t @ [(uid, r)]))"

definition row_update :: "string \<Rightarrow> ('r \<Rightarrow> 'r) \<Rightarrow> 'r table \<Rightarrow> 'r table" where
  "row_update uid f t = map (\<lambda>(k, r). if k = uid then (k, f r) else (k, r)) t"

definition row_delete :: "string \<Rightarrow> 'r table \<Rightarrow> 'r table" where
  "row_delete uid t = filter (\<lambda>(k, r). k \<noteq> uid) t"

lemma row_update_keys [simp]: "map fst (row_update uid f t) = map fst t"
  by (induction t) (auto simp: row_update_def)

lemma row_insert_distinct:
  "row_insert uid r t = Inr t' \<Longrightarrow> distinct (map fst t) \<Longrightarrow> distinct (map fst t')"
  by (auto simp: row_insert_def split: if_splits)

lemma row_delete_distinct: "distinct (map fst t) \<Longrightarrow> distinct (map fst (row_delete uid t))"
  by (simp add: row_delete_def distinct_map_filter)

lemma map_of_row_update:
  "map_of (row_update uid f t) k = (if k = uid then map_option f (map_of t k) else map_of t k)"
  by (induction t) (auto simp: row_update_def)

lemma map_of_row_insert:
  "row_insert uid r t = Inr t' \<Longrightarrow>
     map_of t' k = (if k = uid then Some r else map_of t k)"
  by (auto simp: row_insert_def map_add_def map_of_eq_None_iff split: if_splits option.splits)
     (metis map_of_eq_None_iff option.distinct(1))+

lemma row_insert_fresh: "row_insert uid r t = Inr t' \<Longrightarrow> map_of t uid = None"
  by (auto simp: row_insert_def map_of_eq_None_iff split: if_splits)

lemma map_of_row_delete:
  "map_of (row_delete uid t) k = (if k = uid then None else map_of t k)"
  by (induction t) (auto simp: row_delete_def)

section \<open>Rows\<close>

text \<open>A \<open>pgtype.Text\<close> is an option (\<open>Valid\<close>); a nil byte slice is NULL.\<close>

type_synonym pg_text = "string option"

definition toText :: "string \<Rightarrow> pg_text" where
  "toText s = (if s = [] then None else Some s)"

record ProcessRun =
  pr_MinionUid :: string
  pr_ParentProcessRunUid :: pg_text
  pr_Category :: pg_text
  pr_StartedAt :: int
  pr_CompletedAt :: "int option"
  pr_LastPingAt :: int
  pr_Mailbox :: pg_text
  pr_ProcessStart :: "bytes option"
  pr_LastPing :: "bytes option"
  pr_ProcessComplete :: "bytes option"
  pr_ExtraData :: "bytes option"
  pr_ServiceUid :: string

record Server =
  srv_Uid :: string
  srv_Name :: string
  srv_Description :: string
  srv_Vpndomainname :: string
  srv_NatsUrl :: string
  srv_Extraconfig :: "bytes option"
  srv_AuditVersion :: "int option"
  srv_AuditUsergroupuid :: pg_text

record Service =
  svc_Name :: string
  svc_MinionUid :: string
  svc_MinionEnabled :: bool
  svc_Extraconfig :: "bytes option"
  svc_SystemdUnitJson :: "bytes option"
  svc_MostRecentProcessRunUid :: pg_text
  svc_AuditVersion :: "int option"
  svc_AuditUsergroupuid :: pg_text

section \<open>The outside\<close>

record nefario_db =
  db_processrun :: "ProcessRun table"
  db_service :: "Service table"
  db_server :: "Server table"
  db_wal_ping :: "bytes table"

record ProcessStreamConfig =
  psc_Name :: StreamName
  psc_Subjects :: "Subject list"
  psc_Compression :: nat
  psc_Retention :: nat
  psc_MaxAge :: int

text \<open>The database, the NATS server (streams added, messages published) and the calls made so far.\<close>

record nefario =
  nf_db :: nefario_db
  nf_streams :: "ProcessStreamConfig list"
  nf_published :: "(Subject \<times> bytes) list"
  nf_calls :: nat

record nefario_ext =
  nx_refuse :: "nat \<Rightarrow> go_error option"
  nx_now :: "nat \<Rightarrow> int"

text \<open>
  A call to a server: refused, or answered by \<open>f\<close>, which may fail on the state (a key that exists).
\<close>

definition ext_call :: "nefario_ext \<Rightarrow> (nefario \<Rightarrow> go_error + nefario) \<Rightarrow> nefario eop" where
  "ext_call x f s =
     (let s1 = s\<lparr>nf_calls := Suc (nf_calls s)\<rparr>
      in case nx_refuse x (nf_calls s) of
           Some e \<Rightarrow> (Some e, s1)
         | None \<Rightarrow> (case f s1 of Inl e \<Rightarrow> (Some e, s1) | Inr s2 \<Rightarrow> (None, s2)))"

text \<open>\<open>Exec\<close> of a statement: \<open>f\<close> is what its SQL does to the database, given the time.\<close>

definition db_exec ::
  "nefario_ext \<Rightarrow> (int \<Rightarrow> nefario_db \<Rightarrow> go_error + nefario_db) \<Rightarrow> nefario eop" where
  "db_exec x f =
     ext_call x (\<lambda>s. map_sum id (\<lambda>d. s\<lparr>nf_db := d\<rparr>) (f (nx_now x (nf_calls s)) (nf_db s)))"

text \<open>\<open>Query\<close>: the rows read, or the error.\<close>

definition db_query ::
  "nefario_ext \<Rightarrow> (nefario_db \<Rightarrow> 'a) \<Rightarrow> nefario \<Rightarrow> (go_error + 'a) \<times> nefario" where
  "db_query x f s =
     (let s1 = s\<lparr>nf_calls := Suc (nf_calls s)\<rparr>
      in case nx_refuse x (nf_calls s) of Some e \<Rightarrow> (Inl e, s1) | None \<Rightarrow> (Inr (f (nf_db s)), s1))"

section \<open>Statements\<close>

record InsertStartDtoParams =
  isp_Uid :: string
  isp_ParentProcessRunUid :: pg_text
  isp_MinionUid :: string
  isp_Category :: pg_text
  isp_ProcessStart :: "bytes option"
  isp_ExtraData :: "bytes option"
  isp_ServiceUid :: string

text \<open>The columns the statement leaves out get their defaults.\<close>

definition InsertStartDto :: "nefario_ext \<Rightarrow> InsertStartDtoParams \<Rightarrow> nefario eop" where
  "InsertStartDto x p = db_exec x (\<lambda>now d.
     map_sum id (\<lambda>t. d\<lparr>db_processrun := t\<rparr>)
       (row_insert (isp_Uid p)
         \<lparr>pr_MinionUid = isp_MinionUid p, pr_ParentProcessRunUid = isp_ParentProcessRunUid p,
          pr_Category = isp_Category p, pr_StartedAt = now, pr_CompletedAt = None,
          pr_LastPingAt = now, pr_Mailbox = None, pr_ProcessStart = isp_ProcessStart p,
          pr_LastPing = Some (string_to_bytes ''{}''),
          pr_ProcessComplete = Some (string_to_bytes ''{}''),
          pr_ExtraData = isp_ExtraData p, pr_ServiceUid = isp_ServiceUid p\<rparr>
         (db_processrun d)))"

definition update_run :: "nefario_ext \<Rightarrow> string \<Rightarrow> (int \<Rightarrow> ProcessRun \<Rightarrow> ProcessRun) \<Rightarrow> nefario eop" where
  "update_run x uid f = db_exec x (\<lambda>now d.
     Inr (d\<lparr>db_processrun := row_update uid (f now) (db_processrun d)\<rparr>))"

definition UpdateLastPing :: "nefario_ext \<Rightarrow> string \<Rightarrow> bytes option \<Rightarrow> nefario eop" where
  "UpdateLastPing x uid lastPing =
     update_run x uid (\<lambda>now r. r\<lparr>pr_LastPingAt := now, pr_LastPing := lastPing\<rparr>)"

definition db_UpdateMailbox :: "nefario_ext \<Rightarrow> string \<Rightarrow> pg_text \<Rightarrow> nefario eop" where
  "db_UpdateMailbox x uid mailbox = update_run x uid (\<lambda>now r. r\<lparr>pr_Mailbox := mailbox\<rparr>)"

definition UpdateProcessComplete :: "nefario_ext \<Rightarrow> string \<Rightarrow> bytes option \<Rightarrow> nefario eop" where
  "UpdateProcessComplete x uid processComplete =
     update_run x uid (\<lambda>now r. r\<lparr>pr_CompletedAt := Some now, pr_ProcessComplete := processComplete\<rparr>)"

definition GetProcessRun :: "nefario_ext \<Rightarrow> string \<Rightarrow> nefario \<Rightarrow> (go_error + ProcessRun) \<times> nefario" where
  "GetProcessRun x uid s =
     (case db_query x (\<lambda>d. map_of (db_processrun d) uid) s of
        (Inl e, s') \<Rightarrow> (Inl e, s')
      | (Inr None, s') \<Rightarrow> (Inl (GoErr ''no rows in result set''), s')
      | (Inr (Some r), s') \<Rightarrow> (Inr r, s'))"

definition update_service :: "nefario_ext \<Rightarrow> string \<Rightarrow> (Service \<Rightarrow> Service) \<Rightarrow> nefario eop" where
  "update_service x uid f = db_exec x (\<lambda>now d.
     Inr (d\<lparr>db_service := row_update uid f (db_service d)\<rparr>))"

definition UpdateServiceWithRunningProcess :: "nefario_ext \<Rightarrow> string \<Rightarrow> pg_text \<Rightarrow> nefario eop" where
  "UpdateServiceWithRunningProcess x uid runUid =
     update_service x uid (\<lambda>r. r\<lparr>svc_MostRecentProcessRunUid := runUid\<rparr>)"

definition UpdateService :: "nefario_ext \<Rightarrow> string \<Rightarrow> bytes option \<Rightarrow> nefario eop" where
  "UpdateService x uid unitJson = update_service x uid (\<lambda>r. r\<lparr>svc_SystemdUnitJson := unitJson\<rparr>)"

definition InsertService ::
  "nefario_ext \<Rightarrow> string \<Rightarrow> string \<Rightarrow> string \<Rightarrow> bytes option \<Rightarrow> bool \<Rightarrow> nefario eop" where
  "InsertService x uid name minionUid unitJson enabled = db_exec x (\<lambda>now d.
     map_sum id (\<lambda>t. d\<lparr>db_service := t\<rparr>)
       (row_insert uid
         \<lparr>svc_Name = name, svc_MinionUid = minionUid, svc_MinionEnabled = enabled,
          svc_Extraconfig = None, svc_SystemdUnitJson = unitJson,
          svc_MostRecentProcessRunUid = None, svc_AuditVersion = None,
          svc_AuditUsergroupuid = None\<rparr>
         (db_service d)))"

definition DeleteService :: "nefario_ext \<Rightarrow> string \<Rightarrow> nefario eop" where
  "DeleteService x uid = db_exec x (\<lambda>now d.
     Inr (d\<lparr>db_service := row_delete uid (db_service d)\<rparr>))"

definition ListServicesForMinion ::
  "nefario_ext \<Rightarrow> string \<Rightarrow> nefario \<Rightarrow> (go_error + (string \<times> Service) list) \<times> nefario" where
  "ListServicesForMinion x minionUid =
     db_query x (\<lambda>d. filter (\<lambda>(uid, r). svc_MinionUid r = minionUid) (db_service d))"

definition db_ListServers :: "nefario_ext \<Rightarrow> nefario \<Rightarrow> (go_error + Server list) \<times> nefario" where
  "db_ListServers x = db_query x (\<lambda>d. map snd (db_server d))"

definition InsertPing :: "nefario_ext \<Rightarrow> string \<Rightarrow> bytes \<Rightarrow> nefario eop" where
  "InsertPing x uid data = db_exec x (\<lambda>now d.
     map_sum id (\<lambda>t. d\<lparr>db_wal_ping := t\<rparr>) (row_insert uid data (db_wal_ping d)))"

definition UpdatePing :: "nefario_ext \<Rightarrow> string \<Rightarrow> bytes \<Rightarrow> nefario eop" where
  "UpdatePing x uid data = db_exec x (\<lambda>now d.
     Inr (d\<lparr>db_wal_ping := row_update uid (\<lambda>_. data) (db_wal_ping d)\<rparr>))"

definition DeletePing :: "nefario_ext \<Rightarrow> string \<Rightarrow> nefario eop" where
  "DeletePing x uid = db_exec x (\<lambda>now d.
     Inr (d\<lparr>db_wal_ping := row_delete uid (db_wal_ping d)\<rparr>))"

section \<open>Well-formed databases\<close>

definition db_ok :: "nefario_db \<Rightarrow> bool" where
  "db_ok d \<longleftrightarrow> distinct (map fst (db_processrun d)) \<and> distinct (map fst (db_service d)) \<and>
     distinct (map fst (db_wal_ping d)) \<and>
     distinct (map fst (db_server d)) \<and> (\<forall>(uid, r) \<in> set (db_server d). srv_Uid r = uid)"

text \<open>Invariants that do not look at the count of calls.\<close>

definition ignores_calls :: "(nefario \<Rightarrow> bool) \<Rightarrow> bool" where
  "ignores_calls I \<longleftrightarrow> (\<forall>s n. I (s\<lparr>nf_calls := n\<rparr>) \<longleftrightarrow> I s)"

lemma ext_call_keeps:
  assumes "\<And>s s'. I s \<Longrightarrow> f s = Inr s' \<Longrightarrow> I s'" and "ignores_calls I"
  shows "eop_keeps I (ext_call x f)"
  using assms unfolding eop_keeps_def ext_call_def Let_def ignores_calls_def
  by (auto split: option.split sum.split)

lemma db_exec_keeps:
  assumes "\<And>s now d. I s \<Longrightarrow> f now (nf_db s) = Inr d \<Longrightarrow> I (s\<lparr>nf_db := d\<rparr>)" and "ignores_calls I"
  shows "eop_keeps I (db_exec x f)"
  unfolding db_exec_def
  using assms by (intro ext_call_keeps) (auto simp: map_sum_def split: sum.splits)

text \<open>
  \<open>db_extends d d'\<close>: no process run is lost and what was recorded at its start is unchanged;
  services keep all but the unit and the latest run; servers are untouched.
\<close>

definition same_start :: "ProcessRun \<Rightarrow> ProcessRun \<Rightarrow> bool" where
  "same_start r r' \<longleftrightarrow>
     pr_MinionUid r' = pr_MinionUid r \<and> pr_ParentProcessRunUid r' = pr_ParentProcessRunUid r \<and>
     pr_Category r' = pr_Category r \<and> pr_StartedAt r' = pr_StartedAt r \<and>
     pr_ProcessStart r' = pr_ProcessStart r \<and> pr_ExtraData r' = pr_ExtraData r \<and>
     pr_ServiceUid r' = pr_ServiceUid r"

definition same_service :: "Service \<Rightarrow> Service \<Rightarrow> bool" where
  "same_service r r' \<longleftrightarrow>
     svc_Name r' = svc_Name r \<and> svc_MinionUid r' = svc_MinionUid r \<and>
     svc_MinionEnabled r' = svc_MinionEnabled r \<and> svc_Extraconfig r' = svc_Extraconfig r \<and>
     svc_AuditVersion r' = svc_AuditVersion r \<and>
     svc_AuditUsergroupuid r' = svc_AuditUsergroupuid r"

definition db_extends :: "nefario_db \<Rightarrow> nefario_db \<Rightarrow> bool" where
  "db_extends d d' \<longleftrightarrow>
     (\<forall>uid r. map_of (db_processrun d) uid = Some r \<longrightarrow>
        (\<exists>r'. map_of (db_processrun d') uid = Some r' \<and> same_start r r')) \<and>
     (\<forall>uid r. map_of (db_service d) uid = Some r \<longrightarrow>
        (\<exists>r'. map_of (db_service d') uid = Some r' \<and> same_service r r')) \<and>
     db_server d' = db_server d"

lemma same_service_refl [simp]: "same_service r r"
  by (simp add: same_service_def)

lemma same_start_refl [simp]: "same_start r r"
  by (simp add: same_start_def)

lemma db_extends_refl [simp]: "db_extends d d"
  by (auto simp: db_extends_def)

lemma db_extends_insert_run:
  "db_extends d d1 \<Longrightarrow> row_insert uid r (db_processrun d1) = Inr t \<Longrightarrow>
   db_extends d (d1\<lparr>db_processrun := t\<rparr>)"
  using row_insert_fresh [of uid r "db_processrun d1" t]
  unfolding db_extends_def by (auto simp: map_of_row_insert) (metis option.distinct(1))

lemma db_extends_insert_service:
  "db_extends d d1 \<Longrightarrow> row_insert uid r (db_service d1) = Inr t \<Longrightarrow>
   db_extends d (d1\<lparr>db_service := t\<rparr>)"
  using row_insert_fresh [of uid r "db_service d1" t]
  unfolding db_extends_def by (auto simp: map_of_row_insert) (metis option.distinct(1))

lemma db_extends_update_run:
  "db_extends d d1 \<Longrightarrow> (\<And>r r'. same_start r r' \<Longrightarrow> same_start r (f r')) \<Longrightarrow>
   db_extends d (d1\<lparr>db_processrun := row_update uid f (db_processrun d1)\<rparr>)"
  unfolding db_extends_def by (fastforce simp: map_of_row_update)

lemma db_extends_update_service:
  "db_extends d d1 \<Longrightarrow> (\<And>r r'. same_service r r' \<Longrightarrow> same_service r (f r')) \<Longrightarrow>
   db_extends d (d1\<lparr>db_service := row_update uid f (db_service d1)\<rparr>)"
  unfolding db_extends_def by (fastforce simp: map_of_row_update)

lemma db_query_state: "snd (db_query x f s) = s\<lparr>nf_calls := Suc (nf_calls s)\<rparr>"
  by (simp add: db_query_def Let_def split: option.split)

end
