(* ===== verification/Nefario.thy ===== *)
theory Nefario
  imports NefarioDb
begin

text \<open>
  The nefario service, \<open>src/nefario/nefario.go\<close>: the handlers of the messages a launchy process
  sends, the work queue that runs them, the services rpc, the ping through the WAL listener and the
  cycle that keeps one consumer per server; with the client side of the messages
  (\<open>src/launchy/nefario-service-client.go\<close>) and change data capture
  (\<open>src/cdc/change-data-capture.go\<close>). The JSON and protobuf encodings are parameters, and the log
  lines are left out.
\<close>

section \<open>Messages\<close>

record Timestamp =
  ts_UnixEpochMillis :: int

record ProcessStartedRequest =
  ps_ProcessUid :: string
  ps_ParentProcessRunUid :: string
  ps_ProcessPid :: int
  ps_MinionUid :: string
  ps_ServiceUid :: string
  ps_StartedAt :: "Timestamp option"
  ps_Command :: "string list"
  ps_Cwd :: string
  ps_Env :: "string list"
  ps_Category :: string
  ps_Channels :: "string list"
  ps_Controllable :: bool
  ps_LaunchError :: string
  ps_Kind :: string
  ps_ExtraDataJsonStr :: string

record UpdateMailboxRequest =
  um_ProcessUid :: string
  um_Mailbox :: string

record ProcessPing =
  pp_ProcessUid :: string
  pp_ChannelSizes :: "(string \<times> nat) list"

record ProcessPingRequest =
  ppr_Pings :: "ProcessPing list"
  ppr_Timestamp :: "Timestamp option"

record ProcessCompletedRequest =
  pc_ProcessUid :: string
  pc_ExitCode :: int
  pc_ExitMessage :: string
  pc_CompletedAt :: "Timestamp option"

datatype Transport = TransportUnspecified | Stderr | Stdout | Journalctl

record Buffer =
  buf_Timestamp :: "Timestamp option"
  buf_Data :: bytes
  buf_Transport :: Transport

record StreamRecord =
  str_Timestamp :: "Timestamp option"
  str_Sequence :: nat
  str_Buffers :: "Buffer option list"

record StreamWriteRequest =
  sw_ProcessUid :: string
  sw_ChannelName :: string
  sw_Record :: "StreamRecord option"

record PingRequest =
  pg_Uid :: string
  pg_Payload :: string

datatype MessageFromLaunchy =
    FlUnset
  | FlProcessStarted ProcessStartedRequest
  | FlProcessPing ProcessPingRequest
  | FlProcessCompleted ProcessCompletedRequest
  | FlStreamWrite StreamWriteRequest
  | FlUpdateMailbox UpdateMailboxRequest
  | FlPing PingRequest

datatype SystemdServiceStatus =
    StatusUnspecified | StatusStopped | StatusRunning | StatusFailed | StatusUnknown

record ServiceUnitJson =
  uj_Status :: SystemdServiceStatus
  uj_StatusSource :: string
  uj_UnitExists :: bool
  uj_UnitDescription :: string
  uj_UnitName :: string

record ServiceRecord =
  sr_Uid :: string
  sr_Name :: string
  sr_MinionUid :: string
  sr_MinionEnabled :: bool
  sr_UnitJson :: "ServiceUnitJson option"

text \<open>A value of the enumeration that the code does not know is kept by the decoder.\<close>

datatype CrudAction = CrudUnspecified | CrudInsert | CrudUpdate | CrudOther nat

record SystemdServiceRecordCrud =
  sc_Action :: CrudAction
  sc_Record :: "ServiceRecord option"

definition NowTimeStamp :: "int \<Rightarrow> Timestamp" where
  "NowTimeStamp now = \<lparr>ts_UnixEpochMillis = now\<rparr>"

definition ProcessPingReq :: "int \<Rightarrow> ProcessPing \<Rightarrow> ProcessPingRequest" where
  "ProcessPingReq now processPing =
     \<lparr>ppr_Pings = [processPing], ppr_Timestamp = Some (NowTimeStamp now)\<rparr>"

section \<open>Names\<close>

definition scrub_char :: "char \<Rightarrow> bool" where
  "scrub_char c \<longleftrightarrow>
     (let n = of_char c :: nat
      in (97 \<le> n \<and> n \<le> 122) \<or> (65 \<le> n \<and> n \<le> 90) \<or> (48 \<le> n \<and> n \<le> 57)
         \<or> c = CHR ''-'' \<or> c = CHR ''_'')"

definition ScrubSubjectPart :: "string \<Rightarrow> string" where
  "ScrubSubjectPart subjectPart = filter scrub_char subjectPart"

definition ProcessSubjectName :: "string \<Rightarrow> string \<Rightarrow> Subject" where
  "ProcessSubjectName processUid channelName =
     NewSubject (''launchy.'' @ ScrubSubjectPart processUid @ ''.'' @ ScrubSubjectPart channelName)"

definition ProcessStreamName :: "string \<Rightarrow> string \<Rightarrow> StreamName" where
  "ProcessStreamName processUid channelName =
     NewStreamName (''launchy-'' @ ScrubSubjectPart processUid @ ''-'' @ ScrubSubjectPart channelName)"

section \<open>Handlers\<close>

record nefario_codec =
  nc_start :: "ProcessStartedRequest encoder"
  nc_ping :: "ProcessPing encoder"
  nc_completed :: "ProcessCompletedRequest encoder"
  nc_echo :: "PingRequest encoder"
  nc_record :: "StreamRecord option \<Rightarrow> go_error + bytes"
  nc_unit :: "ServiceUnitJson option encoder"
  nc_unit_parse :: "bytes option \<Rightarrow> go_error option \<times> ServiceUnitJson"

text \<open>\<open>WithQueries\<close> acquires a connection and runs the queries on it.\<close>

definition WithQueries :: "nefario_ext \<Rightarrow> nefario eop \<Rightarrow> nefario eop" where
  "WithQueries x queriesFn s =
     (case ext_call x Inr s of (Some e, s') \<Rightarrow> (Some e, s') | (None, s') \<Rightarrow> queriesFn s')"

definition nats_add_stream :: "nefario_ext \<Rightarrow> ProcessStreamConfig \<Rightarrow> nefario eop" where
  "nats_add_stream x config =
     ext_call x (\<lambda>s. Inr (s\<lparr>nf_streams := nf_streams s @ [config]\<rparr>))"

definition nats_publish :: "nefario_ext \<Rightarrow> Subject \<Rightarrow> bytes \<Rightarrow> nefario eop" where
  "nats_publish x subject data =
     ext_call x (\<lambda>s. Inr (s\<lparr>nf_published := nf_published s @ [(subject, data)]\<rparr>))"

text \<open>S2 compression is 1 and the limits policy 0 in the NATS client; the age is a day.\<close>

definition process_stream :: "string \<Rightarrow> string \<Rightarrow> ProcessStreamConfig" where
  "process_stream processUid channelName =
     \<lparr>psc_Name = ProcessStreamName processUid channelName,
      psc_Subjects = [ProcessSubjectName processUid channelName],
      psc_Compression = 1, psc_Retention = 0, psc_MaxAge = 24 * 3600 * second\<rparr>"

definition AddStream :: "nefario_ext \<Rightarrow> ProcessStartedRequest \<Rightarrow> string \<Rightarrow> nefario eop" where
  "AddStream x req channelName =
     try_then (''error creating stream '' @ ProcessStreamName (ps_ProcessUid req) channelName)
       (nats_add_stream x (process_stream (ps_ProcessUid req) channelName)) eop_ok"

fun add_streams :: "nefario_ext \<Rightarrow> ProcessStartedRequest \<Rightarrow> string list \<Rightarrow> nefario eop" where
  "add_streams x req [] = eop_ok"
| "add_streams x req (ch # chs) =
     try_then ''AddStream error'' (AddStream x req ch) (add_streams x req chs)"

text \<open>An empty extra data string is replaced in the request itself, before it is encoded.\<close>

definition start_request :: "ProcessStartedRequest \<Rightarrow> ProcessStartedRequest" where
  "start_request req =
     (if ps_ExtraDataJsonStr req = [] then req\<lparr>ps_ExtraDataJsonStr := ''{}''\<rparr> else req)"

definition start_queries ::
  "nefario_codec \<Rightarrow> nefario_ext \<Rightarrow> ProcessStartedRequest \<Rightarrow> nefario eop" where
  "start_queries cd x req0 =
     (let req = start_request req0
      in try_then ''error inserting process start''
           (InsertStartDto x
              \<lparr>isp_Uid = ps_ProcessUid req,
               isp_ParentProcessRunUid = toText (ps_ParentProcessRunUid req),
               isp_MinionUid = ps_MinionUid req, isp_Category = toText (ps_Category req),
               isp_ProcessStart = ToJsonBytes (nc_start cd) req,
               isp_ExtraData = Some (string_to_bytes (ps_ExtraDataJsonStr req)),
               isp_ServiceUid = ps_ServiceUid req\<rparr>)
           (if ps_MinionUid req \<noteq> [] then
              try_then ''error UpdateRunningProcess in service table''
                (UpdateServiceWithRunningProcess x (ps_ServiceUid req) (toText (ps_ProcessUid req)))
                eop_ok
            else eop_ok))"

definition ProcessStart ::
  "nefario_codec \<Rightarrow> nefario_ext \<Rightarrow> ProcessStartedRequest \<Rightarrow> nefario eop" where
  "ProcessStart cd x req =
     try_then ''ProcessStart error'' (WithQueries x (start_queries cd x req))
       (add_streams x req (ps_Channels req))"

text \<open>\<open>ForEachE\<close> over the pings stops at the first error.\<close>

fun ping_each :: "nefario_codec \<Rightarrow> nefario_ext \<Rightarrow> ProcessPing list \<Rightarrow> nefario eop" where
  "ping_each cd x [] = eop_ok"
| "ping_each cd x (ping # pings) = (\<lambda>s.
     case try_then ''ProcessStart error''
            (WithQueries x (UpdateLastPing x (pp_ProcessUid ping) (ToJsonBytes (nc_ping cd) ping)))
            eop_ok s of
       (Some e, s') \<Rightarrow> (Some e, s')
     | (None, s') \<Rightarrow> ping_each cd x pings s')"

definition ns_ProcessPing :: "nefario_codec \<Rightarrow> nefario_ext \<Rightarrow> ProcessPingRequest \<Rightarrow> nefario eop" where
  "ns_ProcessPing cd x req = ping_each cd x (ppr_Pings req)"

definition Ping :: "nefario_codec \<Rightarrow> nefario_ext \<Rightarrow> PingRequest \<Rightarrow> nefario eop" where
  "Ping cd x req s =
     (case ToProtoJsonE (nc_echo cd) req of
        Inl err \<Rightarrow> (Some (WrapErr ''unable to marshal PingResponse'' err), s)
      | Inr bs \<Rightarrow> try_then ''unable to publish PingResponse''
                   (nats_publish x (NewSubject (''nefario-ping.'' @ pg_Uid req)) bs) eop_ok s)"

definition ns_UpdateMailbox :: "nefario_ext \<Rightarrow> UpdateMailboxRequest \<Rightarrow> nefario eop" where
  "ns_UpdateMailbox x req =
     try_then ''UpdateMailbox error''
       (WithQueries x (db_UpdateMailbox x (um_ProcessUid req) (toText (um_Mailbox req)))) eop_ok"

definition ProcessCompleted ::
  "nefario_codec \<Rightarrow> nefario_ext \<Rightarrow> ProcessCompletedRequest \<Rightarrow> nefario eop" where
  "ProcessCompleted cd x req =
     try_then ''ProcessStart error''
       (WithQueries x
          (UpdateProcessComplete x (pc_ProcessUid req) (ToJsonBytes (nc_completed cd) req))) eop_ok"

definition StreamWrite :: "nefario_codec \<Rightarrow> nefario_ext \<Rightarrow> StreamWriteRequest \<Rightarrow> nefario eop" where
  "StreamWrite cd x req s =
     (case nc_record cd (sw_Record req) of
        Inl err \<Rightarrow> (Some (WrapErr ''unable to marshal StreamWrite'' err), s)
      | Inr data \<Rightarrow> nats_publish x (ProcessSubjectName (sw_ProcessUid req) (sw_ChannelName req)) data s)"

section \<open>The consumer of a server\<close>

definition dispatch :: "nefario_codec \<Rightarrow> nefario_ext \<Rightarrow> MessageFromLaunchy \<Rightarrow> nefario eop" where
  "dispatch cd x msg =
     (case msg of
        FlProcessStarted m \<Rightarrow> ProcessStart cd x m
      | FlProcessPing m \<Rightarrow> ns_ProcessPing cd x m
      | FlUpdateMailbox m \<Rightarrow> ns_UpdateMailbox x m
      | FlProcessCompleted m \<Rightarrow> ProcessCompleted cd x m
      | FlStreamWrite m \<Rightarrow> StreamWrite cd x m
      | FlPing m \<Rightarrow> Ping cd x m
      | FlUnset \<Rightarrow> eop_ok)"

text \<open>An error is logged and the answer is nil.\<close>

definition processMessageFromLaunchy ::
  "nefario_codec \<Rightarrow> nefario_ext \<Rightarrow> (MessageFromLaunchy, nefario) task" where
  "processMessageFromLaunchy cd x msg s = (None, snd (dispatch cd x msg s))"

definition consumer_config :: WorkQueueConfig where
  "consumer_config =
     \<lparr>wq_Subject = NewSubject ''nefario-central'', wq_StreamName = NewStreamName ''nefario-central'',
      wq_ConsumerName = NewConsumerName ''nefario-central'', wq_RetentionPolicy = 2,
      wq_AssumeProto = True, wq_MaxDeliver = 5, wq_FetchTimeoutMillis = 1000, wq_MaxAge = 0,
      wq_MaxMsgs = 0, wq_MaxBytes = 0, wq_StartSeq = [], wq_CreateStream = True, wq_BatchSize = 0\<rparr>"

definition runNefarioConsumer ::
  "MessageFromLaunchy decoder \<Rightarrow> nefario_codec \<Rightarrow> nefario_ext \<Rightarrow> wq_env \<Rightarrow> nats_msg fetch_input list \<Rightarrow>
   nefario \<Rightarrow> go_error option option \<times> nefario \<times> nats_msg settlement list" where
  "runNefarioConsumer de cd x env ins s =
     RunProtoWorkQueue de env consumer_config (processMessageFromLaunchy cd x) ins s"

section \<open>Services\<close>

text \<open>
  \<open>SystemdServiceCrud\<close> checks all actions before it runs the first. An action whose value is not
  known does nothing; a record is never nil after the check.
\<close>

definition crud_invalid :: "SystemdServiceRecordCrud \<Rightarrow> bool" where
  "crud_invalid crudAction \<longleftrightarrow> sc_Action crudAction = CrudUnspecified \<or> sc_Record crudAction = None"

definition unit_bytes :: "nefario_codec \<Rightarrow> ServiceRecord \<Rightarrow> bytes option" where
  "unit_bytes cd r = Some (string_to_bytes (ToProtoJson (nc_unit cd) (sr_UnitJson r)))"

definition crud_step ::
  "nefario_codec \<Rightarrow> nefario_ext \<Rightarrow> SystemdServiceRecordCrud \<Rightarrow> nefario eop" where
  "crud_step cd x crudAction =
     (case sc_Record crudAction of
        None \<Rightarrow> eop_ok
      | Some r \<Rightarrow>
          (case sc_Action crudAction of
             CrudInsert \<Rightarrow> InsertService x (sr_Uid r) (sr_Name r) (sr_MinionUid r) (unit_bytes cd r)
                             (sr_MinionEnabled r)
           | CrudUpdate \<Rightarrow> UpdateService x (sr_Uid r) (unit_bytes cd r)
           | _ \<Rightarrow> eop_ok))"

fun crud_steps ::
  "nefario_codec \<Rightarrow> nefario_ext \<Rightarrow> SystemdServiceRecordCrud list \<Rightarrow> nefario eop" where
  "crud_steps cd x [] = eop_ok"
| "crud_steps cd x (c # cs) =
     try_then ''error processing systemd service crud action'' (crud_step cd x c)
       (crud_steps cd x cs)"

definition crud_queries ::
  "nefario_codec \<Rightarrow> nefario_ext \<Rightarrow> SystemdServiceRecordCrud list \<Rightarrow> nefario eop" where
  "crud_queries cd x actions =
     (let validRecords = (filter crud_invalid actions = [])
      in if \<not> validRecords then
           (\<lambda>s. (Some (GoErr ''invalid request, either nil record or unspecified crud action''), s))
         else crud_steps cd x actions)"

definition SystemdServiceCrud ::
  "nefario_codec \<Rightarrow> nefario_ext \<Rightarrow> SystemdServiceRecordCrud list \<Rightarrow> nefario eop" where
  "SystemdServiceCrud cd x actions =
     try_then ''SystemdServiceCrud error'' (WithQueries x (crud_queries cd x actions)) eop_ok"

text \<open>A unit that does not parse is logged and kept as far as it was parsed.\<close>

definition service_record :: "nefario_codec \<Rightarrow> string \<times> Service \<Rightarrow> ServiceRecord" where
  "service_record cd row =
     \<lparr>sr_Uid = fst row, sr_Name = svc_Name (snd row), sr_MinionUid = svc_MinionUid (snd row),
      sr_MinionEnabled = svc_MinionEnabled (snd row),
      sr_UnitJson = Some (snd (nc_unit_parse cd (svc_SystemdUnitJson (snd row))))\<rparr>"

definition ListSystemdServices ::
  "nefario_codec \<Rightarrow> nefario_ext \<Rightarrow> string \<Rightarrow> nefario \<Rightarrow> (go_error + ServiceRecord list) \<times> nefario" where
  "ListSystemdServices cd x minionUid s =
     (case ext_call x Inr s of
        (Some e, s') \<Rightarrow> (Inl (WrapErr ''ListSystemdServices error'' e), s')
      | (None, s') \<Rightarrow>
          (case ListServicesForMinion x minionUid s' of
             (Inl e, s2) \<Rightarrow>
               (Inl (WrapErr ''ListSystemdServices error''
                       (WrapErr ''error listing systemd services'' e)), s2)
           | (Inr rows, s2) \<Rightarrow> (Inr (map (service_record cd) rows), s2)))"

definition ListServers :: "nefario_ext \<Rightarrow> nefario \<Rightarrow> (go_error + Server list) \<times> nefario" where
  "ListServers x s =
     (case ext_call x Inr s of
        (Some e, s') \<Rightarrow> (Inl (WrapErr ''ProcessStart error'' e), s')
      | (None, s') \<Rightarrow>
          (case db_ListServers x s' of
             (Inl e, s2) \<Rightarrow> (Inl (WrapErr ''ProcessStart error'' e), s2)
           | (Inr rows, s2) \<Rightarrow> (Inr rows, s2)))"

section \<open>One consumer per server\<close>

record Consumer =
  con_row :: Server
  con_id :: nat

text \<open>
  The state of \<open>Run\<close>: the consumers by the uid of their server, the consumers started so far (a
  consumer is identified by the number of its start, its context by the same number), those whose
  context was cancelled, and the wait group.
\<close>

record consumers =
  cn_byUid :: "string \<Rightarrow> Consumer option"
  cn_started :: "Server list"
  cn_cancelled :: "nat set"
  cn_wg :: nat

fun diff_servers :: "(string \<Rightarrow> Consumer option) \<Rightarrow> Server list \<Rightarrow> Server list \<times> Consumer list" where
  "diff_servers cs [] = ([], [])"
| "diff_servers cs (server # servers) =
     (let (adds, deletes) = diff_servers cs servers
      in case cs (srv_Uid server) of
           None \<Rightarrow> (server # adds, deletes)
         | Some consumer \<Rightarrow>
             if con_row consumer = server then (adds, deletes)
             else (server # adds, consumer # deletes))"

definition gone_consumers ::
  "(string \<Rightarrow> Consumer option) \<Rightarrow> Server list \<Rightarrow> string list \<Rightarrow> Consumer list" where
  "gone_consumers cs servers walk =
     map (\<lambda>uid. the (cs uid)) (filter (\<lambda>uid. uid \<notin> srv_Uid ` set servers) walk)"

definition shutdown_consumer :: "Consumer \<Rightarrow> consumers \<Rightarrow> consumers" where
  "shutdown_consumer c st =
     st\<lparr>cn_cancelled := insert (con_id c) (cn_cancelled st),
        cn_byUid := (cn_byUid st)(srv_Uid (con_row c) := None)\<rparr>"

definition start_consumer :: "Server \<Rightarrow> consumers \<Rightarrow> consumers" where
  "start_consumer server st =
     st\<lparr>cn_byUid := (cn_byUid st)(srv_Uid server \<mapsto> \<lparr>con_row = server, con_id = length (cn_started st)\<rparr>),
        cn_started := cn_started st @ [server]\<rparr>"

text \<open>\<open>walk\<close> is the order in which the map of consumers is walked.\<close>

definition runUpdateCycle ::
  "go_error + Server list \<Rightarrow> string list \<Rightarrow> consumers \<Rightarrow> go_error option \<times> consumers" where
  "runUpdateCycle listed walk st =
     (case listed of
        Inl err \<Rightarrow> (Some (WrapErr ''error retrieving list of servers'' err), st)
      | Inr servers \<Rightarrow>
          if servers = [] then (Some (GoErr ''no servers found, exiting immediately''), st)
          else
            let (adds, changed) = diff_servers (cn_byUid st) servers;
                deletes = changed @ gone_consumers (cn_byUid st) servers walk;
                st1 = fold shutdown_consumer deletes st;
                st2 = st1\<lparr>cn_wg := cn_wg st1 + length adds\<rparr>
            in (None, fold start_consumer adds st2))"

section \<open>The ping through the WAL listener\<close>

record PingResult =
  pres_Latency0InMillis :: int
  pres_Latency1InMillis :: int
  pres_TimeoutMsg :: string
  pres_Err :: "go_error option"

definition ping_error :: "go_error \<Rightarrow> PingResult" where
  "ping_error err = \<lparr>pres_Latency0InMillis = 0, pres_Latency1InMillis = 0, pres_TimeoutMsg = [],
     pres_Err = Some err\<rparr>"

text \<open>
  What \<open>WalPing\<close> waits for, in the order it happens: an event of change data capture (the uid of its
  row, its action) or the end of the context.
\<close>

datatype ping_input = CdcEvent string string | PingCtxDone

text \<open>
  \<open>waitForPing\<close> on the events it is handed while the state is (\<open>firstCdcEvent\<close>, whether
  \<open>pingResultCh\<close> holds a value).
\<close>

definition wait_for_ping :: "string \<Rightarrow> string \<Rightarrow> string \<Rightarrow> bool \<times> bool \<Rightarrow> bool \<times> bool" where
  "wait_for_ping pingUid uid action st =
     (False, snd st \<or> (uid = pingUid \<and> action = ''UPDATE''))"

text \<open>The first select: it goes on at the first event; \<open>None\<close> while there is no input.\<close>

fun await_first ::
  "string \<Rightarrow> ping_input list \<Rightarrow> ((bool \<times> bool) option \<times> ping_input list) option" where
  "await_first pingUid [] = None"
| "await_first pingUid (PingCtxDone # ins) = Some (None, ins)"
| "await_first pingUid (CdcEvent uid action # ins) =
     Some (Some (wait_for_ping pingUid uid action (True, False)), ins)"

text \<open>The second select, with the times of the two latencies: it ends at the ping or at the end of
  the context.\<close>

fun await_ping :: "string \<Rightarrow> int \<Rightarrow> int \<Rightarrow> bool \<times> bool \<Rightarrow> ping_input list \<Rightarrow> PingResult option" where
  "await_ping pingUid l0 l1 (firstCdcEvent, True) ins =
     Some \<lparr>pres_Latency0InMillis = l0, pres_Latency1InMillis = l1, pres_TimeoutMsg = [],
           pres_Err = None\<rparr>"
| "await_ping pingUid l0 l1 (firstCdcEvent, False) [] = None"
| "await_ping pingUid l0 l1 (firstCdcEvent, False) (PingCtxDone # ins) =
     Some \<lparr>pres_Latency0InMillis = 0, pres_Latency1InMillis = 0,
           pres_TimeoutMsg =
             (if firstCdcEvent then ''Ping timed out.  No change data capture records received.''
              else ''Ping timed out.''),
           pres_Err = None\<rparr>"
| "await_ping pingUid l0 l1 (firstCdcEvent, False) (CdcEvent uid action # ins) =
     await_ping pingUid l0 l1 (wait_for_ping pingUid uid action (firstCdcEvent, False)) ins"

definition ping_query :: "nefario_ext \<Rightarrow> string \<Rightarrow> nefario eop \<Rightarrow> nefario eop" where
  "ping_query x label m = try_then label (WithQueries x m) eop_ok"

definition WalPing ::
  "nefario_ext \<Rightarrow> string \<Rightarrow> int \<Rightarrow> int \<Rightarrow> ping_input list \<Rightarrow> nefario \<Rightarrow> PingResult option \<times> nefario"
  where
  "WalPing x uid l0 l1 ins s =
     (let data = string_to_bytes ''{}''
      in case ping_query x ''Insert Ping error'' (InsertPing x uid data) s of
           (Some err, s1) \<Rightarrow> (Some (ping_error (WrapErr ''error inserting first ping'' err)), s1)
         | (None, s1) \<Rightarrow>
             (case await_first uid ins of
                None \<Rightarrow> (None, s1)
              | Some (None, ins1) \<Rightarrow>
                  (Some (ping_error (GoErr ''context cancelled before first cdc event'')), s1)
              | Some (Some st, ins1) \<Rightarrow>
                  (case ping_query x ''Update Ping error'' (UpdatePing x uid data) s1 of
                     (Some err, s2) \<Rightarrow>
                       (Some (ping_error (WrapErr ''error updating ping record'' err)), s2)
                   | (None, s2) \<Rightarrow>
                       (case ping_query x ''Delete Ping error'' (DeletePing x uid) s2 of
                          (Some err, s3) \<Rightarrow>
                            (Some (ping_error (WrapErr ''error deleting ping record'' err)), s3)
                        | (None, s3) \<Rightarrow> (await_ping uid l0 l1 st ins1, s3)))))"

section \<open>Change data capture\<close>

record ChangeDataCaptureEvent =
  cde_Id :: string
  cde_Schema :: string
  cde_Table :: string
  cde_Action :: string
  cde_Data :: bytes
  cde_CommitTime :: string

record ChangeDataCaptureConfig =
  cdc_Root :: string
  cdc_Database :: string
  cdc_Table :: string
  cdc_StartSeq :: string
  cdc_ConsumerName :: ConsumerName

definition JsonUnmarshalAny :: "(bytes \<Rightarrow> go_error + 'a) \<Rightarrow> bytes \<Rightarrow> go_error + 'a" where
  "JsonUnmarshalAny json_Unmarshal bs =
     (case json_Unmarshal bs of
        Inl err \<Rightarrow> Inl (WrapErr ''error unmarshalling json'' err)
      | Inr a \<Rightarrow> Inr a)"

definition cdc_handler ::
  "(bytes \<Rightarrow> go_error + ChangeDataCaptureEvent) \<Rightarrow> (bytes \<Rightarrow> go_error + 'r) \<Rightarrow>
   (ChangeDataCaptureEvent \<Rightarrow> 'r \<Rightarrow> 's eop) \<Rightarrow> (nats_msg, 's) task" where
  "cdc_handler json_event json_row listener natsMsg s =
     (let cdcJson = bytes_to_string (nm_Data natsMsg)
      in case json_event (nm_Data natsMsg) of
           Inl err \<Rightarrow>
             (Some (WrapErr (''Error unmarshalling ChangeDataCaptureEvent: '' @ cdcJson) err), s)
         | Inr cdcEvent \<Rightarrow>
             (case JsonUnmarshalAny json_row (cde_Data cdcEvent) of
                Inl err \<Rightarrow>
                  (Some (WrapErr (''Error unmarshalling ChangeDataCaptureEvent.Data: '' @ cdcJson) err), s)
              | Inr row \<Rightarrow>
                  try_then (''error processing ChangeDataCaptureEvent: '' @ cdcJson)
                    (listener cdcEvent row) eop_ok s))"

definition cdc_queue :: "ChangeDataCaptureConfig \<Rightarrow> WorkQueueConfig" where
  "cdc_queue cfg0 =
     (let cfg = (if cdc_ConsumerName cfg0 = [] \<and> cdc_StartSeq cfg0 = []
                 then cfg0\<lparr>cdc_StartSeq := ''new''\<rparr> else cfg0)
      in \<lparr>wq_Subject = strings_Join [cdc_Root cfg, cdc_Database cfg, cdc_Table cfg, ''>''] ''.'',
          wq_StreamName = ''wal_listener'', wq_ConsumerName = cdc_ConsumerName cfg,
          wq_RetentionPolicy = 0, wq_AssumeProto = False, wq_MaxDeliver = 0,
          wq_FetchTimeoutMillis = 0, wq_MaxAge = 0, wq_MaxMsgs = 0, wq_MaxBytes = 0,
          wq_StartSeq = cdc_StartSeq cfg, wq_CreateStream = False, wq_BatchSize = 0\<rparr>)"

definition RunChangeDataCapture ::
  "(bytes \<Rightarrow> go_error + ChangeDataCaptureEvent) \<Rightarrow> (bytes \<Rightarrow> go_error + 'r) \<Rightarrow> wq_env \<Rightarrow>
   ChangeDataCaptureConfig \<Rightarrow> (ChangeDataCaptureEvent \<Rightarrow> 'r \<Rightarrow> 's eop) \<Rightarrow> nats_msg fetch_input list \<Rightarrow> 's \<Rightarrow>
   go_error option option \<times> 's \<times> nats_msg settlement list" where
  "RunChangeDataCapture json_event json_row env cfg listener ins s =
     RunWorkQueue env (cdc_queue cfg) (cdc_handler json_event json_row listener) ins s"

section \<open>The client\<close>

record NefarioServiceClient =
  nsc_Subject :: Subject

definition NewNefarioServiceClient ::
  "go_error option \<Rightarrow> Subject \<Rightarrow> go_error + NefarioServiceClient" where
  "NewNefarioServiceClient resolve nefarioSubject =
     (case resolve of
        Some err \<Rightarrow> Inl (WrapErr ''unable to connect to nats'' err)
      | None \<Rightarrow> Inr \<lparr>nsc_Subject = if nefarioSubject = [] then NefarioCentral else nefarioSubject\<rparr>)"

definition client_Publish ::
  "nefario_ext \<Rightarrow> (MessageFromLaunchy \<Rightarrow> go_error + bytes) \<Rightarrow> NefarioServiceClient \<Rightarrow>
   MessageFromLaunchy \<Rightarrow> nefario eop" where
  "client_Publish x marshal ns msg s =
     (case marshal msg of
        Inl err \<Rightarrow> (Some (WrapErr ''error marshalling protobuf message to bytes'' err), s)
      | Inr bs \<Rightarrow> try_then ''error publishing message to nats''
                   (nats_publish x (nsc_Subject ns) bs) eop_ok s)"

definition client_ProcessStart where
  "client_ProcessStart x marshal ns req = client_Publish x marshal ns (FlProcessStarted req)"

definition client_ProcessPing where
  "client_ProcessPing x marshal ns req = client_Publish x marshal ns (FlProcessPing req)"

definition client_ProcessCompleted where
  "client_ProcessCompleted x marshal ns req = client_Publish x marshal ns (FlProcessCompleted req)"

definition client_StreamWrite where
  "client_StreamWrite x marshal ns req = client_Publish x marshal ns (FlStreamWrite req)"

definition client_UpdateMailbox where
  "client_UpdateMailbox x marshal ns req = client_Publish x marshal ns (FlUpdateMailbox req)"

end
