(* ===== verification/WalDelivery.thy ===== *)
theory WalDelivery
  imports WalServices WalTypes Nefario
begin

text \<open>
  From a committed row to the listener of its table: the publisher of the wal listener
  (\<open>src/wal-listener/publisher\<close>), the stream between, and \<open>RunChangeDataCapture\<close> of
  \<open>src/cdc/change-data-capture.go\<close>. The stream is NATS, a parameter: what is relied on is that a subject
  that ends in \<open>.>\<close> matches the subjects with at least one more token, and that a consumer is handed the
  messages of the stream its subject matches, in their order.
\<close>

definition tail_matches :: "(string \<Rightarrow> string \<Rightarrow> bool) \<Rightarrow> bool" where
  "tail_matches matches \<longleftrightarrow>
     (\<forall>p s. set p \<inter> {CHR ''*'', CHR ''>''} = {} \<longrightarrow>
        (matches (p @ ''.>'') s \<longleftrightarrow> (\<exists>r. r \<noteq> [] \<and> s = p @ ''.'' @ r)))"

definition plain_token :: "string \<Rightarrow> bool" where
  "plain_token t \<longleftrightarrow> set t \<inter> {CHR ''.'', CHR ''*'', CHR ''>''} = {}"

text \<open>The messages of the stream after the events of a trace, newest effect first, were published.\<close>

definition stream_of :: "(Event \<Rightarrow> go_error + bytes) \<Rightarrow> effect list \<Rightarrow> (string \<times> bytes) list" where
  "stream_of marshal tr = concat (map (\<lambda>e. case e of
     Published s ev None \<Rightarrow> (case marshal ev of Inl err \<Rightarrow> [] | Inr bs \<Rightarrow> [(s, bs)]) | _ \<Rightarrow> []) (rev tr))"

text \<open>Whether the row of an event has a \<open>uid\<close> that prints as something.\<close>

definition has_uid :: "codec \<Rightarrow> Event \<Rightarrow> bool" where
  "has_uid cd e = (case ev_Data e ''uid'' of None \<Rightarrow> False | Some uid \<Rightarrow> cd_fmt_v cd uid \<noteq> [])"

lemma stream_of_simps [simp]:
  "stream_of marshal [] = []"
  "stream_of marshal (CountPublished s t # tr) = stream_of marshal tr"
  "stream_of marshal (Published s e None # tr) = stream_of marshal tr @
     (case marshal e of Inl err \<Rightarrow> [] | Inr bs \<Rightarrow> [(s, bs)])"
  by (simp_all add: stream_of_def split: sum.splits)

lemma plain_prefix:
  assumes "plain_token t" and "plain_token u" and "suffix = [] \<or> hd suffix = CHR ''.''"
  shows "u @ suffix = t @ ''.'' @ r \<longleftrightarrow> u = t \<and> suffix = ''.'' @ r"
proof
  assume eq: "u @ suffix = t @ ''.'' @ r"
  have "takeWhile (\<lambda>c. c \<noteq> CHR ''.'') (t @ ''.'' @ r) = t"
    using assms(1) by (subst takeWhile_append2) (auto simp: plain_token_def)
  moreover have "takeWhile (\<lambda>c. c \<noteq> CHR ''.'') (u @ suffix) = u"
    using assms(2,3) by (subst takeWhile_append2) (cases suffix; auto simp: plain_token_def)+
  ultimately have "t = u" using eq by simp
  with eq show "u = t \<and> suffix = ''.'' @ r" by simp
qed simp

lemma lower_dot: "strings_ToLower (''.'' @ v) = ''.'' @ strings_ToLower v" "strings_ToLower v = [] \<longleftrightarrow> v = []"
proof -
  have "ascii_lower (CHR ''.'') = CHR ''.''" by code_simp
  then show "strings_ToLower (''.'' @ v) = ''.'' @ strings_ToLower v" by (simp add: strings_ToLower_def)
qed (simp add: strings_ToLower_def)

lemma cdc_subject_matches:
  assumes "tail_matches matches" and "plain_token (cdc_Table c)" and "plain_token (ev_Table e)"
    and "cdc_Root c = ''wal_listener''" and "cdc_Database c = ''nefario''"
  shows "matches (wq_Subject (cdc_queue c)) (SubjectName cd ''wal_listener'' e) \<longleftrightarrow>
    ev_Table e = cdc_Table c \<and> has_uid cd e"
proof -
  define p where "p = ''wal_listener.nefario.'' @ cdc_Table c"
  define suffix where "suffix = (case ev_Data e ''uid'' of
      None \<Rightarrow> [] | Some uid \<Rightarrow> strings_ToLower (''.'' @ cd_fmt_v cd uid))"
  have q: "wq_Subject (cdc_queue c) = p @ ''.>''"
    by (simp add: cdc_queue_def p_def assms(4,5) Let_def)
  have s: "SubjectName cd ''wal_listener'' e = ''wal_listener.nefario.'' @ ev_Table e @ suffix"
    by (simp add: SubjectName_def suffix_def)
  have dot: "suffix = [] \<or> hd suffix = CHR ''.''"
    by (simp add: suffix_def lower_dot(1) [simplified] split: option.split)
  have pl: "set p \<inter> {CHR ''*'', CHR ''>''} = {}" using assms(2) by (auto simp: p_def plain_token_def)
  have "matches (p @ ''.>'') (SubjectName cd ''wal_listener'' e) \<longleftrightarrow>
      (\<exists>r. r \<noteq> [] \<and> ev_Table e @ suffix = cdc_Table c @ ''.'' @ r)"
  proof -
    have "matches (p @ ''.>'') x \<longleftrightarrow> (\<exists>r. r \<noteq> [] \<and> x = p @ ''.'' @ r)" for x
      by (rule assms(1) [unfolded tail_matches_def, rule_format, OF pl])
    then show ?thesis unfolding s p_def by (simp only: append_assoc same_append_eq)
  qed
  also have "\<dots> \<longleftrightarrow> ev_Table e = cdc_Table c \<and> (\<exists>r. r \<noteq> [] \<and> suffix = ''.'' @ r)"
    using plain_prefix [OF assms(2,3) dot] by auto
  also have "(\<exists>r. r \<noteq> [] \<and> suffix = ''.'' @ r) \<longleftrightarrow> has_uid cd e"
    by (simp add: suffix_def has_uid_def lower_dot lower_dot(1) [simplified] split: option.split)
  finally show ?thesis by (simp add: q)
qed

lemma publish_events_stream:
  assumes "publish_events env cfg events l = (None, l')"
    and "\<And>tr s e. env_publish env tr s e = NatsPublisher_Publish marshal conn s e"
  shows "stream_of marshal (ln_trace l') = stream_of marshal (ln_trace l) @
    map (\<lambda>e. (SubjectName (env_codec env) (cfg_Topic cfg) e, projr (marshal e))) events \<and>
    (\<forall>e \<in> set events. \<exists>bs. marshal e = Inr bs)"
  using assms(1)
proof (induction events arbitrary: l)
  case (Cons e es)
  let ?s = "SubjectName (env_codec env) (cfg_Topic cfg) e"
  from Cons.prems have none: "env_publish env (ln_trace l) ?s e = None"
    by (auto simp: Let_def split: option.splits)
  then obtain bs where bs: "marshal e = Inr bs"
    by (auto simp: assms(2) NatsPublisher_Publish_def split: sum.splits)
  from Cons.prems none Cons.IH [of "emit (CountPublished ?s (ev_Table e)) (emit (Published ?s e None) l)"] bs
  show ?case by (simp add: Let_def emit_def)
qed simp

lemma cdc_handler_collects:
  assumes "json_event (nm_Data m) = Inr ev" and "json_row (cde_Data ev) = Inr row"
  shows "cdc_handler json_event json_row (\<lambda>ev r s. (None, s @ [r])) m s = (None, s @ [row])"
  using assms by (simp add: cdc_handler_def JsonUnmarshalAny_def try_then_def eop_ok_def)

lemma fold_collects:
  assumes "\<And>m s. m \<in> set ms \<Longrightarrow> f m s = (None, s @ [g m])"
  shows "fold (\<lambda>m s. snd (f m s)) ms s = s @ map g ms \<and> settlements f s ms = map Acked ms"
  using assms by (induction ms arbitrary: s) auto

text \<open>
  C6. Of the events of a commit that were all accepted, a listener of a table is given exactly the rows of
  that table that have a \<open>uid\<close>, in the order of the commit, and acknowledges each: an event whose row has
  no \<open>uid\<close>, as that of every deletion, goes to a subject that no change data capture listens to.
\<close>

theorem captured_rows_have_uid:
  assumes "tail_matches matches" and "plain_token (cdc_Table c)"
    and "cdc_Root c = ''wal_listener''" and "cdc_Database c = ''nefario''" and "cfg_Topic cfg = ''wal_listener''"
    and "\<And>tr s e. env_publish env tr s e = NatsPublisher_Publish marshal conn s e"
    and "publish_events env cfg events l = (None, l')" and "stream_of marshal (ln_trace l) = []"
    and "\<forall>e \<in> set events. plain_token (ev_Table e)"
    and "\<forall>e \<in> set events. \<forall>bs. marshal e = Inr bs \<longrightarrow>
      (\<exists>ev. json_event bs = Inr ev \<and> json_row (cde_Data ev) = Inr (row e))"
    and "work_queue_setup wenv (cdc_queue c) = Inr n"
    and "map nm_Data (delivered ins) =
      map snd (filter (\<lambda>(s, bs). matches (wq_Subject (cdc_queue c)) s) (stream_of marshal (ln_trace l')))"
  shows "\<exists>r. RunChangeDataCapture json_event json_row wenv c (\<lambda>ev r s. (None, s @ [r])) ins [] =
    (r, map row (filter (\<lambda>e. ev_Table e = cdc_Table c \<and> has_uid (env_codec env) e) events),
     map Acked (delivered ins))"
proof -
  define es where "es = filter (\<lambda>e. ev_Table e = cdc_Table c \<and> has_uid (env_codec env) e) events"
  have st: "stream_of marshal (ln_trace l') =
      map (\<lambda>e. (SubjectName (env_codec env) ''wal_listener'' e, projr (marshal e))) events"
    and mar: "\<forall>e \<in> set events. \<exists>bs. marshal e = Inr bs"
    using publish_events_stream [OF assms(7,6)] assms(5,8) by auto
  have "filter (\<lambda>e. matches (wq_Subject (cdc_queue c)) (SubjectName (env_codec env) ''wal_listener'' e)) events = es"
    unfolding es_def using cdc_subject_matches [OF assms(1,2) _ assms(3,4)] assms(9) by (intro filter_cong) auto
  then have data: "map nm_Data (delivered ins) = map (\<lambda>e. projr (marshal e)) es"
    using assms(12) by (simp add: st filter_map o_def)
  define g where "g = (\<lambda>m :: nats_msg. projr (json_row (cde_Data (projr (json_event (nm_Data m))))))"
  have h: "cdc_handler json_event json_row (\<lambda>ev r s. (None, s @ [r])) m s = (None, s @ [g m])"
    if m: "m \<in> set (delivered ins)" for m s
  proof -
    from m data obtain e where e: "e \<in> set es" "nm_Data m = projr (marshal e)"
      by (metis (no_types, lifting) image_iff list.set_map)
    with mar assms(10) obtain ev where "json_event (nm_Data m) = Inr ev" "json_row (cde_Data ev) = Inr (row e)"
      by (fastforce simp: es_def)
    then show ?thesis by (simp add: cdc_handler_collects g_def)
  qed
  have "map g (delivered ins) = map (\<lambda>bs. projr (json_row (cde_Data (projr (json_event bs))))) (map nm_Data (delivered ins))"
    by (simp add: g_def)
  also have "\<dots> = map row es" unfolding data using mar assms(10) by (fastforce simp: es_def)
  finally have "map g (delivered ins) = map row es" .
  with fold_collects [of "delivered ins" "cdc_handler json_event json_row (\<lambda>ev r s. (None, s @ [r]))" g "[]"] h
    work_queue_loop_eq [of "wq_ConsumerName (cdc_queue c)" "cdc_handler json_event json_row (\<lambda>ev r s. (None, s @ [r]))"
      ins "[]" "[]"] assms(11)
  show ?thesis by (auto simp: RunChangeDataCapture_def RunWorkQueue_def es_def)
qed

text \<open>
  C7. No deletion is ever captured: whatever messages a transaction was read from, the events of its
  deletions go to subjects that the change data capture of no table listens to.
\<close>

theorem deletions_never_captured:
  assumes "tx_reach cd bo tx" and "CreateEventsWithFilter uuid_New tableMap tx n = Inr (events, skipped, m)"
    and "e \<in> set events" and "ev_Action e = ''DELETE''" and "tail_matches matches"
    and "plain_token (cdc_Table c)" and "plain_token (ev_Table e)"
    and "cdc_Root c = ''wal_listener''" and "cdc_Database c = ''nefario''"
  shows "\<not> matches (wq_Subject (cdc_queue c)) (SubjectName cd ''wal_listener'' e)"
proof -
  have "\<exists>a \<in> set (tx_Actions tx). ev_Action e = ActionKind_string (ad_Kind a) \<and>
      ev_Data e = columns_map Map.empty (ad_NewColumns a)"
  proof (cases "tx_CommitTime tx")
    case None
    with assms(2,3) show ?thesis
      by (auto simp: CreateEventsWithFilter_def create_events_loop_None split: if_splits)
  next
    case (Some t)
    with assms(2,3) show ?thesis
      by (auto simp: CreateEventsWithFilter_def create_events_loop_Some) (metis set_zip_rightD)
  qed
  then obtain a where a: "a \<in> set (tx_Actions tx)" "ev_Action e = ActionKind_string (ad_Kind a)"
    "ev_Data e = columns_map Map.empty (ad_NewColumns a)" by blast
  have "ad_Kind a = ActionKindDelete" using a(2) assms(4) by (cases "ad_Kind a") auto
  moreover have "action_fits a" using tx_reach_fits [OF assms(1)] a(1) by (simp add: transaction_fits_def list_all_iff)
  ultimately have "\<not> has_uid cd e" using a(3) by (simp add: action_fits_def has_uid_def)
  then show ?thesis using cdc_subject_matches [OF assms(5-9)] by simp
qed

section \<open>Example\<close>

text \<open>A row with a \<open>uid\<close> and a deletion, over a stream that compares subjects by their length and front.\<close>

definition demo_matches :: "string \<Rightarrow> string \<Rightarrow> bool" where
  "demo_matches f s \<longleftrightarrow> length f \<le> length s \<and> take (length f - 1) s = take (length f - 1) f"

definition demo_event :: "string \<Rightarrow> (string \<Rightarrow> go_any option) \<Rightarrow> Event" where
  "demo_event i d = \<lparr>ev_ID = i, ev_Schema = ''public'', ev_Table = ''service'', ev_Action = ''INSERT'',
     ev_Data = d, ev_DataOld = Map.empty, ev_EventTime = 0\<rparr>"

definition demo_marshal :: "Event \<Rightarrow> go_error + bytes" where
  "demo_marshal e = Inr (string_to_bytes (ev_ID e))"

definition demo_json_event :: "bytes \<Rightarrow> go_error + ChangeDataCaptureEvent" where
  "demo_json_event bs = Inr \<lparr>cde_Id = [], cde_Schema = [], cde_Table = [], cde_Action = [], cde_Data = bs, cde_CommitTime = []\<rparr>"

definition demo_conn :: nats_conn where
  "demo_conn = \<lparr>nc_Publish = (\<lambda>s bs. None), nc_StreamInfo = (\<lambda>s. (None, None)), nc_AddStream = (\<lambda>c. None)\<rparr>"

definition demo_wal_env :: env where
  "demo_wal_env = calm_env\<lparr>env_codec := calm_codec\<lparr>cd_fmt_v := (\<lambda>v. ''7'')\<rparr>,
     env_publish := (\<lambda>tr s e. NatsPublisher_Publish demo_marshal demo_conn s e)\<rparr>"

definition demo_cdc :: ChangeDataCaptureConfig where
  "demo_cdc = \<lparr>cdc_Root = ''wal_listener'', cdc_Database = ''nefario'', cdc_Table = ''service'',
     cdc_StartSeq = ''new'', cdc_ConsumerName = []\<rparr>"

definition demo_stream_env :: wq_env where
  "demo_stream_env = demo_wq_env\<lparr>we_stream_info := (\<lambda>st. True)\<rparr>"

lemma demo_tail_matches: "tail_matches demo_matches"
  unfolding tail_matches_def
proof (intro allI impI)
  fix p s :: string
  show "demo_matches (p @ ''.>'') s \<longleftrightarrow> (\<exists>r. r \<noteq> [] \<and> s = p @ ''.'' @ r)"
  proof
    assume m: "demo_matches (p @ ''.>'') s"
    define n where "n = Suc (length p)"
    have "take n s = p @ ''.''" "n < length s" using m by (simp_all add: demo_matches_def n_def)
    then have "s = (p @ ''.'') @ drop n s" "drop n s \<noteq> []" by (metis append_take_drop_id, simp)
    then show "\<exists>r. r \<noteq> [] \<and> s = p @ ''.'' @ r" by (metis append_assoc)
  qed (auto simp: demo_matches_def Suc_le_eq)
qed

theorem captured_rows_have_uid_witness:
  "\<exists>l' ins r. publish_events demo_wal_env (demo_cfg\<lparr>cfg_Topic := ''wal_listener''\<rparr>)
       [demo_event ''a'' Map.empty, demo_event ''b'' [''uid'' \<mapsto> AnyString ''7'']] demo_listener = (None, l') \<and>
     RunChangeDataCapture demo_json_event (\<lambda>bs. Inr (bytes_to_string bs)) demo_stream_env demo_cdc
       (\<lambda>ev r s. (None, s @ [r])) ins [] = (r, [''b''], map Acked (delivered ins))"
proof -
  define evs where "evs = [demo_event ''a'' Map.empty, demo_event ''b'' [''uid'' \<mapsto> AnyString ''7'']]"
  define cfg where "cfg = demo_cfg\<lparr>cfg_Topic := ''wal_listener''\<rparr>"
  have env: "env_publish demo_wal_env tr s e = NatsPublisher_Publish demo_marshal demo_conn s e" for tr s e
    by (simp add: demo_wal_env_def)
  have "fst (publish_events demo_wal_env cfg es l) = None" for es l
    by (induction es arbitrary: l) (simp_all add: env NatsPublisher_Publish_def demo_marshal_def demo_conn_def Let_def)
  then obtain l' where l': "publish_events demo_wal_env cfg evs demo_listener = (None, l')"
    by (metis prod.collapse)
  define ms where "ms = map (\<lambda>(s, bs). \<lparr>nm_Header = None, nm_Data = bs\<rparr>)
    (filter (\<lambda>(s, bs). demo_matches (wq_Subject (cdc_queue demo_cdc)) s) (stream_of demo_marshal (ln_trace l')))"
  have ms: "map nm_Data (delivered [Fetched ms, QueueDone]) = map snd
      (filter (\<lambda>(s, bs). demo_matches (wq_Subject (cdc_queue demo_cdc)) s) (stream_of demo_marshal (ln_trace l')))"
    by (simp add: ms_def split_def o_def)
  have started: "work_queue_setup demo_stream_env (cdc_queue demo_cdc) = Inr 1"
    by (simp add: work_queue_setup_def demo_stream_env_def demo_wq_env_def cdc_queue_def Let_def)
  have plain: "plain_token ''service''" by (simp add: plain_token_def)
  define run where "run = RunChangeDataCapture demo_json_event (\<lambda>bs. Inr (bytes_to_string bs)) demo_stream_env
    demo_cdc (\<lambda>ev r s. (None, s @ [r])) [Fetched ms, QueueDone] []"
  have "\<exists>r. run =
    (r, map ev_ID (filter (\<lambda>e. ev_Table e = cdc_Table demo_cdc \<and> has_uid (env_codec demo_wal_env) e) evs),
     map Acked (delivered [Fetched ms, QueueDone]))"
    unfolding run_def
    by (rule captured_rows_have_uid [OF demo_tail_matches _ _ _ _ env l' _ _ _ started ms])
      (auto simp: demo_cdc_def cfg_def plain evs_def demo_event_def demo_listener_def demo_marshal_def
        demo_json_event_def)
  moreover have "map ev_ID (filter (\<lambda>e. ev_Table e = cdc_Table demo_cdc \<and> has_uid (env_codec demo_wal_env) e) evs) = [''b'']"
    by (simp add: evs_def demo_cdc_def demo_event_def has_uid_def demo_wal_env_def)
  ultimately obtain r where "run = (r, [''b''], map Acked (delivered [Fetched ms, QueueDone]))" by (simp only:) blast
  then show ?thesis using l' unfolding cfg_def evs_def run_def
    by (intro exI [of _ l'] exI [of _ "[Fetched ms, QueueDone]"] exI [of _ r] conjI)
qed

text \<open>The transaction of theory \<open>WalTypes\<close> that commits, and then a deletion of a row.\<close>

theorem deletions_never_captured_witness:
  "\<exists>tx events skipped m e. tx_reach calm_codec BigEndian tx \<and>
     CreateEventsWithFilter nat_to_string Map.empty tx 0 = Inr (events, skipped, m) \<and> events = [e] \<and>
     \<not> demo_matches (wq_Subject (cdc_queue (demo_cdc\<lparr>cdc_Table := ''users''\<rparr>)))
        (SubjectName calm_codec ''wal_listener'' e)"
proof -
  let ?old = "FullOld [\<lparr>td_Value = None\<rparr>]"
  define tx1 where "tx1 = typed_tx\<lparr>tx_CommitTime := Some postgresEpoch\<rparr>"
  have c: "encode_commit BigEndian 0 4 5 0 = CommitMsgType # tl (encode_commit BigEndian 0 4 5 0)"
    by (simp add: encode_commit_def)
  have "ParseWalMessage calm_codec BigEndian (encode_commit BigEndian 0 4 5 0) typed_tx = Inr (None, tx1)"
    using read_from_parses [OF parses_getCommit [of BigEndian 0 4 5 0]]
    by (subst c) (simp add: parse_dispatch tx1_def typed_tx_def)
  with typed_tx_reach have r1: "tx_reach calm_codec BigEndian tx1" by (rule tx_message)
  have "tx_RelationStore tx1 7 = Some (relation_data typed_relation)" by (simp add: tx1_def typed_tx_def)
  then obtain oc where "ParseWalMessage calm_codec BigEndian (encode_delete BigEndian 7 ?old) tx1 =
      Inr (None, tx1\<lparr>tx_Actions := tx_Actions tx1 @ [\<lparr>ad_Schema = ''public'', ad_Table = ''users'',
        ad_Kind = ActionKindDelete, ad_OldColumns = oc, ad_NewColumns = []\<rparr>]\<rparr>)"
    using parse_delete_message [of tx1 7 "relation_data typed_relation" BigEndian ?old calm_codec]
    by (auto simp: row_ok_def tuple_ok_def relation_data_def typed_relation_def)
  moreover define tx2 where "tx2 = tx1\<lparr>tx_Actions := [\<lparr>ad_Schema = ''public'', ad_Table = ''users'',
        ad_Kind = ActionKindDelete, ad_OldColumns = oc, ad_NewColumns = []\<rparr>]\<rparr>"
  ultimately have "ParseWalMessage calm_codec BigEndian (encode_delete BigEndian 7 ?old) tx1 = Inr (None, tx2)"
    by (simp add: tx1_def typed_tx_def NewWalTransaction_def)
  with r1 have r2: "tx_reach calm_codec BigEndian tx2" by (rule tx_message)
  define e where "e = \<lparr>ev_ID = nat_to_string 0, ev_Schema = ''public'', ev_Table = ''users'', ev_Action = ''DELETE'',
    ev_Data = Map.empty, ev_DataOld = columns_map Map.empty oc, ev_EventTime = postgresEpoch\<rparr>"
  have ev: "CreateEventsWithFilter nat_to_string Map.empty tx2 0 = Inr ([e], [], 1)"
    by (simp add: CreateEventsWithFilter_def tx2_def tx1_def e_def)
  have "\<not> demo_matches (wq_Subject (cdc_queue (demo_cdc\<lparr>cdc_Table := ''users''\<rparr>)))
      (SubjectName calm_codec ''wal_listener'' e)"
    by (rule deletions_never_captured [OF r2 ev _ _ demo_tail_matches])
      (simp_all add: e_def demo_cdc_def plain_token_def)
  with r2 ev show ?thesis by blast
qed

end
