(* ===== verification/A8Files.thy ===== *)
theory A8Files
  imports A8
begin

text \<open>
  The file-system side of \<open>src/a8/a8.go\<close>: existence tests, configuration lookup, property files,
  root URLs and symbolic links. The file system is a record of functions on paths, a parameter.
\<close>

section \<open>The file system\<close>

datatype stat_result = StatIsDir | StatIsFile | StatNotExist | StatFailed go_error

datatype link_result = LinkTo string | LinkNotExist | LinkPermission | LinkFailed go_error

record file_system =
  fs_stat :: "string \<Rightarrow> stat_result"
  fs_read :: "string \<Rightarrow> bytes option \<times> go_error option"
  fs_readlink :: "string \<Rightarrow> link_result"
  fs_abs :: "string \<Rightarrow> go_error + string"
  fs_expand :: "string \<Rightarrow> go_error + string"

definition PathExists :: "file_system \<Rightarrow> string \<Rightarrow> bool \<times> go_error option" where
  "PathExists fs path =
     (case fs_stat fs path of
        StatIsDir \<Rightarrow> (True, None)
      | StatIsFile \<Rightarrow> (True, None)
      | StatNotExist \<Rightarrow> (False, None)
      | StatFailed err \<Rightarrow> (False, Some err))"

definition DirExists :: "file_system \<Rightarrow> string \<Rightarrow> bool \<times> go_error option" where
  "DirExists fs path =
     (case fs_stat fs path of
        StatIsDir \<Rightarrow> (True, None)
      | StatIsFile \<Rightarrow> (False, None)
      | StatNotExist \<Rightarrow> (False, None)
      | StatFailed err \<Rightarrow> (False, Some err))"

text \<open>On any other error \<open>info\<close> is nil, and \<open>IsDir\<close> panics.\<close>

definition DirectoryExists :: "file_system \<Rightarrow> string \<Rightarrow> bool run" where
  "DirectoryExists fs path =
     (case fs_stat fs path of
        StatIsDir \<Rightarrow> Inr True
      | StatIsFile \<Rightarrow> Inr False
      | StatNotExist \<Rightarrow> Inr False
      | StatFailed err \<Rightarrow> Inl PanicNil)"

definition FileExists :: "file_system \<Rightarrow> string \<Rightarrow> bool run" where
  "FileExists fs path =
     (case fs_stat fs path of
        StatIsDir \<Rightarrow> Inr False
      | StatIsFile \<Rightarrow> Inr True
      | StatNotExist \<Rightarrow> Inr False
      | StatFailed err \<Rightarrow> Inl PanicNil)"

definition ValidateDirectory :: "file_system \<Rightarrow> string \<Rightarrow> go_error + string" where
  "ValidateDirectory fs dir =
     (case fs_expand fs dir of
        Inl err \<Rightarrow> Inl (WrapErr (''error expanding home directory: '' @ dir) err)
      | Inr dirPath \<Rightarrow>
          (case fs_stat fs dirPath of
             StatNotExist \<Rightarrow> Inl (WrapErr (''Directory does not exist: '' @ dirPath)
                               (GoErr ''file does not exist''))
           | StatFailed err \<Rightarrow> Inl (WrapErr (''Directory error: '' @ dirPath) err)
           | StatIsFile \<Rightarrow> Inl (GoErr (''Directory is a file, not a directory: '' @ dirPath))
           | StatIsDir \<Rightarrow> Inr dirPath))"

text \<open>\<open>ReadFile\<close> drops the read error; the result is nil when the file is missing.\<close>

definition ReadFile :: "file_system \<Rightarrow> string \<Rightarrow> bytes option run" where
  "ReadFile fs filename =
     run_bind (FileExists fs filename) (\<lambda>ex. Inr (if ex then fst (fs_read fs filename) else None))"

definition ReadFileE :: "file_system \<Rightarrow> string \<Rightarrow> bytes option \<times> go_error option" where
  "ReadFileE fs filename =
     (case fs_abs fs filename of
        Inl err \<Rightarrow> (None, Some (WrapErr (''unable to get absolute path for '' @ filename) err))
      | Inr absname \<Rightarrow> fs_read fs absname)"

section \<open>Configuration lookup\<close>

definition PossibleConfigFiles :: "string \<Rightarrow> string \<Rightarrow> string \<Rightarrow> string list" where
  "PossibleConfigFiles cwd home appName =
     (let filename = ''/'' @ appName @ ''.json''
      in [cwd @ filename, home @ ''/.config/'' @ appName @ filename, ''/etc'' @ filename])"

text \<open>\<open>loadConfig\<close>: the loaded value, if any, with the messages extended.\<close>

definition loadConfig ::
  "file_system \<Rightarrow> (bytes \<Rightarrow> go_error + 'a) \<Rightarrow> string \<Rightarrow> string list \<Rightarrow> ('a option \<times> string list) run"
  where
  "loadConfig fs unmarshal filename messages =
     (let ms1 = messages @ [''attempting to load config from '' @ filename]
      in run_bind (ReadFile fs filename) (\<lambda>configBytes.
        case configBytes of
          None \<Rightarrow> Inr (None, ms1)
        | Some bs \<Rightarrow>
            let loaded = ''loaded config from '' @ filename @ '' - '' @ bytes_to_string bs;
                ms2 = ms1 @ [loaded]
            in (case unmarshal bs of
                  Inl err \<Rightarrow> Inr (None, ms2 @ [''json deserialize error reading '' @ filename @
                                  '' - '' @ error_text err])
                | Inr a \<Rightarrow> Inr (Some a, ms2 @ [loaded]))))"

fun config_loop ::
  "file_system \<Rightarrow> (bytes \<Rightarrow> go_error + 'a) \<Rightarrow> string list \<Rightarrow> string list \<Rightarrow> (go_error + 'a) run" where
  "config_loop fs unmarshal [] messages = Inr (Inl (GoErr (strings_Join messages [CHR 0x0A])))"
| "config_loop fs unmarshal (d # ds) messages =
     run_bind (loadConfig fs unmarshal d messages) (\<lambda>(cfg, ms).
       case cfg of Some a \<Rightarrow> Inr (Inr a) | None \<Rightarrow> config_loop fs unmarshal ds ms)"

definition ConfigLookupE ::
  "file_system \<Rightarrow> (bytes \<Rightarrow> go_error + 'a) \<Rightarrow> string \<Rightarrow> string \<Rightarrow> string \<Rightarrow> (go_error + 'a) run" where
  "ConfigLookupE fs unmarshal cwd home appName =
     config_loop fs unmarshal (PossibleConfigFiles cwd home appName) []"

definition ConfigLookup ::
  "file_system \<Rightarrow> (bytes \<Rightarrow> go_error + 'a) \<Rightarrow> string \<Rightarrow> string \<Rightarrow> string \<Rightarrow> 'a option run" where
  "ConfigLookup fs unmarshal cwd home appName =
     run_bind (ConfigLookupE fs unmarshal cwd home appName) (\<lambda>r.
       Inr (case r of Inl err \<Rightarrow> None | Inr a \<Rightarrow> Some a))"

section \<open>Property files\<close>

text \<open>
  \<open>bufio.Scanner\<close> with its default split function: lines without the end marker and without one
  trailing carriage return; the text after the last newline is a line unless it is empty. The
  scanner stops at a line that does not fit its buffer of 65536 bytes.
\<close>

definition drop_cr :: "string \<Rightarrow> string" where
  "drop_cr s = (if s \<noteq> [] \<and> last s = CHR 0x0D then butlast s else s)"

definition raw_lines :: "string \<Rightarrow> string list" where
  "raw_lines s = (let ls = strings_Split (CHR 0x0A) s in if last ls = [] then butlast ls else ls)"

definition scan_lines :: "string \<Rightarrow> string list" where
  "scan_lines s = map drop_cr (takeWhile (\<lambda>l. length l < 65536) (raw_lines s))"

text \<open>One line: \<open>None\<close> where the loop continues without storing.\<close>

definition property_line :: "string \<Rightarrow> (string \<times> string) option" where
  "property_line line0 =
     (let line = strings_TrimSpace line0
      in if length line = 0 \<or> strings_HasPrefix line ''#'' \<or> strings_HasPrefix line ''!'' then None
         else if strings_Contains line ''='' then
           (let parts = strings_SplitN2 line ''=''
            in Some (strings_TrimSpace (parts ! 0), strings_TrimSpace (parts ! 1)))
         else if strings_Contains line '':'' then
           (let parts = strings_SplitN2 line '':''
            in Some (strings_TrimSpace (parts ! 0), strings_TrimSpace (parts ! 1)))
         else None)"

fun properties_loop :: "(string \<Rightarrow> string option) \<Rightarrow> string list \<Rightarrow> string \<Rightarrow> string option" where
  "properties_loop properties [] = properties"
| "properties_loop properties (line # lines) =
     (case property_line line of
        None \<Rightarrow> properties_loop properties lines
      | Some (k, v) \<Rightarrow> properties_loop (properties(k \<mapsto> v)) lines)"

definition ReadPropertiesFile ::
  "(string \<Rightarrow> go_error + string) \<Rightarrow> string \<Rightarrow> go_error + (string \<Rightarrow> string option)" where
  "ReadPropertiesFile open_file filename =
     (case open_file filename of
        Inl err \<Rightarrow> Inl (WrapErr (''Error opening file: '' @ filename) err)
      | Inr content \<Rightarrow> Inr (properties_loop Map.empty (scan_lines content)))"

section \<open>Root URLs\<close>

record go_url =
  u_Scheme :: string
  u_Host :: string

text \<open>\<open>URL.Port\<close>: what follows the last colon of the host, when it is digits only.\<close>

definition url_Port :: "go_url \<Rightarrow> string" where
  "url_Port u =
     (let r = rev (u_Host u); p = rev (takeWhile (\<lambda>c. c \<noteq> CHR '':'') r)
      in if CHR '':'' \<in> set (u_Host u) \<and> (\<forall>c\<in>set p. char_digit c \<noteq> None) then p else [])"

definition RootUrl :: "(string \<Rightarrow> go_url option) \<Rightarrow> string \<Rightarrow> string" where
  "RootUrl url_Parse rawURL =
     (case url_Parse rawURL of
        None \<Rightarrow> rawURL
      | Some u \<Rightarrow>
          let port = (if url_Port u \<noteq> [] then '':'' @ url_Port u else [])
          in u_Scheme u @ ''://'' @ u_Host u @ port)"

section \<open>Symbolic links\<close>

text \<open>The loop may follow links for ever, so it is a partial function.\<close>

partial_function (option) symlink_loop ::
  "file_system \<Rightarrow> string list \<Rightarrow> string \<Rightarrow> (go_error + string list) option" where
  [code]: "symlink_loop fs chain currentPath =
     (case fs_abs fs currentPath of
        Inl err \<Rightarrow> Some (Inl (WrapErr (''unable to get absolute path for '' @ currentPath) err))
      | Inr absPath \<Rightarrow>
          (case fs_readlink fs currentPath of
             LinkTo p \<Rightarrow> symlink_loop fs (chain @ [absPath]) p
           | LinkNotExist \<Rightarrow> Some (Inr (chain @ [absPath]))
           | LinkPermission \<Rightarrow> Some (Inr (chain @ [absPath]))
           | LinkFailed err \<Rightarrow> Some (Inl err)))"

definition ResolveSymlinkChain :: "file_system \<Rightarrow> string \<Rightarrow> (go_error + string list) option" where
  "ResolveSymlinkChain fs path = symlink_loop fs [] path"

section \<open>Lemmas\<close>

text \<open>The value a configuration file yields: it is a readable regular file that decodes.\<close>

definition usable :: "file_system \<Rightarrow> (bytes \<Rightarrow> go_error + 'a) \<Rightarrow> string \<Rightarrow> 'a option" where
  "usable fs un f =
     (if fs_stat fs f = StatIsFile
      then (case fst (fs_read fs f) of None \<Rightarrow> None
            | Some bs \<Rightarrow> (case un bs of Inl e \<Rightarrow> None | Inr a \<Rightarrow> Some a))
      else None)"

fun first_usable :: "file_system \<Rightarrow> (bytes \<Rightarrow> go_error + 'a) \<Rightarrow> string list \<Rightarrow> 'a option" where
  "first_usable fs un [] = None"
| "first_usable fs un (d # ds) =
     (case usable fs un d of Some a \<Rightarrow> Some a | None \<Rightarrow> first_usable fs un ds)"

lemma loadConfig_usable:
  "(\<And>e. fs_stat fs f \<noteq> StatFailed e) \<Longrightarrow> \<exists>ms'. loadConfig fs un f ms = Inr (usable fs un f, ms')"
  by (auto simp: loadConfig_def ReadFile_def FileExists_def usable_def Let_def
      split: stat_result.splits option.splits sum.splits)

lemma config_loop_first:
  "(\<And>d e. d \<in> set ds \<Longrightarrow> fs_stat fs d \<noteq> StatFailed e) \<Longrightarrow>
     \<exists>err. config_loop fs un ds ms =
       Inr (case first_usable fs un ds of Some a \<Rightarrow> Inr a | None \<Rightarrow> Inl err)"
proof (induction ds arbitrary: ms)
  case (Cons d ds)
  from Cons.prems loadConfig_usable [of fs d un ms] obtain ms' where
    "loadConfig fs un d ms = Inr (usable fs un d, ms')" by auto
  with Cons.IH [of ms'] Cons.prems show ?case by (auto split: option.splits)
qed simp

lemma strings_Split_single: "c \<notin> set s \<Longrightarrow> strings_Split c s = [s]"
  by (induction s) auto

lemma strings_Split_cons:
  "c \<notin> set s \<Longrightarrow> strings_Split c (s @ c # t) = s # strings_Split c t"
  by (induction s) auto

lemma raw_lines_cons: "CHR 0x0A \<notin> set l \<Longrightarrow> raw_lines (l @ CHR 0x0A # s) = l # raw_lines s"
  by (simp add: raw_lines_def strings_Split_cons Let_def)

lemma raw_lines_Nil [simp]: "raw_lines [] = []"
  by (simp add: raw_lines_def)

text \<open>A key and a value a line \<open>key=value\<close> gives back.\<close>

definition trimmed :: "string \<Rightarrow> bool" where
  "trimmed s = (s = [] \<or> (\<not> ascii_space (hd s) \<and> \<not> ascii_space (last s)))"

definition property_ok :: "string \<times> string \<Rightarrow> bool" where
  "property_ok kv = (case kv of (k, v) \<Rightarrow>
     k \<noteq> [] \<and> trimmed k \<and> trimmed v \<and> CHR ''='' \<notin> set k \<and> hd k \<noteq> CHR ''#'' \<and> hd k \<noteq> CHR ''!'' \<and>
     CHR 0x0A \<notin> set k \<and> CHR 0x0A \<notin> set v \<and> length k + length v + 1 < 65536)"

definition render_property :: "string \<times> string \<Rightarrow> string" where
  "render_property kv = (case kv of (k, v) \<Rightarrow> k @ CHR ''='' # v)"

definition render_properties :: "(string \<times> string) list \<Rightarrow> string" where
  "render_properties kvs = concat (map (\<lambda>kv. render_property kv @ [CHR 0x0A]) kvs)"

lemma trimmed_TrimSpace: "trimmed s \<Longrightarrow> strings_TrimSpace s = s"
  by (rule strings_TrimSpace_id) (simp add: trimmed_def)

lemma not_space_eq [simp]: "\<not> ascii_space (CHR ''='')"
  by (simp add: ascii_space_def)

lemma trimmed_line:
  assumes "property_ok (k, v)" shows "trimmed (k @ CHR ''='' # v)"
  using assms by (cases k; cases v rule: rev_cases) (auto simp: property_ok_def trimmed_def)

lemma drop_cr_trimmed: "trimmed s \<Longrightarrow> drop_cr s = s"
  by (auto simp: drop_cr_def trimmed_def ascii_space_def)

lemma property_line_render:
  assumes "property_ok (k, v)" shows "property_line (k @ CHR ''='' # v) = Some (k, v)"
proof -
  from assms have k: "k \<noteq> []" "trimmed k" "trimmed v" "CHR ''='' \<notin> set k" "hd k \<noteq> CHR ''#''"
    "hd k \<noteq> CHR ''!''" by (simp_all add: property_ok_def)
  from trimmed_TrimSpace [OF trimmed_line [OF assms]]
  have t: "strings_TrimSpace (k @ CHR ''='' # v) = k @ CHR ''='' # v" .
  have c: "strings_Contains (k @ CHR ''='' # v) ''=''"
    by (simp add: strings_Contains_def strings_Cut_char_None)
  from k(1,5,6) have h: "\<not> strings_HasPrefix (k @ CHR ''='' # v) ''#''"
    "\<not> strings_HasPrefix (k @ CHR ''='' # v) ''!''"
    by (cases k; simp add: strings_HasPrefix_def)+
  show ?thesis
    using k t c h strings_SplitN2_char [OF k(4), of v]
    by (simp add: property_line_def trimmed_TrimSpace)
qed

lemma scan_lines_render:
  "\<forall>kv\<in>set kvs. property_ok kv \<Longrightarrow> scan_lines (render_properties kvs) = map render_property kvs"
proof -
  assume ok: "\<forall>kv\<in>set kvs. property_ok kv"
  have r: "raw_lines (render_properties kvs) = map render_property kvs"
    using ok
  proof (induction kvs)
    case (Cons kv kvs)
    then have "CHR 0x0A \<notin> set (render_property kv)"
      by (auto simp: render_property_def property_ok_def)
    with Cons raw_lines_cons [of "render_property kv" "render_properties kvs"] show ?case
      by (simp add: render_properties_def)
  qed (simp add: render_properties_def)
  have l: "\<forall>l\<in>set (map render_property kvs). length l < 65536 \<and> drop_cr l = l"
    using ok by (auto simp: render_property_def property_ok_def intro!: drop_cr_trimmed trimmed_line)
  from l have t: "takeWhile (\<lambda>l. length l < 65536) (map render_property kvs) =
      map render_property kvs" by (auto simp: takeWhile_eq_all_conv)
  show ?thesis unfolding scan_lines_def r t by (rule map_idI) (use l in blast)
qed

lemma properties_loop_render:
  "\<forall>kv\<in>set kvs. property_ok kv \<Longrightarrow>
     properties_loop m (map render_property kvs) = fold (\<lambda>(k, v) m. m(k \<mapsto> v)) kvs m"
  by (induction kvs arbitrary: m)
    (auto simp: property_line_render render_property_def)

section \<open>Properties\<close>

text \<open>
  A property file written as \<open>key=value\<close> lines reads back as exactly those pairs, a later line
  winning over an earlier one with the same key. Keys are non-empty, have no \<open>=\<close> and do not start
  like a comment; keys and values have no surrounding white space and no newline.
\<close>

theorem properties_file_roundtrip:
  assumes "\<forall>kv\<in>set kvs. property_ok kv" and "open_file f = Inr (render_properties kvs)"
  shows "ReadPropertiesFile open_file f = Inr (fold (\<lambda>(k, v) m. m(k \<mapsto> v)) kvs Map.empty)"
  using assms by (simp add: ReadPropertiesFile_def scan_lines_render properties_loop_render)

theorem properties_file_roundtrip_witness:
  "ReadPropertiesFile (\<lambda>_. Inr (render_properties [(''a'', ''1''), (''b'', ''x = y''), (''a'', [])])) ''f'' =
     Inr [''a'' \<mapsto> [], ''b'' \<mapsto> ''x = y'']"
proof -
  have "\<forall>kv\<in>set [(''a'', ''1''), (''b'', ''x = y''), (''a'', [])]. property_ok kv"
    by (simp add: property_ok_def trimmed_def ascii_space_def)
  from properties_file_roundtrip [OF this, of "\<lambda>_. Inr (render_properties [(''a'', ''1''),
      (''b'', ''x = y''), (''a'', [])])" "''f''"] show ?thesis by auto
qed

text \<open>
  Configuration lookup takes the first of the working directory, the home directory and
  \<open>/etc\<close> that is a readable file with valid contents, skipping missing and invalid ones, and
  returns nothing exactly when there is none, as long as no \<open>stat\<close> fails in another way.
\<close>

theorem config_lookup_first_usable:
  assumes "\<And>d e. d \<in> set (PossibleConfigFiles cwd home app) \<Longrightarrow> fs_stat fs d \<noteq> StatFailed e"
  shows "ConfigLookup fs un cwd home app =
    Inr (first_usable fs un [cwd @ ''/'' @ app @ ''.json'',
      home @ ''/.config/'' @ app @ ''/'' @ app @ ''.json'', ''/etc/'' @ app @ ''.json''])"
proof -
  from config_loop_first [OF assms] obtain err where
    "config_loop fs un (PossibleConfigFiles cwd home app) [] =
       Inr (case first_usable fs un (PossibleConfigFiles cwd home app) of
              Some a \<Rightarrow> Inr a | None \<Rightarrow> Inl err)" by blast
  then show ?thesis
    by (auto simp: ConfigLookup_def ConfigLookupE_def PossibleConfigFiles_def Let_def
        split: option.splits)
qed

definition demo_fs :: file_system where
  "demo_fs = \<lparr>fs_stat = (\<lambda>p. if p = ''/etc/x.json'' then StatIsFile else StatNotExist),
     fs_read = (\<lambda>p. (Some [49], None)), fs_readlink = (\<lambda>p. LinkNotExist),
     fs_abs = Inr, fs_expand = Inr\<rparr>"

theorem config_lookup_first_usable_witness:
  "ConfigLookup demo_fs (\<lambda>bs. Inr (length bs)) ''/w'' ''/h'' ''x'' = Inr (Some 1)"
  by (subst config_lookup_first_usable)
    (auto simp: demo_fs_def PossibleConfigFiles_def usable_def split: if_splits)

text \<open>
  \<open>RootUrl\<close> repeats an explicit port: for a URL whose host is \<open>name:digits\<close> the result ends in
  \<open>name:digits:digits\<close>, and it is the root of the URL only when there is no port.
\<close>

theorem root_url_repeats_port:
  assumes "url_Parse raw = Some \<lparr>u_Scheme = s, u_Host = h @ '':'' @ p\<rparr>"
    and "CHR '':'' \<notin> set p" and "\<forall>c\<in>set p. char_digit c \<noteq> None" and "p \<noteq> []"
  shows "RootUrl url_Parse raw = s @ ''://'' @ h @ '':'' @ p @ '':'' @ p"
proof -
  have "takeWhile (\<lambda>c. c \<noteq> CHR '':'') (rev (h @ '':'' @ p)) = rev p"
    using assms(2) takeWhile_append2 [of "rev p" "\<lambda>c. c \<noteq> CHR '':''" "CHR '':'' # rev h"] by auto
  then show ?thesis using assms by (simp add: RootUrl_def url_Port_def Let_def)
qed

theorem root_url_repeats_port_witness:
  "RootUrl (\<lambda>_. Some \<lparr>u_Scheme = ''http'', u_Host = ''h'' @ '':'' @ ''80''\<rparr>) ''http://h:80/x'' =
     ''http'' @ ''://'' @ ''h'' @ '':'' @ ''80'' @ '':'' @ ''80''"
  by (rule root_url_repeats_port) (simp_all add: char_digit_def)

text \<open>\<open>links_to fs ps\<close>: each path links to the next, and the last does not exist.\<close>

fun links_to :: "file_system \<Rightarrow> string list \<Rightarrow> bool" where
  "links_to fs [] = False"
| "links_to fs [p] = (fs_readlink fs p = LinkNotExist)"
| "links_to fs (p # q # ps) = (fs_readlink fs p = LinkTo q \<and> links_to fs (q # ps))"

lemma symlink_loop_chain:
  assumes "\<And>p. fs_abs fs p = Inr (ab p)"
  shows "links_to fs (p # ps) \<Longrightarrow> symlink_loop fs acc p = Some (Inr (acc @ map ab (p # ps)))"
proof (induction ps arbitrary: p acc)
  case Nil
  then show ?case by (subst symlink_loop.simps) (simp add: assms)
next
  case (Cons q ps)
  then show ?case by (subst symlink_loop.simps) (simp add: assms)
qed

text \<open>
  \<open>ResolveSymlinkChain\<close> on links that end in a missing file returns the absolute paths of the
  links and of the file, in order; on a path that exists and is not a link (\<open>Readlink\<close> fails with
  neither "not exist" nor "permission") it is an error, although the comment in the code takes that
  for the end of the chain.
\<close>

theorem resolve_symlinks:
  assumes "\<And>p. fs_abs fs p = Inr (ab p)" and "links_to fs (p # ps)" and "fs_readlink fs q = LinkFailed e"
  shows "ResolveSymlinkChain fs p = Some (Inr (map ab (p # ps))) \<and>
    ResolveSymlinkChain fs q = Some (Inl e)"
proof -
  have "symlink_loop fs [] q = Some (Inl e)"
    by (subst symlink_loop.simps) (simp add: assms)
  with symlink_loop_chain [OF assms(1,2), of "[]"] show ?thesis
    by (simp add: ResolveSymlinkChain_def)
qed

theorem resolve_symlinks_witness:
  "ResolveSymlinkChain (demo_fs\<lparr>fs_readlink := (\<lambda>p. if p = ''a'' then LinkTo ''b''
      else if p = ''b'' then LinkNotExist else LinkFailed (GoErr ''invalid argument''))\<rparr>) ''a'' =
     Some (Inr [''a'', ''b''])"
  using resolve_symlinks [of "demo_fs\<lparr>fs_readlink := (\<lambda>p. if p = ''a'' then LinkTo ''b''
      else if p = ''b'' then LinkNotExist else LinkFailed (GoErr ''invalid argument''))\<rparr>" id "''a''"
      "[''b'']" "''c''"]
  by (simp add: demo_fs_def)

end
