(* ===== verification/A8App.thy ===== *)
theory A8App
  imports A8Files
begin

text \<open>
  The global app of \<open>src/a8/a8.go\<close>: \<open>SubmitSubProcess\<close>, the goroutine it starts and
  \<open>WaitForCompletion\<close>, as a step relation. The goroutine calls \<open>WaitGroup.Add(1)\<close> itself, after it
  has been scheduled; its deferred \<open>WaitGroup.Done\<close> runs before the deferred function that records a
  panic.
\<close>

section \<open>State\<close>

datatype sp_phase = Spawned | Running | Unwinding string | Ended

record SubProcessS =
  sp_id :: string
  sp_phase :: sp_phase
  sp_err :: "go_error option"
  sp_completed :: bool

datatype wait_phase = NotWaiting | WaitingGroup | WaitReturned

record app_state =
  app_WaitGroup :: nat
  app_SubProcesses :: "(string, SubProcessS) SyncMapS"
  app_ctx_done :: bool
  app_wait :: wait_phase

definition app_init :: app_state where
  "app_init = \<lparr>app_WaitGroup = 0, app_SubProcesses = NewSyncMap, app_ctx_done = False,
     app_wait = NotWaiting\<rparr>"

definition new_sub_process :: "string \<Rightarrow> SubProcessS" where
  "new_sub_process i = \<lparr>sp_id = i, sp_phase = Spawned, sp_err = None, sp_completed = False\<rparr>"

section \<open>Operations\<close>

text \<open>\<open>SubmitSubProcess\<close> up to the \<open>go\<close> statement.\<close>

definition SubmitSubProcess :: "string \<Rightarrow> string \<Rightarrow> app_state \<Rightarrow> app_state" where
  "SubmitSubProcess uid i s =
     s\<lparr>app_SubProcesses := sm_Store uid (new_sub_process i) (app_SubProcesses s)\<rparr>"

definition update_process :: "string \<Rightarrow> (SubProcessS \<Rightarrow> SubProcessS) \<Rightarrow> app_state \<Rightarrow> app_state" where
  "update_process uid f s =
     (case app_SubProcesses s uid of
        None \<Rightarrow> s
      | Some p \<Rightarrow> s\<lparr>app_SubProcesses := (app_SubProcesses s)(uid \<mapsto> f p)\<rparr>)"

definition go_start :: "string \<Rightarrow> app_state \<Rightarrow> app_state" where
  "go_start uid s =
     update_process uid (\<lambda>p. p\<lparr>sp_phase := Running\<rparr>) (s\<lparr>app_WaitGroup := app_WaitGroup s + 1\<rparr>)"

definition go_return :: "string \<Rightarrow> go_error option \<Rightarrow> app_state \<Rightarrow> app_state" where
  "go_return uid err s =
     update_process uid (\<lambda>p. p\<lparr>sp_phase := Ended, sp_err := err, sp_completed := True\<rparr>)
       (s\<lparr>app_WaitGroup := app_WaitGroup s - 1\<rparr>)"

definition go_panic_done :: "string \<Rightarrow> string \<Rightarrow> app_state \<Rightarrow> app_state" where
  "go_panic_done uid m s =
     update_process uid (\<lambda>p. p\<lparr>sp_phase := Unwinding m\<rparr>) (s\<lparr>app_WaitGroup := app_WaitGroup s - 1\<rparr>)"

definition go_recover :: "string \<Rightarrow> string \<Rightarrow> app_state \<Rightarrow> app_state" where
  "go_recover uid m s =
     update_process uid (\<lambda>p. p\<lparr>sp_phase := Ended,
       sp_err := Some (GoErr (''SubProcess '' @ sp_id p @ '' ended with panic '' @ m)),
       sp_completed := True\<rparr>) s"

definition phase_of :: "app_state \<Rightarrow> string \<Rightarrow> sp_phase option" where
  "phase_of s uid = map_option sp_phase (app_SubProcesses s uid)"

inductive app_step :: "app_state \<Rightarrow> app_state \<Rightarrow> bool" where
  app_submit: "app_SubProcesses s uid = None \<Longrightarrow> app_step s (SubmitSubProcess uid i s)"
| app_start: "phase_of s uid = Some Spawned \<Longrightarrow> app_step s (go_start uid s)"
| app_return: "phase_of s uid = Some Running \<Longrightarrow> app_step s (go_return uid err s)"
| app_panic: "phase_of s uid = Some Running \<Longrightarrow> app_step s (go_panic_done uid m s)"
| app_recover: "phase_of s uid = Some (Unwinding m) \<Longrightarrow> app_step s (go_recover uid m s)"
| app_cancel: "app_step s (s\<lparr>app_ctx_done := True\<rparr>)"
| app_signal: "app_wait s = NotWaiting \<Longrightarrow>
    app_step s (s\<lparr>app_ctx_done := True, app_wait := WaitingGroup\<rparr>)"
| app_done: "app_wait s = NotWaiting \<Longrightarrow> app_ctx_done s \<Longrightarrow>
    app_step s (s\<lparr>app_wait := WaitingGroup\<rparr>)"
| app_wait_return: "app_wait s = WaitingGroup \<Longrightarrow> app_WaitGroup s = 0 \<Longrightarrow>
    app_step s (s\<lparr>app_wait := WaitReturned\<rparr>)"

inductive_cases app_stepE: "app_step s t"

inductive app_reach :: "app_state \<Rightarrow> bool" where
  app_reach_init: "app_reach app_init"
| app_reach_step: "app_reach s \<Longrightarrow> app_step s t \<Longrightarrow> app_reach t"

section \<open>Invariant\<close>

definition running :: "app_state \<Rightarrow> string set" where
  "running s = {uid. phase_of s uid = Some Running}"

definition procs_ok :: "app_state \<Rightarrow> bool" where
  "procs_ok s = (\<forall>uid p. app_SubProcesses s uid = Some p \<longrightarrow> (sp_completed p \<longleftrightarrow> sp_phase p = Ended))"

definition app_ok :: "app_state \<Rightarrow> bool" where
  "app_ok s = (finite (running s) \<and> app_WaitGroup s = card (running s) \<and> procs_ok s)"

lemma phase_of_update:
  "phase_of s uid \<noteq> None \<Longrightarrow> phase_of (update_process uid f s) u =
     (if u = uid then map_option (sp_phase \<circ> f) (app_SubProcesses s uid) else phase_of s u)"
  by (auto simp: phase_of_def update_process_def split: option.splits)

lemma phase_of_fields [simp]:
  "phase_of (s\<lparr>app_WaitGroup := n\<rparr>) u = phase_of s u"
  "phase_of (s\<lparr>app_ctx_done := b\<rparr>) u = phase_of s u"
  "phase_of (s\<lparr>app_wait := w\<rparr>) u = phase_of s u"
  by (simp_all add: phase_of_def)

lemma running_start:
  "phase_of s uid = Some Spawned \<Longrightarrow> running (go_start uid s) = insert uid (running s)"
  by (auto simp: running_def go_start_def update_process_def phase_of_def split: option.splits if_splits)

lemma running_return:
  "phase_of s uid = Some Running \<Longrightarrow> running (go_return uid err s) = running s - {uid}"
  by (auto simp: running_def go_return_def update_process_def phase_of_def split: option.splits if_splits)

lemma running_panic:
  "phase_of s uid = Some Running \<Longrightarrow> running (go_panic_done uid m s) = running s - {uid}"
  by (auto simp: running_def go_panic_done_def update_process_def phase_of_def split: option.splits if_splits)

lemma running_recover:
  "phase_of s uid = Some (Unwinding m) \<Longrightarrow> running (go_recover uid m s) = running s"
  by (auto simp: running_def go_recover_def update_process_def phase_of_def split: option.splits if_splits)

lemma running_submit:
  "app_SubProcesses s uid = None \<Longrightarrow> running (SubmitSubProcess uid i s) = running s"
  by (auto simp: running_def SubmitSubProcess_def phase_of_def sm_Store_def new_sub_process_def)

lemma running_fields [simp]:
  "running (s\<lparr>app_ctx_done := b\<rparr>) = running s"
  "running (s\<lparr>app_wait := w\<rparr>) = running s"
  by (simp_all add: running_def)

lemma wait_group_fields [simp]:
  "app_WaitGroup (update_process uid f s) = app_WaitGroup s"
  "app_WaitGroup (SubmitSubProcess uid i s) = app_WaitGroup s"
  by (auto simp: update_process_def SubmitSubProcess_def split: option.splits)

lemma procs_ok_steps:
  assumes "procs_ok s"
  shows "procs_ok (SubmitSubProcess uid i s)"
    and "phase_of s uid = Some Spawned \<Longrightarrow> procs_ok (go_start uid s)"
    and "procs_ok (go_return uid err s)"
    and "phase_of s uid = Some Running \<Longrightarrow> procs_ok (go_panic_done uid m s)"
    and "procs_ok (go_recover uid m s)"
    and "procs_ok (s\<lparr>app_ctx_done := b\<rparr>)" and "procs_ok (s\<lparr>app_wait := w\<rparr>)"
  using assms
  by (auto simp: procs_ok_def SubmitSubProcess_def sm_Store_def new_sub_process_def go_start_def
      go_return_def go_panic_done_def go_recover_def update_process_def phase_of_def
      split: option.splits if_splits)

lemma app_step_ok:
  assumes "app_step s t" and "app_ok s" shows "app_ok t"
proof -
  have f: "finite (running s)" "app_WaitGroup s = card (running s)" "procs_ok s"
    using assms(2) by (simp_all add: app_ok_def)
  note p = procs_ok_steps [OF f(3)]
  from assms(1) show ?thesis
  proof cases
    case (app_submit uid i)
    with f p show ?thesis by (simp add: app_ok_def running_submit)
  next
    case (app_start uid)
    then have "uid \<notin> running s" by (simp add: running_def)
    with app_start f p show ?thesis by (simp add: app_ok_def running_start) (simp add: go_start_def)
  next
    case (app_return uid err)
    then have "uid \<in> running s" by (simp add: running_def)
    with app_return f p show ?thesis by (simp add: app_ok_def running_return) (simp add: go_return_def)
  next
    case (app_panic uid m)
    then have "uid \<in> running s" by (simp add: running_def)
    with app_panic f p show ?thesis by (simp add: app_ok_def running_panic) (simp add: go_panic_done_def)
  next
    case (app_recover uid m)
    with f p show ?thesis by (simp add: app_ok_def running_recover) (simp add: go_recover_def)
  qed (use f p in \<open>simp_all add: app_ok_def procs_ok_def\<close>)
qed

lemma app_reach_ok: "app_reach s \<Longrightarrow> app_ok s"
proof (induction rule: app_reach.induct)
  case app_reach_init
  then show ?case
    by (simp add: app_ok_def app_init_def running_def phase_of_def procs_ok_def NewSyncMap_def)
next
  case (app_reach_step s t)
  then show ?case using app_step_ok by blast
qed

section \<open>Properties\<close>


text \<open>The run of the next property: one sub-process is submitted, the app is signalled.\<close>

definition spawned_app :: app_state where
  "spawned_app = SubmitSubProcess ''u'' ''job'' app_init"

lemma spawned_reach: "app_reach spawned_app"
  unfolding spawned_app_def
  by (rule app_reach_step [OF app_reach_init app_submit]) (simp add: app_init_def NewSyncMap_def)


text \<open>
  \<open>WaitForCompletion\<close> can return although a submitted sub-process has not run at all: the
  goroutine adds itself to the wait group only once it is scheduled, so the wait can find the
  counter at zero first.
\<close>

theorem wait_can_miss_submitted:
  "\<exists>s. app_reach s \<and> app_wait s = WaitReturned \<and> phase_of s ''u'' = Some Spawned"
proof -
  let ?s1 = "spawned_app\<lparr>app_ctx_done := True, app_wait := WaitingGroup\<rparr>"
  let ?s2 = "?s1\<lparr>app_wait := WaitReturned\<rparr>"
  have "app_step spawned_app ?s1"
    by (rule app_signal) (simp add: spawned_app_def SubmitSubProcess_def app_init_def)
  moreover have "app_step ?s1 ?s2"
    by (rule app_wait_return) (simp_all add: spawned_app_def SubmitSubProcess_def app_init_def)
  ultimately have "app_reach ?s2" using spawned_reach app_reach_step by blast
  moreover have "phase_of ?s2 ''u'' = Some Spawned"
    by (simp add: phase_of_def spawned_app_def SubmitSubProcess_def sm_Store_def new_sub_process_def)
  ultimately show ?thesis by (intro exI [of _ ?s2]) simp
qed

text \<open>
  A panic is recorded after the wait group is released: a run exists in which
  \<open>WaitForCompletion\<close> has returned and the sub-process that panicked still has no error and is not
  completed.
\<close>

theorem wait_can_miss_panic:
  "\<exists>s p. app_reach s \<and> app_wait s = WaitReturned \<and> app_SubProcesses s ''u'' = Some p \<and>
     sp_phase p = Unwinding ''boom'' \<and> sp_err p = None \<and> \<not> sp_completed p"
proof -
  let ?a = "go_start ''u'' spawned_app"
  let ?b = "go_panic_done ''u'' ''boom'' ?a"
  let ?c = "?b\<lparr>app_ctx_done := True, app_wait := WaitingGroup\<rparr>"
  let ?d = "?c\<lparr>app_wait := WaitReturned\<rparr>"
  note defs = spawned_app_def SubmitSubProcess_def app_init_def sm_Store_def new_sub_process_def
    go_start_def go_panic_done_def update_process_def phase_of_def NewSyncMap_def
  have "app_step spawned_app ?a" by (rule app_start) (simp add: defs)
  moreover have "app_step ?a ?b" by (rule app_panic) (simp add: defs)
  moreover have "app_step ?b ?c" by (rule app_signal) (simp add: defs)
  moreover have "app_step ?c ?d" by (rule app_wait_return) (simp_all add: defs)
  ultimately have "app_reach ?d" using spawned_reach app_reach_step by metis
  moreover have "app_SubProcesses ?d ''u'' = Some \<lparr>sp_id = ''job'', sp_phase = Unwinding ''boom'',
      sp_err = None, sp_completed = False\<rparr>"
    by (simp add: defs)
  ultimately show ?thesis by fastforce
qed

end
