(* ===== verification/HermesProto.thy ===== *)
theory HermesProto
  imports A8Nats
begin

text \<open>
  The messages of \<open>src/hermes/hproto/wsmessages.proto\<close> the modelled code reads and writes (a pointer
  to a message is an option, nil being \<open>None\<close>), the accessors of \<open>hproto-extras.go\<close>, and the
  state-passing computations of the hermes theories.
\<close>

section \<open>Computations over a state that may panic\<close>

named_theorems wp_simps \<open>weakest preconditions of computations\<close>

type_synonym ('s, 'a) st = "'s \<Rightarrow> ('a \<times> 's) run"

definition st_return :: "'a \<Rightarrow> ('s, 'a) st" where
  "st_return x s = Inr (x, s)"

definition st_bind :: "('s, 'a) st \<Rightarrow> ('a \<Rightarrow> ('s, 'b) st) \<Rightarrow> ('s, 'b) st" where
  "st_bind m f s = run_bind (m s) (\<lambda>(x, s'). f x s')"

definition st_lift :: "'a run \<Rightarrow> ('s, 'a) st" where
  "st_lift r s = run_bind r (\<lambda>x. Inr (x, s))"

definition st_get :: "('s, 's) st" where
  "st_get s = Inr (s, s)"

definition st_modify :: "('s \<Rightarrow> 's) \<Rightarrow> ('s, unit) st" where
  "st_modify f s = Inr ((), f s)"

text \<open>A step that draws a value from the state and updates it.\<close>

definition st_draw :: "('s \<Rightarrow> 'a \<times> 's) \<Rightarrow> ('s, 'a) st" where
  "st_draw f s = Inr (f s)"

lemma st_bind_Inr [run_simps]:
  "st_bind m f s = Inr (y, s') \<longleftrightarrow> (\<exists>x s1. m s = Inr (x, s1) \<and> f x s1 = Inr (y, s'))"
  by (auto simp: st_bind_def run_bind_eq_Inr)

lemma st_simps [simp, run_simps]:
  "st_return x s = Inr (y, s') \<longleftrightarrow> y = x \<and> s' = s"
  "st_get s = Inr (z, s') \<longleftrightarrow> z = s \<and> s' = s"
  "st_modify f s = Inr (u, s') \<longleftrightarrow> s' = f s"
  "st_draw g s = Inr (v, s') \<longleftrightarrow> g s = (v, s')"
  by (auto simp: st_return_def st_get_def st_modify_def st_draw_def)

lemma st_lift_Inr [simp, run_simps]: "st_lift r s = Inr (x, s') \<longleftrightarrow> r = Inr x \<and> s' = s"
  by (auto simp: st_lift_def run_bind_eq_Inr)

text \<open>
  What holds of every normal outcome of a computation: \<open>st_post m s P\<close> is the weakest precondition
  of \<open>P\<close>, ignoring panics. The rules compute it through the statements.
\<close>

definition st_post :: "('s, 'a) st \<Rightarrow> 's \<Rightarrow> ('a \<Rightarrow> 's \<Rightarrow> bool) \<Rightarrow> bool" where
  "st_post m s P = (\<forall>x s'. m s = Inr (x, s') \<longrightarrow> P x s')"

lemma st_postI: "(\<And>x s'. m s = Inr (x, s') \<Longrightarrow> P x s') \<Longrightarrow> st_post m s P"
  by (simp add: st_post_def)

lemma st_postD: "st_post m s P \<Longrightarrow> m s = Inr (x, s') \<Longrightarrow> P x s'"
  by (simp add: st_post_def)

lemma st_post_mono: "st_post m s P \<Longrightarrow> (\<And>x s'. P x s' \<Longrightarrow> Q x s') \<Longrightarrow> st_post m s Q"
  by (simp add: st_post_def)

lemma st_post_conj: "st_post m s (\<lambda>x s'. P x s' \<and> Q x s') \<longleftrightarrow> st_post m s P \<and> st_post m s Q"
  by (auto simp: st_post_def)

lemma st_post_bind [wp_simps]:
  "st_post (st_bind m f) s P \<longleftrightarrow> st_post m s (\<lambda>x s'. st_post (f x) s' P)"
  by (auto simp: st_post_def run_simps)

lemma st_post_basic [wp_simps]:
  "st_post (st_return x) s P \<longleftrightarrow> P x s"
  "st_post st_get s Q \<longleftrightarrow> Q s s"
  "st_post (st_modify f) s R \<longleftrightarrow> R () (f s)"
  "st_post (st_draw g) s P \<longleftrightarrow> P (fst (g s)) (snd (g s))"
  "st_post (st_lift r) s P \<longleftrightarrow> (\<forall>x. r = Inr x \<longrightarrow> P x s)"
  by (cases "g s"; auto simp: st_post_def)+

lemma st_post_cases [wp_simps]:
  "st_post (if b then m else m') s P \<longleftrightarrow> (b \<longrightarrow> st_post m s P) \<and> (\<not> b \<longrightarrow> st_post m' s P)"
  "st_post (case v of None \<Rightarrow> m | Some x \<Rightarrow> k x) s P \<longleftrightarrow>
     (v = None \<longrightarrow> st_post m s P) \<and> (\<forall>x. v = Some x \<longrightarrow> st_post (k x) s P)"
  "st_post (case u of Inl e \<Rightarrow> l e | Inr y \<Rightarrow> r y) s P \<longleftrightarrow>
     (\<forall>e. u = Inl e \<longrightarrow> st_post (l e) s P) \<and> (\<forall>y. u = Inr y \<longrightarrow> st_post (r y) s P)"
  "st_post (case p of (a, b) \<Rightarrow> j a b) s P \<longleftrightarrow> (\<forall>a b. p = (a, b) \<longrightarrow> st_post (j a b) s P)"
  by (auto split: option.splits sum.splits prod.splits)

lemma st_bind_cong [fundef_cong]:
  "m s = m' s' \<Longrightarrow> s = s' \<Longrightarrow> (\<And>x t. m' s' = Inr (x, t) \<Longrightarrow> f x t = f' x t) \<Longrightarrow>
     st_bind m f s = st_bind m' f' s'"
  unfolding st_bind_def by (cases "m' s'") auto

section \<open>Messages\<close>

datatype ContentType = UnspecifiedCT | Protobuf | Json | Binary | Text

datatype RpcFrameType = UnspecifiedRFT | Request | SuccessResponse | ErrorResponse

record RpcErrorInfo =
  rei_ErrorCode :: nat
  rei_Message :: string
  rei_StackTrace :: string

record RpcHeader =
  rh_CorrelationId :: string
  rh_EndPoint :: string
  rh_FrameType :: RpcFrameType
  rh_ErrorInfo :: "RpcErrorInfo option"

record KeyValPair =
  kvp_Key :: string
  kvp_Val :: string

record MessageHeader =
  mh_Sender :: string
  mh_ContentType :: ContentType
  mh_RpcHeader :: "RpcHeader option"
  mh_SenderSequence :: int
  mh_ExtraHeaders :: "KeyValPair option list"

record SenderEnvelope =
  se_Created :: int

record ServerEnvelope =
  sv_Sequence :: nat
  sv_Created :: int
  sv_Channel :: string
  sv_SubscriptionId :: string

record Message =
  msg_Header :: "MessageHeader option"
  msg_SenderEnvelope :: "SenderEnvelope option"
  msg_ServerEnvelope :: "ServerEnvelope option"
  msg_Data :: bytes

record SendMessageRequest =
  smr_To :: "string list"
  smr_Message :: "Message option"
  smr_Channel :: string
  smr_IdempotentId :: string

record SendMessageError =
  sme_To :: string
  sme_Message :: string

record SendMessageResponse =
  rsp_Errors :: "SendMessageError list"
  rsp_Duplicates :: "string list"
  rsp_IdempotentId :: string
  rsp_CorrelationId :: string

record SendReceipt =
  sr_Request :: SendMessageRequest
  sr_Response :: SendMessageResponse

record MailboxSubscription =
  msub_Id :: string
  msub_State :: string
  msub_ReaderKey :: string
  msub_Channel :: string
  msub_StartSeq :: string

record RecordMatcher =
  rmat_Database :: string
  rmat_Table :: string
  rmat_PrimaryKeys :: "string option list"

record ChangeDataCaptureSubscription =
  csub_Id :: string
  csub_State :: string
  csub_Matchers :: "RecordMatcher list"
  csub_StartSeq :: string

record NefarioSubscription =
  nsub_Id :: string
  nsub_State :: string
  nsub_ProcessUid :: string
  nsub_Channel :: string
  nsub_StartSeq :: string

datatype Subscription =
    SubUnset
  | SubMailbox MailboxSubscription
  | SubNefario NefarioSubscription
  | SubChangeDataCapture ChangeDataCaptureSubscription
  | SubUnsubscribe string

record SenderInfo =
  si_ReaderKey :: string
  si_Address :: string

record FirstMessage =
  fm_SenderInfo :: "SenderInfo option"
  fm_Subscriptions :: "Subscription list"

record SubscribeError =
  sube_State :: string
  sube_Message :: string

record SubscribeResponse =
  subr_Succeeded :: "string list"
  subr_Errors :: "SubscribeError list"

datatype MessageFromClient =
    FcUnset
  | FcSendMessageRequest SendMessageRequest
  | FcFirstMessage FirstMessage
  | FcPing bytes
  | FcPong bytes
  | FcNotification string
  | FcSubscribeRequest "Subscription list"

datatype MessageToClient =
    TcUnset
  | TcMessageEnvelope bytes "ServerEnvelope option"
  | TcSendMessageResponse "SendMessageResponse option"
  | TcPing bytes
  | TcPong bytes
  | TcNotification string
  | TcSubscribeResponse SubscribeResponse

record CreateMailboxRequest =
  cmr_Channels :: "string list"
  cmr_PrivateMetadata :: json
  cmr_PublicMetadata :: json
  cmr_PurgeTimeoutInMillis :: int
  cmr_CloseTimeoutInMillis :: int

record CreateMailboxResponse =
  cms_AdminKey :: string
  cms_Address :: string
  cms_ReaderKey :: string
  cms_Channels :: "string list"

record AddChannelRequest =
  acr_AdminKey :: string
  acr_Channels :: "string list"

section \<open>Accessors\<close>

text \<open>The generated getters answer the zero value on nil.\<close>

definition get_RpcHeader :: "Message option \<Rightarrow> RpcHeader option" where
  "get_RpcHeader m = Option.bind (Option.bind m msg_Header) mh_RpcHeader"

definition get_FrameType :: "RpcHeader option \<Rightarrow> RpcFrameType" where
  "get_FrameType rh = (case rh of None \<Rightarrow> UnspecifiedRFT | Some h \<Rightarrow> rh_FrameType h)"

definition get_EndPoint :: "RpcHeader option \<Rightarrow> string" where
  "get_EndPoint rh = (case rh of None \<Rightarrow> [] | Some h \<Rightarrow> rh_EndPoint h)"

definition get_CorrelationId :: "RpcHeader option \<Rightarrow> string" where
  "get_CorrelationId rh = (case rh of None \<Rightarrow> [] | Some h \<Rightarrow> rh_CorrelationId h)"

definition msg_CorrelationId :: "Message \<Rightarrow> string" where
  "msg_CorrelationId msg =
     (case msg_Header msg of
        None \<Rightarrow> []
      | Some hdr \<Rightarrow> (case mh_RpcHeader hdr of None \<Rightarrow> [] | Some rh \<Rightarrow> rh_CorrelationId rh))"

definition msg_RpcFrameType :: "Message \<Rightarrow> RpcFrameType" where
  "msg_RpcFrameType msg = get_FrameType (get_RpcHeader (Some msg))"

definition CorrelationIdO :: "RpcHeader option \<Rightarrow> alloc \<Rightarrow> (CorrelationId \<times> alloc) run" where
  "CorrelationIdO rh n = run_bind (deref rh) (\<lambda>h. Inr (NewCorrelationId (rh_CorrelationId h) n))"

definition IdempotentIdO :: "SendMessageRequest \<Rightarrow> alloc \<Rightarrow> IdempotentId \<times> alloc" where
  "IdempotentIdO smr n = NewIdempotentId (smr_IdempotentId smr) n"

definition smr_ChannelO :: "SendMessageRequest \<Rightarrow> alloc \<Rightarrow> ChannelName \<times> alloc" where
  "smr_ChannelO smr n = NewChannelName (smr_Channel smr) n"

fun ToChannelNames :: "string list \<Rightarrow> alloc \<Rightarrow> ChannelName list \<times> alloc" where
  "ToChannelNames [] n = ([], n)"
| "ToChannelNames (s # names) n =
     (let (c, n1) = NewChannelName s n; (cs, n2) = ToChannelNames names n1 in (c # cs, n2))"

text \<open>\<open>ToExtraHeaders\<close>: the slice is made with the length of the map and then appended to, in the
  order \<open>ks\<close> the map is walked.\<close>

definition ToExtraHeaders :: "(string \<Rightarrow> string option) \<Rightarrow> string list \<Rightarrow> KeyValPair option list" where
  "ToExtraHeaders headers ks =
     replicate (length ks) None @ map (\<lambda>k. Some \<lparr>kvp_Key = k, kvp_Val = the (headers k)\<rparr>) ks"

lemma ToChannelNames_texts:
  "map (map_option ref_text) (fst (ToChannelNames names n)) = map Some names"
proof (induction names arbitrary: n)
  case (Cons s names)
  from Cons [of "Suc n"] show ?case
    by (auto simp: new_opaques new_opaque_def split: prod.splits)
qed simp

lemma ToChannelNames_fresh:
  "allocated n v \<Longrightarrow> c \<in> set (fst (ToChannelNames names n)) \<Longrightarrow> \<not> opaque_eq c v"
proof (induction names arbitrary: n)
  case (Cons s names)
  obtain c0 n1 where c0: "NewChannelName s n = (c0, n1)" by fastforce
  have "allocated n1 v"
    using new_opaque_allocated(1) [OF Cons.prems(1), of s] c0 by (simp add: new_opaques)
  moreover have "\<not> opaque_eq c0 v"
    using new_opaque_fresh [OF Cons.prems(1), of s] c0 by (simp add: new_opaques)
  ultimately show ?case
    using Cons.IH [of n1] Cons.prems(2) c0 by (auto split: prod.splits)
qed simp

lemma ToChannelNames_alloc: "n \<le> snd (ToChannelNames names n)"
proof (induction names arbitrary: n)
  case (Cons s names)
  from Cons [of "Suc n"] show ?case
    by (auto simp: new_opaques new_opaque_def split: prod.splits)
qed simp

end
