(* ===== verification/HermesMailbox.thy ===== *)
theory HermesMailbox
  imports HermesProto
begin

text \<open>
  The mailbox of \<open>src/hermes/mailbox.go\<close> and the mailbox store of \<open>mailbox-store.go\<close>.

  A \<open>*Mailbox\<close> is the number of an object in \<open>hm_heap\<close>. NATS (key-value buckets, streams,
  publication) and the encoders are the functions of \<open>hermes_ext\<close>, a parameter, over a world \<open>'w\<close>.
  Mutexes are left out: the operations run one at a time.
\<close>

section \<open>State\<close>

record MailboxKeys =
  mk_Address :: MailboxAddress
  mk_ReaderKey :: ReaderKey
  mk_AdminKey :: AdminKey

record Mailbox =
  mb_MailboxKeys :: "MailboxKeys option"
  mb_LastActivity :: int
  mb_Channels :: "ChannelName list"
  mb_PublicMetadata :: bytes
  mb_PrivateMetadata :: bytes
  mb_PurgeTimeoutInMillis :: int
  mb_CloseTimeoutInMillis :: int
  mb_hasSent :: "bool option"
  mb_correlations :: "(nat option, nat) SyncMapS"
  mb_IsNamed :: bool
  mb_needsUpdate :: bool

type_synonym mbox_id = nat

record 'w hermes =
  hm_world :: 'w
  hm_alloc :: alloc
  hm_uuids :: nat
  hm_heap :: "mbox_id \<Rightarrow> Mailbox"
  hm_next :: mbox_id
  hm_InMemory :: "(string, mbox_id) SyncMapS"

datatype bucket = AdminMailboxesKV | MailboxesByRWKeysKV

record 'w hermes_ext =
  x_kv_get :: "bucket \<Rightarrow> string \<Rightarrow> 'w \<Rightarrow> bytes option"
  x_kv_put :: "bucket \<Rightarrow> string \<Rightarrow> bytes \<Rightarrow> 'w \<Rightarrow> go_error option \<times> 'w"
  x_kv_delete :: "bucket \<Rightarrow> string \<Rightarrow> 'w \<Rightarrow> 'w"
  x_kv_keys :: "bucket \<Rightarrow> 'w \<Rightarrow> go_error + string list"
  x_stream_info :: "string \<Rightarrow> 'w \<Rightarrow> bool"
  x_add_stream :: "string \<Rightarrow> string list \<Rightarrow> 'w \<Rightarrow> go_error option \<times> 'w"
  x_delete_stream :: "string \<Rightarrow> 'w \<Rightarrow> go_error option \<times> 'w"
  x_js_publish :: "string \<Rightarrow> bytes \<Rightarrow> string option \<Rightarrow> 'w \<Rightarrow> (go_error + bool) \<times> 'w"
  x_publish :: "string \<Rightarrow> bytes \<Rightarrow> 'w \<Rightarrow> go_error option \<times> 'w"
  x_now :: "'w \<Rightarrow> int"
  x_uuid :: "nat \<Rightarrow> string"
  x_struct_json :: "json \<Rightarrow> go_error + bytes"
  x_mailbox_json :: "Mailbox \<Rightarrow> go_error + bytes"
  x_mailbox_unjson :: "bytes \<Rightarrow> alloc \<Rightarrow> (go_error + Mailbox) \<times> alloc"
  x_marshal_message :: "Message \<Rightarrow> go_error + bytes"
  x_marshal_receipt :: "SendReceipt \<Rightarrow> go_error + bytes"
  x_marshal_request :: "SendMessageRequest \<Rightarrow> go_error + bytes"

type_synonym ('w, 'a) hop = "('w hermes, 'a) st"

definition mbox_get :: "mbox_id \<Rightarrow> ('w, Mailbox) hop" where
  "mbox_get i h = Inr (hm_heap h i, h)"

definition mbox_update :: "mbox_id \<Rightarrow> (Mailbox \<Rightarrow> Mailbox) \<Rightarrow> ('w, unit) hop" where
  "mbox_update i f = st_modify (\<lambda>h. h\<lparr>hm_heap := (hm_heap h)(i := f (hm_heap h i))\<rparr>)"

definition mbox_new :: "Mailbox \<Rightarrow> ('w, mbox_id) hop" where
  "mbox_new mb = st_draw (\<lambda>h. (hm_next h,
     h\<lparr>hm_heap := (hm_heap h)(hm_next h := mb), hm_next := Suc (hm_next h)\<rparr>))"

definition with_world :: "('w \<Rightarrow> 'a \<times> 'w) \<Rightarrow> ('w, 'a) hop" where
  "with_world f = st_draw (\<lambda>h. let (x, w) = f (hm_world h) in (x, h\<lparr>hm_world := w\<rparr>))"

definition read_world :: "('w \<Rightarrow> 'a) \<Rightarrow> ('w, 'a) hop" where
  "read_world f = st_draw (\<lambda>h. (f (hm_world h), h))"

definition with_alloc :: "(alloc \<Rightarrow> 'a \<times> alloc) \<Rightarrow> ('w, 'a) hop" where
  "with_alloc f = st_draw (\<lambda>h. let (x, n) = f (hm_alloc h) in (x, h\<lparr>hm_alloc := n\<rparr>))"

lemma st_post_prims [wp_simps]:
  "st_post (mbox_get i) h P \<longleftrightarrow> P (hm_heap h i) h"
  "st_post (mbox_update i f) h Q \<longleftrightarrow> Q () (h\<lparr>hm_heap := (hm_heap h)(i := f (hm_heap h i))\<rparr>)"
  "st_post (mbox_new mb) h R \<longleftrightarrow>
     R (hm_next h) (h\<lparr>hm_heap := (hm_heap h)(hm_next h := mb), hm_next := Suc (hm_next h)\<rparr>)"
  "st_post (with_world fw) h P' \<longleftrightarrow> P' (fst (fw (hm_world h))) (h\<lparr>hm_world := snd (fw (hm_world h))\<rparr>)"
  "st_post (read_world g) h P' \<longleftrightarrow> P' (g (hm_world h)) h"
  "st_post (with_alloc fa) h P' \<longleftrightarrow> P' (fst (fa (hm_alloc h))) (h\<lparr>hm_alloc := snd (fa (hm_alloc h))\<rparr>)"
  by (simp add: st_post_def mbox_get_def)
    (simp_all add: mbox_update_def mbox_new_def with_world_def read_world_def with_alloc_def wp_simps
      split_def Let_def)

section \<open>Package variables of the api\<close>

definition RpcSent :: ChannelName where
  "RpcSent = Some \<lparr>ref_addr = 2, ref_text = ''rpc-sent''\<rparr>"

definition RpcInbox :: ChannelName where
  "RpcInbox = Some \<lparr>ref_addr = 3, ref_text = ''rpc-inbox''\<rparr>"

definition RpcChannelsAsStrings :: "string list" where
  "RpcChannelsAsStrings = [''rpc-sent'', ''rpc-inbox'']"

section \<open>Mailbox\<close>

text \<open>The text \<open>fmt\<close> prints for \<open>%s\<close> of an opaque value.\<close>

definition opaque_fmt :: "opaque \<Rightarrow> string" where
  "opaque_fmt v = (case v of None \<Rightarrow> ''%!s(<nil>)'' | Some r \<Rightarrow> ref_text r)"

definition mbox_AdminKey :: "Mailbox \<Rightarrow> AdminKey run" where
  "mbox_AdminKey mb = run_bind (deref (mb_MailboxKeys mb)) (\<lambda>k. Inr (mk_AdminKey k))"

definition mbox_ReaderKey :: "Mailbox \<Rightarrow> ReaderKey run" where
  "mbox_ReaderKey mb = run_bind (deref (mb_MailboxKeys mb)) (\<lambda>k. Inr (mk_ReaderKey k))"

definition mbox_Address :: "Mailbox \<Rightarrow> MailboxAddress run" where
  "mbox_Address mb = run_bind (deref (mb_MailboxKeys mb)) (\<lambda>k. Inr (mk_Address k))"

fun channel_in :: "ChannelName \<Rightarrow> ChannelName list \<Rightarrow> bool" where
  "channel_in ch [] = False"
| "channel_in ch (c # cs) = (if opaque_eq c ch then True else channel_in ch cs)"

definition IsValidChannel :: "Mailbox \<Rightarrow> ChannelName \<Rightarrow> bool" where
  "IsValidChannel mb ch = channel_in ch (mb_Channels mb)"

definition HasSent :: "mbox_id \<Rightarrow> ('w, bool) hop" where
  "HasSent i =
     st_bind (mbox_get i) (\<lambda>mb.
       case mb_hasSent mb of
         Some b \<Rightarrow> st_return b
       | None \<Rightarrow>
           let b = channel_in RpcSent (mb_Channels mb)
           in st_bind (mbox_update i (\<lambda>m. m\<lparr>mb_hasSent := Some b\<rparr>)) (\<lambda>_. st_return b))"

text \<open>Twelve hours and one hour, in milliseconds, unless the mailbox has its own timeout.\<close>

definition IsPurgable :: "int \<Rightarrow> Mailbox \<Rightarrow> bool" where
  "IsPurgable now mb =
     (let expiredDelta = (if 0 < mb_PurgeTimeoutInMillis mb then mb_PurgeTimeoutInMillis mb else 43200000)
      in now - mb_LastActivity mb < expiredDelta)"

definition IsActive :: "int \<Rightarrow> Mailbox \<Rightarrow> bool" where
  "IsActive now mb =
     (let expiredDelta = (if 0 < mb_CloseTimeoutInMillis mb then mb_CloseTimeoutInMillis mb else 3600000)
      in now - mb_LastActivity mb < expiredDelta)"

definition UpdateLastActivity :: "'w hermes_ext \<Rightarrow> mbox_id \<Rightarrow> ('w, unit) hop" where
  "UpdateLastActivity ext i =
     st_bind (read_world (x_now ext)) (\<lambda>now.
       mbox_update i (\<lambda>m. m\<lparr>mb_LastActivity := now, mb_needsUpdate := True\<rparr>))"

text \<open>Correlations are keyed by the identity of the id, not by its text.\<close>

definition opaque_key :: "opaque \<Rightarrow> nat option" where
  "opaque_key v = map_option ref_addr v"

definition RegisterCorrelation :: "mbox_id \<Rightarrow> CorrelationId \<Rightarrow> nat \<Rightarrow> ('w, unit) hop" where
  "RegisterCorrelation i c callback =
     mbox_update i (\<lambda>m. m\<lparr>mb_correlations := sm_Store (opaque_key c) callback (mb_correlations m)\<rparr>)"

definition RemoveCorrelation :: "mbox_id \<Rightarrow> CorrelationId \<Rightarrow> ('w, unit) hop" where
  "RemoveCorrelation i c =
     mbox_update i (\<lambda>m. m\<lparr>mb_correlations := sm_Delete (opaque_key c) (mb_correlations m)\<rparr>)"

definition mbox_NatsSubject :: "Mailbox \<Rightarrow> ChannelName \<Rightarrow> Subject run" where
  "mbox_NatsSubject mb ch =
     run_bind (mbox_AdminKey mb) (\<lambda>k. Inr (''hermes.'' @ opaque_fmt k @ ''.'' @ opaque_fmt ch))"

definition mbox_NatsStreamName :: "Mailbox \<Rightarrow> ChannelName \<Rightarrow> StreamName run" where
  "mbox_NatsStreamName mb ch =
     run_bind (mbox_AdminKey mb) (\<lambda>k. Inr (''hermes-'' @ opaque_fmt k @ ''-'' @ opaque_fmt ch))"

definition ChannelNamesAsStrings :: "Mailbox \<Rightarrow> string list run" where
  "ChannelNamesAsStrings mb = run_map opaque_String (mb_Channels mb)"

section \<open>Store: update, add channel\<close>

definition UpdateMailbox :: "'w hermes_ext \<Rightarrow> mbox_id \<Rightarrow> ('w, unit) hop" where
  "UpdateMailbox ext i =
     st_bind (mbox_get i) (\<lambda>mb.
       case x_mailbox_json ext mb of
         Inl err \<Rightarrow> st_return ()
       | Inr js \<Rightarrow>
           st_bind (st_lift (run_bind (mbox_AdminKey mb) opaque_String)) (\<lambda>k.
           st_bind (with_world (x_kv_put ext AdminMailboxesKV k js)) (\<lambda>_. st_return ())))"

text \<open>\<open>AddChannel\<close>: \<open>Some\<close> is the returned error.\<close>

definition AddChannel ::
  "'w hermes_ext \<Rightarrow> mbox_id \<Rightarrow> ChannelName \<Rightarrow> bool \<Rightarrow> ('w, go_error option) hop" where
  "AddChannel ext i ch updateInStore =
     st_bind (mbox_get i) (\<lambda>mb.
       if IsValidChannel mb ch then
         st_bind (st_lift (mbox_AdminKey mb)) (\<lambda>k.
           st_return (Some (GoErr (''mailbox '' @ opaque_fmt k @ '' channel '' @ opaque_fmt ch @
                       '' already exists''))))
       else
         st_bind (st_lift (opaque_IsEmpty ch)) (\<lambda>e.
           if e then st_return (Some (GoErr ''channel must be supplied''))
           else
             st_bind (st_lift (mbox_NatsSubject mb ch)) (\<lambda>subject.
             st_bind (st_lift (mbox_NatsStreamName mb ch)) (\<lambda>streamName.
             st_bind (read_world (x_stream_info ext streamName)) (\<lambda>ex.
             st_bind (if ex then st_return None
                      else with_world (x_add_stream ext streamName [subject])) (\<lambda>err.
               case err of
                 Some e \<Rightarrow> st_return (Some (GoErr (''error adding stream '' @ streamName @ '' -- '' @
                             error_text e)))
               | None \<Rightarrow>
                   st_bind (mbox_update i (\<lambda>m. if opaque_eq ch RpcSent
                              then m\<lparr>mb_hasSent := Some True\<rparr> else m)) (\<lambda>_.
                   st_bind (mbox_update i (\<lambda>m. m\<lparr>mb_Channels := mb_Channels m @ [ch]\<rparr>)) (\<lambda>_.
                   st_bind (if updateInStore then UpdateMailbox ext i else st_return ()) (\<lambda>_.
                     st_return None)))))))))"

section \<open>Store: lookup\<close>

definition FetchMailboxByAdminKey ::
  "'w hermes_ext \<Rightarrow> AdminKey \<Rightarrow> ('w, mbox_id option) hop" where
  "FetchMailboxByAdminKey ext adminKey =
     st_bind (st_lift (opaque_String adminKey)) (\<lambda>k.
     st_bind (read_world (x_kv_get ext AdminMailboxesKV k)) (\<lambda>entry.
       case entry of
         None \<Rightarrow> st_return None
       | Some mailboxJson \<Rightarrow>
           st_bind (with_alloc (x_mailbox_unjson ext mailboxJson)) (\<lambda>r.
             case r of
               Inl err \<Rightarrow> st_return None
             | Inr mb0 \<Rightarrow>
                 let mb = mb0\<lparr>mb_correlations := NewSyncMap\<rparr>
                 in st_bind (st_lift (mbox_AdminKey mb)) (\<lambda>ak.
                      if \<not> opaque_eq ak adminKey then st_return None
                      else st_bind (mbox_new mb) (\<lambda>i. st_return (Some i))))))"

text \<open>
  \<open>MailboxLookup\<close>. The second look into the in-memory map, under the mutex, sees the same map here.
\<close>

definition MailboxLookup ::
  "'w hermes_ext \<Rightarrow> string \<Rightarrow> (Mailbox \<Rightarrow> string run) \<Rightarrow> ('w, mbox_id option) hop" where
  "MailboxLookup ext key getKeyFn =
     st_bind st_get (\<lambda>h.
       case hm_InMemory h key of
         Some i \<Rightarrow>
           st_bind (st_lift (getKeyFn (hm_heap h i))) (\<lambda>k.
             st_return (if k = key then Some i else None))
       | None \<Rightarrow>
           (case x_kv_get ext MailboxesByRWKeysKV key (hm_world h) of
              None \<Rightarrow> st_return None
            | Some entry \<Rightarrow>
                st_bind (with_alloc (NewAdminKey (bytes_to_string entry))) (\<lambda>adminKey.
                st_bind (FetchMailboxByAdminKey ext adminKey) (\<lambda>found.
                  case found of
                    None \<Rightarrow> st_return None
                  | Some i \<Rightarrow>
                      st_bind (mbox_get i) (\<lambda>mb.
                      st_bind (st_lift (run_bind (mbox_AdminKey mb) opaque_String)) (\<lambda>ak.
                      st_bind (st_lift (run_bind (mbox_ReaderKey mb) opaque_String)) (\<lambda>rk.
                      st_bind (st_lift (run_bind (mbox_Address mb) opaque_String)) (\<lambda>ad.
                      st_bind (st_modify (\<lambda>h. h\<lparr>hm_InMemory :=
                          sm_Store ad i (sm_Store rk i (sm_Store ak i (hm_InMemory h)))\<rparr>)) (\<lambda>_.
                        st_return (Some i))))))))))"

definition FetchMailboxByReaderKey ::
  "'w hermes_ext \<Rightarrow> ReaderKey \<Rightarrow> ('w, mbox_id option) hop" where
  "FetchMailboxByReaderKey ext readerKey =
     st_bind (st_lift (opaque_String readerKey)) (\<lambda>k.
       MailboxLookup ext k (\<lambda>mb. run_bind (mbox_ReaderKey mb) opaque_String))"

definition FetchMailboxByAddress ::
  "'w hermes_ext \<Rightarrow> MailboxAddress \<Rightarrow> ('w, mbox_id option) hop" where
  "FetchMailboxByAddress ext address =
     st_bind (st_lift (opaque_String address)) (\<lambda>k.
       MailboxLookup ext k (\<lambda>mb. run_bind (mbox_Address mb) opaque_String))"

section \<open>Store: creation\<close>

definition randomKey :: "'w hermes_ext \<Rightarrow> string \<Rightarrow> ('w, string) hop" where
  "randomKey ext prefix =
     st_draw (\<lambda>h. (prefix @ prefix @ strings_ReplaceAll (x_uuid ext (hm_uuids h)) (CHR ''-'') [],
                   h\<lparr>hm_uuids := Suc (hm_uuids h)\<rparr>))"

fun add_channels ::
  "'w hermes_ext \<Rightarrow> mbox_id \<Rightarrow> ChannelName list \<Rightarrow> ('w, go_error option) hop" where
  "add_channels ext i [] = st_return None"
| "add_channels ext i (ch # chs) =
     st_bind (AddChannel ext i ch False) (\<lambda>err.
       case err of
         Some e \<Rightarrow>
           st_bind (mbox_get i) (\<lambda>mb. st_bind (st_lift (mbox_AdminKey mb)) (\<lambda>k.
             st_return (Some (WrapErr (''unable to add channel '' @ opaque_fmt ch @ '' to '' @
                         opaque_fmt k) e))))
       | None \<Rightarrow> add_channels ext i chs)"

text \<open>The keys of a new mailbox; \<open>address\<close> is replaced by a random one when it is empty.\<close>

definition make_keys :: "'w hermes_ext \<Rightarrow> MailboxAddress \<Rightarrow> ('w, bool \<times> MailboxKeys) hop" where
  "make_keys ext address =
     st_bind (st_lift (opaque_IsEmpty address)) (\<lambda>e.
     st_bind (if e then st_bind (randomKey ext ''a'') (\<lambda>s. with_alloc (NewMailboxAddress s))
              else st_return address) (\<lambda>ad.
     st_bind (st_bind (randomKey ext ''r'') (\<lambda>s. with_alloc (NewReaderKey s))) (\<lambda>rk.
     st_bind (st_bind (randomKey ext ''z'') (\<lambda>s. with_alloc (NewAdminKey s))) (\<lambda>ak.
       st_return (\<not> e, \<lparr>mk_Address = ad, mk_ReaderKey = rk, mk_AdminKey = ak\<rparr>)))))"

definition duplicate_key :: "'w hermes_ext \<Rightarrow> MailboxKeys \<Rightarrow> ('w, go_error option) hop" where
  "duplicate_key ext keys =
     st_bind (st_lift (opaque_String (mk_Address keys))) (\<lambda>ad.
     st_bind (read_world (x_kv_get ext MailboxesByRWKeysKV ad)) (\<lambda>v1.
       if v1 \<noteq> None then st_return (Some (GoErr (''duplicate address - '' @ ad)))
       else
         st_bind (st_lift (opaque_String (mk_ReaderKey keys))) (\<lambda>rk.
         st_bind (read_world (x_kv_get ext MailboxesByRWKeysKV rk)) (\<lambda>v2.
           if v2 \<noteq> None then st_return (Some (GoErr ''duplicate readerkey''))
           else
             st_bind (st_lift (opaque_String (mk_AdminKey keys))) (\<lambda>ak.
             st_bind (read_world (x_kv_get ext AdminMailboxesKV ak)) (\<lambda>v3.
               st_return (if v3 \<noteq> None then Some (GoErr ''duplicate adminkey'') else None)))))))"

text \<open>A failed \<open>Put\<close> is logged and dropped.\<close>

definition kv_put :: "'w hermes_ext \<Rightarrow> opaque \<Rightarrow> bytes \<Rightarrow> bucket \<Rightarrow> ('w, unit) hop" where
  "kv_put ext key v kv =
     st_bind (st_lift (opaque_String key)) (\<lambda>k.
     st_bind (with_world (x_kv_put ext kv k v)) (\<lambda>_. st_return ()))"

definition store_mailbox :: "'w hermes_ext \<Rightarrow> mbox_id \<Rightarrow> bytes \<Rightarrow> MailboxKeys \<Rightarrow> ('w, unit) hop" where
  "store_mailbox ext i mboxJson keys =
     st_bind (st_lift (opaque_String (mk_AdminKey keys))) (\<lambda>ak.
     st_bind (kv_put ext (mk_ReaderKey keys) (string_to_bytes ak) MailboxesByRWKeysKV) (\<lambda>_.
     st_bind (kv_put ext (mk_Address keys) (string_to_bytes ak) MailboxesByRWKeysKV) (\<lambda>_.
       kv_put ext (mk_AdminKey keys) mboxJson AdminMailboxesKV)))"

definition new_mailbox :: "CreateMailboxRequest \<Rightarrow> MailboxKeys \<Rightarrow> bool \<Rightarrow> bytes \<Rightarrow> bytes \<Rightarrow> int \<Rightarrow> Mailbox"
  where
  "new_mailbox req keys isNamed pubm privm now =
     \<lparr>mb_MailboxKeys = Some keys, mb_LastActivity = now, mb_Channels = [],
      mb_PublicMetadata = pubm, mb_PrivateMetadata = privm,
      mb_PurgeTimeoutInMillis = (if cmr_PurgeTimeoutInMillis req = 0 then 86400000
                                 else cmr_PurgeTimeoutInMillis req),
      mb_CloseTimeoutInMillis = (if cmr_CloseTimeoutInMillis req = 0 then 28800000
                                 else cmr_CloseTimeoutInMillis req),
      mb_hasSent = None, mb_correlations = NewSyncMap, mb_IsNamed = isNamed,
      mb_needsUpdate = False\<rparr>"

definition CreateMailboxImpl ::
  "'w hermes_ext \<Rightarrow> CreateMailboxRequest \<Rightarrow> MailboxAddress \<Rightarrow> ('w, go_error + mbox_id) hop" where
  "CreateMailboxImpl ext req address =
     (case x_struct_json ext (cmr_PublicMetadata req) of
        Inl err \<Rightarrow> st_return (Inl (WrapErr ''unable to marshal public metadata'' err))
      | Inr pubm \<Rightarrow>
     (case x_struct_json ext (cmr_PrivateMetadata req) of
        Inl err \<Rightarrow> st_return (Inl (WrapErr ''unable to marshal private metadata'' err))
      | Inr privm \<Rightarrow>
          st_bind (make_keys ext address) (\<lambda>(isNamed, keys).
          st_bind (duplicate_key ext keys) (\<lambda>dup.
            case dup of
              Some err \<Rightarrow> st_return (Inl err)
            | None \<Rightarrow>
                st_bind (read_world (x_now ext)) (\<lambda>now.
                st_bind (mbox_new (new_mailbox req keys isNamed pubm privm now)) (\<lambda>i.
                st_bind (with_alloc (ToChannelNames (cmr_Channels req))) (\<lambda>chs.
                st_bind (add_channels ext i chs) (\<lambda>aerr.
                  case aerr of
                    Some err \<Rightarrow> st_return (Inl err)
                  | None \<Rightarrow>
                      st_bind (mbox_get i) (\<lambda>mb.
                        case x_mailbox_json ext mb of
                          Inl err \<Rightarrow> st_return (Inl (WrapErr ''unable to create mboxJson'' err))
                        | Inr mboxJson \<Rightarrow>
                            st_bind (UpdateLastActivity ext i) (\<lambda>_.
                            st_bind (store_mailbox ext i mboxJson keys) (\<lambda>_.
                              st_return (Inr i))))))))))))"

definition CreateMailbox ::
  "'w hermes_ext \<Rightarrow> CreateMailboxRequest \<Rightarrow> ('w, go_error + mbox_id) hop" where
  "CreateMailbox ext req =
     st_bind (with_alloc (NewMailboxAddress [])) (\<lambda>ad. CreateMailboxImpl ext req ad)"

definition threeMonths :: int where "threeMonths = 3 * 30 * 24 * 60 * 60 * 1000"

definition named_request :: CreateMailboxRequest where
  "named_request = \<lparr>cmr_Channels = RpcChannelsAsStrings, cmr_PrivateMetadata = JObj [],
     cmr_PublicMetadata = JObj [], cmr_PurgeTimeoutInMillis = threeMonths,
     cmr_CloseTimeoutInMillis = threeMonths\<rparr>"

definition FetchOrCreateNamedMailbox ::
  "'w hermes_ext \<Rightarrow> MailboxAddress \<Rightarrow> ('w, go_error + mbox_id) hop" where
  "FetchOrCreateNamedMailbox ext address =
     st_bind (FetchMailboxByAddress ext address) (\<lambda>found.
       case found of
         Some i \<Rightarrow> st_return (Inr i)
       | None \<Rightarrow> CreateMailboxImpl ext named_request address)"

section \<open>Store: iteration and purge\<close>

fun for_each_key ::
  "(AdminKey \<Rightarrow> ('w, go_error option) hop) \<Rightarrow> string list \<Rightarrow> ('w, go_error list) hop" where
  "for_each_key fn [] = st_return []"
| "for_each_key fn (k # ks) =
     st_bind (with_alloc (NewAdminKey k)) (\<lambda>adminKey.
     st_bind (fn adminKey) (\<lambda>err.
     st_bind (for_each_key fn ks) (\<lambda>errs.
       st_return (case err of Some e \<Rightarrow> e # errs | None \<Rightarrow> errs))))"

text \<open>The errors of \<open>ForEachMailbox\<close>, joined by \<open>errors.Join\<close>; empty is nil.\<close>

definition ForEachMailbox ::
  "'w hermes_ext \<Rightarrow> (AdminKey \<Rightarrow> ('w, go_error option) hop) \<Rightarrow> ('w, go_error list) hop" where
  "ForEachMailbox ext fn =
     st_bind (read_world (x_kv_keys ext AdminMailboxesKV)) (\<lambda>r.
       case r of
         Inl err \<Rightarrow> st_return [WrapErr ''ForEachMailbox error getting adminKeys'' err]
       | Inr adminKeys \<Rightarrow> for_each_key fn adminKeys)"

fun for_each_memory ::
  "(mbox_id \<Rightarrow> ('w, go_error option) hop) \<Rightarrow> (string, mbox_id) SyncMapS \<Rightarrow> string list \<Rightarrow>
   ('w, go_error option) hop" where
  "for_each_memory fn m [] = st_return None"
| "for_each_memory fn m (key # keys) =
     (case m key of
        None \<Rightarrow> for_each_memory fn m keys
      | Some i \<Rightarrow>
          if strings_HasPrefix key ''zzz'' then
            st_bind (fn i) (\<lambda>err0.
              case err0 of Some e \<Rightarrow> st_return (Some e) | None \<Rightarrow> for_each_memory fn m keys)
          else for_each_memory fn m keys)"

definition ForEachMailboxInMemory ::
  "(mbox_id \<Rightarrow> ('w, go_error option) hop) \<Rightarrow> string list \<Rightarrow> ('w, go_error option) hop" where
  "ForEachMailboxInMemory fn order = st_bind st_get (\<lambda>h. for_each_memory fn (hm_InMemory h) order)"

fun delete_streams :: "'w hermes_ext \<Rightarrow> Mailbox \<Rightarrow> ChannelName list \<Rightarrow> ('w, unit) hop" where
  "delete_streams ext mb [] = st_return ()"
| "delete_streams ext mb (ch # chs) =
     st_bind (st_lift (mbox_NatsStreamName mb ch)) (\<lambda>sn.
     st_bind (with_world (x_delete_stream ext sn)) (\<lambda>_. delete_streams ext mb chs))"

definition kv_delete :: "'w hermes_ext \<Rightarrow> bucket \<Rightarrow> string \<Rightarrow> ('w, unit) hop" where
  "kv_delete ext b k = with_world (\<lambda>w. ((), x_kv_delete ext b k w))"

definition Purge :: "'w hermes_ext \<Rightarrow> mbox_id \<Rightarrow> ('w, unit) hop" where
  "Purge ext i =
     st_bind (mbox_get i) (\<lambda>mb.
     st_bind (st_lift (run_bind (mbox_ReaderKey mb) opaque_String)) (\<lambda>rk.
     st_bind (kv_delete ext MailboxesByRWKeysKV rk) (\<lambda>_.
     st_bind (st_lift (run_bind (mbox_Address mb) opaque_String)) (\<lambda>ad.
     st_bind (kv_delete ext MailboxesByRWKeysKV ad) (\<lambda>_.
     st_bind (st_lift (run_bind (mbox_AdminKey mb) opaque_String)) (\<lambda>ak.
     st_bind (kv_delete ext AdminMailboxesKV ak) (\<lambda>_.
     st_bind (st_modify (\<lambda>h. h\<lparr>hm_InMemory :=
         sm_Delete rk (sm_Delete ad (sm_Delete ak (hm_InMemory h)))\<rparr>)) (\<lambda>_.
       delete_streams ext mb (mb_Channels mb)))))))))"

end
