(* ===== verification/HermesPublish.thy ===== *)
theory HermesPublish
  imports HermesMailbox
begin

text \<open>
  Publication in \<open>src/hermes/mailbox-store.go\<close>, the streams and the rpc inbox reader of
  \<open>mailbox.go\<close>, and the rpc call of \<open>api/hermes-api.go\<close>. The goroutine that publishes a send receipt
  is returned as a pending receipt, to be run by \<open>PublishSendReceipt\<close>.
\<close>

section \<open>Publishing\<close>

text \<open>The answer of \<open>PublishMessage\<close>: an error, or whether the server had the message already.\<close>

definition PublishMessage ::
  "'w hermes_ext \<Rightarrow> mbox_id \<Rightarrow> ChannelName \<Rightarrow> Message \<Rightarrow> IdempotentId \<Rightarrow> ('w, go_error + bool) hop" where
  "PublishMessage ext toMbox channel msg idempotentId =
     st_bind (mbox_get toMbox) (\<lambda>mb.
     st_bind (st_lift (mbox_NatsSubject mb channel)) (\<lambda>subject.
       case x_marshal_message ext msg of
         Inl err \<Rightarrow> st_return (Inl (WrapErr ''error marshalling message to bytes'' err))
       | Inr msgBytes \<Rightarrow>
           st_bind (st_lift (JetStreamPublish (x_js_publish ext) subject msgBytes idempotentId)) (\<lambda>pub.
           st_bind (with_world pub) (\<lambda>r.
             case r of
               Inl err \<Rightarrow> st_return (Inl (WrapErr ''error publishing message'' err))
             | Inr dup \<Rightarrow> st_return (Inr dup)))))"

definition PublishSendReceipt ::
  "'w hermes_ext \<Rightarrow> mbox_id \<Rightarrow> SendReceipt \<Rightarrow> ('w, go_error option) hop" where
  "PublishSendReceipt ext i receipt =
     st_bind (mbox_get i) (\<lambda>mb.
     st_bind (st_lift (mbox_NatsSubject mb RpcSent)) (\<lambda>subject.
       case x_marshal_receipt ext receipt of
         Inl err \<Rightarrow> st_return (Some (WrapErr ''error marshalling message to bytes'' err))
       | Inr msgBytes \<Rightarrow>
           st_bind (with_alloc (NewIdempotentId [])) (\<lambda>iid.
           st_bind (st_lift (JetStreamPublish (x_js_publish ext) subject msgBytes iid)) (\<lambda>pub.
           st_bind (with_world pub) (\<lambda>r.
             case r of
               Inl err \<Rightarrow> st_return (Some (WrapErr ''error publishing message'' err))
             | Inr dup \<Rightarrow> st_return None)))))"

text \<open>The body of the loop over the recipients: the error or the duplicate it adds, if any.\<close>

definition publish_to_one ::
  "'w hermes_ext \<Rightarrow> SendMessageRequest \<Rightarrow> Message \<Rightarrow> string \<Rightarrow>
   ('w, SendMessageError list \<times> string list) hop" where
  "publish_to_one ext request msg to =
     st_bind (with_alloc (NewMailboxAddress to)) (\<lambda>ad.
     st_bind (FetchMailboxByAddress ext ad) (\<lambda>found.
       case found of
         Some toMbox \<Rightarrow>
           st_bind (with_alloc (smr_ChannelO request)) (\<lambda>ch.
           st_bind (with_alloc (IdempotentIdO request)) (\<lambda>iid.
           st_bind (PublishMessage ext toMbox ch msg iid) (\<lambda>r.
             st_return (case r of
               Inl err \<Rightarrow> ([\<lparr>sme_To = to, sme_Message = error_text err\<rparr>], [])
             | Inr dup \<Rightarrow> ([], if dup then [to] else [])))))
       | None \<Rightarrow>
           st_return ([\<lparr>sme_To = to, sme_Message = ''mailbox address '' @ to @ '' not found''\<rparr>], [])))"

text \<open>The loop over the recipients: the errors and the duplicates, in order.\<close>

fun publish_to_all ::
  "'w hermes_ext \<Rightarrow> SendMessageRequest \<Rightarrow> Message \<Rightarrow> string list \<Rightarrow>
   ('w, SendMessageError list \<times> string list) hop" where
  "publish_to_all ext request msg [] = st_return ([], [])"
| "publish_to_all ext request msg (to # tos) =
     st_bind (publish_to_one ext request msg to) (\<lambda>(errs, dups).
     st_bind (publish_to_all ext request msg tos) (\<lambda>(errs', dups').
       st_return (errs @ errs', dups @ dups')))"

definition set_sender :: "string \<Rightarrow> SendMessageRequest \<Rightarrow> SendMessageRequest run" where
  "set_sender sender request =
     run_bind (deref (smr_Message request)) (\<lambda>m.
     run_bind (deref (msg_Header m)) (\<lambda>hdr.
       Inr (request\<lparr>smr_Message := Some (m\<lparr>msg_Header := Some (hdr\<lparr>mh_Sender := sender\<rparr>)\<rparr>)\<rparr>)))"

definition error_response :: "string \<Rightarrow> RpcHeader \<Rightarrow> SendMessageError list \<Rightarrow> int \<Rightarrow> Message" where
  "error_response sender rh errs now =
     \<lparr>msg_Header = Some \<lparr>mh_Sender = sender, mh_ContentType = UnspecifiedCT,
        mh_RpcHeader = Some \<lparr>rh_CorrelationId = rh_CorrelationId rh, rh_EndPoint = rh_EndPoint rh,
          rh_FrameType = ErrorResponse,
          rh_ErrorInfo = Some \<lparr>rei_ErrorCode = 0,
            rei_Message = strings_Join (map sme_Message errs) '', '', rei_StackTrace = []\<rparr>\<rparr>,
        mh_SenderSequence = 0, mh_ExtraHeaders = []\<rparr>,
      msg_SenderEnvelope = Some \<lparr>se_Created = now\<rparr>, msg_ServerEnvelope = None, msg_Data = []\<rparr>"

text \<open>
  \<open>DirectPublishSendMessageRequestX\<close>: the response and the receipt the sender's \<open>rpc-sent\<close>
  channel is due. A request that reached nobody is answered with a synthesized error response.
\<close>

definition DirectPublishSendMessageRequestX ::
  "'w hermes_ext \<Rightarrow> SendMessageRequest \<Rightarrow> mbox_id \<Rightarrow>
   ('w, SendMessageResponse \<times> SendReceipt option) hop" where
  "DirectPublishSendMessageRequestX ext request0 from0 =
     st_bind (mbox_get from0) (\<lambda>fromMb.
     st_bind (st_lift (run_bind (mbox_Address fromMb) opaque_String)) (\<lambda>sender.
     st_bind (st_lift (set_sender sender request0)) (\<lambda>request.
     st_bind (st_lift (deref (smr_Message request))) (\<lambda>msg.
     st_bind (publish_to_all ext request msg (smr_To request)) (\<lambda>(errs, dups).
     st_bind
       (case get_RpcHeader (Some msg) of
          Some rh \<Rightarrow>
            if 0 < length errs \<and> length errs = length (smr_To request) \<and> rh_FrameType rh = Request then
              st_bind (read_world (x_now ext)) (\<lambda>now.
              st_bind (with_alloc (smr_ChannelO request)) (\<lambda>ch.
              st_bind (st_draw (\<lambda>h. (x_uuid ext (hm_uuids h), h\<lparr>hm_uuids := Suc (hm_uuids h)\<rparr>))) (\<lambda>u.
              st_bind (with_alloc (NewIdempotentId (strings_ReplaceAll u (CHR ''-'') []))) (\<lambda>iid.
              st_bind (PublishMessage ext from0 ch (error_response sender rh errs now) iid) (\<lambda>_.
                st_return ())))))
            else st_return ()
        | None \<Rightarrow> st_return ()) (\<lambda>_.
     st_bind (HasSent from0) (\<lambda>sent.
       let response = \<lparr>rsp_Errors = errs, rsp_Duplicates = dups,
             rsp_IdempotentId = smr_IdempotentId request,
             rsp_CorrelationId = get_CorrelationId (get_RpcHeader (Some msg))\<rparr>
       in st_return (response,
            if sent then Some \<lparr>sr_Request = request, sr_Response = response\<rparr> else None))))))))"

definition SendMessageRequest_subject :: Subject where
  "SendMessageRequest_subject = ''hermes-control.SendMessageRequest''"

definition WorkQueue_Stream :: "string \<Rightarrow> StreamName" where
  "WorkQueue_Stream name = strings_ReplaceAll name (CHR ''.'') ''-''"

definition WorkQueue_Consumer :: "string \<Rightarrow> ConsumerName" where
  "WorkQueue_Consumer name = WorkQueue_Stream name"

definition LeafPublishSendMessageRequest ::
  "'w hermes_ext \<Rightarrow> SendMessageRequest \<Rightarrow> ('w, go_error option) hop" where
  "LeafPublishSendMessageRequest ext smr =
     (case x_marshal_request ext smr of
        Inl err \<Rightarrow> st_return (Some (WrapErr ''unable to marshal SendMessageRequest into bytes'' err))
      | Inr bs \<Rightarrow> with_world (x_publish ext SendMessageRequest_subject bs))"

text \<open>A nil response with a nil error is possible: the leaf branch never has a response.\<close>

definition PublishSendMessageRequest ::
  "'w hermes_ext \<Rightarrow> bool \<Rightarrow> SendMessageRequest \<Rightarrow> mbox_id \<Rightarrow>
   ('w, SendMessageResponse option \<times> go_error option \<times> SendReceipt option) hop" where
  "PublishSendMessageRequest ext useDirect smr from0 =
     (if useDirect then
        st_bind (DirectPublishSendMessageRequestX ext smr from0) (\<lambda>(response, receipt).
          st_return (Some response, None, receipt))
      else
        st_bind (LeafPublishSendMessageRequest ext smr) (\<lambda>err. st_return (None, err, None)))"

section \<open>Streams and the rpc inbox\<close>

record StreamS =
  ss_Mailbox :: mbox_id
  ss_Channel :: ChannelName
  ss_NatsSubject :: Subject
  ss_NatsStreamName :: StreamName
  ss_StartSeq :: string
  ss_ConsumerName :: ConsumerName

definition mbox_Stream :: "mbox_id \<Rightarrow> ChannelName \<Rightarrow> ('w, go_error + StreamS) hop" where
  "mbox_Stream i ch =
     st_bind (mbox_get i) (\<lambda>mb.
       if IsValidChannel mb ch then
         st_bind (st_lift (mbox_NatsSubject mb ch)) (\<lambda>subj.
         st_bind (st_lift (mbox_NatsStreamName mb ch)) (\<lambda>sn.
           st_return (Inr \<lparr>ss_Mailbox = i, ss_Channel = ch, ss_NatsSubject = subj,
             ss_NatsStreamName = sn, ss_StartSeq = [], ss_ConsumerName = []\<rparr>)))
       else st_return (Inl (GoErr (''channel '' @ opaque_fmt ch @ '' does not exist''))))"

definition StartPos :: "string \<Rightarrow> StreamS \<Rightarrow> StreamS" where
  "StartPos startPos stream = stream\<lparr>ss_StartSeq := startPos\<rparr>"

definition stream_ConsumerName :: "ConsumerName \<Rightarrow> StreamS \<Rightarrow> StreamS" where
  "stream_ConsumerName c stream = stream\<lparr>ss_ConsumerName := c\<rparr>"

text \<open>What \<open>Subscribe\<close> does with a NATS message: it is acknowledged first, whatever follows.\<close>

datatype inbox_outcome = AckedUndecodable | AckedHandled "go_error option"

definition subscribe_handler ::
  "(bytes \<Rightarrow> go_error + Message) \<Rightarrow> (Message \<Rightarrow> ('w, go_error option) hop) \<Rightarrow> bytes \<Rightarrow>
   ('w, inbox_outcome) hop" where
  "subscribe_handler unmarshal receiverFn data =
     (case unmarshal data of
        Inl err \<Rightarrow> st_return AckedUndecodable
      | Inr msg \<Rightarrow> st_bind (receiverFn msg) (\<lambda>err. st_return (AckedHandled err)))"

definition stream_sub_opts :: "StreamS \<Rightarrow> sub_opt list \<times> string option" where
  "stream_sub_opts stream =
     ([SubBindStream (ss_NatsStreamName stream),
       SubDeliver (snd (StartSeqToSubscriptionOptions (ss_StartSeq stream)))],
      if ss_ConsumerName stream \<noteq> [] then Some (ss_ConsumerName stream) else None)"

text \<open>
  The message handler of \<open>RunRpcInboxReader\<close>: the callback a response was delivered to, if any, or
  the answer of the request handler.
\<close>

datatype inbox_result = Delivered nat | NoCorrelation | Ignored | Answered "go_error option"

definition rpc_inbox_handler ::
  "mbox_id \<Rightarrow> (Message \<Rightarrow> ('w, go_error option) hop) option \<Rightarrow> Message \<Rightarrow> ('w, inbox_result) hop" where
  "rpc_inbox_handler i rpcRequestHandler msg =
     st_bind (st_lift (deref (get_RpcHeader (Some msg)))) (\<lambda>rh.
       if rh_FrameType rh = ErrorResponse \<or> rh_FrameType rh = SuccessResponse then
         st_bind (with_alloc (NewCorrelationId (rh_CorrelationId rh))) (\<lambda>correlationId.
         st_bind (st_lift (opaque_IsEmpty correlationId)) (\<lambda>e.
           if e then st_return Ignored
           else
             st_bind (mbox_get i) (\<lambda>mb.
               case sm_Load 0 (opaque_key correlationId) (mb_correlations mb) of
                 (ch, ok) \<Rightarrow> if ok then st_return (Delivered ch) else st_return NoCorrelation)))
       else if rh_FrameType rh = Request then
         (case rpcRequestHandler of
            Some handler \<Rightarrow> st_bind (handler msg) (\<lambda>err. st_return (Answered err))
          | None \<Rightarrow> st_return (Answered (Some (GoErr
               ''received a request frame and rpcRequestHandler is nil''))))
       else st_return Ignored)"

text \<open>Opening the inbox: the error \<open>RunRpcInboxReader\<close> returns, or the stream it reads.\<close>

definition open_rpc_inbox :: "mbox_id \<Rightarrow> ('w, go_error + StreamS) hop" where
  "open_rpc_inbox i =
     st_bind (mbox_Stream i RpcInbox) (\<lambda>r.
       case r of
         Inl err \<Rightarrow> st_return (Inl (WrapErr ''error creating stream'' err))
       | Inr stream \<Rightarrow>
           st_bind (mbox_get i) (\<lambda>mb.
             if mb_IsNamed mb then
               st_bind (st_lift (run_bind (mbox_Address mb) opaque_String)) (\<lambda>ad.
                 st_return (Inr (stream_ConsumerName ad stream)))
             else st_return (Inr stream)))"

section \<open>Rpc calls\<close>

record RpcRequest =
  rq_From :: mbox_id
  rq_To :: MailboxAddress
  rq_EndPoint :: string
  rq_Headers :: "(string \<Rightarrow> string option) \<times> string list"
  rq_Channel :: ChannelName
  rq_ContentType :: ContentType

text \<open>
  \<open>RawRpcCall\<close> up to the wait: the correlation id, registered with the callback, and the published
  request. \<open>publish\<close> is the mailbox's \<open>PublishSendMessageRequest\<close>.
\<close>

definition rpc_request_message ::
  "RpcRequest \<Rightarrow> bytes \<Rightarrow> string \<Rightarrow> string \<Rightarrow> string \<Rightarrow> string \<Rightarrow> string \<Rightarrow> int \<Rightarrow> SendMessageRequest" where
  "rpc_request_message req reqBody sender to correlationId channel idempotentId now =
     \<lparr>smr_To = [to],
      smr_Message = Some
        \<lparr>msg_Header = Some
           \<lparr>mh_Sender = sender,
            mh_ContentType = (if rq_ContentType req = UnspecifiedCT then Protobuf
                              else rq_ContentType req),
            mh_RpcHeader = Some \<lparr>rh_CorrelationId = correlationId, rh_EndPoint = rq_EndPoint req,
              rh_FrameType = Request, rh_ErrorInfo = None\<rparr>,
            mh_SenderSequence = 0,
            mh_ExtraHeaders = ToExtraHeaders (fst (rq_Headers req)) (snd (rq_Headers req))\<rparr>,
         msg_SenderEnvelope = Some \<lparr>se_Created = now\<rparr>, msg_ServerEnvelope = None,
         msg_Data = reqBody\<rparr>,
      smr_Channel = channel, smr_IdempotentId = idempotentId\<rparr>"

definition draw_uid :: "'w hermes_ext \<Rightarrow> ('w, string) hop" where
  "draw_uid ext = st_draw (\<lambda>h. (strings_ReplaceAll (x_uuid ext (hm_uuids h)) (CHR ''-'') [],
     h\<lparr>hm_uuids := Suc (hm_uuids h)\<rparr>))"

datatype rpc_wait = Responded Message | TimedOut

definition RawRpcCall ::
  "'w hermes_ext \<Rightarrow> (SendMessageRequest \<Rightarrow> mbox_id \<Rightarrow> ('w, go_error option) hop) \<Rightarrow> nat \<Rightarrow> rpc_wait \<Rightarrow>
   bytes \<Rightarrow> RpcRequest \<Rightarrow> ('w, go_error + Message) hop" where
  "RawRpcCall ext publish callback wait reqBody req =
     st_bind (st_bind (draw_uid ext) (\<lambda>u. with_alloc (NewCorrelationId u))) (\<lambda>correlationId.
     st_bind (st_bind (draw_uid ext) (\<lambda>u. with_alloc (NewIdempotentId u))) (\<lambda>idempotentId.
     st_bind (st_lift (opaque_IsEmpty (rq_Channel req))) (\<lambda>e.
     st_bind (RegisterCorrelation (rq_From req) correlationId callback) (\<lambda>_.
     st_bind (st_lift (opaque_String (rq_To req))) (\<lambda>to.
     st_bind (mbox_get (rq_From req)) (\<lambda>fromMb.
     st_bind (st_lift (run_bind (mbox_Address fromMb) opaque_String)) (\<lambda>sender.
     st_bind (read_world (x_now ext)) (\<lambda>now.
     st_bind (st_lift (opaque_String (if e then RpcInbox else rq_Channel req))) (\<lambda>channel.
     st_bind (publish (rpc_request_message req reqBody sender to (opaque_fmt correlationId) channel
                (opaque_fmt idempotentId) now) (rq_From req)) (\<lambda>perr.
     st_bind (RemoveCorrelation (rq_From req) correlationId) (\<lambda>_.
       st_return (case perr of
           Some err \<Rightarrow> Inl (WrapErr ''failed to publish rpc request message'' err)
         | None \<Rightarrow> (case wait of Responded m \<Rightarrow> Inr m
                     | TimedOut \<Rightarrow> Inl (GoErr ''rpc call timed out''))))))))))))))"

text \<open>\<open>RpcCall\<close> on the outcome of \<open>RawRpcCall\<close>.\<close>

definition frame_text :: "RpcFrameType \<Rightarrow> string" where
  "frame_text ft = (case ft of UnspecifiedRFT \<Rightarrow> ''UnspecifiedRFT'' | Request \<Rightarrow> ''Request''
     | SuccessResponse \<Rightarrow> ''SuccessResponse'' | ErrorResponse \<Rightarrow> ''ErrorResponse'')"

definition rpc_response :: "(bytes \<Rightarrow> go_error + 'b) \<Rightarrow> go_error + Message \<Rightarrow> go_error + 'b" where
  "rpc_response unmarshal r =
     (case r of
        Inl err \<Rightarrow> Inl (WrapErr ''internal error in RawRpcCall'' err)
      | Inr m \<Rightarrow>
          let ft = msg_RpcFrameType m
          in (case ft of
                SuccessResponse \<Rightarrow>
                  (case unmarshal (msg_Data m) of
                     Inl err \<Rightarrow> Inl (WrapErr ''failed to unmarshal response body'' err)
                   | Inr b \<Rightarrow> Inr b)
              | ErrorResponse \<Rightarrow>
                  Inl (GoErr (''rpc error response: '' @
                    (case Option.bind (get_RpcHeader (Some m)) rh_ErrorInfo of
                       None \<Rightarrow> [] | Some ei \<Rightarrow> rei_Message ei)))
              | _ \<Rightarrow> Inl (GoErr (''unexpected frame type: '' @ frame_text ft))))"

end
