(* ===== verification/HermesStore.thy ===== *)
theory HermesStore
  imports HermesPublish "HOL-Library.Sublist"
begin

text \<open>
  What the mailbox store of \<open>src/hermes/mailbox-store.go\<close> and the mailbox of \<open>mailbox.go\<close> do:
  creation, lookup, publication to the recipients, the rpc inbox and purge. Two identifiers are
  equal only when they are the same allocation, which decides most of what is shown here.
\<close>

section \<open>Lookup\<close>

text \<open>
  Decoding JSON allocates: an admin key in a decoded mailbox is nil or a new allocation, and the
  allocator only grows. This is what \<open>json.Unmarshal\<close> promises (it never returns a pointer the
  program already holds).
\<close>

definition decoded_fresh :: "'w hermes_ext \<Rightarrow> bool" where
  "decoded_fresh ext \<longleftrightarrow>
     (\<forall>bs n. n \<le> snd (x_mailbox_unjson ext bs n)) \<and>
     (\<forall>bs n mb n' k. x_mailbox_unjson ext bs n = (Inr mb, n') \<longrightarrow> mb_MailboxKeys mb = Some k \<longrightarrow>
        (case mk_AdminKey k of None \<Rightarrow> True | Some r \<Rightarrow> n \<le> ref_addr r))"

lemma decoded_freshD:
  assumes "decoded_fresh ext" "x_mailbox_unjson ext bs n = (Inr mb, n')" "mb_MailboxKeys mb = Some k"
    "mk_AdminKey k = Some r"
  shows "n \<le> ref_addr r"
proof -
  have "case mk_AdminKey k of None \<Rightarrow> True | Some r \<Rightarrow> n \<le> ref_addr r"
    using assms(1) [unfolded decoded_fresh_def] assms(2,3) by blast
  then show ?thesis using assms(4) by simp
qed

lemma decoded_fresh_grows: "decoded_fresh ext \<Longrightarrow> n \<le> snd (x_mailbox_unjson ext bs n)"
  by (simp add: decoded_fresh_def)

lemma fetch_by_admin_key_post:
  assumes dec: "decoded_fresh ext" and al: "allocated (hm_alloc h) (Some key)"
  shows "st_post (FetchMailboxByAdminKey ext (Some key)) h
    (\<lambda>r h'. r = None \<and> (\<exists>n \<ge> hm_alloc h. h' = h\<lparr>hm_alloc := n\<rparr>))"
proof -
  have k: "ref_addr key < hm_alloc h" using al by (simp add: allocated_def)
  have neq: False
    if "fst (x_mailbox_unjson ext bs (hm_alloc h)) = Inr mb" "mb_MailboxKeys mb = Some mk"
      "opaque_eq (mk_AdminKey mk) (Some key)" for bs mb mk
    using decoded_freshD [OF dec, of bs "hm_alloc h" mb "snd (x_mailbox_unjson ext bs (hm_alloc h))" mk] that k
    by (auto simp: opaque_eq_def ref_eq_def prod_eq_iff split: option.splits)
  show ?thesis
    unfolding FetchMailboxByAdminKey_def
    by (auto simp: wp_simps mbox_AdminKey_def run_simps Let_def dest: neq
        intro: exI [of _ "hm_alloc h"] decoded_fresh_grows [OF dec])
qed

text \<open>A lookup only ever answers what the in-memory map holds.\<close>

lemma mailbox_lookup_in_memory:
  assumes dec: "decoded_fresh ext"
  shows "st_post (MailboxLookup ext key getKeyFn) h
    (\<lambda>r h'. (r = None \<or> r = hm_InMemory h key) \<and> (\<exists>n \<ge> hm_alloc h. h' = h\<lparr>hm_alloc := n\<rparr>))"
proof -
  have f: "st_post (FetchMailboxByAdminKey ext (Some \<lparr>ref_addr = hm_alloc h, ref_text = t\<rparr>))
      (h\<lparr>hm_alloc := Suc (hm_alloc h)\<rparr>)
      (\<lambda>r h'. r = None \<and> (\<exists>n \<ge> Suc (hm_alloc h). h' = h\<lparr>hm_alloc := n\<rparr>))" for t
    by (rule st_post_mono [OF fetch_by_admin_key_post [OF dec]]) (auto simp: allocated_def)
  have g: "\<exists>n \<ge> hm_alloc h. h = h\<lparr>hm_alloc := n\<rparr>" by (intro exI [of _ "hm_alloc h"]) simp
  have g': "\<exists>n \<ge> hm_alloc h. h\<lparr>hm_alloc := m\<rparr> = h\<lparr>hm_alloc := n\<rparr>" if "Suc (hm_alloc h) \<le> m" for m
    using that by (intro exI [of _ m]) simp
  show ?thesis
    unfolding MailboxLookup_def
    by (auto simp: wp_simps g new_opaques new_opaque_def intro!: st_post_mono [OF f] g')
qed

lemma mailbox_lookup_post:
  assumes dec: "decoded_fresh ext" and em: "hm_InMemory h = NewSyncMap"
  shows "st_post (MailboxLookup ext key getKeyFn) h (\<lambda>r h'. r = None \<and> (\<exists>n. h' = h\<lparr>hm_alloc := n\<rparr>))"
  by (rule st_post_mono [OF mailbox_lookup_in_memory [OF dec]]) (auto simp: em NewSyncMap_def)

lemma fetch_by_address_post:
  assumes "decoded_fresh ext" and "hm_InMemory h = NewSyncMap"
  shows "st_post (FetchMailboxByAddress ext address) h (\<lambda>r h'. r = None \<and> (\<exists>n. h' = h\<lparr>hm_alloc := n\<rparr>))"
  by (auto simp: FetchMailboxByAddress_def wp_simps intro!: mailbox_lookup_post assms)

text \<open>
  No mailbox is ever found in a store that starts with an empty in-memory map: a lookup by address
  or by reader key answers nil and leaves the in-memory map empty, whatever the buckets hold, because
  the admin key decoded from the bucket is never the pointer that was asked for.
\<close>

theorem lookup_never_finds:
  assumes "decoded_fresh ext" and "hm_InMemory h = NewSyncMap"
  shows "(FetchMailboxByAddress ext address h = Inr (r, h') \<longrightarrow> r = None \<and> hm_InMemory h' = NewSyncMap) \<and>
    (FetchMailboxByReaderKey ext readerKey h = Inr (r, h') \<longrightarrow> r = None \<and> hm_InMemory h' = NewSyncMap)"
proof -
  have "st_post (FetchMailboxByReaderKey ext readerKey) h (\<lambda>r h'. r = None \<and> (\<exists>n. h' = h\<lparr>hm_alloc := n\<rparr>))"
    by (auto simp: FetchMailboxByReaderKey_def wp_simps intro!: mailbox_lookup_post assms)
  then show ?thesis
    using st_postD [OF fetch_by_address_post [OF assms]] st_postD assms(2) by fastforce
qed

section \<open>Creation\<close>

text \<open>The store outside its heap and the world.\<close>

definition same_store :: "'w hermes \<Rightarrow> 'w hermes \<Rightarrow> bool" where
  "same_store h h' \<longleftrightarrow> hm_alloc h' = hm_alloc h \<and> hm_uuids h' = hm_uuids h \<and> hm_next h' = hm_next h \<and>
     hm_InMemory h' = hm_InMemory h"

lemma same_store_simps [simp]:
  "same_store h h"
  "same_store h (h'\<lparr>hm_world := w\<rparr>) = same_store h h'"
  "same_store h (h'\<lparr>hm_heap := hp\<rparr>) = same_store h h'"
  by (simp_all add: same_store_def)

lemma same_store_trans: "same_store h h' \<Longrightarrow> same_store h' h'' \<Longrightarrow> same_store h h''"
  by (simp add: same_store_def)

lemma add_channel_post:
  "st_post (AddChannel ext i ch False) h (\<lambda>err h'. same_store h h' \<and> hm_heap h' =
     (if err = None then (hm_heap h)(i := (hm_heap h i)\<lparr>
              mb_Channels := mb_Channels (hm_heap h i) @ [ch],
              mb_hasSent := (if opaque_eq ch RpcSent then Some True else mb_hasSent (hm_heap h i))\<rparr>)
      else hm_heap h))"
  unfolding AddChannel_def by (auto simp: wp_simps)

lemma add_channels_post:
  assumes "\<And>ch. ch \<in> set chs \<Longrightarrow> \<not> opaque_eq ch RpcSent"
  shows "st_post (add_channels ext i chs) h (\<lambda>err h'. same_store h h' \<and> (err = None \<longrightarrow> hm_heap h' =
     (hm_heap h)(i := (hm_heap h i)\<lparr>mb_Channels := mb_Channels (hm_heap h i) @ chs\<rparr>)))"
  using assms
proof (induction chs arbitrary: h)
  case Nil
  then show ?case by (auto simp: wp_simps)
next
  case (Cons ch chs)
  have 1: "\<not> opaque_eq ch RpcSent" using Cons.prems by simp
  have 2: "st_post (add_channels ext i chs) h1 (\<lambda>err h'. same_store h1 h' \<and> (err = None \<longrightarrow> hm_heap h' =
     (hm_heap h1)(i := (hm_heap h1 i)\<lparr>mb_Channels := mb_Channels (hm_heap h1 i) @ chs\<rparr>)))" for h1
    by (rule Cons.IH) (use Cons.prems in auto)
  show ?case
    by (auto simp: wp_simps 1 elim: same_store_trans
      intro!: st_post_mono [OF add_channel_post] st_post_mono [OF 2])
qed

lemma random_key_post:
  "st_post (randomKey ext p) h (\<lambda>k h'. h' = h\<lparr>hm_uuids := Suc (hm_uuids h)\<rparr> \<and>
     k = p @ p @ strings_ReplaceAll (x_uuid ext (hm_uuids h)) (CHR ''-'') [])"
  by (simp add: randomKey_def wp_simps)

lemma make_keys_post:
  "st_post (make_keys ext (Some ad)) h (\<lambda>(named, keys) h'.
     hm_alloc h \<le> hm_alloc h' \<and> hm_world h' = hm_world h \<and> hm_heap h' = hm_heap h \<and>
     hm_next h' = hm_next h \<and> hm_InMemory h' = hm_InMemory h \<and> named = (ref_text ad \<noteq> []) \<and>
     (named \<longrightarrow> mk_Address keys = Some ad) \<and>
     (\<exists>a r z. mk_Address keys = Some a \<and> mk_ReaderKey keys = Some r \<and> mk_AdminKey keys = Some z))"
  unfolding make_keys_def
  by (auto simp: wp_simps new_opaques new_opaque_def randomKey_def)

lemma duplicate_key_post:
  "st_post (duplicate_key ext keys) h (\<lambda>dup h'. h' = h \<and>
     (dup = None \<longrightarrow> (\<forall>a. mk_Address keys = Some a \<longrightarrow>
        x_kv_get ext MailboxesByRWKeysKV (ref_text a) (hm_world h) = None)) \<and>
     (dup \<noteq> None \<longrightarrow> (\<forall>a r z. mk_Address keys = Some a \<longrightarrow> mk_ReaderKey keys = Some r \<longrightarrow>
        mk_AdminKey keys = Some z \<longrightarrow>
        x_kv_get ext MailboxesByRWKeysKV (ref_text a) (hm_world h) \<noteq> None \<or>
        x_kv_get ext MailboxesByRWKeysKV (ref_text r) (hm_world h) \<noteq> None \<or>
        x_kv_get ext AdminMailboxesKV (ref_text z) (hm_world h) \<noteq> None)))"
  unfolding duplicate_key_def by (auto simp: wp_simps)

lemma store_mailbox_post:
  "st_post (store_mailbox ext i js keys) h (\<lambda>u h'. same_store h h' \<and> hm_heap h' = hm_heap h)"
  unfolding store_mailbox_def kv_put_def by (auto simp: wp_simps)

text \<open>What a created mailbox looks like.\<close>

definition created :: "CreateMailboxRequest \<Rightarrow> string_ref \<Rightarrow> Mailbox \<Rightarrow> bool" where
  "created req ad mb \<longleftrightarrow>
     map (map_option ref_text) (mb_Channels mb) = map Some (cmr_Channels req) \<and>
     mb_PurgeTimeoutInMillis mb = (if cmr_PurgeTimeoutInMillis req = 0 then 24 * 60 * 60 * 1000
                                   else cmr_PurgeTimeoutInMillis req) \<and>
     mb_CloseTimeoutInMillis mb = (if cmr_CloseTimeoutInMillis req = 0 then 8 * 60 * 60 * 1000
                                   else cmr_CloseTimeoutInMillis req) \<and>
     mb_IsNamed mb = (ref_text ad \<noteq> []) \<and> mb_needsUpdate mb \<and> mb_correlations mb = NewSyncMap \<and>
     mb_hasSent mb = None \<and> \<not> channel_in RpcSent (mb_Channels mb) \<and> \<not> channel_in RpcInbox (mb_Channels mb) \<and>
     (\<exists>k a r z. mb_MailboxKeys mb = Some k \<and> mk_Address k = Some a \<and> mk_ReaderKey k = Some r \<and>
        mk_AdminKey k = Some z \<and> (ref_text ad \<noteq> [] \<longrightarrow> a = ad))"

lemma not_channel_in: "(\<And>c. c \<in> set cs \<Longrightarrow> \<not> opaque_eq c ch) \<Longrightarrow> \<not> channel_in ch cs"
  by (induction cs) auto

lemma create_mailbox_post:
  assumes al: "alloc_start \<le> hm_alloc h"
  shows "st_post (CreateMailboxImpl ext req (Some ad)) h (\<lambda>r h'. \<forall>i. r = Inr i \<longrightarrow>
     i = hm_next h \<and> hm_next h' = Suc i \<and> (\<forall>j. j \<noteq> i \<longrightarrow> hm_heap h' j = hm_heap h j) \<and>
     hm_InMemory h' = hm_InMemory h \<and> created req ad (hm_heap h' i))"
proof -
  have fresh: "\<not> opaque_eq c RpcSent \<and> \<not> opaque_eq c RpcInbox"
    if "hm_alloc h \<le> n" "c \<in> set (fst (ToChannelNames cs n))" for n c cs
  proof -
    have "allocated n RpcSent" "allocated n RpcInbox"
      using al that(1) by (simp_all add: allocated_def RpcSent_def RpcInbox_def alloc_start_def)
    then show ?thesis using ToChannelNames_fresh that(2) by blast
  qed
  show ?thesis
    unfolding CreateMailboxImpl_def UpdateLastActivity_def
    apply (simp only: wp_simps)
    apply (intro allI impI conjI TrueI st_post_mono [OF make_keys_post] st_post_mono [OF duplicate_key_post])
    apply (auto simp: wp_simps new_mailbox_def created_def fresh ToChannelNames_texts same_store_def
        intro!: st_post_mono [OF duplicate_key_post] st_post_mono [OF add_channels_post]
          st_post_mono [OF store_mailbox_post] not_channel_in)
    done
qed

text \<open>
  C20. \<open>CreateMailbox\<close> and a named creation that succeed add one mailbox: it has the requested channels,
  the requested timeouts or 24 and 8 hours, no sent flag, the given address when it is named, and it
  needs an update; no other mailbox and nothing in the in-memory map changes. Its channels are new
  allocations, so that it never counts as having the \<open>rpc-sent\<close> or \<open>rpc-inbox\<close> channel, even when
  it was created with them.
\<close>

theorem create_mailbox_creates:
  assumes "alloc_start \<le> hm_alloc h"
    and "CreateMailboxImpl ext req (Some ad) h = Inr (Inr i, h')"
  shows "i = hm_next h \<and> hm_next h' = Suc i \<and> (\<forall>j. j \<noteq> i \<longrightarrow> hm_heap h' j = hm_heap h j) \<and>
    hm_InMemory h' = hm_InMemory h \<and> created req ad (hm_heap h' i)"
  using st_postD [OF create_mailbox_post [OF assms(1)] assms(2)] by blast

text \<open>
  A created mailbox never publishes a send receipt and cannot be read: \<open>HasSent\<close> is false, and
  opening its rpc inbox is the error that the channel does not exist, whatever channels were asked for.
\<close>

theorem created_mailbox_has_no_rpc_channels:
  assumes "alloc_start \<le> hm_alloc h"
    and "CreateMailboxImpl ext req (Some ad) h = Inr (Inr i, h')"
  shows "(\<exists>h''. HasSent i h' = Inr (False, h'')) \<and>
    open_rpc_inbox i h' = Inr (Inl (WrapErr ''error creating stream''
           (GoErr ''channel rpc-inbox does not exist'')), h')"
proof
  have c: "created req ad (hm_heap h' i)"
    using st_postD [OF create_mailbox_post [OF assms(1)] assms(2)] by blast
  show "\<exists>h''. HasSent i h' = Inr (False, h'')"
    using c by (auto simp: HasSent_def mbox_get_def st_bind_def created_def mbox_update_def st_modify_def
        st_return_def Let_def)
  show "open_rpc_inbox i h' = Inr (Inl (WrapErr ''error creating stream''
           (GoErr ''channel rpc-inbox does not exist'')), h')"
    using c by (simp add: open_rpc_inbox_def mbox_Stream_def IsValidChannel_def mbox_get_def st_bind_def
        created_def st_return_def opaque_fmt_def RpcInbox_def)
qed

text \<open>
  A named mailbox can be made only once in the life of the buckets: with an empty in-memory map
  and the address in the bucket, \<open>FetchOrCreateNamedMailbox\<close> never returns the mailbox that is there,
  and when it returns it is with the error of a duplicate address.
\<close>

theorem named_mailbox_never_fetched:
  assumes "decoded_fresh ext" and "hm_InMemory h = NewSyncMap" and "ref_text ad \<noteq> []"
    and "x_kv_get ext MailboxesByRWKeysKV (ref_text ad) (hm_world h) \<noteq> None"
    and "x_struct_json ext (JObj []) = Inr js"
    and "FetchOrCreateNamedMailbox ext (Some ad) h = Inr (r, h')"
  shows "r = Inl (GoErr (''duplicate address - '' @ ref_text ad))"
proof -
  define e where "e = GoErr (''duplicate address - '' @ ref_text ad)"
  have d: "st_post (duplicate_key ext keys) h1 (\<lambda>dup h'. dup = Some e)"
    if "mk_Address keys = Some ad" "hm_world h1 = hm_world h" for keys h1
    using that assms(4) unfolding duplicate_key_def e_def by (auto simp: wp_simps)
  have c: "st_post (CreateMailboxImpl ext named_request (Some ad)) h1 (\<lambda>r h'. r = Inl e)"
    if "hm_world h1 = hm_world h" for h1
    unfolding CreateMailboxImpl_def
    using that assms(3,5)
    by (auto simp: wp_simps named_request_def split_def intro!: st_post_mono [OF make_keys_post]
        intro: st_post_mono [OF d])
  have "st_post (FetchOrCreateNamedMailbox ext (Some ad)) h (\<lambda>r h'. r = Inl e)"
    unfolding FetchOrCreateNamedMailbox_def
    by (auto simp: wp_simps intro!: st_post_mono [OF fetch_by_address_post [OF assms(1,2)]] c)
  from st_postD [OF this assms(6)] show ?thesis by (simp add: e_def)
qed

section \<open>Publication to the recipients\<close>

datatype recipient_outcome = Failed string | AlreadyThere | Delivered_new

fun tally :: "string list \<Rightarrow> recipient_outcome list \<Rightarrow> SendMessageError list \<times> string list" where
  "tally (to # tos) (out # outs) =
     (case tally tos outs of (errs, dups) \<Rightarrow>
        (case out of
           Failed m \<Rightarrow> (\<lparr>sme_To = to, sme_Message = m\<rparr> # errs, dups)
         | AlreadyThere \<Rightarrow> (errs, to # dups)
         | Delivered_new \<Rightarrow> (errs, dups)))"
| "tally _ _ = ([], [])"

lemma tally_one:
  "\<exists>out. tally [to] [out] = ([\<lparr>sme_To = to, sme_Message = m\<rparr>], [])"
  "\<exists>out. tally [to] [out] = ([], [to])"
  "\<exists>out. tally [to] [out] = ([], [])"
  by (rule exI [of _ "Failed m"] exI [of _ AlreadyThere] exI [of _ Delivered_new], simp)+

lemma publish_to_one_tally:
  "st_post (publish_to_one ext request msg to) h (\<lambda>r h'. \<exists>out. tally [to] [out] = r)"
  unfolding publish_to_one_def
  by (simp only: wp_simps) (intro allI impI st_postI conjI; simp add: tally_one del: tally.simps split: sum.split)

lemma tally_Cons:
  assumes "tally [to] [out] = (errs, dups)" and "tally tos outs = (errs', dups')"
  shows "tally (to # tos) (out # outs) = (errs @ errs', dups @ dups')"
  using assms by (cases out) auto

lemma publish_to_all_tally:
  "st_post (publish_to_all ext request msg tos) h
     (\<lambda>r h'. \<exists>outs. length outs = length tos \<and> tally tos outs = r)"
proof (induction tos arbitrary: h)
  case Nil
  then show ?case by (simp add: wp_simps)
next
  case (Cons to tos)
  have "\<exists>os. length os = Suc (length tos) \<and> tally (to # tos) os = (errs @ errs', dups @ dups')"
    if "tally [to] [out] = (errs, dups)" "length outs = length tos" "tally tos outs = (errs', dups')"
    for out outs errs dups errs' dups'
    using tally_Cons [OF that(1,3)] that(2) by (intro exI [of _ "out # outs"]) simp
  then show ?case
    by (auto simp only: publish_to_all.simps wp_simps list.size intro!: st_post_mono [OF publish_to_one_tally]
        st_post_mono [OF Cons.IH]) force
qed

lemma set_sender_Inr:
  "set_sender sender request = Inr request' \<longleftrightarrow>
     (\<exists>m hdr. smr_Message request = Some m \<and> msg_Header m = Some hdr \<and>
       request' = request\<lparr>smr_Message := Some (m\<lparr>msg_Header := Some (hdr\<lparr>mh_Sender := sender\<rparr>)\<rparr>)\<rparr>)"
  by (auto simp: set_sender_def run_simps)


section \<open>The rpc inbox\<close>

text \<open>Every correlation of every mailbox is registered under an identifier that was allocated.\<close>

definition correlations_allocated :: "'w hermes \<Rightarrow> bool" where
  "correlations_allocated h \<longleftrightarrow>
     (\<forall>i. \<forall>k \<in> dom (mb_correlations (hm_heap h i)). \<exists>a. k = Some a \<and> a < hm_alloc h)"

lemma register_correlation_allocated:
  assumes "correlations_allocated h"
  shows "st_post (st_bind (with_alloc (NewCorrelationId t)) (\<lambda>c. RegisterCorrelation i c cb)) h
    (\<lambda>u h'. correlations_allocated h')"
proof -
  let ?h = "h\<lparr>hm_alloc := Suc (hm_alloc h), hm_heap := (hm_heap h)(i := (hm_heap h i)\<lparr>
    mb_correlations := (mb_correlations (hm_heap h i))(Some (hm_alloc h) \<mapsto> cb)\<rparr>)\<rparr>"
  have "\<exists>a. k = Some a \<and> a < Suc (hm_alloc h)" if "k \<in> dom (mb_correlations (hm_heap h j))" for j k
    using assms that unfolding correlations_allocated_def by (meson less_SucI)
  then have "correlations_allocated ?h"
    unfolding correlations_allocated_def by (auto split: if_splits)
  then show ?thesis
    by (simp add: wp_simps RegisterCorrelation_def new_opaques new_opaque_def opaque_key_def sm_Store_def)
qed

lemma remove_correlation_allocated:
  assumes "correlations_allocated h"
  shows "st_post (RemoveCorrelation i c) h (\<lambda>u h'. correlations_allocated h')"
  using assms by (auto simp: wp_simps RemoveCorrelation_def correlations_allocated_def sm_Delete_def
      split: if_splits)

lemma rpc_inbox_handler_never_delivers:
  assumes "correlations_allocated h" "get_RpcHeader (Some msg) = Some rh"
    "rh_FrameType rh = SuccessResponse \<or> rh_FrameType rh = ErrorResponse" "rh_CorrelationId rh \<noteq> []"
  shows "rpc_inbox_handler i handler msg h = Inr (NoCorrelation, h\<lparr>hm_alloc := Suc (hm_alloc h)\<rparr>)"
proof -
  have "mb_correlations (hm_heap h i) (Some (hm_alloc h)) = None"
  proof (rule ccontr)
    assume "\<not> ?thesis"
    then have "Some (hm_alloc h) \<in> dom (mb_correlations (hm_heap h i))" by (simp add: dom_def)
    then show False using assms(1) unfolding correlations_allocated_def by blast
  qed
  then show ?thesis
    using assms(2-4)
    by (auto simp: rpc_inbox_handler_def st_bind_def st_lift_def with_alloc_def st_draw_def st_return_def
        new_opaques new_opaque_def mbox_get_def opaque_key_def sm_Load_def)
qed

text \<open>
  An rpc response never reaches its caller. After a call has registered its correlation id, a
  success or error response that quotes exactly that id finds no correlation, because the id read from
  the message is another allocation than the one registered; the call can only time out.
\<close>

theorem response_never_matches_call:
  assumes "correlations_allocated h" and "get_RpcHeader (Some msg) = Some rh"
    and "rh_FrameType rh = SuccessResponse \<or> rh_FrameType rh = ErrorResponse"
    and "rh_CorrelationId rh \<noteq> []"
    and "st_bind (with_alloc (NewCorrelationId (rh_CorrelationId rh)))
           (\<lambda>c. RegisterCorrelation i c callback) h = Inr (u, h1)"
  shows "rpc_inbox_handler i handler msg h1 = Inr (NoCorrelation, h1\<lparr>hm_alloc := Suc (hm_alloc h1)\<rparr>)"
  by (rule rpc_inbox_handler_never_delivers [OF st_postD [OF register_correlation_allocated assms(5)] assms(2-4)])
    (rule assms(1))

section \<open>Purge and iteration\<close>

text \<open>What the buckets promise: a deleted key is absent, and nothing else brings a key back.\<close>

definition bucket_laws :: "'w hermes_ext \<Rightarrow> bool" where
  "bucket_laws ext \<longleftrightarrow>
     (\<forall>b k w. x_kv_get ext b k (x_kv_delete ext b k w) = None) \<and>
     (\<forall>b k b' k' w. x_kv_get ext b k w = None \<longrightarrow> x_kv_get ext b k (x_kv_delete ext b' k' w) = None) \<and>
     (\<forall>b k s w. x_kv_get ext b k (snd (x_delete_stream ext s w)) = x_kv_get ext b k w)"

lemma delete_streams_post:
  assumes "bucket_laws ext"
  shows "st_post (delete_streams ext mb chs) h (\<lambda>u h'. same_store h h' \<and> hm_heap h' = hm_heap h \<and>
    (\<forall>b k. x_kv_get ext b k (hm_world h') = x_kv_get ext b k (hm_world h)))"
proof (induction chs arbitrary: h)
  case Nil
  then show ?case by (simp add: wp_simps)
next
  case (Cons ch chs)
  show ?case
    using assms by (auto simp: wp_simps bucket_laws_def same_store_def intro!: st_post_mono [OF Cons.IH])
qed


text \<open>The keys the store makes: a doubled letter and an uuid without dashes.\<close>

definition random_key :: "string \<Rightarrow> bool" where
  "random_key k \<longleftrightarrow> (\<exists>p u. p \<in> {''a'', ''r'', ''z''} \<and> k = p @ p @ u \<and> \<not> strings_HasPrefix u ''z'')"

lemma randomKey_random_key:
  assumes "p \<in> {''a'', ''r'', ''z''}" and "CHR ''z'' \<notin> set (x_uuid ext (hm_uuids h))"
  shows "st_post (randomKey ext p) h (\<lambda>k h'. random_key k)"
proof -
  have "\<not> strings_HasPrefix (strings_ReplaceAll (x_uuid ext (hm_uuids h)) (CHR ''-'') []) ''z''"
  proof
    assume "strings_HasPrefix (strings_ReplaceAll (x_uuid ext (hm_uuids h)) (CHR ''-'') []) ''z''"
    then have "CHR ''z'' \<in> set (strings_ReplaceAll (x_uuid ext (hm_uuids h)) (CHR ''-'') [])"
      by (auto simp: strings_HasPrefix_iff)
    then show False using assms(2) by (simp add: strings_ReplaceAll_Nil_set)
  qed
  then show ?thesis
    using assms(1) unfolding random_key_def by (auto simp: randomKey_def wp_simps)
qed

lemma for_each_memory_skips:
  assumes "\<And>k. k \<in> dom m \<Longrightarrow> \<not> strings_HasPrefix k ''zzz''"
  shows "for_each_memory fn m ks = st_return None"
proof (induction ks)
  case (Cons k ks)
  then show ?case using assms [of k] by (auto split: option.splits)
qed simp

text \<open>
  The walk over the mailboxes in memory visits none of them: the test for an admin key asks for the
  prefix zzz, while an admin key starts with two letters z and then an uuid. The callback is never
  called, so that the sync to disk and every other use of the walk does nothing.
\<close>

theorem in_memory_walk_visits_nothing:
  assumes "\<And>k. k \<in> dom (hm_InMemory h) \<Longrightarrow> random_key k"
  shows "ForEachMailboxInMemory fn order h = Inr (None, h)"
proof -
  have "\<not> strings_HasPrefix k ''zzz''" if "random_key k" for k
    using that unfolding random_key_def by (auto simp: strings_HasPrefix_def)
  then have "for_each_memory fn (hm_InMemory h) order = st_return None"
    using assms by (intro for_each_memory_skips) blast
  then show ?thesis by (simp add: ForEachMailboxInMemory_def st_bind_def st_get_def st_return_def)
qed

section \<open>A store to try them on\<close>

text \<open>Two buckets as one map, a NATS that accepts everything, and the encodings that matter.\<close>

type_synonym demo_world = "bucket \<times> string \<Rightarrow> bytes option"

definition demo_mailbox :: "alloc \<Rightarrow> Mailbox" where
  "demo_mailbox n =
     \<lparr>mb_MailboxKeys = Some \<lparr>mk_Address = Some \<lparr>ref_addr = n, ref_text = ''aab''\<rparr>,
        mk_ReaderKey = Some \<lparr>ref_addr = Suc n, ref_text = ''rrb''\<rparr>,
        mk_AdminKey = Some \<lparr>ref_addr = Suc (Suc n), ref_text = ''zzb''\<rparr>\<rparr>,
      mb_LastActivity = 0, mb_Channels = [], mb_PublicMetadata = [], mb_PrivateMetadata = [],
      mb_PurgeTimeoutInMillis = 0, mb_CloseTimeoutInMillis = 0, mb_hasSent = None,
      mb_correlations = NewSyncMap, mb_IsNamed = False, mb_needsUpdate = False\<rparr>"

definition demo_hext :: "demo_world hermes_ext" where
  "demo_hext =
     \<lparr>x_kv_get = \<lambda>b k w. w (b, k),
      x_kv_put = \<lambda>b k v w. (None, w((b, k) := Some v)),
      x_kv_delete = \<lambda>b k w. w((b, k) := None),
      x_kv_keys = \<lambda>b w. Inr [],
      x_stream_info = \<lambda>s w. False,
      x_add_stream = \<lambda>s subjects w. (None, w),
      x_delete_stream = \<lambda>s w. (None, w),
      x_js_publish = \<lambda>s bs iid w. (Inr False, w),
      x_publish = \<lambda>s bs w. (None, w),
      x_now = \<lambda>w. 1000,
      x_uuid = \<lambda>n. replicate (Suc n) (CHR ''b''),
      x_struct_json = \<lambda>j. Inr [],
      x_mailbox_json = \<lambda>mb. Inr [1],
      x_mailbox_unjson = \<lambda>bs n. (Inr (demo_mailbox n), n + 3),
      x_marshal_message = \<lambda>m. Inr [2],
      x_marshal_receipt = \<lambda>r. Inr [3],
      x_marshal_request = \<lambda>r. Inr [4]\<rparr>"

definition demo_store :: "demo_world \<Rightarrow> demo_world hermes" where
  "demo_store w = \<lparr>hm_world = w, hm_alloc = 32, hm_uuids = 0, hm_heap = \<lambda>i. demo_mailbox 20,
     hm_next = 0, hm_InMemory = NewSyncMap\<rparr>"

lemma demo_hext_laws: "decoded_fresh demo_hext" "bucket_laws demo_hext"
  by (auto simp: decoded_fresh_def demo_hext_def demo_mailbox_def bucket_laws_def)

text \<open>A store whose buckets hold the mailbox ''aab''.\<close>

definition demo_full :: demo_world where
  "demo_full = (\<lambda>_. None)((MailboxesByRWKeysKV, ''aab'') := Some (string_to_bytes ''zzb''),
     (AdminMailboxesKV, ''zzb'') := Some [1])"

lemmas st_eval = st_bind_def st_return_def st_lift_def st_get_def st_modify_def st_draw_def
  mbox_get_def mbox_update_def mbox_new_def with_world_def read_world_def with_alloc_def
  new_opaques new_opaque_def

lemma demo_lookup:
  "\<exists>h'. FetchMailboxByAddress demo_hext (Some \<lparr>ref_addr = 30, ref_text = ''aab''\<rparr>) (demo_store demo_full) =
     Inr (None, h')"
  by (simp add: FetchMailboxByAddress_def MailboxLookup_def FetchMailboxByAdminKey_def st_eval demo_hext_def
      demo_store_def demo_full_def NewSyncMap_def mbox_AdminKey_def demo_mailbox_def opaque_eq_def ref_eq_def)

theorem lookup_never_finds_witness:
  "\<exists>h'. FetchMailboxByAddress demo_hext (Some \<lparr>ref_addr = 30, ref_text = ''aab''\<rparr>) (demo_store demo_full) =
     Inr (None, h') \<and> hm_InMemory h' = NewSyncMap"
proof -
  obtain h' where e: "FetchMailboxByAddress demo_hext (Some \<lparr>ref_addr = 30, ref_text = ''aab''\<rparr>)
      (demo_store demo_full) = Inr (None, h')" using demo_lookup by blast
  have "hm_InMemory (demo_store demo_full) = NewSyncMap" by (simp add: demo_store_def)
  from lookup_never_finds [OF demo_hext_laws(1) this] e show ?thesis by blast
qed

definition demo_create :: CreateMailboxRequest where
  "demo_create = \<lparr>cmr_Channels = [''rpc-sent'', ''rpc-inbox''], cmr_PrivateMetadata = JNull,
     cmr_PublicMetadata = JNull, cmr_PurgeTimeoutInMillis = 0, cmr_CloseTimeoutInMillis = 500\<rparr>"

definition demo_ad :: string_ref where
  "demo_ad = \<lparr>ref_addr = 30, ref_text = ''ops''\<rparr>"

lemma demo_create_ok:
  "\<exists>i h'. CreateMailboxImpl demo_hext demo_create (Some demo_ad) (demo_store (\<lambda>_. None)) = Inr (Inr i, h')"
  by (simp add: CreateMailboxImpl_def st_eval demo_hext_def demo_store_def demo_create_def demo_ad_def
      make_keys_def randomKey_def duplicate_key_def AddChannel_def IsValidChannel_def mbox_AdminKey_def
      mbox_NatsSubject_def mbox_NatsStreamName_def new_mailbox_def UpdateLastActivity_def
      store_mailbox_def kv_put_def strings_ReplaceAll_def opaque_eq_def ref_eq_def)

lemma demo_alloc: "alloc_start \<le> hm_alloc (demo_store w)"
  by (simp add: alloc_start_def demo_store_def)

theorem create_mailbox_creates_witness:
  "\<exists>i h'. CreateMailboxImpl demo_hext demo_create (Some demo_ad) (demo_store (\<lambda>_. None)) = Inr (Inr i, h') \<and>
     mb_CloseTimeoutInMillis (hm_heap h' i) = 500 \<and> mb_PurgeTimeoutInMillis (hm_heap h' i) = 86400000"
proof -
  obtain i h' where e: "CreateMailboxImpl demo_hext demo_create (Some demo_ad) (demo_store (\<lambda>_. None)) =
      Inr (Inr i, h')" using demo_create_ok by blast
  from create_mailbox_creates [OF demo_alloc e] have "created demo_create demo_ad (hm_heap h' i)" by blast
  then have "mb_CloseTimeoutInMillis (hm_heap h' i) = 500 \<and> mb_PurgeTimeoutInMillis (hm_heap h' i) = 86400000"
    by (simp add: created_def demo_create_def)
  with e show ?thesis by blast
qed

theorem created_mailbox_has_no_rpc_channels_witness:
  "\<exists>i h' h''. CreateMailboxImpl demo_hext demo_create (Some demo_ad) (demo_store (\<lambda>_. None)) = Inr (Inr i, h') \<and>
     HasSent i h' = Inr (False, h'')"
proof -
  obtain i h' where e: "CreateMailboxImpl demo_hext demo_create (Some demo_ad) (demo_store (\<lambda>_. None)) =
      Inr (Inr i, h')" using demo_create_ok by blast
  from created_mailbox_has_no_rpc_channels [OF demo_alloc e] e show ?thesis by blast
qed

definition demo_aab :: string_ref where
  "demo_aab = \<lparr>ref_addr = 30, ref_text = ''aab''\<rparr>"

theorem named_mailbox_never_fetched_witness:
  "\<exists>h'. FetchOrCreateNamedMailbox demo_hext (Some demo_aab) (demo_store demo_full) =
     Inr (Inl (GoErr (''duplicate address - '' @ ''aab'')), h')"
proof -
  have "\<exists>r h'. FetchOrCreateNamedMailbox demo_hext (Some demo_aab) (demo_store demo_full) = Inr (r, h')"
    by (simp add: FetchOrCreateNamedMailbox_def FetchMailboxByAddress_def MailboxLookup_def
      FetchMailboxByAdminKey_def st_eval demo_hext_def demo_store_def demo_full_def NewSyncMap_def
      mbox_AdminKey_def demo_mailbox_def opaque_eq_def ref_eq_def CreateMailboxImpl_def make_keys_def
      randomKey_def duplicate_key_def strings_ReplaceAll_def demo_aab_def)
  then obtain r h' where e: "FetchOrCreateNamedMailbox demo_hext (Some demo_aab) (demo_store demo_full) =
      Inr (r, h')" by blast
  have "r = Inl (GoErr (''duplicate address - '' @ ref_text demo_aab))"
    by (rule named_mailbox_never_fetched [OF demo_hext_laws(1) _ _ _ _ e])
      (simp_all add: demo_store_def demo_aab_def demo_hext_def demo_full_def)
  with e show ?thesis by (auto simp: demo_aab_def)
qed

definition demo_message :: Message where
  "demo_message = \<lparr>msg_Header = Some \<lparr>mh_Sender = ''spoofed'', mh_ContentType = Json,
       mh_RpcHeader = Some \<lparr>rh_CorrelationId = ''c1'', rh_EndPoint = ''ping'',
         rh_FrameType = SuccessResponse, rh_ErrorInfo = None\<rparr>,
       mh_SenderSequence = 0, mh_ExtraHeaders = []\<rparr>,
     msg_SenderEnvelope = None, msg_ServerEnvelope = None, msg_Data = []\<rparr>"

definition demo_smr :: SendMessageRequest where
  "demo_smr = \<lparr>smr_To = [''nobody'', ''aab''], smr_Message = Some demo_message,
     smr_Channel = ''console'', smr_IdempotentId = ''i1''\<rparr>"

definition demo_loaded :: "demo_world hermes" where
  "demo_loaded = (demo_store (\<lambda>_. None))\<lparr>hm_InMemory := sm_Store ''aab'' 0 NewSyncMap\<rparr>"


theorem response_never_matches_call_witness:
  "\<exists>h1 h2. st_bind (with_alloc (NewCorrelationId ''c1'')) (\<lambda>c. RegisterCorrelation 0 c 7)
       (demo_store (\<lambda>_. None)) = Inr ((), h1) \<and>
     rpc_inbox_handler 0 None demo_message h1 = Inr (NoCorrelation, h2)"
proof -
  have a: "correlations_allocated (demo_store (\<lambda>_. None))"
    by (simp add: correlations_allocated_def demo_store_def demo_mailbox_def NewSyncMap_def)
  obtain rh where rh: "get_RpcHeader (Some demo_message) = Some rh" "rh_FrameType rh = SuccessResponse"
      "rh_CorrelationId rh = ''c1''"
    by (simp add: demo_message_def get_RpcHeader_def)
  obtain h1 where e: "st_bind (with_alloc (NewCorrelationId (rh_CorrelationId rh)))
      (\<lambda>c. RegisterCorrelation 0 c 7) (demo_store (\<lambda>_. None)) = Inr ((), h1)"
    by (simp add: st_eval RegisterCorrelation_def)
  from response_never_matches_call [OF a rh(1) _ _ e, of None] rh e show ?thesis by auto
qed


definition demo_walked :: "demo_world hermes" where
  "demo_walked = (demo_store (\<lambda>_. None))\<lparr>hm_InMemory := [''zzb1'' \<mapsto> 0, ''aab2'' \<mapsto> 0]\<rparr>"

theorem in_memory_walk_visits_nothing_witness:
  "ForEachMailboxInMemory (\<lambda>i. st_return (Some (GoErr ''visited''))) [''zzb1'', ''aab2''] demo_walked =
     Inr (None, demo_walked)"
proof (rule in_memory_walk_visits_nothing)
  fix k assume "k \<in> dom (hm_InMemory demo_walked)"
  then have "k = ''z'' @ ''z'' @ ''b1'' \<or> k = ''a'' @ ''a'' @ ''b2''"
    by (auto simp: demo_walked_def split: if_splits)
  then show "random_key k"
    unfolding random_key_def by (auto simp: strings_HasPrefix_def)
qed

end
