(* ===== verification/HermesRpc.thy ===== *)
theory HermesRpc
  imports HermesStore
begin

text \<open>
  The rpc server of \<open>src/hermes/rpcserver/hermes_rpcserver.go\<close>: the table of handlers, the answer to
  a call, and the message handler it runs on a mailbox. The decoding, the body and the encoding of a
  handler are functions over one type of requests and one of responses (the union of the messages).
\<close>

section \<open>Handlers\<close>

record ('q, 'r) HandlerS =
  h_EndPoint :: string
  h_unmarshal :: "bool \<Rightarrow> bytes \<Rightarrow> go_error + 'q"
  h_handler :: "'q \<Rightarrow> go_error + 'r"
  h_marshal :: "bool \<Rightarrow> 'r \<Rightarrow> go_error + bytes"
  h_Server :: "MailboxAddress option"

record ('q, 'r) RpcServerS =
  rs_HandlerByEndPoint :: "string \<Rightarrow> ('q, 'r) HandlerS option"
  rs_Sender :: MailboxAddress

text \<open>
  \<open>HandlerS.Server\<close> is a back pointer; what is read through it is the server's sender, and it is nil
  until \<open>RegisterHandlers\<close> sets it.
\<close>

definition Handler ::
  "string \<Rightarrow> (bool \<Rightarrow> bytes \<Rightarrow> go_error + 'q) \<Rightarrow> (bool \<Rightarrow> 'r \<Rightarrow> go_error + bytes) \<Rightarrow>
   ('q \<Rightarrow> go_error + 'r) \<Rightarrow> ('q, 'r) HandlerS" where
  "Handler endPoint unmarshal marshal handler =
     \<lparr>h_EndPoint = endPoint, h_unmarshal = unmarshal, h_handler = handler, h_marshal = marshal,
      h_Server = None\<rparr>"

definition RegisterHandler :: "('q, 'r) HandlerS \<Rightarrow> ('q, 'r) RpcServerS \<Rightarrow> ('q, 'r) RpcServerS" where
  "RegisterHandler handler rs =
     (let endPointLc = strings_ToLower (h_EndPoint handler)
      in rs\<lparr>rs_HandlerByEndPoint := (rs_HandlerByEndPoint rs)
              (h_EndPoint handler := Some handler, endPointLc := Some handler)\<rparr>)"

text \<open>
  The handlers are registered by pointer, so that setting \<open>Server\<close> after the registration is seen in
  the table.
\<close>

fun RegisterHandlers :: "('q, 'r) HandlerS list \<Rightarrow> ('q, 'r) RpcServerS \<Rightarrow> ('q, 'r) RpcServerS" where
  "RegisterHandlers [] rs = rs"
| "RegisterHandlers (h # hs) rs =
     RegisterHandlers hs (RegisterHandler (h\<lparr>h_Server := Some (rs_Sender rs)\<rparr>) rs)"

text \<open>The ping handler of a new server is registered with \<open>RegisterHandler\<close>.\<close>

definition NewRpcServer :: "('q, 'r) HandlerS \<Rightarrow> MailboxAddress \<Rightarrow> ('q, 'r) RpcServerS" where
  "NewRpcServer ping sender =
     RegisterHandler ping \<lparr>rs_HandlerByEndPoint = Map.empty, rs_Sender = sender\<rparr>"

section \<open>Answering a call\<close>

definition rpc_reply ::
  "string \<Rightarrow> string \<Rightarrow> Message \<Rightarrow> RpcFrameType \<Rightarrow> RpcErrorInfo option \<Rightarrow> bytes \<Rightarrow> string \<Rightarrow> SendMessageRequest"
  where
  "rpc_reply sender to msg ft ei data uid =
     \<lparr>smr_To = [to],
      smr_Message = Some
        \<lparr>msg_Header = Some
           \<lparr>mh_Sender = sender, mh_ContentType = UnspecifiedCT,
            mh_RpcHeader = Some
              \<lparr>rh_CorrelationId = get_CorrelationId (get_RpcHeader (Some msg)),
               rh_EndPoint = get_EndPoint (get_RpcHeader (Some msg)),
               rh_FrameType = ft, rh_ErrorInfo = ei\<rparr>,
            mh_SenderSequence = 0, mh_ExtraHeaders = []\<rparr>,
         msg_SenderEnvelope = None, msg_ServerEnvelope = None, msg_Data = data\<rparr>,
      smr_Channel = ''rpc-inbox'', smr_IdempotentId = uid\<rparr>"

text \<open>An error is answered in the name of the caller; a message without header panics.\<close>

definition ErrorResp :: "Message \<Rightarrow> go_error \<Rightarrow> string \<Rightarrow> SendMessageRequest run" where
  "ErrorResp msg err uid =
     run_bind (deref (msg_Header msg)) (\<lambda>hdr.
       Inr (rpc_reply (mh_Sender hdr) (mh_Sender hdr) msg ErrorResponse
         (Some \<lparr>rei_ErrorCode = 0, rei_Message = error_text err, rei_StackTrace = error_text err\<rparr>)
         [] uid))"

definition get_ContentType :: "Message \<Rightarrow> ContentType" where
  "get_ContentType msg = (case msg_Header msg of None \<Rightarrow> UnspecifiedCT | Some hdr \<Rightarrow> mh_ContentType hdr)"

text \<open>The closure \<open>Handler\<close> builds. A nil body is read as an empty JSON object.\<close>

definition run_handler :: "('q, 'r) HandlerS \<Rightarrow> Message \<Rightarrow> string \<Rightarrow> SendMessageRequest run" where
  "run_handler h msg uid =
     (let useProto = (get_ContentType msg = Protobuf);
          body = (if \<not> useProto \<and> msg_Data msg = [] then string_to_bytes ''{}'' else msg_Data msg)
      in (case h_unmarshal h useProto body of
            Inl err \<Rightarrow> ErrorResp msg err uid
          | Inr req \<Rightarrow>
              (case h_handler h req of
                 Inl err \<Rightarrow> ErrorResp msg err uid
               | Inr resp \<Rightarrow>
                   (case h_marshal h useProto resp of
                      Inl err \<Rightarrow> ErrorResp msg err uid
                    | Inr data \<Rightarrow>
                        run_bind (deref (h_Server h)) (\<lambda>sender.
                        run_bind (opaque_String sender) (\<lambda>from0.
                        run_bind (deref (msg_Header msg)) (\<lambda>hdr.
                          Inr (rpc_reply from0 (mh_Sender hdr) msg SuccessResponse None data uid))))))))"

definition ProcessRpcCall :: "('q, 'r) RpcServerS \<Rightarrow> Message \<Rightarrow> string \<Rightarrow> SendMessageRequest run" where
  "ProcessRpcCall rs msg uid =
     (let endPoint = get_EndPoint (get_RpcHeader (Some msg));
          endPointLc = strings_ToLower endPoint
      in (case rs_HandlerByEndPoint rs endPointLc of
            None \<Rightarrow> ErrorResp msg (GoErr (''no handler for endpoint '' @ endPoint)) uid
          | Some handler \<Rightarrow> run_handler handler msg uid))"

text \<open>
  The message handler of \<open>RunMessageReaderLoop\<close>: a failed publication is logged, and the answer is
  always nil.
\<close>

definition rpc_message_handler ::
  "'w hermes_ext \<Rightarrow> (SendMessageRequest \<Rightarrow> ('w, go_error option) hop) \<Rightarrow> ('q, 'r) RpcServerS \<Rightarrow> Message \<Rightarrow>
   ('w, go_error option) hop" where
  "rpc_message_handler ext publish rs msg =
     st_bind (draw_uid ext) (\<lambda>uid.
     st_bind (st_lift (ProcessRpcCall rs msg uid)) (\<lambda>smr.
     st_bind (publish smr) (\<lambda>err. st_return None)))"

section \<open>Properties\<close>

lemma RegisterHandlers_Sender [simp]: "rs_Sender (RegisterHandlers hs rs) = rs_Sender rs"
  by (induction hs arbitrary: rs) (auto simp: RegisterHandler_def Let_def)

text \<open>The handler a call finds: the last one registered under the name, whatever its case.\<close>

definition find_handler :: "('q, 'r) HandlerS list \<Rightarrow> string \<Rightarrow> ('q, 'r) HandlerS option" where
  "find_handler hs endPoint = List.find (\<lambda>h. strings_EqualFold (h_EndPoint h) endPoint) (rev hs)"

lemma find_append: "List.find P (xs @ ys) = (case List.find P xs of None \<Rightarrow> List.find P ys | Some x \<Rightarrow> Some x)"
  by (induction xs) auto

lemma find_handler_Cons:
  "find_handler (h # hs) e = (case find_handler hs e of Some h' \<Rightarrow> Some h' | None \<Rightarrow>
     if strings_EqualFold (h_EndPoint h) e then Some h else None)"
  by (simp add: find_handler_def find_append split: option.splits)

lemma RegisterHandler_lookup:
  "rs_HandlerByEndPoint (RegisterHandler h rs) (strings_ToLower e) =
     (if strings_EqualFold (h_EndPoint h) e then Some h
      else rs_HandlerByEndPoint rs (strings_ToLower e))"
proof -
  have "strings_EqualFold (h_EndPoint h) e" if "strings_ToLower e = h_EndPoint h"
    unfolding strings_EqualFold_def that [symmetric] by simp
  then show ?thesis by (auto simp: RegisterHandler_def Let_def strings_EqualFold_def)
qed

lemma RegisterHandlers_lookup:
  "rs_HandlerByEndPoint (RegisterHandlers hs rs) (strings_ToLower e) =
     (case find_handler hs e of
        Some h \<Rightarrow> Some (h\<lparr>h_Server := Some (rs_Sender rs)\<rparr>)
      | None \<Rightarrow> rs_HandlerByEndPoint rs (strings_ToLower e))"
proof (induction hs arbitrary: rs)
  case Nil
  then show ?case by (simp add: find_handler_def)
next
  case (Cons h hs)
  have "rs_Sender (RegisterHandler g rs) = rs_Sender rs" for g
    by (simp add: RegisterHandler_def Let_def)
  then show ?case
    by (simp add: Cons.IH find_handler_Cons RegisterHandler_lookup split: option.split)
qed

text \<open>What a handler makes of a message: the error or the encoded response.\<close>

definition handler_result :: "('q, 'r) HandlerS \<Rightarrow> Message \<Rightarrow> go_error + bytes" where
  "handler_result h msg =
     (let useProto = (get_ContentType msg = Protobuf);
          body = (if \<not> useProto \<and> msg_Data msg = [] then string_to_bytes ''{}'' else msg_Data msg)
      in case h_unmarshal h useProto body of
           Inl err \<Rightarrow> Inl err
         | Inr req \<Rightarrow> (case h_handler h req of Inl err \<Rightarrow> Inl err | Inr resp \<Rightarrow> h_marshal h useProto resp))"


definition demo_echo :: "(bytes, bytes) HandlerS" where
  "demo_echo = Handler ''Echo'' (\<lambda>p bs. Inr bs) (\<lambda>p bs. Inr bs) (\<lambda>q. Inr (q @ [7]))"

definition demo_call :: "string \<Rightarrow> Message" where
  "demo_call ep = \<lparr>msg_Header = Some \<lparr>mh_Sender = ''caller'', mh_ContentType = Protobuf,
       mh_RpcHeader = Some \<lparr>rh_CorrelationId = ''c9'', rh_EndPoint = ep,
         rh_FrameType = Request, rh_ErrorInfo = None\<rparr>,
       mh_SenderSequence = 0, mh_ExtraHeaders = []\<rparr>,
     msg_SenderEnvelope = None, msg_ServerEnvelope = None, msg_Data = [5]\<rparr>"

definition demo_ping :: "(bytes, bytes) HandlerS" where
  "demo_ping = Handler ''ping'' (\<lambda>p bs. Inr bs) (\<lambda>p bs. Inr bs) Inr"

lemma demo_folds: "strings_EqualFold ''Echo'' ''eCHO''" "strings_EqualFold ''ping'' ''Ping''"
  "\<not> strings_EqualFold ''Echo'' ''Ping''"
  by code_simp+


text \<open>
  The ping every server has panics when it succeeds, in any letter case and whatever other handlers
  are registered: the constructor registers it without setting its server, whose sender the answer reads.
\<close>

theorem successful_ping_panics:
  assumes "strings_EqualFold (h_EndPoint ping) (get_EndPoint (get_RpcHeader (Some msg)))"
    and "h_Server ping = None"
    and "find_handler hs (get_EndPoint (get_RpcHeader (Some msg))) = None"
    and "handler_result ping msg = Inr data"
  shows "ProcessRpcCall (RegisterHandlers hs (NewRpcServer ping sender)) msg uid = Inl PanicNil"
proof -
  have "rs_HandlerByEndPoint (RegisterHandlers hs (NewRpcServer ping sender))
      (strings_ToLower (get_EndPoint (get_RpcHeader (Some msg)))) = Some ping"
    using assms(1,3) by (simp add: RegisterHandlers_lookup NewRpcServer_def RegisterHandler_lookup)
  then show ?thesis
    using assms(2,4)
    by (auto simp: ProcessRpcCall_def run_handler_def handler_result_def Let_def split: sum.splits)
qed

theorem successful_ping_panics_witness:
  "ProcessRpcCall (RegisterHandlers [demo_echo] (NewRpcServer demo_ping (Some demo_ad))) (demo_call ''Ping'') ''u1'' =
     Inl PanicNil"
  by (rule successful_ping_panics [where data = "[5]"])
    (simp_all add: find_handler_def demo_echo_def demo_ping_def Handler_def demo_call_def get_EndPoint_def
      get_RpcHeader_def demo_folds handler_result_def get_ContentType_def)

end
