(* ===== verification/HermesServer.thy ===== *)
theory HermesServer
  imports HermesRpc
begin

text \<open>
  The hermes server: \<open>src/hermes/server.go\<close> (rpc calls over http, purge and sync passes),
  \<open>hermes-main.go\<close> (engines, life cycle checks, the mailbox rpcs, commands, proto to JSON),
  \<open>grpc-service.go\<close>, \<open>src/httpserver\<close> and \<open>directclient.go\<close>. Tickers are a list of ticks, the
  scheduler's jobs are the functions it is given.
\<close>

section \<open>httpserver\<close>

text \<open>The status of an error value is known to the program by a type test, here a function.\<close>

definition UnwrapHasHttpStatusCode :: "(err_tree \<Rightarrow> int option) \<Rightarrow> err_tree \<Rightarrow> int list" where
  "UnwrapHasHttpStatusCode status err = List.map_filter status (UnwrapErrorChain err)"

definition GetHttpStatusCode :: "(err_tree \<Rightarrow> int option) \<Rightarrow> err_tree \<Rightarrow> int" where
  "GetHttpStatusCode status err =
     (case UnwrapHasHttpStatusCode status err of [] \<Rightarrow> 500 | sc # _ \<Rightarrow> sc)"

record HttpError =
  he_Msg :: string
  he_StatusCode :: int

definition http_NewError :: "string \<Rightarrow> int \<Rightarrow> HttpError" where
  "http_NewError msg statusCode = \<lparr>he_Msg = msg, he_StatusCode = statusCode\<rparr>"

definition HttpError_Error :: "HttpError \<Rightarrow> string" where
  "HttpError_Error he = int_to_string (he_StatusCode he) @ '' - '' @ he_Msg he"

record ErrorResponseS =
  er_code :: int
  er_message :: string

definition ErrResponse :: "go_error \<Rightarrow> int \<Rightarrow> ErrorResponseS" where
  "ErrResponse err code = \<lparr>er_code = code, er_message = error_text err\<rparr>"

definition ErrStrResponse :: "string \<Rightarrow> int \<Rightarrow> ErrorResponseS" where
  "ErrStrResponse errorMessage code = \<lparr>er_code = code, er_message = errorMessage\<rparr>"

text \<open>What a handler writes: \<open>http.Error\<close>, a JSON body, or an empty 200.\<close>

datatype http_reply = ReplyError int string | ReplyJson bytes | ReplyEmpty

definition Respond :: "ErrorResponseS \<Rightarrow> http_reply" where
  "Respond ep = ReplyError (er_code ep) (er_message ep)"

definition JsonRpc ::
  "(bytes \<Rightarrow> go_error + 'q) \<Rightarrow> ('r \<Rightarrow> go_error + bytes) \<Rightarrow>
   ('q \<Rightarrow> ('s, 'r option \<times> ErrorResponseS option) st) \<Rightarrow> bytes \<Rightarrow> ('s, http_reply) st" where
  "JsonRpc decode marshal processor body =
     (case decode body of
        Inl err \<Rightarrow> st_return (ReplyError 400 (error_text err))
      | Inr request \<Rightarrow>
          st_bind (processor request) (\<lambda>(resp, errorResp).
            case resp of
              Some r \<Rightarrow>
                st_return (case marshal r of Inl err \<Rightarrow> ReplyError 500 (error_text err) | Inr js \<Rightarrow> ReplyJson js)
            | None \<Rightarrow>
                (case errorResp of
                   Some e \<Rightarrow> st_return (Respond e)
                 | None \<Rightarrow> st_return ReplyEmpty)))"

text \<open>\<open>JsonRpcE\<close>: an error of the processor becomes a response of its status code.\<close>

definition JsonRpcE ::
  "(err_tree \<Rightarrow> int option) \<Rightarrow> (err_tree \<Rightarrow> string) \<Rightarrow>
   (bytes \<Rightarrow> go_error + 'q) \<Rightarrow> ('r \<Rightarrow> go_error + bytes) \<Rightarrow>
   ('q \<Rightarrow> ('s, 'r option \<times> err_tree option) st) \<Rightarrow> bytes \<Rightarrow> ('s, http_reply) st" where
  "JsonRpcE status text_of decode marshal processor body =
     JsonRpc decode marshal
       (\<lambda>req. st_bind (processor req) (\<lambda>(resp, err).
          st_return (case err of
            Some e \<Rightarrow> (resp, Some \<lparr>er_code = GetHttpStatusCode status e, er_message = text_of e\<rparr>)
          | None \<Rightarrow> (resp, None)))) body"

section \<open>server.go\<close>

record RpcCallRequest =
  rcr_ToMailbox :: MailboxAddress
  rcr_EndPoint :: string
  rcr_Channel :: ChannelName
  rcr_TimeoutInMillis :: nat
  rcr_RequestBody :: bytes
  rcr_Headers :: "(string \<Rightarrow> string option) \<times> string list"

record RpcCallResponse =
  rcs_ErrorMessage :: string
  rcs_ResponseBody :: bytes

definition MailboxInfoHandler ::
  "'w hermes_ext \<Rightarrow> AdminKey \<Rightarrow> ('w, HttpError + mbox_id) hop" where
  "MailboxInfoHandler ext adminKey =
     st_bind (FetchMailboxByAdminKey ext adminKey) (\<lambda>mbox.
       st_return (case mbox of None \<Rightarrow> Inl (http_NewError ''mailbox not found'' 404) | Some i \<Rightarrow> Inr i))"

definition rpc_handler_mailbox :: CreateMailboxRequest where
  "rpc_handler_mailbox = \<lparr>cmr_Channels = RpcChannelsAsStrings, cmr_PrivateMetadata = JObj [],
     cmr_PublicMetadata = JObj [(''description'', JStr ''hermes rpc call handler mailbox'')],
     cmr_PurgeTimeoutInMillis = 0, cmr_CloseTimeoutInMillis = 0\<rparr>"

text \<open>
  The local mailbox of the rpc call handler. On an error the interface holds a nil mailbox, and
  \<open>UpdateLastActivity\<close> dereferences it before the error is looked at.
\<close>

definition rpc_call_mailbox :: "'w hermes_ext \<Rightarrow> ('w, mbox_id) hop" where
  "rpc_call_mailbox ext =
     st_bind (CreateMailbox ext rpc_handler_mailbox) (\<lambda>r.
     st_bind (st_lift (deref (case r of Inl err \<Rightarrow> None | Inr i \<Rightarrow> Some i))) (\<lambda>localMailbox.
     st_bind (UpdateLastActivity ext localMailbox) (\<lambda>_. st_return localMailbox)))"

text \<open>The job that keeps it alive.\<close>

definition keep_alive :: "'w hermes_ext \<Rightarrow> mbox_id \<Rightarrow> ('w, unit) hop" where
  "keep_alive ext localMailbox =
     st_bind (UpdateLastActivity ext localMailbox) (\<lambda>_. UpdateMailbox ext localMailbox)"

definition rpc_call_response :: "go_error + Message option \<Rightarrow> RpcCallResponse" where
  "rpc_call_response r =
     (case r of
        Inl err \<Rightarrow> \<lparr>rcs_ErrorMessage =
            error_text (WrapErr ''error calling localMailbox.RawRpcCall'' err), rcs_ResponseBody = []\<rparr>
      | Inr None \<Rightarrow>
          \<lparr>rcs_ErrorMessage = ''request timed out before response received'', rcs_ResponseBody = []\<rparr>
      | Inr (Some m) \<Rightarrow>
          \<lparr>rcs_ErrorMessage =
             (case Option.bind (get_RpcHeader (Some m)) rh_ErrorInfo of
                None \<Rightarrow> [] | Some ei \<Rightarrow> rei_Message ei),
           rcs_ResponseBody = msg_Data m\<rparr>)"

definition rpc_call_handler ::
  "'w hermes_ext \<Rightarrow> (SendMessageRequest \<Rightarrow> mbox_id \<Rightarrow> ('w, go_error option) hop) \<Rightarrow> nat \<Rightarrow> rpc_wait \<Rightarrow>
   mbox_id \<Rightarrow> RpcCallRequest \<Rightarrow> ('w, RpcCallResponse) hop" where
  "rpc_call_handler ext publish callback wait localMailbox req =
     st_bind (st_lift (opaque_IsEmpty (rcr_Channel req))) (\<lambda>e.
     st_bind (RawRpcCall ext publish callback wait (rcr_RequestBody req)
                \<lparr>rq_From = localMailbox, rq_To = rcr_ToMailbox req, rq_EndPoint = rcr_EndPoint req,
                 rq_Headers = rcr_Headers req,
                 rq_Channel = (if e then RpcInbox else rcr_Channel req), rq_ContentType = Json\<rparr>) (\<lambda>r.
       st_return (rpc_call_response (map_sum id Some r))))"

definition rpc_call_timeout :: "RpcCallRequest \<Rightarrow> nat" where
  "rpc_call_timeout req = (if rcr_TimeoutInMillis req = 0 then 5 * 60 * 1000 else rcr_TimeoutInMillis req)"

section \<open>Purge and sync\<close>

definition purge_visit :: "'w hermes_ext \<Rightarrow> AdminKey \<Rightarrow> ('w, go_error option) hop" where
  "purge_visit ext adminKey =
     st_bind (FetchMailboxByAdminKey ext adminKey) (\<lambda>found.
     st_bind (st_lift (deref found)) (\<lambda>i.
     st_bind (read_world (x_now ext)) (\<lambda>now.
     st_bind (mbox_get i) (\<lambda>mb.
     st_bind (if \<not> IsPurgable now mb then Purge ext i else st_return ()) (\<lambda>_. st_return None)))))"

definition MailboxPurgeSinglePass :: "'w hermes_ext \<Rightarrow> ('w, go_error list) hop" where
  "MailboxPurgeSinglePass ext = ForEachMailbox ext (purge_visit ext)"

definition sync_visit :: "'w hermes_ext \<Rightarrow> mbox_id \<Rightarrow> ('w, go_error option) hop" where
  "sync_visit ext i =
     st_bind (mbox_get i) (\<lambda>mb.
     st_bind (if mb_needsUpdate mb then UpdateMailbox ext i else st_return ()) (\<lambda>_. st_return None))"

definition MailboxSyncToDiskSinglePass ::
  "'w hermes_ext \<Rightarrow> string list \<Rightarrow> ('w, go_error option) hop" where
  "MailboxSyncToDiskSinglePass ext order = ForEachMailboxInMemory (sync_visit ext) order"

text \<open>The loops around them, over the ticks until the context is done.\<close>

datatype tick = Tick | CtxDone

fun run_ticks :: "('s, 'a) st \<Rightarrow> tick list \<Rightarrow> ('s, unit) st" where
  "run_ticks pass [] = st_return ()"
| "run_ticks pass (CtxDone # ticks) = st_return ()"
| "run_ticks pass (Tick # ticks) = st_bind pass (\<lambda>_. run_ticks pass ticks)"

definition RunMailboxPurge :: "'w hermes_ext \<Rightarrow> tick list \<Rightarrow> ('w, unit) hop" where
  "RunMailboxPurge ext ticks = run_ticks (MailboxPurgeSinglePass ext) ticks"

definition RunMailboxSyncToDisk :: "'w hermes_ext \<Rightarrow> string list \<Rightarrow> tick list \<Rightarrow> ('w, unit) hop" where
  "RunMailboxSyncToDisk ext order ticks = run_ticks (MailboxSyncToDiskSinglePass ext order) ticks"

text \<open>\<open>RunEvery\<close>: what one firing of a job leaves, its error swallowed.\<close>

definition every_job :: "('s, go_error option) st \<Rightarrow> ('s, unit) st" where
  "every_job taskFn = st_bind taskFn (\<lambda>err. st_return ())"

section \<open>hermes-main.go\<close>

text \<open>The active clients with their last activity; the ones past the cutoff are dropped and shut down.\<close>

definition RunSingleLifeCycleCheck ::
  "int \<Rightarrow> int \<Rightarrow> (string \<times> int) list \<Rightarrow> (string \<times> int) list \<times> string list" where
  "RunSingleLifeCycleCheck now timeoutMs clients =
     (let cutoff = now - timeoutMs
      in (filter (\<lambda>(uuid0, lastActivity). \<not> lastActivity \<le> cutoff) clients,
          map fst (filter (\<lambda>(uuid0, lastActivity). lastActivity \<le> cutoff) clients)))"

record MainConfig =
  mc_NatsUrl :: string
  mc_HttpListenAddress :: string
  mc_GrpcListenAddress :: string
  mc_DatabaseUrl :: string
  mc_Engines :: "string list"

fun has_engine :: "string list \<Rightarrow> string \<Rightarrow> bool" where
  "has_engine [] name = False"
| "has_engine (engine # engines) name =
     (if strings_EqualFold engine name then True else has_engine engines name)"

definition HasEngine :: "MainConfig \<Rightarrow> string \<Rightarrow> bool" where
  "HasEngine mc name = has_engine (mc_Engines mc) name"

text \<open>The sub-processes \<open>RunServer\<close> submits, in order.\<close>

definition server_subprocesses :: "MainConfig \<Rightarrow> string list" where
  "server_subprocesses mc =
     (if HasEngine mc ''nefario'' then [''nefario'', ''sendMessageRequestConsumer''] else []) @
     (if HasEngine mc ''http''
      then [''lifeCycleChecks'', ''grpcServer'', ''httpServer'', ''mailbox-sync-to-disk''] else []) @
     (if HasEngine mc ''purge'' then [''mailbox-purge''] else [])"

text \<open>The mailbox of the nefario engine.\<close>

definition nefario_mailbox :: "'w hermes_ext \<Rightarrow> ('w, go_error + mbox_id) hop" where
  "nefario_mailbox ext =
     st_bind (FetchOrCreateNamedMailbox ext NefarioRpcMailbox) (\<lambda>r.
       st_return (case r of
         Inl err \<Rightarrow> Inl (WrapErr (''error creating named mailbox - '' @ opaque_fmt NefarioRpcMailbox) err)
       | Inr i \<Rightarrow> Inr i))"

text \<open>The first key kind that finds a mailbox, for each argument.\<close>

definition mailbox_info :: "'w hermes_ext \<Rightarrow> string \<Rightarrow> ('w, mbox_id option) hop" where
  "mailbox_info ext key =
     st_bind (st_bind (with_alloc (NewMailboxAddress key)) (FetchMailboxByAddress ext)) (\<lambda>m1.
       case m1 of
         Some i \<Rightarrow> st_return (Some i)
       | None \<Rightarrow>
           st_bind (st_bind (with_alloc (NewAdminKey key)) (FetchMailboxByAdminKey ext)) (\<lambda>m2.
             case m2 of
               Some i \<Rightarrow> st_return (Some i)
             | None \<Rightarrow> st_bind (with_alloc (NewReaderKey key)) (FetchMailboxByReaderKey ext)))"

text \<open>\<open>RunCreateNamedMailbox\<close>: after an error the nil mailbox is dereferenced.\<close>

definition RunCreateNamedMailbox ::
  "'w hermes_ext \<Rightarrow> MailboxAddress \<Rightarrow> ('w, bool \<times> mbox_id) hop" where
  "RunCreateNamedMailbox ext address =
     st_bind (FetchMailboxByAddress ext address) (\<lambda>mbox0.
       case mbox0 of
         Some i \<Rightarrow> st_return (False, i)
       | None \<Rightarrow>
           st_bind (FetchOrCreateNamedMailbox ext address) (\<lambda>r.
           st_bind (st_lift (deref (case r of Inl err \<Rightarrow> None | Inr i \<Rightarrow> Some i))) (\<lambda>i.
             st_return (True, i))))"

text \<open>
  The handler of \<open>RunSendMessageRequestConsumer\<close>. The response is dereferenced whatever the error.
\<close>

definition send_request_handler ::
  "'w hermes_ext \<Rightarrow> bool \<Rightarrow> SendMessageRequest \<Rightarrow> ('w, go_error option \<times> SendReceipt option) hop" where
  "send_request_handler ext useDirect smr =
     st_bind (st_lift (run_bind (deref (smr_Message smr)) (\<lambda>m. deref (msg_Header m)))) (\<lambda>hdr.
     st_bind (with_alloc (NewMailboxAddress (mh_Sender hdr))) (\<lambda>fromAddress.
     st_bind (FetchMailboxByAddress ext fromAddress) (\<lambda>mbox.
       case mbox of
         None \<Rightarrow> st_return (Some (GoErr (''Message.Header.Sender address '' @ mh_Sender hdr @
                    '' not found'')), None)
       | Some i \<Rightarrow>
           st_bind (PublishSendMessageRequest ext useDirect smr i) (\<lambda>(response, err, receipt).
           st_bind (st_lift (deref response)) (\<lambda>r. st_return (None, receipt))))))"

definition send_request_queue :: WorkQueueConfig where
  "send_request_queue =
     \<lparr>wq_Subject = SendMessageRequest_subject,
      wq_StreamName = WorkQueue_Stream SendMessageRequest_subject,
      wq_ConsumerName = WorkQueue_Consumer SendMessageRequest_subject,
      wq_RetentionPolicy = 0, wq_AssumeProto = True, wq_MaxDeliver = 5,
      wq_FetchTimeoutMillis = 1000, wq_MaxAge = 0, wq_MaxMsgs = 10000,
      wq_MaxBytes = 60 * 1024 * 1024, wq_StartSeq = [], wq_CreateStream = True, wq_BatchSize = 0\<rparr>"

section \<open>The mailbox rpcs\<close>

definition mailbox_response :: "Mailbox \<Rightarrow> CreateMailboxResponse run" where
  "mailbox_response mb =
     run_bind (run_bind (mbox_AdminKey mb) opaque_String) (\<lambda>ak.
     run_bind (run_bind (mbox_Address mb) opaque_String) (\<lambda>ad.
     run_bind (run_bind (mbox_ReaderKey mb) opaque_String) (\<lambda>rk.
     run_bind (ChannelNamesAsStrings mb) (\<lambda>chs.
       Inr \<lparr>cms_AdminKey = ak, cms_Address = ad, cms_ReaderKey = rk, cms_Channels = chs\<rparr>))))"

text \<open>The first channel that cannot be added ends the http rpc with a conflict.\<close>

fun add_channels_http ::
  "'w hermes_ext \<Rightarrow> mbox_id \<Rightarrow> ChannelName list \<Rightarrow> ('w, ErrorResponseS option) hop" where
  "add_channels_http ext i [] = st_return None"
| "add_channels_http ext i (ch # chs) =
     st_bind (AddChannel ext i ch True) (\<lambda>err.
       case err of Some e \<Rightarrow> st_return (Some (ErrResponse e 409)) | None \<Rightarrow> add_channels_http ext i chs)"

definition AddChannelRpc ::
  "'w hermes_ext \<Rightarrow> AddChannelRequest \<Rightarrow> ('w, unit option \<times> ErrorResponseS option) hop" where
  "AddChannelRpc ext request =
     st_bind (st_bind (with_alloc (NewAdminKey (acr_AdminKey request))) (FetchMailboxByAdminKey ext)) (\<lambda>mbox.
       case mbox of
         None \<Rightarrow> st_return (None, Some (ErrStrResponse
                   (''mailbox '' @ acr_AdminKey request @ '' not found'') 404))
       | Some i \<Rightarrow>
           st_bind (with_alloc (ToChannelNames (acr_Channels request))) (\<lambda>chs.
           st_bind (add_channels_http ext i chs) (\<lambda>e.
             st_return (case e of Some r \<Rightarrow> (None, Some r) | None \<Rightarrow> (Some (), None)))))"

definition CreateMailboxRpc ::
  "'w hermes_ext \<Rightarrow> CreateMailboxRequest \<Rightarrow>
   ('w, CreateMailboxResponse option \<times> ErrorResponseS option) hop" where
  "CreateMailboxRpc ext request =
     st_bind (CreateMailbox ext request) (\<lambda>r.
       case r of
         Inl err \<Rightarrow> st_return (None, Some (ErrResponse err 500))
       | Inr i \<Rightarrow>
           st_bind (mbox_get i) (\<lambda>mb. st_bind (st_lift (mailbox_response mb)) (\<lambda>resp.
             st_return (Some resp, None))))"

definition grpc_CreateMailbox ::
  "'w hermes_ext \<Rightarrow> CreateMailboxRequest \<Rightarrow> ('w, go_error + CreateMailboxResponse) hop" where
  "grpc_CreateMailbox ext req =
     st_bind (CreateMailbox ext req) (\<lambda>r.
       case r of
         Inl err \<Rightarrow> st_return (Inl (WrapErr ''unable to create mailbox'' err))
       | Inr i \<Rightarrow>
           st_bind (mbox_get i) (\<lambda>mb. st_bind (st_lift (mailbox_response mb)) (\<lambda>resp. st_return (Inr resp))))"

text \<open>The grpc service makes an error of a channel that cannot be added, and drops it.\<close>

fun add_channels_grpc :: "'w hermes_ext \<Rightarrow> mbox_id \<Rightarrow> ChannelName list \<Rightarrow> ('w, unit) hop" where
  "add_channels_grpc ext i [] = st_return ()"
| "add_channels_grpc ext i (ch # chs) =
     st_bind (AddChannel ext i ch True) (\<lambda>err. add_channels_grpc ext i chs)"

definition grpc_AddChannel ::
  "'w hermes_ext \<Rightarrow> AddChannelRequest \<Rightarrow> ('w, go_error option) hop" where
  "grpc_AddChannel ext req =
     st_bind (with_alloc (NewAdminKey (acr_AdminKey req))) (\<lambda>adminKey.
     st_bind (FetchMailboxByAdminKey ext adminKey) (\<lambda>mbox.
       case mbox of
         None \<Rightarrow> st_return (Some (GoErr (''unable to find mailbox '' @ opaque_fmt adminKey)))
       | Some i \<Rightarrow>
           st_bind (with_alloc (ToChannelNames (acr_Channels req))) (\<lambda>chs.
           st_bind (add_channels_grpc ext i chs) (\<lambda>_. st_return None))))"

section \<open>Proto to JSON\<close>

text \<open>A message builder, as the decoder of its message followed by its JSON encoder.\<close>

record json_schema =
  js_unmarshal :: "bytes \<Rightarrow> go_error option"
  js_to_json :: "bytes \<Rightarrow> go_error + bytes"

definition schema_key :: "string \<Rightarrow> bool \<Rightarrow> string" where
  "schema_key schema isRequest =
     strings_ToLower schema @ ''-'' @ (if isRequest then ''true'' else ''false'')"

definition add_end_point ::
  "(json_schema, json_schema) RpcEndPoint \<Rightarrow> (string \<Rightarrow> json_schema option) \<Rightarrow> string \<Rightarrow> json_schema option" where
  "add_end_point ep schemas =
     schemas(schema_key (ep_Path ep) True := Some (ep_Request ep),
             schema_key (ep_Path ep) False := Some (ep_Response ep))"

definition proto_schemas ::
  "(json_schema, json_schema) RpcEndPoint list \<Rightarrow> string \<Rightarrow> json_schema option" where
  "proto_schemas eps = fold add_end_point eps Map.empty"

definition ProtoToJsonImpl ::
  "(string \<Rightarrow> json_schema option) \<Rightarrow> (string \<Rightarrow> go_error + bytes) \<Rightarrow> (string \<Rightarrow> string) \<Rightarrow>
   go_error + bytes \<Rightarrow> go_error + bytes" where
  "ProtoToJsonImpl schemas base64 query body =
     (let schemaName = strings_ToLower (query ''schema'');
          frameType = strings_ToLower (query ''frametype'');
          base64Decode = (strings_ToLower (query ''base64'') = ''true'')
      in if schemaName = [] \<or> frameType = [] then
           Inl (GoErr ''schema and frametype query params are required'')
         else if frameType \<noteq> ''request'' \<and> frameType \<noteq> ''response'' then
           Inl (GoErr ''frametype query param must be request | response'')
         else
           (let schemaKey = schema_key schemaName (frameType = ''request'')
            in (case schemas schemaKey of
                  None \<Rightarrow> Inl (GoErr (''schema '' @ schemaKey @ '' not found''))
                | Some sc \<Rightarrow>
                    (case body of
                       Inl err \<Rightarrow> Inl (WrapErr ''error reading request body'' err)
                     | Inr requestBody \<Rightarrow>
                         (case (if base64Decode
                                then map_sum (WrapErr ''error base64 decoding request body'') id
                                       (base64 (bytes_to_string requestBody))
                                else Inr requestBody) of
                            Inl err \<Rightarrow> Inl err
                          | Inr messageBytes \<Rightarrow>
                              (case js_unmarshal sc messageBytes of
                                 Some err \<Rightarrow> Inl (WrapErr ''error unmarshalling request body'' err)
                               | None \<Rightarrow>
                                   (case js_to_json sc messageBytes of
                                      Inl err \<Rightarrow> Inl (WrapErr ''error marshalling proto to json'' err)
                                    | Inr js \<Rightarrow> Inr js)))))))"

definition ProtoToJson :: "go_error + bytes \<Rightarrow> http_reply" where
  "ProtoToJson r = (case r of Inl err \<Rightarrow> ReplyError 500 (error_text err) | Inr js \<Rightarrow> ReplyJson js)"

section \<open>The direct client\<close>

record RpcMailboxConfig =
  rmc_Url :: string
  rmc_MailboxKey :: MailboxAddress

definition rpc_mailbox_request :: CreateMailboxRequest where
  "rpc_mailbox_request = \<lparr>cmr_Channels = RpcChannelsAsStrings, cmr_PrivateMetadata = JObj [],
     cmr_PublicMetadata = JObj [], cmr_PurgeTimeoutInMillis = 0, cmr_CloseTimeoutInMillis = 0\<rparr>"

definition CreateRpcMailbox ::
  "'w hermes_ext \<Rightarrow> go_error option \<Rightarrow> RpcMailboxConfig \<Rightarrow> ('w, go_error + mbox_id) hop" where
  "CreateRpcMailbox ext connect config =
     (if strings_HasPrefix (rmc_Url config) ''nats:'' then
        (case connect of
           Some err \<Rightarrow> st_return (Inl (WrapErr ''unable to create mailbox manager''
                         (WrapErr ''nats connect failure'' err)))
         | None \<Rightarrow>
             st_bind (st_lift (opaque_IsEmpty (rmc_MailboxKey config))) (\<lambda>e.
             st_bind (if e then CreateMailbox ext rpc_mailbox_request
                      else FetchOrCreateNamedMailbox ext (rmc_MailboxKey config)) (\<lambda>r.
               st_return (case r of
                 Inl err \<Rightarrow> Inl (WrapErr ''unable to create mailbox'' err)
               | Inr i \<Rightarrow> Inr i))))
      else st_lift (Inl (PanicMsg (''don'' @ [CHR 0x27] @ ''t know how to handle url '' @ rmc_Url config))))"

section \<open>Properties\<close>

text \<open>
  The purge pass never completes while there is a mailbox to look at: the first admin key of the
  bucket finds nothing, and the nil mailbox is dereferenced, so the pass panics and purges nothing.
\<close>

theorem purge_pass_panics:
  assumes "decoded_fresh ext" and "x_kv_keys ext AdminMailboxesKV (hm_world h) = Inr (k # ks)"
  shows "\<exists>p. MailboxPurgeSinglePass ext h = Inl p"
proof -
  have f: "st_post (FetchMailboxByAdminKey ext (Some \<lparr>ref_addr = hm_alloc h, ref_text = k\<rparr>))
      (h\<lparr>hm_alloc := Suc (hm_alloc h)\<rparr>) (\<lambda>r h'. r = None)"
    by (rule st_post_mono [OF fetch_by_admin_key_post [OF assms(1)]]) (auto simp: allocated_def)
  have "st_post (MailboxPurgeSinglePass ext) h (\<lambda>r h'. False)"
    unfolding MailboxPurgeSinglePass_def ForEachMailbox_def purge_visit_def
    by (auto simp: assms(2) wp_simps new_opaques new_opaque_def intro!: st_post_mono [OF f])
  then show ?thesis
    by (cases "MailboxPurgeSinglePass ext h") (auto simp: st_post_def)
qed

text \<open>
  Channels can only be given to a mailbox when it is created: the http and the grpc rpcs that add a
  channel never find the mailbox, and answer 404 and an error, whatever the admin key.
\<close>

theorem add_channel_never_finds_mailbox:
  assumes "decoded_fresh ext"
  shows "(AddChannelRpc ext request h = Inr (r, h') \<longrightarrow>
      r = (None, Some (ErrStrResponse (''mailbox '' @ acr_AdminKey request @ '' not found'') 404))) \<and>
    (grpc_AddChannel ext request h = Inr (e, h') \<longrightarrow>
      e = Some (GoErr (''unable to find mailbox '' @ acr_AdminKey request)))"
proof -
  have f: "st_post (FetchMailboxByAdminKey ext (Some \<lparr>ref_addr = hm_alloc h, ref_text = k\<rparr>))
      (h\<lparr>hm_alloc := Suc (hm_alloc h)\<rparr>) (\<lambda>r h'. r = None)" for k
    by (rule st_post_mono [OF fetch_by_admin_key_post [OF assms]]) (auto simp: allocated_def)
  define nf where "nf = (None :: unit option,
    Some (ErrStrResponse (''mailbox '' @ acr_AdminKey request @ '' not found'') 404))"
  define ng where "ng = Some (GoErr (''unable to find mailbox '' @ acr_AdminKey request))"
  have "st_post (AddChannelRpc ext request) h (\<lambda>r h'. r = nf)"
    unfolding AddChannelRpc_def nf_def
    by (auto simp: wp_simps new_opaques new_opaque_def intro!: st_post_mono [OF f])
  moreover have "st_post (grpc_AddChannel ext request) h (\<lambda>r h'. r = ng)"
    unfolding grpc_AddChannel_def ng_def
    by (auto simp: wp_simps new_opaques new_opaque_def opaque_fmt_def intro!: st_post_mono [OF f])
  ultimately show ?thesis unfolding nf_def ng_def by (auto dest: st_postD)
qed

definition demo_keyed :: "demo_world hermes_ext" where
  "demo_keyed = demo_hext\<lparr>x_kv_keys := \<lambda>b w. Inr [''zzb'']\<rparr>"

lemma demo_keyed_fresh: "decoded_fresh demo_keyed"
  by (auto simp: decoded_fresh_def demo_keyed_def demo_hext_def demo_mailbox_def)

theorem purge_pass_panics_witness: "\<exists>p. MailboxPurgeSinglePass demo_keyed (demo_store demo_full) = Inl p"
  by (rule purge_pass_panics [OF demo_keyed_fresh, of _ "''zzb''" "[]"])
    (simp add: demo_keyed_def)

definition demo_add :: AddChannelRequest where
  "demo_add = \<lparr>acr_AdminKey = ''zzb'', acr_Channels = [''console'']\<rparr>"

theorem add_channel_never_finds_mailbox_witness:
  "\<exists>h'. grpc_AddChannel demo_hext demo_add (demo_store demo_full) =
     Inr (Some (GoErr (''unable to find mailbox '' @ ''zzb'')), h')"
proof -
  have "\<exists>e h'. grpc_AddChannel demo_hext demo_add (demo_store demo_full) = Inr (e, h')"
    by (simp add: grpc_AddChannel_def FetchMailboxByAdminKey_def st_eval demo_hext_def demo_store_def
        demo_full_def demo_add_def mbox_AdminKey_def demo_mailbox_def opaque_eq_def ref_eq_def)
  then obtain e h' where eq: "grpc_AddChannel demo_hext demo_add (demo_store demo_full) = Inr (e, h')" by blast
  from add_channel_never_finds_mailbox [OF demo_hext_laws(1), of demo_add "demo_store demo_full"] eq
  have "e = Some (GoErr (''unable to find mailbox '' @ acr_AdminKey demo_add))" by blast
  with eq show ?thesis by (simp add: demo_add_def)
qed

end
