(* ===== verification/HermesClient.thy ===== *)
theory HermesClient
  imports HermesServer
begin

text \<open>
  A connected client, \<open>src/hermes/activews.go\<close>: its subscriptions, the start of the protocol, the
  reader and its answers. A session is the store, the client's \<open>ClientInfo\<close>, the messages sent to it
  and the work queues started for it, in order. What \<open>ReadMessage\<close> returns is the input; a failed
  \<open>SendMessage\<close> is only logged by the code, so it leaves no trace here. The goroutine that answers a
  ping is run where it is started.
\<close>

section \<open>Sessions\<close>

text \<open>\<open>cs_NatsSubscription\<close> is never set by the code: it is nil.\<close>

record ClientSubscription =
  cs_Id :: string
  cs_NatsSubscription :: "nat option"
  cs_Subject :: Subject
  cs_StreamName :: StreamName
  cs_StartSeq :: string

record ClientInfo =
  ci_Uuid :: string
  ci_Mailbox :: "mbox_id option"
  ci_SubscriptionsById :: "(string, ClientSubscription list) SyncMapS"
  ci_LastActivity :: int
  ci_IsShutdown :: bool
  ci_IsClosed :: bool
  ci_AddressVerified :: bool
  ci_FirstMessage :: "FirstMessage option"
  ci_UseJson :: bool

record 'w session =
  ses_hermes :: "'w hermes"
  ses_info :: ClientInfo
  ses_sent :: "MessageToClient list"
  ses_queues :: "WorkQueueConfig list"
  ses_active :: "string list"

type_synonym ('w, 'a) sop = "('w session, 'a) st"

definition on_hermes :: "('w, 'a) hop \<Rightarrow> ('w, 'a) sop" where
  "on_hermes m s = run_bind (m (ses_hermes s)) (\<lambda>(x, h). Inr (x, s\<lparr>ses_hermes := h\<rparr>))"

definition on_info :: "(ClientInfo \<Rightarrow> ClientInfo) \<Rightarrow> ('w, unit) sop" where
  "on_info f = st_modify (\<lambda>s. s\<lparr>ses_info := f (ses_info s)\<rparr>)"

definition get_info :: "('w, ClientInfo) sop" where
  "get_info s = Inr (ses_info s, s)"

definition client_SendMessage :: "MessageToClient \<Rightarrow> ('w, unit) sop" where
  "client_SendMessage m = st_modify (\<lambda>s. s\<lparr>ses_sent := ses_sent s @ [m]\<rparr>)"

definition SendNotifcation :: "string \<Rightarrow> ('w, unit) sop" where
  "SendNotifcation message = client_SendMessage (TcNotification message)"

lemma st_post_session [wp_simps]:
  "st_post (on_hermes m) s P \<longleftrightarrow> st_post m (ses_hermes s) (\<lambda>x h. P x (s\<lparr>ses_hermes := h\<rparr>))"
  "st_post (on_info f) s Q \<longleftrightarrow> Q () (s\<lparr>ses_info := f (ses_info s)\<rparr>)"
  "st_post get_info s R \<longleftrightarrow> R (ses_info s) s"
  "st_post (client_SendMessage msg) s Q \<longleftrightarrow> Q () (s\<lparr>ses_sent := ses_sent s @ [msg]\<rparr>)"
  by (auto simp: st_post_def on_hermes_def on_info_def get_info_def client_SendMessage_def run_simps)

section \<open>Subscriptions\<close>

definition AddSubscription :: "ClientSubscription \<Rightarrow> ('w, unit) sop" where
  "AddSubscription sub =
     on_info (\<lambda>ci.
       let subs = fst (sm_Load [] (cs_Id sub) (ci_SubscriptionsById ci))
       in ci\<lparr>ci_SubscriptionsById := sm_Store (cs_Id sub) (subs @ [sub]) (ci_SubscriptionsById ci)\<rparr>)"

definition client_queue :: "ClientSubscription \<Rightarrow> WorkQueueConfig" where
  "client_queue sub =
     \<lparr>wq_Subject = cs_Subject sub, wq_StreamName = cs_StreamName sub, wq_ConsumerName = [],
      wq_RetentionPolicy = 0, wq_AssumeProto = True, wq_MaxDeliver = 0, wq_FetchTimeoutMillis = 0,
      wq_MaxAge = 0, wq_MaxMsgs = 0, wq_MaxBytes = 0, wq_StartSeq = cs_StartSeq sub,
      wq_CreateStream = False, wq_BatchSize = 100\<rparr>"

text \<open>\<open>RegisterClientSub\<close> starts the queue in a goroutine and never fails.\<close>

definition RegisterClientSub :: "ClientSubscription \<Rightarrow> ('w, go_error option) sop" where
  "RegisterClientSub sub =
     st_bind (st_modify (\<lambda>s. s\<lparr>ses_queues := ses_queues s @ [client_queue sub]\<rparr>)) (\<lambda>_.
     st_bind (AddSubscription sub) (\<lambda>_. st_return None))"

text \<open>
  The message handler of that queue: what it sends for a NATS message, and that it always reports
  success, so that the message is acknowledged even when the client could not be reached.
\<close>

record nats_metadata =
  md_Stream :: nat
  md_Timestamp :: int

definition client_message_handler ::
  "string \<Rightarrow> (nat option) \<Rightarrow> go_error + nats_metadata \<Rightarrow> bytes \<Rightarrow> (MessageToClient \<Rightarrow> go_error option) \<Rightarrow>
   MessageToClient option \<times> bool \<times> go_error option" where
  "client_message_handler subscriptionId natsSubscription metadata data send =
     (case metadata of
        Inl err \<Rightarrow> (None, False, None)
      | Inr md \<Rightarrow>
          (let msg = TcMessageEnvelope data
                 (Some \<lparr>sv_Sequence = md_Stream md, sv_Created = md_Timestamp md, sv_Channel = [],
                  sv_SubscriptionId = subscriptionId\<rparr>)
           in (Some msg, send msg \<noteq> None \<and> natsSubscription \<noteq> None, None)))"

definition subject_of :: "RecordMatcher \<Rightarrow> string \<Rightarrow> string option \<Rightarrow> Subject" where
  "subject_of rm root pk =
     root @ ''.'' @ rmat_Database rm @ ''.'' @ rmat_Table rm @
       (case pk of None \<Rightarrow> ''.>'' | Some v \<Rightarrow> ''.'' @ v)"

text \<open>The slice of subjects is made with the number of keys and then appended to.\<close>

definition Subjects :: "RecordMatcher \<Rightarrow> string \<Rightarrow> Subject list" where
  "Subjects rm root =
     (if rmat_PrimaryKeys rm = [] then [subject_of rm root None]
      else replicate (length (rmat_PrimaryKeys rm)) [] @ map (subject_of rm root) (rmat_PrimaryKeys rm))"

fun register_subjects ::
  "ChangeDataCaptureSubscription \<Rightarrow> Subject list \<Rightarrow> ('w, go_error list) sop" where
  "register_subjects sub [] = st_return []"
| "register_subjects sub (subject # subjects) =
     st_bind (RegisterClientSub \<lparr>cs_Id = csub_Id sub, cs_NatsSubscription = None, cs_Subject = subject,
         cs_StreamName = ''wal_listener'', cs_StartSeq = csub_StartSeq sub\<rparr>) (\<lambda>err.
     st_bind (register_subjects sub subjects) (\<lambda>errs.
       st_return (case err of Some e \<Rightarrow> WrapErr ''error RegisterClientSub'' e # errs | None \<Rightarrow> errs)))"

definition join_errors :: "go_error list \<Rightarrow> go_error option" where
  "join_errors errs = (if errs = [] then None else Some (GoErr (strings_Join (map error_text errs) [CHR 0x0A])))"

definition RegisterChangeDataCaptureSub ::
  "ChangeDataCaptureSubscription \<Rightarrow> ('w, go_error option) sop" where
  "RegisterChangeDataCaptureSub sub =
     st_bind (register_subjects sub (concat (map (\<lambda>rm. Subjects rm ''wal_listener'') (csub_Matchers sub))))
       (\<lambda>errs. st_return (join_errors errs))"

definition RegisterMailboxSub ::
  "'w hermes_ext \<Rightarrow> MailboxSubscription \<Rightarrow> ('w, go_error option) sop" where
  "RegisterMailboxSub ext sub =
     st_bind get_info (\<lambda>ci.
     st_bind (st_lift (deref (ci_Mailbox ci))) (\<lambda>own.
     st_bind (on_hermes (st_bind (with_alloc (NewReaderKey (msub_ReaderKey sub)))
                (FetchMailboxByReaderKey ext))) (\<lambda>mbox.
       case mbox of
         None \<Rightarrow> st_return (Some (GoErr (''error mbox reader key '' @ msub_ReaderKey sub @ '' not found '')))
       | Some i \<Rightarrow>
           st_bind (on_hermes (mbox_get i)) (\<lambda>mb.
           st_bind (on_hermes (with_alloc (NewChannelName (msub_Channel sub)))) (\<lambda>ch.
           st_bind (st_lift (mbox_NatsSubject mb ch)) (\<lambda>subject.
           st_bind (st_lift (mbox_NatsStreamName mb ch)) (\<lambda>streamName.
             RegisterClientSub \<lparr>cs_Id = msub_Id sub, cs_NatsSubscription = None, cs_Subject = subject,
               cs_StreamName = streamName, cs_StartSeq = msub_StartSeq sub\<rparr>)))))))"

definition RegisterNefarioSub :: "NefarioSubscription \<Rightarrow> ('w, go_error option) sop" where
  "RegisterNefarioSub sub =
     RegisterClientSub \<lparr>cs_Id = nsub_Id sub, cs_NatsSubscription = None,
       cs_Subject = ''launchy.'' @ nsub_ProcessUid sub @ ''.'' @ nsub_Channel sub,
       cs_StreamName = ''launchy-'' @ nsub_ProcessUid sub @ ''-'' @ nsub_Channel sub,
       cs_StartSeq = nsub_StartSeq sub\<rparr>"

text \<open>
  Unsubscribing a nil NATS subscription is an error that is logged; the entry is deleted. Nothing
  stops the work queue.
\<close>

definition UnRegisterSub :: "string \<Rightarrow> ('w, go_error option) sop" where
  "UnRegisterSub subscriptionId =
     st_bind get_info (\<lambda>ci.
       if snd (sm_Load [] subscriptionId (ci_SubscriptionsById ci)) then
         st_bind (on_info (\<lambda>ci. ci\<lparr>ci_SubscriptionsById :=
             sm_Delete subscriptionId (ci_SubscriptionsById ci)\<rparr>)) (\<lambda>_. st_return None)
       else st_return (Some (GoErr (''subscriptionId '' @ subscriptionId @ '' not found''))))"

definition register_subscription ::
  "'w hermes_ext \<Rightarrow> Subscription \<Rightarrow> ('w, string \<times> go_error option) sop" where
  "register_subscription ext sub =
     (case sub of
        SubChangeDataCapture c \<Rightarrow>
          st_bind (RegisterChangeDataCaptureSub c) (\<lambda>err. st_return (csub_State c, err))
      | SubMailbox m \<Rightarrow> st_bind (RegisterMailboxSub ext m) (\<lambda>err. st_return (msub_State m, err))
      | SubNefario n \<Rightarrow> st_bind (RegisterNefarioSub n) (\<lambda>err. st_return (nsub_State n, err))
      | _ \<Rightarrow> st_return ([], Some (GoErr ''unknown subscription type'')))"

fun RegisterSubscriptions ::
  "'w hermes_ext \<Rightarrow> Subscription list \<Rightarrow> SubscribeResponse \<Rightarrow> ('w, SubscribeResponse) sop" where
  "RegisterSubscriptions ext [] response = st_return response"
| "RegisterSubscriptions ext (sub # subs) response =
     st_bind (register_subscription ext sub) (\<lambda>(state, err).
       RegisterSubscriptions ext subs
         (case err of
            Some e \<Rightarrow> response\<lparr>subr_Errors := subr_Errors response @
                         [\<lparr>sube_State = state, sube_Message = error_text e\<rparr>]\<rparr>
          | None \<Rightarrow> response\<lparr>subr_Succeeded := subr_Succeeded response @ [state]\<rparr>))"

section \<open>The protocol\<close>

definition client_UpdateLastActivity :: "'w hermes_ext \<Rightarrow> ('w, unit) sop" where
  "client_UpdateLastActivity ext =
     st_bind (on_hermes (read_world (x_now ext))) (\<lambda>now.
     st_bind get_info (\<lambda>ci.
     st_bind (st_lift (deref (ci_Mailbox ci))) (\<lambda>i.
     st_bind (on_hermes (UpdateLastActivity ext i)) (\<lambda>_.
       on_info (\<lambda>ci. ci\<lparr>ci_LastActivity := now\<rparr>)))))"

text \<open>One message of the client, in the reader.\<close>

definition handle_client_message ::
  "'w hermes_ext \<Rightarrow> bool \<Rightarrow> MessageFromClient \<Rightarrow> ('w, unit) sop" where
  "handle_client_message ext useDirect msg =
     (case msg of
        FcSendMessageRequest smr \<Rightarrow>
          st_bind get_info (\<lambda>ci.
          st_bind (st_lift (deref (ci_Mailbox ci))) (\<lambda>fromMbox.
            if ci_AddressVerified ci then
              st_bind (on_hermes (PublishSendMessageRequest ext useDirect smr fromMbox))
                (\<lambda>(response, err, receipt). client_SendMessage (TcSendMessageResponse response))
            else SendNotifcation
              ''cannot process SendMessageRequest no address has been sent in the FirstMessge''))
      | FcPing payload \<Rightarrow> client_SendMessage (TcPong payload)
      | FcSubscribeRequest subs \<Rightarrow>
          st_bind (RegisterSubscriptions ext subs \<lparr>subr_Succeeded = [], subr_Errors = []\<rparr>) (\<lambda>resp.
            client_SendMessage (TcSubscribeResponse resp))
      | _ \<Rightarrow> st_return ())"

text \<open>What \<open>ReadMessage\<close> returns: a message, or an error and whether the client is closed then.\<close>

datatype client_read = Read MessageFromClient | ReadErr go_error bool

text \<open>The result is the error the reader ends with; \<open>None\<close> while it is still reading.\<close>

fun runClientReader ::
  "'w hermes_ext \<Rightarrow> bool \<Rightarrow> client_read list \<Rightarrow> ('w, go_error option) sop" where
  "runClientReader ext useDirect [] = st_return None"
| "runClientReader ext useDirect (ReadErr err closed # reads) =
     st_return (Some (if closed then err else WrapErr ''error reading from active client'' err))"
| "runClientReader ext useDirect (Read msg # reads) =
     st_bind (client_UpdateLastActivity ext) (\<lambda>_.
     st_bind (client_UpdateLastActivity ext) (\<lambda>_.
     st_bind (handle_client_message ext useDirect msg) (\<lambda>_.
       runClientReader ext useDirect reads)))"

text \<open>The subscriptions of the first message; their errors are logged.\<close>

fun first_subscriptions :: "'w hermes_ext \<Rightarrow> Subscription list \<Rightarrow> ('w, unit) sop" where
  "first_subscriptions ext [] = st_return ()"
| "first_subscriptions ext (sub # subs) =
     st_bind
       (case sub of
          SubMailbox m \<Rightarrow> RegisterMailboxSub ext m
        | SubNefario n \<Rightarrow> RegisterNefarioSub n
        | SubUnsubscribe i \<Rightarrow> UnRegisterSub i
        | _ \<Rightarrow> st_return None) (\<lambda>err.
     first_subscriptions ext subs)"

definition register_client :: "('w, unit) sop" where
  "register_client = st_modify (\<lambda>s. s\<lparr>ses_active := ses_active s @ [ci_Uuid (ses_info s)]\<rparr>)"

text \<open>The protocol once the mailbox of the first message is found.\<close>

definition start_session ::
  "'w hermes_ext \<Rightarrow> bool \<Rightarrow> FirstMessage \<Rightarrow> SenderInfo \<Rightarrow> mbox_id \<Rightarrow> client_read list \<Rightarrow>
   ('w, go_error option) sop" where
  "start_session ext useDirect firstMessage si i rest =
     st_bind (on_info (\<lambda>ci. ci\<lparr>ci_Mailbox := Some i\<rparr>)) (\<lambda>_.
     st_bind (on_hermes (with_alloc (NewMailboxAddress (si_Address si)))) (\<lambda>address.
     st_bind (on_hermes (mbox_get i)) (\<lambda>mb.
     st_bind (st_lift (mbox_Address mb)) (\<lambda>ad.
     st_bind (on_info (\<lambda>ci. if opaque_eq ad address then ci\<lparr>ci_AddressVerified := True\<rparr> else ci)) (\<lambda>_.
     st_bind (on_info (\<lambda>ci. ci\<lparr>ci_FirstMessage := Some firstMessage\<rparr>)) (\<lambda>_.
     st_bind (client_UpdateLastActivity ext) (\<lambda>_.
     st_bind register_client (\<lambda>_.
     st_bind (first_subscriptions ext (fm_Subscriptions firstMessage)) (\<lambda>_.
       runClientReader ext useDirect rest)))))))))"

text \<open>The answer to an unexpected first message is the error without the printed message.\<close>

definition StartProtocol ::
  "'w hermes_ext \<Rightarrow> bool \<Rightarrow> client_read list \<Rightarrow> ('w, go_error option) sop" where
  "StartProtocol ext useDirect reads =
     (case reads of
        [] \<Rightarrow> st_return None
      | ReadErr err closed # _ \<Rightarrow> st_return (Some (WrapErr ''unable to start reader'' err))
      | Read msg # rest \<Rightarrow>
          (case msg of
             FcFirstMessage firstMessage \<Rightarrow>
               st_bind (st_lift (deref (fm_SenderInfo firstMessage))) (\<lambda>si.
               st_bind (on_hermes (st_bind (with_alloc (NewReaderKey (si_ReaderKey si)))
                          (FetchMailboxByReaderKey ext))) (\<lambda>mbox.
                 case mbox of
                   None \<Rightarrow>
                     st_bind (SendNotifcation (''error mbox '' @ si_ReaderKey si @ '' not found'')) (\<lambda>_.
                       st_return (Some (GoErr (''error mbox '' @ si_ReaderKey si @ '' not found''))))
                 | Some i \<Rightarrow>
                     start_session ext useDirect firstMessage si i rest))
           | _ \<Rightarrow> st_return (Some (GoErr
                ''expected firstMessage and instead received unexpected received''))))"

text \<open>\<open>Shutdown\<close>: the NATS subscriptions that are unsubscribed, the valid ones.\<close>

definition client_Shutdown :: "string list \<Rightarrow> ('w, nat list) sop" where
  "client_Shutdown order =
     st_bind get_info (\<lambda>ci.
       if ci_IsShutdown ci then st_return []
       else
         st_bind (on_info (\<lambda>ci. ci\<lparr>ci_IsShutdown := True\<rparr>)) (\<lambda>_.
           st_return (concat (map (\<lambda>key. case ci_SubscriptionsById ci key of
               None \<Rightarrow> [] | Some subs \<Rightarrow> List.map_filter cs_NatsSubscription subs) order))))"

section \<open>Web sockets\<close>

text \<open>
  \<open>ReadMessage\<close> of a web socket on what the library's \<open>ReadMessage\<close> returned: the message or the
  error, whether it closes the client, and the pong it sent. After an error that is neither a close
  nor a broken connection the frame is still looked at.
\<close>

datatype frame_type = FramePong | FramePing | FrameBinary | FrameText | NoFrame

datatype ws_error = WsClose | WsNet bool go_error | WsOther go_error

definition web_socket_closed :: go_error where
  "web_socket_closed = GoErr ''web socket is closed''"

definition ws_decode ::
  "(bytes \<Rightarrow> go_error + MessageFromClient) \<Rightarrow> (bytes \<Rightarrow> go_error + MessageFromClient) \<Rightarrow>
   frame_type \<Rightarrow> bytes \<Rightarrow> go_error option \<Rightarrow> go_error + MessageFromClient" where
  "ws_decode proto protojson ft bs err =
     (case ft of
        FrameBinary \<Rightarrow> map_sum (WrapErr ''error unmarshalling binary message'') id (proto bs)
      | FrameText \<Rightarrow>
          map_sum (WrapErr (''error unmarshalling text message - '' @ bytes_to_string bs)) id (protojson bs)
      | _ \<Rightarrow>
          (case err of
             Some e \<Rightarrow> Inl (WrapErr ''catchall error this should not happen'' e)
           | None \<Rightarrow> Inr FcUnset))"

definition ws_ReadMessage ::
  "(bytes \<Rightarrow> go_error + MessageFromClient) \<Rightarrow> (bytes \<Rightarrow> go_error + MessageFromClient) \<Rightarrow>
   frame_type \<times> bytes \<times> ws_error option \<Rightarrow> (go_error + MessageFromClient) \<times> bool \<times> bytes option" where
  "ws_ReadMessage proto protojson inp =
     (case inp of (ft, bs, err) \<Rightarrow>
        (case err of
           Some WsClose \<Rightarrow> (Inl web_socket_closed, True, None)
         | Some (WsNet False e) \<Rightarrow> (Inl web_socket_closed, True, None)
         | Some (WsNet True e) \<Rightarrow>
             (ws_decode proto protojson ft bs (Some e), False, if ft = FramePing then Some bs else None)
         | Some (WsOther e) \<Rightarrow>
             (ws_decode proto protojson ft bs (Some e), False, if ft = FramePing then Some bs else None)
         | None \<Rightarrow>
             (ws_decode proto protojson ft bs None, False, if ft = FramePing then Some bs else None)))"

definition ws_client_read :: "(go_error + MessageFromClient) \<times> bool \<times> bytes option \<Rightarrow> client_read" where
  "ws_client_read r = (case r of (Inl err, closed, pong) \<Rightarrow> ReadErr err closed | (Inr m, closed, pong) \<Rightarrow> Read m)"

text \<open>The innermost error of a chain, as far as the classification looks at it.\<close>

datatype net_cause = DnsError string | Errno nat bool | NetError bool | OtherCause

definition classifyNetworkError :: "(nat \<Rightarrow> bool) \<Rightarrow> net_cause \<Rightarrow> string \<Rightarrow> string" where
  "classifyNetworkError econnrefused cause err =
     (let dns = (case cause of DnsError m \<Rightarrow> m = ''no such host'' | _ \<Rightarrow> False);
          refused = (case cause of Errno n t \<Rightarrow> n = 10061 \<or> econnrefused n | _ \<Rightarrow> False);
          timeout = (case cause of Errno n t \<Rightarrow> t | NetError t \<Rightarrow> t | DnsError m \<Rightarrow> False | OtherCause \<Rightarrow> False)
      in if dns then ''name not found'' else if refused then ''connection refused''
         else if timeout then ''timeout'' else ''unknown network error: '' @ err)"

section \<open>Properties\<close>

text \<open>What the handlers of subscriptions leave alone.\<close>

definition same_client :: "'w session \<Rightarrow> 'w session \<Rightarrow> bool" where
  "same_client s s' \<longleftrightarrow> ci_AddressVerified (ses_info s') = ci_AddressVerified (ses_info s) \<and>
     ci_Mailbox (ses_info s') = ci_Mailbox (ses_info s) \<and> ses_sent s' = ses_sent s"

lemma same_client_refl [simp]: "same_client s s"
  by (simp add: same_client_def)

lemma same_client_trans: "same_client s s' \<Longrightarrow> same_client s' s'' \<Longrightarrow> same_client s s''"
  by (simp add: same_client_def)

lemma RegisterClientSub_same: "st_post (RegisterClientSub sub) s (\<lambda>r s'. r = None \<and> same_client s s')"
  by (simp add: RegisterClientSub_def AddSubscription_def wp_simps same_client_def Let_def)

lemma register_subjects_same:
  "st_post (register_subjects sub subjects) s (\<lambda>r s'. r = [] \<and> same_client s s')"
proof (induction subjects arbitrary: s)
  case (Cons subject subjects)
  show ?case
    by (auto simp: wp_simps elim: same_client_trans
        intro!: st_post_mono [OF RegisterClientSub_same] st_post_mono [OF Cons.IH])
qed (simp add: wp_simps)

lemma RegisterMailboxSub_same: "st_post (RegisterMailboxSub ext sub) s (\<lambda>r s'. same_client s s')"
  unfolding RegisterMailboxSub_def
  by (auto simp: wp_simps same_client_def intro!: st_postI st_post_mono [OF RegisterClientSub_same])

lemma register_subscription_same:
  "st_post (register_subscription ext sub) s (\<lambda>r s'. same_client s s')"
  unfolding register_subscription_def RegisterChangeDataCaptureSub_def RegisterNefarioSub_def
  by (cases sub)
    (auto simp: wp_simps intro!: st_post_mono [OF register_subjects_same] st_post_mono [OF RegisterClientSub_same]
      st_post_mono [OF RegisterMailboxSub_same])

lemma RegisterSubscriptions_same:
  "st_post (RegisterSubscriptions ext subs response) s (\<lambda>r s'. same_client s s' \<and>
     length (subr_Succeeded r) + length (subr_Errors r) =
       length (subr_Succeeded response) + length (subr_Errors response) + length subs)"
proof (induction subs arbitrary: s response)
  case (Cons sub subs)
  show ?case
    by (auto simp: wp_simps elim: same_client_trans split: option.splits
        intro!: st_post_mono [OF register_subscription_same] st_post_mono [OF Cons.IH])
qed (simp add: wp_simps)

lemma first_subscriptions_same: "st_post (first_subscriptions ext subs) s (\<lambda>r s'. same_client s s')"
proof (induction subs arbitrary: s)
  case (Cons sub subs)
  have u: "st_post (UnRegisterSub i) s (\<lambda>r s'. same_client s s')" for i and s :: "'a session"
    by (simp add: UnRegisterSub_def wp_simps same_client_def)
  have n: "st_post (RegisterNefarioSub n) s (\<lambda>r s'. same_client s s')" for n and s :: "'a session"
    unfolding RegisterNefarioSub_def by (rule st_post_mono [OF RegisterClientSub_same]) simp
  have step: "st_post (case sub of SubMailbox m \<Rightarrow> RegisterMailboxSub ext m
      | SubNefario n \<Rightarrow> RegisterNefarioSub n | SubUnsubscribe i \<Rightarrow> UnRegisterSub i | _ \<Rightarrow> st_return None) s
      (\<lambda>r s'. same_client s s')"
    by (cases sub) (simp_all add: wp_simps RegisterMailboxSub_same u n)
  show ?case
    by (auto simp: wp_simps elim: same_client_trans intro!: st_post_mono [OF step] st_post_mono [OF Cons.IH])
qed (simp add: wp_simps)

lemma client_UpdateLastActivity_same:
  "st_post (client_UpdateLastActivity ext) s (\<lambda>r s'. same_client s s')"
  unfolding client_UpdateLastActivity_def
  by (auto simp: wp_simps same_client_def UpdateLastActivity_def)

text \<open>A session that was told no address answers no send request.\<close>

definition is_send_response :: "MessageToClient \<Rightarrow> bool" where
  "is_send_response m = (case m of TcSendMessageResponse r \<Rightarrow> True | _ \<Rightarrow> False)"

definition cannot_send :: "'w session \<Rightarrow> bool" where
  "cannot_send s \<longleftrightarrow> \<not> ci_AddressVerified (ses_info s) \<and> (\<forall>m \<in> set (ses_sent s). \<not> is_send_response m)"

lemma cannot_send_same: "cannot_send s \<Longrightarrow> same_client s s' \<Longrightarrow> cannot_send s'"
  by (simp add: cannot_send_def same_client_def)

lemma handle_client_message_cannot_send:
  "cannot_send s \<Longrightarrow> st_post (handle_client_message ext useDirect msg) s (\<lambda>r s'. cannot_send s')"
  unfolding handle_client_message_def
  by (cases msg)
    (auto simp: wp_simps cannot_send_def is_send_response_def SendNotifcation_def same_client_def
      intro!: st_post_mono [OF RegisterSubscriptions_same])

lemma runClientReader_cannot_send:
  "cannot_send s \<Longrightarrow> st_post (runClientReader ext useDirect reads) s (\<lambda>r s'. cannot_send s')"
proof (induction reads arbitrary: s)
  case (Cons rd reads)
  show ?case
  proof (cases rd)
    case (Read msg)
    then show ?thesis
      using Cons.prems
      by (auto simp: wp_simps dest: cannot_send_same
          intro!: st_post_mono [OF client_UpdateLastActivity_same]
            st_post_mono [OF handle_client_message_cannot_send] Cons.IH)
  qed (use Cons.prems in \<open>simp add: wp_simps\<close>)
qed (simp add: wp_simps)

text \<open>The addresses of the mailboxes in the store were allocated.\<close>

definition addresses_allocated :: "'w hermes \<Rightarrow> bool" where
  "addresses_allocated h \<longleftrightarrow>
     (\<forall>i k. mb_MailboxKeys (hm_heap h i) = Some k \<longrightarrow> allocated (hm_alloc h) (mk_Address k))"

lemma fetch_by_reader_key_post:
  assumes "decoded_fresh ext"
  shows "st_post (st_bind (with_alloc (NewReaderKey k)) (FetchMailboxByReaderKey ext)) h
    (\<lambda>r h'. \<exists>n \<ge> hm_alloc h. h' = h\<lparr>hm_alloc := n\<rparr>)"
proof -
  have g: "\<exists>n \<ge> hm_alloc h. h\<lparr>hm_alloc := m\<rparr> = h\<lparr>hm_alloc := n\<rparr>" if "Suc (hm_alloc h) \<le> m" for m
    using that by (intro exI [of _ m]) simp
  show ?thesis
    unfolding FetchMailboxByReaderKey_def
    by (auto simp: wp_simps new_opaques new_opaque_def
        intro!: st_post_mono [OF mailbox_lookup_in_memory [OF assms]] g)
qed

lemma new_address_differs:
  assumes "addresses_allocated h" and "mbox_Address (hm_heap h i) = Inr ad" and "hm_alloc h \<le> n"
  shows "\<not> opaque_eq ad (Some \<lparr>ref_addr = n, ref_text = t\<rparr>)"
proof -
  obtain k where k: "mb_MailboxKeys (hm_heap h i) = Some k" "ad = mk_Address k"
    using assms(2) by (auto simp: mbox_Address_def run_simps)
  then have "allocated (hm_alloc h) ad" using assms(1) by (simp add: addresses_allocated_def)
  then show ?thesis
    using assms(3) by (auto simp: allocated_def opaque_eq_def ref_eq_def split: option.splits)
qed

lemma start_session_cannot_send:
  assumes ad: "addresses_allocated h" and c: "cannot_send s" and h: "ses_hermes s = h\<lparr>hm_alloc := n\<rparr>"
    and n: "hm_alloc h \<le> n"
  shows "st_post (start_session ext useDirect fm si i rest) s (\<lambda>r s'. cannot_send s')"
proof -
  have rest: "st_post (first_subscriptions ext subs) s1
      (\<lambda>r s'. st_post (runClientReader ext useDirect rest) s' (\<lambda>r s'. cannot_send s'))"
    if "cannot_send s1" for s1 subs
    using that by (auto intro!: st_post_mono [OF first_subscriptions_same] runClientReader_cannot_send
        elim!: cannot_send_same)
  have upd: "st_post (client_UpdateLastActivity ext) s1 (\<lambda>r s'. st_post (first_subscriptions ext subs)
      (s'\<lparr>ses_active := ses_active s' @ [ci_Uuid (ses_info s')]\<rparr>)
      (\<lambda>r s'. st_post (runClientReader ext useDirect rest) s' (\<lambda>r s'. cannot_send s')))"
    if "cannot_send s1" for s1 subs
    by (rule st_post_mono [OF client_UpdateLastActivity_same], rule rest)
      (use that in \<open>auto simp: cannot_send_def same_client_def\<close>)
  show ?thesis
    unfolding start_session_def
    using c new_address_differs [OF ad _ n, of i]
    by (auto simp: wp_simps h new_opaques new_opaque_def register_client_def intro!: upd)
      (auto simp: cannot_send_def)
qed

lemma StartProtocol_cannot_send:
  assumes dec: "decoded_fresh ext" and ad: "addresses_allocated (ses_hermes s)" and c: "cannot_send s"
  shows "st_post (StartProtocol ext useDirect reads) s (\<lambda>r s'. cannot_send s')"
proof -
  have main: "st_post (StartProtocol ext useDirect (Read (FcFirstMessage fm) # rest)) s (\<lambda>r s'. cannot_send s')"
    for fm rest
    unfolding StartProtocol_def
    apply (simp only: list.case client_read.case MessageFromClient.case)
    apply (subst st_post_bind, subst st_post_basic, intro allI impI)
    apply (subst st_post_bind, subst st_post_session, rule st_post_mono [OF fetch_by_reader_key_post [OF dec]])
    apply (elim exE conjE)
    apply (subst st_post_cases, intro conjI impI allI)
    subgoal using c by (auto simp: SendNotifcation_def wp_simps cannot_send_def is_send_response_def)
    subgoal for si r h' n i
      by (rule start_session_cannot_send [OF ad, of _ n]) (use c in \<open>auto simp: cannot_send_def\<close>)
    done
  show ?thesis
  proof (cases reads)
    case (Cons rd rest)
    show ?thesis
    proof (cases rd)
      case (Read msg)
      then show ?thesis using Cons c main by (cases msg) (simp_all add: StartProtocol_def wp_simps)
    qed (use Cons c in \<open>simp add: StartProtocol_def wp_simps\<close>)
  qed (use c in \<open>simp add: StartProtocol_def wp_simps\<close>)
qed

text \<open>
  C38. No client can ever send a message: whatever first message, address and requests it sends, its
  address is never verified, because the address of the mailbox is compared with one just allocated;
  every send request is answered with a notification, and never with a response.
\<close>

theorem client_cannot_send:
  assumes "decoded_fresh ext" and "addresses_allocated (ses_hermes s)"
    and "\<not> ci_AddressVerified (ses_info s)" and "ses_sent s = []"
    and "StartProtocol ext useDirect reads s = Inr (r, s')"
  shows "\<not> ci_AddressVerified (ses_info s') \<and> (\<forall>m \<in> set (ses_sent s'). \<not> is_send_response m)"
proof -
  have "cannot_send s" using assms(3,4) by (simp add: cannot_send_def)
  from st_postD [OF StartProtocol_cannot_send [OF assms(1,2) this] assms(5)]
  show ?thesis by (simp add: cannot_send_def)
qed

definition demo_info :: ClientInfo where
  "demo_info = \<lparr>ci_Uuid = ''client'', ci_Mailbox = None, ci_SubscriptionsById = NewSyncMap,
     ci_LastActivity = 0, ci_IsShutdown = False, ci_IsClosed = False, ci_AddressVerified = False,
     ci_FirstMessage = None, ci_UseJson = True\<rparr>"

definition demo_session :: "demo_world session" where
  "demo_session = \<lparr>ses_hermes = (demo_store (\<lambda>_. None))\<lparr>hm_InMemory := sm_Store ''rrb'' 0 NewSyncMap\<rparr>,
     ses_info = demo_info, ses_sent = [], ses_queues = [], ses_active = []\<rparr>"

definition demo_reads :: "client_read list" where
  "demo_reads =
     [Read (FcFirstMessage \<lparr>fm_SenderInfo = Some \<lparr>si_ReaderKey = ''rrb'', si_Address = ''aab''\<rparr>,
        fm_Subscriptions = []\<rparr>),
      Read (FcSendMessageRequest demo_smr)]"

theorem client_cannot_send_witness:
  "\<exists>r s'. StartProtocol demo_hext True demo_reads demo_session = Inr (r, s') \<and>
     ses_sent s' = [TcNotification
       ''cannot process SendMessageRequest no address has been sent in the FirstMessge''] \<and>
     \<not> ci_AddressVerified (ses_info s')"
proof -
  have "\<exists>r s'. StartProtocol demo_hext True demo_reads demo_session = Inr (r, s') \<and>
     ses_sent s' = [TcNotification
       ''cannot process SendMessageRequest no address has been sent in the FirstMessge'']"
    by (simp add: StartProtocol_def demo_reads_def demo_session_def demo_info_def st_eval on_hermes_def
      on_info_def get_info_def FetchMailboxByReaderKey_def MailboxLookup_def demo_store_def demo_hext_def
      demo_mailbox_def mbox_ReaderKey_def mbox_Address_def sm_Store_def NewSyncMap_def start_session_def
      opaque_eq_def ref_eq_def client_UpdateLastActivity_def UpdateLastActivity_def register_client_def
      handle_client_message_def SendNotifcation_def client_SendMessage_def)
  then obtain r s' where e: "StartProtocol demo_hext True demo_reads demo_session = Inr (r, s')"
    and o: "ses_sent s' = [TcNotification
       ''cannot process SendMessageRequest no address has been sent in the FirstMessge'']" by blast
  have "addresses_allocated (ses_hermes demo_session)"
    by (auto simp: addresses_allocated_def demo_session_def demo_store_def demo_mailbox_def allocated_def)
  from client_cannot_send [OF demo_hext_laws(1) this _ _ e] e o show ?thesis
    by (auto simp: demo_session_def demo_info_def)
qed

text \<open>
  Every subscription of a request is answered exactly once, as succeeded or as an error, in order of
  kind, and registering subscriptions neither sends anything nor changes the client's mailbox.
\<close>

theorem subscriptions_answered:
  assumes "RegisterSubscriptions ext subs \<lparr>subr_Succeeded = [], subr_Errors = []\<rparr> s = Inr (r, s')"
  shows "length (subr_Succeeded r) + length (subr_Errors r) = length subs \<and>
    ses_sent s' = ses_sent s \<and> ci_Mailbox (ses_info s') = ci_Mailbox (ses_info s)"
  using st_postD [OF RegisterSubscriptions_same assms] by (simp add: same_client_def)

lemma RegisterNefarioSub_run:
  "RegisterNefarioSub sub s = Inr (None, s\<lparr>ses_queues := ses_queues s @ [client_queue
      \<lparr>cs_Id = nsub_Id sub, cs_NatsSubscription = None,
       cs_Subject = ''launchy.'' @ nsub_ProcessUid sub @ ''.'' @ nsub_Channel sub,
       cs_StreamName = ''launchy-'' @ nsub_ProcessUid sub @ ''-'' @ nsub_Channel sub,
       cs_StartSeq = nsub_StartSeq sub\<rparr>],
     ses_info := (ses_info s)\<lparr>ci_SubscriptionsById :=
       sm_Store (nsub_Id sub)
        (fst (sm_Load [] (nsub_Id sub) (ci_SubscriptionsById (ses_info s))) @
         [\<lparr>cs_Id = nsub_Id sub, cs_NatsSubscription = None,
           cs_Subject = ''launchy.'' @ nsub_ProcessUid sub @ ''.'' @ nsub_Channel sub,
           cs_StreamName = ''launchy-'' @ nsub_ProcessUid sub @ ''-'' @ nsub_Channel sub,
           cs_StartSeq = nsub_StartSeq sub\<rparr>])
        (ci_SubscriptionsById (ses_info s))\<rparr>\<rparr>)"
  by (simp add: RegisterNefarioSub_def RegisterClientSub_def AddSubscription_def on_info_def st_eval Let_def)

text \<open>
  Unsubscribing does not stop a subscription: after a process subscription is registered and
  unregistered, the work queue that feeds the client is still running, and the subscription can no
  longer be named.
\<close>

theorem unsubscribe_keeps_queue:
  assumes "st_bind (RegisterNefarioSub sub) (\<lambda>_. UnRegisterSub (nsub_Id sub)) s = Inr (r, s')"
  shows "r = None \<and> ci_SubscriptionsById (ses_info s') (nsub_Id sub) = None \<and>
    (\<exists>q. ses_queues s' = ses_queues s @ [q] \<and>
         wq_Subject q = ''launchy.'' @ nsub_ProcessUid sub @ ''.'' @ nsub_Channel sub)"
proof -
  have "st_post (st_bind (RegisterNefarioSub sub) (\<lambda>_. UnRegisterSub (nsub_Id sub))) s (\<lambda>r s'.
    r = None \<and> ci_SubscriptionsById (ses_info s') (nsub_Id sub) = None \<and>
    (\<exists>q. ses_queues s' = ses_queues s @ [q] \<and>
         wq_Subject q = ''launchy.'' @ nsub_ProcessUid sub @ ''.'' @ nsub_Channel sub))"
    by (auto simp: wp_simps RegisterNefarioSub_def RegisterClientSub_def AddSubscription_def UnRegisterSub_def
        Let_def sm_Load_def sm_Store_def sm_Delete_def client_queue_def)
  from st_postD [OF this assms] show ?thesis .
qed

definition demo_nsub :: NefarioSubscription where
  "demo_nsub = \<lparr>nsub_Id = ''s1'', nsub_State = ''st'', nsub_ProcessUid = ''p1'', nsub_Channel = ''stdout'',
     nsub_StartSeq = ''first''\<rparr>"

theorem subscriptions_answered_witness:
  "\<exists>r s'. RegisterSubscriptions demo_hext [SubNefario demo_nsub, SubUnsubscribe ''s1'']
      \<lparr>subr_Succeeded = [], subr_Errors = []\<rparr> demo_session = Inr (r, s') \<and>
     length (subr_Succeeded r) + length (subr_Errors r) = 2"
proof -
  obtain r s' where e: "RegisterSubscriptions demo_hext [SubNefario demo_nsub, SubUnsubscribe ''s1'']
      \<lparr>subr_Succeeded = [], subr_Errors = []\<rparr> demo_session = Inr (r, s')"
    by (simp add: register_subscription_def RegisterNefarioSub_run st_eval)
  from subscriptions_answered [OF this] e show ?thesis by auto
qed

lemma UnRegisterSub_runs: "\<exists>r s'. UnRegisterSub i s = Inr (r, s')"
  by (simp add: UnRegisterSub_def st_eval get_info_def on_info_def)

theorem unsubscribe_keeps_queue_witness:
  "\<exists>r s'. st_bind (RegisterNefarioSub demo_nsub) (\<lambda>_. UnRegisterSub (nsub_Id demo_nsub)) demo_session =
     Inr (r, s') \<and> length (ses_queues s') = 1"
proof -
  obtain r s' where e: "st_bind (RegisterNefarioSub demo_nsub) (\<lambda>_. UnRegisterSub (nsub_Id demo_nsub))
      demo_session = Inr (r, s')"
    unfolding st_bind_def RegisterNefarioSub_run run_bind_simps prod.case using UnRegisterSub_runs by blast
  from unsubscribe_keeps_queue [OF this] e show ?thesis by (auto simp: demo_session_def)
qed

end
