(* ===== verification/NefarioProps.thy ===== *)
theory NefarioProps
  imports Nefario
begin

text \<open>
  What the nefario service guarantees: how messages are settled, what no message may undo, what a
  process start records, the services rpc, the update cycle and the ping; with closed examples.
\<close>

section \<open>Properties of the consumer\<close>

text \<open>What no message may undo: keys stay unique, records of the start stay, nothing sent is lost.\<close>

definition history :: "nefario \<Rightarrow> nefario \<Rightarrow> bool" where
  "history s0 s \<longleftrightarrow> db_ok (nf_db s) \<and> db_extends (nf_db s0) (nf_db s) \<and>
     db_wal_ping (nf_db s) = db_wal_ping (nf_db s0) \<and>
     (\<exists>a. nf_streams s = nf_streams s0 @ a) \<and> (\<exists>b. nf_published s = nf_published s0 @ b)"

lemma history_ignores_calls [simp]: "ignores_calls (history s0)"
  by (simp add: ignores_calls_def history_def)

lemma WithQueries_keeps [keeps_intros]:
  "eop_keeps I m \<Longrightarrow> ignores_calls I \<Longrightarrow> eop_keeps I (WithQueries x m)"
  unfolding eop_keeps_def WithQueries_def ext_call_def Let_def ignores_calls_def
  by (auto split: option.split)

lemma history_update_run [keeps_intros]:
  assumes "\<And>now r r'. same_start r r' \<Longrightarrow> same_start r (f now r')"
  shows "eop_keeps (history s0) (update_run x uid f)"
  unfolding update_run_def
  by (rule db_exec_keeps)
     (auto simp: history_def db_ok_def intro: db_extends_update_run [OF _ assms])

lemma history_update_service [keeps_intros]:
  assumes "\<And>r r'. same_service r r' \<Longrightarrow> same_service r (f r')"
  shows "eop_keeps (history s0) (update_service x uid f)"
  unfolding update_service_def
  by (rule db_exec_keeps)
     (auto simp: history_def db_ok_def intro: db_extends_update_service [OF _ assms])

lemma history_InsertStartDto [keeps_intros]: "eop_keeps (history s0) (InsertStartDto x p)"
  unfolding InsertStartDto_def
  by (rule db_exec_keeps)
     (auto simp: history_def db_ok_def map_sum_def split: sum.splits
       intro: db_extends_insert_run dest: row_insert_distinct)

lemma history_nats [keeps_intros]:
  "eop_keeps (history s0) (nats_add_stream x c)" "eop_keeps (history s0) (nats_publish x t data)"
  unfolding nats_add_stream_def nats_publish_def
  by (rule ext_call_keeps; auto simp: history_def)+

lemma same_service_steps:
  "same_service r r' \<Longrightarrow> same_service r (r'\<lparr>svc_MostRecentProcessRunUid := u\<rparr>)"
  by (auto simp: same_service_def)

lemma history_statements [keeps_intros]:
  "eop_keeps (history s0) (UpdateLastPing x uid b)"
  "eop_keeps (history s0) (db_UpdateMailbox x uid t)"
  "eop_keeps (history s0) (UpdateProcessComplete x uid b)"
  "eop_keeps (history s0) (UpdateServiceWithRunningProcess x uid t)"
  unfolding UpdateLastPing_def db_UpdateMailbox_def UpdateProcessComplete_def
    UpdateServiceWithRunningProcess_def
  by (auto intro!: keeps_intros simp: same_start_def same_service_steps)

lemma history_add_streams [keeps_intros]: "eop_keeps (history s0) (add_streams x req chs)"
  by (induction chs) (auto intro!: keeps_intros simp: AddStream_def)

lemma history_ping_each [keeps_intros]: "eop_keeps (history s0) (ping_each cd x pings)"
proof (induction pings)
  case (Cons p pings)
  have "ping_each cd x (p # pings) s =
     (case try_then ''ProcessStart error''
            (WithQueries x (UpdateLastPing x (pp_ProcessUid p) (ToJsonBytes (nc_ping cd) p)))
            eop_ok s of
       (Some e, s') \<Rightarrow> (Some e, s') | (None, s') \<Rightarrow> ping_each cd x pings s')" for s
    by simp
  moreover have "eop_keeps (history s0) (try_then ''ProcessStart error''
      (WithQueries x (UpdateLastPing x (pp_ProcessUid p) (ToJsonBytes (nc_ping cd) p))) eop_ok)"
    by (intro keeps_intros) simp
  ultimately show ?case
    using Cons unfolding eop_keeps_def by (fastforce split: prod.splits option.splits)
qed (auto intro: keeps_intros)

lemma history_dispatch: "eop_keeps (history s0) (dispatch cd x msg)"
proof (cases msg)
  case (FlStreamWrite m)
  then show ?thesis
    using history_nats(2) [of s0 x] unfolding eop_keeps_def dispatch_def StreamWrite_def
    by (auto split: sum.split)
next
  case (FlPing m)
  have "eop_keeps (history s0) (try_then l (nats_publish x t b) eop_ok)" for l t b
    by (intro keeps_intros)
  with FlPing show ?thesis
    unfolding eop_keeps_def dispatch_def Ping_def by (auto split: sum.split)
qed (auto simp: dispatch_def ProcessStart_def start_queries_def Let_def ns_ProcessPing_def
      ns_UpdateMailbox_def ProcessCompleted_def intro!: keeps_intros)

text \<open>The task answers nil whatever happens, so only the decoding decides how a message is settled.\<close>

definition decodes :: "MessageFromLaunchy decoder \<Rightarrow> nats_msg \<Rightarrow> bool" where
  "decodes de m = (case nats_Unmarshal de m True of Inl e \<Rightarrow> False | Inr a \<Rightarrow> True)"

lemma nefario_task:
  "fst (proto_task de consumer_config (processMessageFromLaunchy cd x) m s) = None \<longleftrightarrow> decodes de m"
  "history s0 s \<Longrightarrow>
     history s0 (snd (proto_task de consumer_config (processMessageFromLaunchy cd x) m s))"
  using eop_keepsD [OF history_dispatch]
  by (auto simp: proto_task_def decodes_def consumer_config_def processMessageFromLaunchy_def
      split: sum.split)

lemma settlements_stateless:
  "(\<And>m s. fst (f m s) = None \<longleftrightarrow> P m) \<Longrightarrow>
     settlements f s ms = map (\<lambda>m. if P m then Acked m else Naked m) ms"
  by (induction ms arbitrary: s) auto

lemma fold_keeps: "(\<And>m s. I s \<Longrightarrow> I (snd (f m s))) \<Longrightarrow> I s \<Longrightarrow> I (fold (\<lambda>m s. snd (f m s)) ms s)"
  by (induction ms arbitrary: s) auto

lemma runNefarioConsumer_outcome:
  assumes "work_queue_setup env consumer_config = Inr n"
    and "runNefarioConsumer de cd x env ins s = (r, s', tr)"
  shows "tr = map (\<lambda>m. if decodes de m then Acked m else Naked m) (delivered ins)"
    and "s' = fold (\<lambda>m s. snd (proto_task de consumer_config (processMessageFromLaunchy cd x) m s))
                (delivered ins) s"
proof -
  let ?f = "proto_task de consumer_config (processMessageFromLaunchy cd x)"
  have "settlements ?f s (delivered ins) =
      map (\<lambda>m. if decodes de m then Acked m else Naked m) (delivered ins)"
    by (rule settlements_stateless) (rule nefario_task(1))
  with work_queue_loop_eq [of "wq_ConsumerName consumer_config" ?f ins s "[]"] assms
  show "tr = map (\<lambda>m. if decodes de m then Acked m else Naked m) (delivered ins)"
    and "s' = fold (\<lambda>m s. snd (?f m s)) (delivered ins) s"
    by (auto simp: runNefarioConsumer_def RunProtoWorkQueue_def RunWorkQueue_def)
qed

text \<open>
  C19. The consumer of a server acknowledges every message it can decode, also when processing it
  failed: how a message is settled depends on its bytes alone, so the redelivery the queue is
  configured for never retries a failed database or NATS call.
\<close>

theorem nefario_acks_everything:
  assumes "work_queue_setup env consumer_config = Inr n"
    and "runNefarioConsumer de cd x env ins s = (r, s', tr)"
  shows "tr = map (\<lambda>m. if decodes de m then Acked m else Naked m) (delivered ins)"
  by (rule runNefarioConsumer_outcome(1) [OF assms])

text \<open>
  C13. Messages from launchy never undo what is recorded: after any run of a consumer the keys of
  the tables are unique, every process run that was there is there with the fields of its start,
  every service with all but its unit and latest run, the servers are unchanged, and the streams and
  publications were only added to, whatever the database refuses.
\<close>

theorem nefario_history_kept:
  assumes "work_queue_setup env consumer_config = Inr n" and "db_ok (nf_db s)"
    and "runNefarioConsumer de cd x env ins s = (r, s', tr)"
  shows "history s s'"
proof -
  have "history s s" using assms(2) by (simp add: history_def)
  from fold_keeps [where I = "history s", OF nefario_task(2) this]
  show ?thesis by (simp only: runNefarioConsumer_outcome(2) [OF assms(1,3)])
qed

section \<open>Properties of the handlers\<close>

lemma ext_call_None:
  "ext_call x f s = (None, s') \<longleftrightarrow>
     nx_refuse x (nf_calls s) = None \<and> f (s\<lparr>nf_calls := Suc (nf_calls s)\<rparr>) = Inr s'"
  by (auto simp: ext_call_def Let_def split: option.splits sum.splits)

lemma WithQueries_None:
  "WithQueries x m s = (None, s') \<longleftrightarrow>
     nx_refuse x (nf_calls s) = None \<and> m (s\<lparr>nf_calls := Suc (nf_calls s)\<rparr>) = (None, s')"
  by (auto simp: WithQueries_def ext_call_def Let_def split: option.splits)

lemma try_then_None:
  "try_then l m k s = (None, s') \<longleftrightarrow> (\<exists>s1. m s = (None, s1) \<and> k s1 = (None, s'))"
  by (auto simp: try_then_def split: prod.splits option.splits)

lemma db_exec_None:
  "db_exec x f s = (None, s') \<longleftrightarrow> nx_refuse x (nf_calls s) = None \<and>
     (\<exists>d. f (nx_now x (Suc (nf_calls s))) (nf_db s) = Inr d \<and>
       s' = s\<lparr>nf_calls := Suc (nf_calls s), nf_db := d\<rparr>)"
  by (auto simp: db_exec_def ext_call_None map_sum_def split: sum.splits)

lemma map_sum_Inr: "map_sum f g v = Inr y \<longleftrightarrow> (\<exists>z. v = Inr z \<and> y = g z)"
  by (cases v) auto

lemmas eop_None = WithQueries_None try_then_None db_exec_None eop_ok_def map_sum_Inr Let_def

lemma add_streams_None:
  "add_streams x req chs s = (None, s') \<Longrightarrow> nf_db s' = nf_db s \<and>
     nf_streams s' = nf_streams s @ map (process_stream (ps_ProcessUid req)) chs"
  by (induction chs arbitrary: s)
     (fastforce simp: eop_None AddStream_def nats_add_stream_def ext_call_None)+

text \<open>
  C18. A process start that succeeds is of a uid no process run has; it records the run as running,
  with the encoded request, the time and no completion, makes it the latest run of its service when
  a minion sent it, and adds one stream per channel, in order, that holds what \<open>StreamWrite\<close> publishes
  for that channel.
\<close>

theorem started_process_recorded:
  assumes "ProcessStart cd x req s = (None, s')"
  shows "map_of (db_processrun (nf_db s)) (ps_ProcessUid req) = None \<and>
    (\<exists>now row. map_of (db_processrun (nf_db s')) (ps_ProcessUid req) = Some row \<and>
       pr_StartedAt row = now \<and> pr_LastPingAt row = now \<and> pr_CompletedAt row = None \<and>
       pr_ServiceUid row = ps_ServiceUid req \<and> pr_MinionUid row = ps_MinionUid req \<and>
       pr_ProcessStart row = ToJsonBytes (nc_start cd) (start_request req)) \<and>
    (\<forall>uid. uid \<noteq> ps_ProcessUid req \<longrightarrow>
       map_of (db_processrun (nf_db s')) uid = map_of (db_processrun (nf_db s)) uid) \<and>
    map_of (db_service (nf_db s')) (ps_ServiceUid req) =
      (if ps_MinionUid req = [] then id
       else map_option (\<lambda>r. r\<lparr>svc_MostRecentProcessRunUid := toText (ps_ProcessUid req)\<rparr>))
        (map_of (db_service (nf_db s)) (ps_ServiceUid req)) \<and>
    nf_streams s' = nf_streams s @ map (process_stream (ps_ProcessUid req)) (ps_Channels req)"
proof -
  have req: "ps_ProcessUid (start_request req) = ps_ProcessUid req"
    "ps_MinionUid (start_request req) = ps_MinionUid req"
    "ps_ServiceUid (start_request req) = ps_ServiceUid req"
    by (simp_all add: start_request_def)
  from assms obtain s1 where q: "start_queries cd x req (s\<lparr>nf_calls := Suc (nf_calls s)\<rparr>) = (None, s1)"
    and st: "add_streams x req (ps_Channels req) s1 = (None, s')"
    by (auto simp: ProcessStart_def eop_None)
  show ?thesis
  proof (cases "ps_MinionUid req = []")
    case True
    with q add_streams_None [OF st] show ?thesis
      by (auto simp: start_queries_def eop_None InsertStartDto_def req map_of_row_insert
          row_insert_fresh)
  next
    case False
    with q add_streams_None [OF st] show ?thesis
      by (auto simp: start_queries_def eop_None InsertStartDto_def req map_of_row_insert
          row_insert_fresh UpdateServiceWithRunningProcess_def update_service_def map_of_row_update)
  qed
qed

lemma started_streams:
  "ProcessStart cd x req s = (None, s') \<Longrightarrow>
     nf_streams s' = nf_streams s @ map (process_stream (ps_ProcessUid req)) (ps_Channels req)"
  by (auto simp: ProcessStart_def eop_None start_queries_def InsertStartDto_def
      UpdateServiceWithRunningProcess_def update_service_def
      dest!: add_streams_None split: if_splits)

lemma started_process_fresh:
  "ProcessStart cd x req s = (None, s') \<Longrightarrow>
     map_of (db_processrun (nf_db s)) (ps_ProcessUid req) = None"
  by (auto simp: ProcessStart_def eop_None start_queries_def InsertStartDto_def
      start_request_def row_insert_fresh split: if_splits)

text \<open>
  A start whose second statement is refused leaves the run behind: the error reaches the consumer,
  the run is recorded, the service does not point to it and no stream exists; with the message
  acknowledged, the same start is then refused as a duplicate.
\<close>

theorem half_started_process:
  assumes "nx_refuse x (nf_calls s) = None" and "nx_refuse x (Suc (nf_calls s)) = None"
    and "nx_refuse x (Suc (Suc (nf_calls s))) = Some e" and "ps_MinionUid req \<noteq> []"
    and "map_of (db_processrun (nf_db s)) (ps_ProcessUid req) = None"
    and "ProcessStart cd x req s = (err, s')"
  shows "err \<noteq> None \<and> map_of (db_processrun (nf_db s')) (ps_ProcessUid req) \<noteq> None \<and>
    db_service (nf_db s') = db_service (nf_db s) \<and> nf_streams s' = nf_streams s \<and>
    fst (ProcessStart cd x req s') \<noteq> None"
proof -
  have req: "ps_ProcessUid (start_request req) = ps_ProcessUid req"
    "ps_MinionUid (start_request req) = ps_MinionUid req"
    by (simp_all add: start_request_def)
  have "ps_ProcessUid req \<notin> fst ` set (db_processrun (nf_db s))"
    using assms(5) by (simp add: map_of_eq_None_iff)
  with assms(1-4,6) req have *: "err \<noteq> None \<and>
    map_of (db_processrun (nf_db s')) (ps_ProcessUid req) \<noteq> None \<and>
    db_service (nf_db s') = db_service (nf_db s) \<and> nf_streams s' = nf_streams s"
    by (auto simp: ProcessStart_def WithQueries_def ext_call_def start_queries_def try_then_def
        InsertStartDto_def db_exec_def row_insert_def UpdateServiceWithRunningProcess_def
        update_service_def Let_def map_add_def split: option.splits)
  moreover have "fst (ProcessStart cd x req s') \<noteq> None"
  proof
    assume "fst (ProcessStart cd x req s') = None"
    then have "ProcessStart cd x req s' = (None, snd (ProcessStart cd x req s'))"
      by (simp add: prod_eq_iff)
    from started_process_fresh [OF this] * show False by simp
  qed
  ultimately show ?thesis by blast
qed

text \<open>What the service table holds for a record that was inserted.\<close>

definition inserted_service :: "nefario_codec \<Rightarrow> ServiceRecord \<Rightarrow> string \<times> Service" where
  "inserted_service cd r =
     (sr_Uid r, \<lparr>svc_Name = sr_Name r, svc_MinionUid = sr_MinionUid r,
        svc_MinionEnabled = sr_MinionEnabled r, svc_Extraconfig = None,
        svc_SystemdUnitJson = unit_bytes cd r, svc_MostRecentProcessRunUid = None,
        svc_AuditVersion = None, svc_AuditUsergroupuid = None\<rparr>)"

lemma crud_insert_None:
  "crud_step cd x a s = (None, s') \<Longrightarrow> sc_Action a = CrudInsert \<Longrightarrow> sc_Record a = Some r \<Longrightarrow>
     db_service (nf_db s') = db_service (nf_db s) @ [inserted_service cd r]"
  by (auto simp: crud_step_def InsertService_def eop_None row_insert_def inserted_service_def
      split: if_splits)

lemma crud_inserts_None:
  "crud_steps cd x acts s = (None, s') \<Longrightarrow>
   \<forall>a \<in> set acts. sc_Action a = CrudInsert \<and> sc_Record a \<noteq> None \<Longrightarrow>
     db_service (nf_db s') =
       db_service (nf_db s) @ map (\<lambda>a. inserted_service cd (the (sc_Record a))) acts"
proof (induction acts arbitrary: s)
  case (Cons a acts)
  from Cons.prems(2) obtain r where r: "sc_Record a = Some r" and a: "sc_Action a = CrudInsert"
    by auto
  from Cons.prems(1) obtain s1 where s1: "crud_step cd x a s = (None, s1)"
    and rest: "crud_steps cd x acts s1 = (None, s')"
    by (auto simp: eop_None)
  from Cons.IH [OF rest] Cons.prems(2) crud_insert_None [OF s1 a r] r show ?case by simp
qed (simp add: eop_None)


section \<open>Properties of the update cycle\<close>

text \<open>
  The consumers in the map are exactly the started ones whose context was not cancelled, each under
  the uid of its server.
\<close>

definition consumers_ok :: "consumers \<Rightarrow> bool" where
  "consumers_ok st \<longleftrightarrow>
     (\<forall>uid c. cn_byUid st uid = Some c \<longrightarrow> srv_Uid (con_row c) = uid \<and>
        con_id c < length (cn_started st) \<and> cn_started st ! con_id c = con_row c \<and>
        con_id c \<notin> cn_cancelled st) \<and>
     (\<forall>i < length (cn_started st). i \<notin> cn_cancelled st \<longrightarrow>
        (\<exists>c. cn_byUid st (srv_Uid (cn_started st ! i)) = Some c \<and> con_id c = i)) \<and>
     (\<forall>i \<in> cn_cancelled st. i < length (cn_started st))"

lemma consumers_okI:
  assumes "\<And>uid c. cn_byUid st uid = Some c \<Longrightarrow> srv_Uid (con_row c) = uid \<and>
      con_id c < length (cn_started st) \<and> cn_started st ! con_id c = con_row c \<and>
      con_id c \<notin> cn_cancelled st"
    and "\<And>i. i < length (cn_started st) \<Longrightarrow> i \<notin> cn_cancelled st \<Longrightarrow>
      \<exists>c. cn_byUid st (srv_Uid (cn_started st ! i)) = Some c \<and> con_id c = i"
    and "\<And>i. i \<in> cn_cancelled st \<Longrightarrow> i < length (cn_started st)"
  shows "consumers_ok st"
  using assms by (simp add: consumers_ok_def)

lemma consumers_okD:
  assumes "consumers_ok st"
  shows "cn_byUid st uid = Some c \<Longrightarrow> srv_Uid (con_row c) = uid \<and>
      con_id c < length (cn_started st) \<and> cn_started st ! con_id c = con_row c \<and>
      con_id c \<notin> cn_cancelled st"
    and "i < length (cn_started st) \<Longrightarrow> i \<notin> cn_cancelled st \<Longrightarrow>
      \<exists>c. cn_byUid st (srv_Uid (cn_started st ! i)) = Some c \<and> con_id c = i"
    and "i \<in> cn_cancelled st \<Longrightarrow> i < length (cn_started st)"
  using assms by (simp_all add: consumers_ok_def)

lemma shutdown_consumers:
  "fold shutdown_consumer cs st =
     st\<lparr>cn_cancelled := cn_cancelled st \<union> con_id ` set cs,
        cn_byUid := (\<lambda>u. if u \<in> (srv_Uid \<circ> con_row) ` set cs then None else cn_byUid st u)\<rparr>"
  by (induction cs arbitrary: st) (auto simp: shutdown_consumer_def fun_eq_iff)

lemma shutdown_ok:
  assumes ok: "consumers_ok st" and cs: "\<forall>c \<in> set cs. cn_byUid st (srv_Uid (con_row c)) = Some c"
  shows "consumers_ok (fold shutdown_consumer cs st)"
proof (rule consumers_okI, unfold shutdown_consumers, simp_all, goal_cases)
  case (1 u c')
  then have c': "cn_byUid st u = Some c'" and u: "u \<notin> (\<lambda>c. srv_Uid (con_row c)) ` set cs"
    by (auto split: if_splits)
  have "con_id c' \<notin> con_id ` set cs"
  proof
    assume "con_id c' \<in> con_id ` set cs"
    then obtain c where c: "c \<in> set cs" "con_id c' = con_id c" by auto
    with consumers_okD(1) [OF ok c'] consumers_okD(1) [OF ok, of "srv_Uid (con_row c)" c] cs
    have "srv_Uid (con_row c) = u" by auto
    with c(1) u show False by auto
  qed
  with consumers_okD(1) [OF ok c'] show ?case by auto
next
  case (2 i)
  then obtain d where d: "cn_byUid st (srv_Uid (cn_started st ! i)) = Some d" "con_id d = i"
    using consumers_okD(2) [OF ok] by blast
  moreover have "c = d" if "c \<in> set cs" "srv_Uid (con_row c) = srv_Uid (cn_started st ! i)" for c
    using cs that d(1) by force
  ultimately show ?case using 2 by auto
next
  case (3 i)
  with consumers_okD(3) [OF ok] consumers_okD(1) [OF ok] cs show ?case by blast
qed

lemma start_ok:
  assumes ok: "consumers_ok st" and new: "cn_byUid st (srv_Uid server) = None"
  shows "consumers_ok (start_consumer server st)"
proof (rule consumers_okI, unfold start_consumer_def, simp_all, goal_cases)
  case (1 u c)
  then show ?case
    using consumers_okD(1) [OF ok, of u c] consumers_okD(3) [OF ok, of "length (cn_started st)"]
    by (auto simp: nth_append split: if_splits)
next
  case (2 i)
  show ?case
  proof (cases "i = length (cn_started st)")
    case False
    with 2 consumers_okD(2) [OF ok, of i] obtain c where
      "cn_byUid st (srv_Uid (cn_started st ! i)) = Some c" "con_id c = i" by auto
    moreover from this(1) new have "srv_Uid (cn_started st ! i) \<noteq> srv_Uid server" by auto
    ultimately show ?thesis using False 2 by (auto simp: nth_append)
  qed simp
next
  case (3 i)
  with consumers_okD(3) [OF ok, of i] show ?case by simp
qed

lemma start_consumers:
  assumes "consumers_ok st" and "distinct (map srv_Uid adds)"
    and "\<forall>a \<in> set adds. cn_byUid st (srv_Uid a) = None"
  shows "consumers_ok (fold start_consumer adds st)"
    and "u \<notin> srv_Uid ` set adds \<Longrightarrow> cn_byUid (fold start_consumer adds st) u = cn_byUid st u"
    and "a \<in> set adds \<Longrightarrow>
      map_option con_row (cn_byUid (fold start_consumer adds st) (srv_Uid a)) = Some a"
proof -
  have "consumers_ok (fold start_consumer adds st) \<and>
    (\<forall>u. u \<notin> srv_Uid ` set adds \<longrightarrow> cn_byUid (fold start_consumer adds st) u = cn_byUid st u) \<and>
    (\<forall>a \<in> set adds. map_option con_row (cn_byUid (fold start_consumer adds st) (srv_Uid a)) = Some a)"
    using assms
  proof (induction adds arbitrary: st)
    case (Cons b adds)
    have "cn_byUid (start_consumer b st) u = (if u = srv_Uid b
        then Some \<lparr>con_row = b, con_id = length (cn_started st)\<rparr> else cn_byUid st u)" for u
      by (simp add: start_consumer_def)
    moreover from this Cons.prems have "consumers_ok (fold start_consumer adds (start_consumer b st)) \<and>
      (\<forall>u. u \<notin> srv_Uid ` set adds \<longrightarrow> cn_byUid (fold start_consumer adds (start_consumer b st)) u =
         cn_byUid (start_consumer b st) u) \<and>
      (\<forall>a \<in> set adds.
         map_option con_row (cn_byUid (fold start_consumer adds (start_consumer b st)) (srv_Uid a)) = Some a)"
      by (intro Cons.IH start_ok) (auto simp: image_iff)
    ultimately show ?case using Cons.prems(2) by auto
  qed simp
  then show "consumers_ok (fold start_consumer adds st)"
    and "u \<notin> srv_Uid ` set adds \<Longrightarrow> cn_byUid (fold start_consumer adds st) u = cn_byUid st u"
    and "a \<in> set adds \<Longrightarrow>
      map_option con_row (cn_byUid (fold start_consumer adds st) (srv_Uid a)) = Some a"
    by auto
qed

lemma diff_servers_eq:
  "fst (diff_servers cs servers) =
     filter (\<lambda>v. map_option con_row (cs (srv_Uid v)) \<noteq> Some v) servers"
  "set (snd (diff_servers cs servers)) =
     {c. \<exists>v \<in> set servers. cs (srv_Uid v) = Some c \<and> con_row c \<noteq> v}"
  by (induction servers) (auto split: prod.splits option.splits)

definition cycle_deletes :: "consumers \<Rightarrow> Server list \<Rightarrow> string list \<Rightarrow> Consumer list" where
  "cycle_deletes st servers walk =
     snd (diff_servers (cn_byUid st) servers) @ gone_consumers (cn_byUid st) servers walk"

lemma same_server:
  "distinct (map srv_Uid servers) \<Longrightarrow> v \<in> set servers \<Longrightarrow> w \<in> set servers \<Longrightarrow> srv_Uid v = srv_Uid w \<Longrightarrow>
     v = w"
  by (auto simp: distinct_map inj_on_def)

lemma cycle_deletes_eq:
  assumes ok: "consumers_ok st" and dist: "distinct (map srv_Uid servers)"
    and walk: "set walk = dom (cn_byUid st)"
  shows "set (cycle_deletes st servers walk) =
    {c. \<exists>uid. cn_byUid st uid = Some c \<and> con_row c \<notin> set servers}"
proof (rule set_eqI, rule iffI)
  fix c assume "c \<in> set (cycle_deletes st servers walk)"
  then consider v where "v \<in> set servers" "cn_byUid st (srv_Uid v) = Some c" "con_row c \<noteq> v"
    | uid where "cn_byUid st uid = Some c" "uid \<notin> srv_Uid ` set servers"
    using walk by (auto simp: cycle_deletes_def diff_servers_eq gone_consumers_def)
  then show "c \<in> {c. \<exists>uid. cn_byUid st uid = Some c \<and> con_row c \<notin> set servers}"
  proof cases
    case 1
    with consumers_okD(1) [OF ok 1(2)] same_server [OF dist 1(1), of "con_row c"] show ?thesis by auto
  next
    case 2
    with consumers_okD(1) [OF ok 2(1)] show ?thesis by auto
  qed
next
  fix c assume "c \<in> {c. \<exists>uid. cn_byUid st uid = Some c \<and> con_row c \<notin> set servers}"
  then obtain uid where c: "cn_byUid st uid = Some c" "con_row c \<notin> set servers" by auto
  show "c \<in> set (cycle_deletes st servers walk)"
  proof (cases "uid \<in> srv_Uid ` set servers")
    case True
    then obtain v where "v \<in> set servers" "srv_Uid v = uid" by auto
    moreover from this c have "con_row c \<noteq> v" by auto
    ultimately show ?thesis using c by (auto simp: cycle_deletes_def diff_servers_eq)
  next
    case False
    with c walk show ?thesis
      by (auto simp: cycle_deletes_def gone_consumers_def image_iff intro!: bexI [of _ uid])
  qed
qed

text \<open>The consumers after the shutdowns: those whose row is listed.\<close>

lemma cycle_shutdown:
  assumes ok: "consumers_ok st" and dist: "distinct (map srv_Uid servers)"
    and walk: "set walk = dom (cn_byUid st)"
  defines "st2 \<equiv> fold shutdown_consumer (cycle_deletes st servers walk) st"
  shows "consumers_ok st2"
    and "cn_byUid st2 u = (case cn_byUid st u of None \<Rightarrow> None
      | Some c \<Rightarrow> if con_row c \<in> set servers then Some c else None)"
    and "cn_cancelled st2 = cn_cancelled st \<union>
      {con_id c | c uid. cn_byUid st uid = Some c \<and> con_row c \<notin> set servers}"
proof -
  note dels = cycle_deletes_eq [OF assms(1-3)]
  have "\<forall>c \<in> set (cycle_deletes st servers walk). cn_byUid st (srv_Uid (con_row c)) = Some c"
    using consumers_okD(1) [OF ok] by (fastforce simp: dels)
  then show "consumers_ok st2" unfolding st2_def by (rule shutdown_ok [OF ok])
  show "cn_byUid st2 u = (case cn_byUid st u of None \<Rightarrow> None
      | Some c \<Rightarrow> if con_row c \<in> set servers then Some c else None)"
    using consumers_okD(1) [OF ok]
    by (fastforce simp: st2_def shutdown_consumers dels split: option.split)
  show "cn_cancelled st2 = cn_cancelled st \<union>
      {con_id c | c uid. cn_byUid st uid = Some c \<and> con_row c \<notin> set servers}"
    by (auto simp: st2_def shutdown_consumers dels)
qed

lemma start_consumers_cancelled [simp]:
  "cn_cancelled (fold start_consumer vs t) = cn_cancelled t"
  by (induction vs arbitrary: t) (auto simp: start_consumer_def)

text \<open>The consumers after the starts.\<close>

lemma cycle_start:
  assumes ok: "consumers_ok st2" and dist: "distinct (map srv_Uid servers)"
    and listed: "\<forall>u c. cn_byUid st2 u = Some c \<longrightarrow> con_row c \<in> set servers"
  defines "st' \<equiv> fold start_consumer
    (filter (\<lambda>v. map_option con_row (cn_byUid st2 (srv_Uid v)) \<noteq> Some v) servers) st2"
  shows "consumers_ok st'"
    and "cn_byUid st2 u = Some c \<Longrightarrow> cn_byUid st' u = Some c"
    and "map_option con_row (cn_byUid st' u) = map_of (map (\<lambda>v. (srv_Uid v, v)) servers) u"
proof -
  note old = listed [rule_format]
  define adds where "adds = filter (\<lambda>v. map_option con_row (cn_byUid st2 (srv_Uid v)) \<noteq> Some v) servers"
  have row: "con_row c = v" if "cn_byUid st2 (srv_Uid v) = Some c" "v \<in> set servers" for v c
    using same_server [OF dist that(2) old [OF that(1)]] consumers_okD(1) [OF ok that(1)] by simp
  have "\<forall>a \<in> set adds. cn_byUid st2 (srv_Uid a) = None" using row by (fastforce simp: adds_def)
  moreover have "distinct (map srv_Uid adds)" using dist by (simp add: adds_def distinct_map_filter)
  ultimately have "\<forall>a \<in> set adds. cn_byUid st2 (srv_Uid a) = None" and da: "distinct (map srv_Uid adds)"
    by auto
  note start = start_consumers [OF ok da this(1), folded st'_def [folded adds_def]]
  show "consumers_ok st'" by (rule start(1))
  show kept: "cn_byUid st' u = Some c" if "cn_byUid st2 u = Some c" for u c
  proof -
    from that \<open>\<forall>a \<in> set adds. cn_byUid st2 (srv_Uid a) = None\<close> have "u \<notin> srv_Uid ` set adds" by auto
    with start(2) that show ?thesis by simp
  qed
  show "map_option con_row (cn_byUid st' u) = map_of (map (\<lambda>v. (srv_Uid v, v)) servers) u"
  proof (cases "u \<in> srv_Uid ` set servers")
    case True
    then obtain v where v: "v \<in> set servers" "srv_Uid v = u" by auto
    with dist have "map_of (map (\<lambda>v. (srv_Uid v, v)) servers) u = Some v"
      by (auto intro!: map_of_is_SomeI simp: comp_def)
    moreover have "map_option con_row (cn_byUid st' u) = Some v"
      using v start(3) kept by (cases "v \<in> set adds") (auto simp: adds_def)
    ultimately show ?thesis by simp
  next
    case False
    then have "u \<notin> srv_Uid ` set adds" and "cn_byUid st2 u = None"
      using old consumers_okD(1) [OF ok, of u] by (auto simp: adds_def) (metis imageI not_Some_eq)
    with start(2) have "cn_byUid st' u = None" by simp
    moreover from False have "map_of (map (\<lambda>v. (srv_Uid v, v)) servers) u = None"
      by (auto simp: map_of_eq_None_iff)
    ultimately show ?thesis by simp
  qed
qed


section \<open>Properties of the ping\<close>

lemma await_ping_outcome:
  "await_ping pingUid l0 l1 (False, got) ins = Some r \<Longrightarrow>
     pres_Err r = None \<and> pres_TimeoutMsg r \<in> {[], ''Ping timed out.''} \<and>
     (pres_TimeoutMsg r = [] \<longrightarrow> got \<or> CdcEvent pingUid ''UPDATE'' \<in> set ins)"
proof (induction ins arbitrary: got)
  case Nil
  then show ?case by (cases got) auto
next
  case (Cons i ins)
  show ?case
  proof (cases got)
    case True
    with Cons.prems show ?thesis by auto
  next
    case False
    with Cons.prems Cons.IH show ?thesis by (cases i) (auto simp: wait_for_ping_def)
  qed
qed

text \<open>
  C33. The outcome of a ping is an error, a latency or a timeout: a latency is reported only when the
  update of this ping was seen as an event; without an error the ping's row is gone; and a timeout
  never says that no event was received, since the wait starts only after the first one.
\<close>

theorem wal_ping_outcomes:
  assumes "WalPing x uid l0 l1 ins s = (Some r, s')" and "pres_Err r = None"
  shows "map_of (db_wal_ping (nf_db s')) uid = None \<and> pres_TimeoutMsg r \<in> {[], ''Ping timed out.''} \<and>
    (pres_TimeoutMsg r = [] \<longrightarrow> CdcEvent uid ''UPDATE'' \<in> set ins)"
proof -
  from assms obtain s2 st ins1 where f: "await_first uid ins = Some (Some st, ins1)"
    and del: "ping_query x ''Delete Ping error'' (DeletePing x uid) s2 = (None, s')"
    and p: "await_ping uid l0 l1 st ins1 = Some r"
    by (auto simp: WalPing_def ping_error_def Let_def split: prod.splits option.splits)
  from f obtain action u where st: "st = (False, u = uid \<and> action = ''UPDATE'')"
    and ins: "ins = CdcEvent u action # ins1"
    by (cases ins) (auto simp: wait_for_ping_def split: ping_input.splits elim: await_first.elims)
  from del have "map_of (db_wal_ping (nf_db s')) uid = None"
    by (auto simp: ping_query_def eop_None DeletePing_def map_of_row_delete)
  with await_ping_outcome [OF p [unfolded st]] ins show ?thesis by auto
qed

section \<open>Examples\<close>

definition demo_unit :: ServiceUnitJson where
  "demo_unit = \<lparr>uj_Status = StatusRunning, uj_StatusSource = [], uj_UnitExists = True,
     uj_UnitDescription = [], uj_UnitName = ''a.service''\<rparr>"

definition demo_encoder :: "'a encoder" where
  "demo_encoder = \<lparr>enc_Marshal = (\<lambda>_. Inr [1]), enc_MarshalIndent = (\<lambda>_. Inr [1]),
     enc_ProtoMarshal = (\<lambda>_. Inr [2]), enc_fmt = (\<lambda>_. [])\<rparr>"

definition demo_ncd :: nefario_codec where
  "demo_ncd = \<lparr>nc_start = demo_encoder, nc_ping = demo_encoder, nc_completed = demo_encoder,
     nc_echo = demo_encoder, nc_record = (\<lambda>_. Inr [3]), nc_unit = demo_encoder,
     nc_unit_parse = (\<lambda>_. (None, demo_unit))\<rparr>"

definition demo_nx :: nefario_ext where
  "demo_nx = \<lparr>nx_refuse = (\<lambda>n. if n = 2 then Some (GoErr ''lost'') else None), nx_now = int\<rparr>"

definition demo_service :: "string \<Rightarrow> Service" where
  "demo_service m = \<lparr>svc_Name = ''svc'', svc_MinionUid = m, svc_MinionEnabled = True,
     svc_Extraconfig = None, svc_SystemdUnitJson = None, svc_MostRecentProcessRunUid = None,
     svc_AuditVersion = None, svc_AuditUsergroupuid = None\<rparr>"

definition demo_nf :: "nat \<Rightarrow> nefario" where
  "demo_nf n = \<lparr>nf_db = \<lparr>db_processrun = [], db_service = [(''s1'', demo_service ''m'')],
      db_server = [], db_wal_ping = []\<rparr>, nf_streams = [], nf_published = [], nf_calls = n\<rparr>"

definition demo_start :: ProcessStartedRequest where
  "demo_start = \<lparr>ps_ProcessUid = ''p1'', ps_ParentProcessRunUid = [], ps_ProcessPid = 7,
     ps_MinionUid = ''m'', ps_ServiceUid = ''s1'', ps_StartedAt = None, ps_Command = [''run''],
     ps_Cwd = [], ps_Env = [], ps_Category = ''c'', ps_Channels = [''stdout''], ps_Controllable = False,
     ps_LaunchError = [], ps_Kind = [], ps_ExtraDataJsonStr = []\<rparr>"

text \<open>Messages that decode by their first byte.\<close>

definition demo_launchy :: "MessageFromLaunchy decoder" where
  "demo_launchy = \<lparr>de_proto = (\<lambda>bs. if bs = [0] then Inl (GoErr ''bad'') else
       if bs = [1] then Inr (FlProcessStarted demo_start) else Inr FlUnset),
     de_json = (\<lambda>_. Inl (GoErr ''no json'')), de_fullname = ''MessageFromLaunchy''\<rparr>"

definition demo_msgs :: "nats_msg list" where
  "demo_msgs = map (\<lambda>b. \<lparr>nm_Header = None, nm_Data = [b]\<rparr>) [1, 0, 1]"

lemma demo_setup: "work_queue_setup demo_wq_env consumer_config = Inr 1"
  by (simp add: work_queue_setup_def demo_wq_env_def consumer_config_def)

theorem nefario_acks_everything_witness:
  "snd (snd (runNefarioConsumer demo_launchy demo_ncd demo_nx demo_wq_env
       [Fetched demo_msgs, QueueDone] (demo_nf 0))) =
     [Acked (demo_msgs ! 0), Naked (demo_msgs ! 1), Acked (demo_msgs ! 2)]"
proof -
  let ?ins = "[Fetched demo_msgs, QueueDone]"
  obtain r s' tr where run:
    "runNefarioConsumer demo_launchy demo_ncd demo_nx demo_wq_env ?ins (demo_nf 0) = (r, s', tr)"
    by (metis prod.exhaust)
  from nefario_acks_everything [OF demo_setup run] show ?thesis
    by (simp add: run)
       (simp add: decodes_def nats_Unmarshal_def UnmarshalBytes_def demo_launchy_def demo_msgs_def)
qed

theorem nefario_history_kept_witness:
  "history (demo_nf 0) (fst (snd (runNefarioConsumer demo_launchy demo_ncd demo_nx demo_wq_env
     [Fetched demo_msgs, QueueDone] (demo_nf 0))))"
proof -
  have "db_ok (nf_db (demo_nf 0))" by (simp add: db_ok_def demo_nf_def)
  moreover obtain r s' tr where run: "runNefarioConsumer demo_launchy demo_ncd demo_nx demo_wq_env
      [Fetched demo_msgs, QueueDone] (demo_nf 0) = (r, s', tr)"
    by (metis prod.exhaust)
  ultimately show ?thesis using nefario_history_kept [OF demo_setup] by simp
qed

theorem started_process_recorded_witness:
  "nf_streams (snd (ProcessStart demo_ncd demo_nx demo_start (demo_nf 3))) =
     [process_stream ''p1'' ''stdout''] \<and>
   map_option svc_MostRecentProcessRunUid
     (map_of (db_service (nf_db (snd (ProcessStart demo_ncd demo_nx demo_start (demo_nf 3))))) ''s1'') =
     Some (Some ''p1'')"
proof -
  have "fst (ProcessStart demo_ncd demo_nx demo_start (demo_nf 3)) = None"
    by (simp add: ProcessStart_def start_queries_def WithQueries_def ext_call_def try_then_def
        InsertStartDto_def db_exec_def row_insert_def UpdateServiceWithRunningProcess_def
        update_service_def AddStream_def nats_add_stream_def eop_ok_def demo_start_def start_request_def
        demo_nx_def demo_nf_def Let_def)
  then have "ProcessStart demo_ncd demo_nx demo_start (demo_nf 3) =
      (None, snd (ProcessStart demo_ncd demo_nx demo_start (demo_nf 3)))"
    by (simp add: prod_eq_iff)
  from started_process_recorded [OF this] show ?thesis
    by (simp add: demo_start_def demo_nf_def demo_service_def toText_def)
qed

theorem half_started_process_witness:
  "fst (ProcessStart demo_ncd demo_nx demo_start
     (snd (ProcessStart demo_ncd demo_nx demo_start (demo_nf 0)))) \<noteq> None"
  using half_started_process [of demo_nx "demo_nf 0" "GoErr ''lost''" demo_start demo_ncd
      "fst (ProcessStart demo_ncd demo_nx demo_start (demo_nf 0))"
      "snd (ProcessStart demo_ncd demo_nx demo_start (demo_nf 0))"]
  by (simp add: demo_nx_def demo_nf_def demo_start_def)

definition demo_record :: ServiceRecord where
  "demo_record = \<lparr>sr_Uid = ''s2'', sr_Name = ''new'', sr_MinionUid = ''m'', sr_MinionEnabled = True,
     sr_UnitJson = Some demo_unit\<rparr>"


definition demo_server :: "string \<Rightarrow> string \<Rightarrow> Server" where
  "demo_server uid name = \<lparr>srv_Uid = uid, srv_Name = name, srv_Description = [],
     srv_Vpndomainname = [], srv_NatsUrl = [], srv_Extraconfig = None, srv_AuditVersion = None,
     srv_AuditUsergroupuid = None\<rparr>"

definition demo_consumers :: consumers where
  "demo_consumers = fold start_consumer [demo_server ''a'' ''A'', demo_server ''b'' ''B'']
     \<lparr>cn_byUid = Map.empty, cn_started = [], cn_cancelled = {}, cn_wg = 2\<rparr>"


theorem wal_ping_outcomes_witness:
  "map_of (db_wal_ping (nf_db (snd (WalPing demo_nx ''u'' 5 4
     [CdcEvent ''x'' ''INSERT'', CdcEvent ''u'' ''UPDATE''] (demo_nf 3))))) ''u'' = None"
proof -
  let ?r = "WalPing demo_nx ''u'' 5 4 [CdcEvent ''x'' ''INSERT'', CdcEvent ''u'' ''UPDATE''] (demo_nf 3)"
  have "fst ?r = Some \<lparr>pres_Latency0InMillis = 5, pres_Latency1InMillis = 4, pres_TimeoutMsg = [],
      pres_Err = None\<rparr>"
    by (simp add: WalPing_def ping_query_def WithQueries_def ext_call_def try_then_def InsertPing_def
        UpdatePing_def DeletePing_def db_exec_def row_insert_def eop_ok_def wait_for_ping_def
        demo_nx_def demo_nf_def Let_def)
  then have "?r = (Some \<lparr>pres_Latency0InMillis = 5, pres_Latency1InMillis = 4, pres_TimeoutMsg = [],
      pres_Err = None\<rparr>, snd ?r)"
    by (simp add: prod_eq_iff)
  from wal_ping_outcomes [OF this] show ?thesis by simp
qed

end
