(* ===== verification/LaunchyController.thy ===== *)
theory LaunchyController
  imports Nefario HermesProto
begin

text \<open>
  The launcher of a child process: \<open>src/launchy/launchy-controller.go\<close>, \<open>process-stream-writer.go\<close>,
  \<open>launchy.go\<close> and the run of \<open>old-launchy-main.go\<close>. The nefario client may refuse any message;
  what the child does (its output, its end) and the clock are inputs. The text of a file (the log)
  and the tickers' periods are left out: a ping is an event of the run.
\<close>

section \<open>State\<close>

record RunResult =
  rr_ExitCode :: int
  rr_ExitMessage :: string

record LaunchArgs =
  la_TraceLogging :: bool
  la_Logging :: bool
  la_NoExit :: bool
  la_ConsolePassThru :: bool
  la_Category :: string
  la_NoStart :: bool
  la_Command :: "string list"
  la_MinionUid :: string
  la_ExtraData :: string

datatype ProcessState = UnspecifiedPS | Starting | Running | Stopping | Stopped

datatype StopSignal = UnspecifiedSS | Interupt | Kill | OtherSignal nat

text \<open>The writer of an output: 64-bit counters that wrap.\<close>

record ProcessStreamWriter =
  pw_ProcessUid :: string
  pw_PassThru :: bool
  pw_ChannelName :: string
  pw_Transport :: Transport
  pw_SequenceCounter :: "64 word"
  pw_ByteCount :: "64 word"

text \<open>
  \<open>RunningCommand\<close> is its arguments and, once it started, its pid; the two outputs are never nil
  where the code makes a child.
\<close>

record ChildProcess =
  cp_Args :: "string list"
  cp_Pid :: "int option"
  cp_ProcessStartedRequest :: "ProcessStartedRequest option"
  cp_CmdStdout :: ProcessStreamWriter
  cp_CmdStderr :: ProcessStreamWriter

record launchy =
  lc_args :: LaunchArgs
  lc_processUid :: string
  lc_minionUid :: string
  lc_ProcessState :: ProcessState
  lc_MostRecentExitCode :: int
  lc_ChildProcess :: "ChildProcess option"
  lc_LaunchyProcessStartedRequest :: "ProcessStartedRequest option"
  lc_cancelled :: bool
  lc_signals :: "StopSignal list"
  lc_sent :: "MessageFromLaunchy list"
  lc_calls :: nat

record launchy_ext =
  lx_refuse :: "nat \<Rightarrow> go_error option"
  lx_now :: "nat \<Rightarrow> int"
  lx_getwd :: "go_error + string"
  lx_os_args :: "string list"
  lx_os_pid :: int
  lx_pass :: "bytes \<Rightarrow> nat \<times> go_error option"

text \<open>\<open>minionUid\<close> is not set by the constructor.\<close>

definition NewLaunchyController :: "go_error option \<Rightarrow> LaunchArgs \<Rightarrow> string \<Rightarrow> launchy run" where
  "NewLaunchyController current_user args processUid =
     (case current_user of
        Some err \<Rightarrow> Inl (PanicMsg (error_text (WrapErr ''error getting current user'' err)))
      | None \<Rightarrow> Inr \<lparr>lc_args = args, lc_processUid = processUid, lc_minionUid = [],
           lc_ProcessState = Stopped, lc_MostRecentExitCode = -1, lc_ChildProcess = None,
           lc_LaunchyProcessStartedRequest = None, lc_cancelled = False, lc_signals = [],
           lc_sent = [], lc_calls = 0\<rparr>)"

type_synonym 'a lop = "(launchy, 'a) st"

text \<open>A message to nefario: refused, or sent.\<close>

definition nefario_send :: "launchy_ext \<Rightarrow> (int \<Rightarrow> MessageFromLaunchy) \<Rightarrow> (go_error option) lop" where
  "nefario_send x mk s =
     (let n = lc_calls s; s1 = s\<lparr>lc_calls := Suc n\<rparr>
      in case lx_refuse x n of
           Some e \<Rightarrow> Inr (Some e, s1)
         | None \<Rightarrow> Inr (None, s1\<lparr>lc_sent := lc_sent s @ [mk (lx_now x n)]\<rparr>))"

definition wrap_error :: "string \<Rightarrow> go_error option \<Rightarrow> go_error option" where
  "wrap_error label err = map_option (WrapErr label) err"

section \<open>Reports of the controller\<close>

definition launchy_request :: "launchy_ext \<Rightarrow> launchy \<Rightarrow> string \<Rightarrow> int \<Rightarrow> ProcessStartedRequest" where
  "launchy_request x s cwd now =
     \<lparr>ps_ProcessUid = lc_processUid s, ps_ParentProcessRunUid = [], ps_ProcessPid = lx_os_pid x,
      ps_MinionUid = lc_minionUid s, ps_ServiceUid = [], ps_StartedAt = Some (NowTimeStamp now),
      ps_Command = lx_os_args x, ps_Cwd = cwd, ps_Env = [], ps_Category = la_Category (lc_args s),
      ps_Channels = [], ps_Controllable = True, ps_LaunchError = [], ps_Kind = ''launchy-parent'',
      ps_ExtraDataJsonStr = la_ExtraData (lc_args s)\<rparr>"

text \<open>The request is kept in the state before it is sent.\<close>

definition SubmitLaunchyProcessStart :: "launchy_ext \<Rightarrow> (go_error option) lop" where
  "SubmitLaunchyProcessStart x =
     (case lx_getwd x of
        Inl err \<Rightarrow> st_return (Some (WrapErr ''error getting cwd'' err))
      | Inr cwd \<Rightarrow>
          st_bind st_get (\<lambda>s.
          let req = launchy_request x s cwd (lx_now x (lc_calls s))
          in st_bind (st_modify (\<lambda>s. s\<lparr>lc_LaunchyProcessStartedRequest := Some req\<rparr>)) (\<lambda>_.
             st_bind (nefario_send x (\<lambda>_. FlProcessStarted req)) (\<lambda>err.
             st_return (wrap_error ''ProcessStart error'' err)))))"

definition launchy_ping :: "launchy_ext \<Rightarrow> (go_error option) lop" where
  "launchy_ping x =
     st_bind st_get (\<lambda>s. nefario_send x (\<lambda>now.
       FlProcessPing (ProcessPingReq now
         \<lparr>pp_ProcessUid = lc_processUid s, pp_ChannelSizes = []\<rparr>)))"

definition IsProcessRunning :: "launchy \<Rightarrow> bool" where
  "IsProcessRunning s = (lc_ChildProcess s \<noteq> None)"

definition child_request ::
  "launchy \<Rightarrow> ProcessStartedRequest \<Rightarrow> string \<Rightarrow> ChildProcess \<Rightarrow> go_error option \<Rightarrow> int \<Rightarrow>
   ProcessStartedRequest" where
  "child_request s launchy processUid child cmdErr now =
     \<lparr>ps_ProcessUid = processUid, ps_ParentProcessRunUid = lc_processUid s,
      ps_ProcessPid = (case cp_Pid child of None \<Rightarrow> 0 | Some pid \<Rightarrow> pid),
      ps_MinionUid = lc_minionUid s, ps_ServiceUid = [], ps_StartedAt = Some (NowTimeStamp now),
      ps_Command = cp_Args child, ps_Cwd = ps_Cwd launchy, ps_Env = [],
      ps_Category = la_Category (lc_args s), ps_Channels = [''stderr'', ''stdout''],
      ps_Controllable = False,
      ps_LaunchError = (case cmdErr of None \<Rightarrow> [] | Some e \<Rightarrow> error_text e),
      ps_Kind = ''launchy-child'', ps_ExtraDataJsonStr = la_ExtraData (lc_args s)\<rparr>"

definition SubmitChildProcessStart ::
  "launchy_ext \<Rightarrow> string \<Rightarrow> ChildProcess \<Rightarrow> go_error option \<Rightarrow> (go_error option) lop" where
  "SubmitChildProcessStart x processUid child cmdErr =
     st_bind st_get (\<lambda>s.
     st_bind (st_lift (deref (lc_LaunchyProcessStartedRequest s))) (\<lambda>launchy.
     let req = child_request s launchy processUid child cmdErr (lx_now x (lc_calls s));
         child' = child\<lparr>cp_ProcessStartedRequest := Some req\<rparr>
     in st_bind (st_modify (\<lambda>s. s\<lparr>lc_ChildProcess := Some child',
          lc_ProcessState := (if cp_Pid child = None then lc_ProcessState s else Running)\<rparr>)) (\<lambda>_.
        st_bind (nefario_send x (\<lambda>_. FlProcessStarted req)) (\<lambda>err.
        st_return (wrap_error ''SubmitChildProcessStart error'' err)))))"

definition child_ping :: "ChildProcess \<Rightarrow> ProcessPing run" where
  "child_ping child =
     run_bind (deref (cp_ProcessStartedRequest child)) (\<lambda>req.
       Inr \<lparr>pp_ProcessUid = ps_ProcessUid req,
            pp_ChannelSizes = [(''stdout'', unat (pw_ByteCount (cp_CmdStdout child))),
                               (''stderr'', unat (pw_ByteCount (cp_CmdStderr child)))]\<rparr>)"

definition SubmitChildProcessPing :: "launchy_ext \<Rightarrow> ChildProcess \<Rightarrow> (go_error option) lop" where
  "SubmitChildProcessPing x child =
     st_bind (st_lift (child_ping child)) (\<lambda>ping.
     st_bind (nefario_send x (\<lambda>now. FlProcessPing (ProcessPingReq now ping))) (\<lambda>err.
     st_return (wrap_error ''SubmitChildProcessPing error'' err)))"

definition SubmitChildProcessComplete :: "launchy_ext \<Rightarrow> RunResult \<Rightarrow> (go_error option) lop" where
  "SubmitChildProcessComplete x rr =
     st_bind st_get (\<lambda>s.
     st_bind (st_lift (deref (lc_ChildProcess s))) (\<lambda>child.
     st_bind (st_lift (deref (cp_ProcessStartedRequest child))) (\<lambda>req.
     st_bind (st_modify (\<lambda>s. s\<lparr>lc_ChildProcess := None, lc_ProcessState := Stopped\<rparr>)) (\<lambda>_.
     st_bind (nefario_send x (\<lambda>now. FlProcessCompleted
         \<lparr>pc_ProcessUid = ps_ProcessUid req, pc_ExitCode = rr_ExitCode rr,
          pc_ExitMessage = rr_ExitMessage rr, pc_CompletedAt = Some (NowTimeStamp now)\<rparr>)) (\<lambda>err.
     st_return (wrap_error ''SubmitChildProcessComplete error'' err))))))"

text \<open>
  The signals are recorded in the order they are sent to the process. A command that did not start
  has no process to signal: a nil dereference.
\<close>

definition StopRunningProcess :: "StopSignal \<Rightarrow> unit lop" where
  "StopRunningProcess signal =
     st_bind st_get (\<lambda>s.
     case lc_ChildProcess s of
       None \<Rightarrow> st_return ()
     | Some child \<Rightarrow>
         if signal = Interupt \<or> signal = Kill then
           st_bind (st_lift (deref (cp_Pid child))) (\<lambda>_.
           st_modify (\<lambda>s. s\<lparr>lc_signals := lc_signals s @ [signal]\<rparr>))
         else st_return ())"

definition ProcessState_name :: "ProcessState \<Rightarrow> string" where
  "ProcessState_name p =
     (case p of UnspecifiedPS \<Rightarrow> ''UnspecifiedPS'' | Starting \<Rightarrow> ''Starting'' | Running \<Rightarrow> ''Running''
      | Stopping \<Rightarrow> ''Stopping'' | Stopped \<Rightarrow> ''Stopped'')"

definition RpcProcessStatus :: "launchy \<Rightarrow> string" where
  "RpcProcessStatus s = ProcessState_name (lc_ProcessState s)"

definition RpcStopLaunchy :: "unit lop" where
  "RpcStopLaunchy = st_modify (\<lambda>s. s\<lparr>lc_cancelled := True\<rparr>)"

section \<open>Output\<close>

definition ConsoleChannelName :: string where "ConsoleChannelName = ''console''"

definition writer :: "launchy \<Rightarrow> string \<Rightarrow> Transport \<Rightarrow> ProcessStreamWriter" where
  "writer s processUid transport =
     \<lparr>pw_ProcessUid = processUid, pw_PassThru = la_ConsolePassThru (lc_args s),
      pw_ChannelName = ConsoleChannelName, pw_Transport = transport, pw_SequenceCounter = 0,
      pw_ByteCount = 0\<rparr>"

definition post_record :: "ProcessStreamWriter \<Rightarrow> bytes \<Rightarrow> int \<Rightarrow> StreamWriteRequest" where
  "post_record pw data now =
     \<lparr>sw_ProcessUid = pw_ProcessUid pw, sw_ChannelName = pw_ChannelName pw,
      sw_Record = Some
        \<lparr>str_Timestamp = Some (NowTimeStamp now), str_Sequence = unat (pw_SequenceCounter pw),
         str_Buffers = [Some \<lparr>buf_Timestamp = Some (NowTimeStamp now), buf_Data = data,
                          buf_Transport = pw_Transport pw\<rparr>]\<rparr>\<rparr>"

definition PostLogSlice ::
  "launchy_ext \<Rightarrow> ProcessStreamWriter \<Rightarrow> bytes \<Rightarrow> (go_error option \<times> ProcessStreamWriter) lop" where
  "PostLogSlice x pw data =
     (let pw1 = pw\<lparr>pw_SequenceCounter := pw_SequenceCounter pw + 1,
                   pw_ByteCount := pw_ByteCount pw + word_of_nat (length data)\<rparr>
      in st_bind (nefario_send x (\<lambda>now. FlStreamWrite (post_record pw1 data now))) (\<lambda>err.
         st_return (err, pw1)))"

text \<open>A failed publication is logged; the answer is that of the pass-through.\<close>

definition Write ::
  "launchy_ext \<Rightarrow> ProcessStreamWriter \<Rightarrow> bytes \<Rightarrow> ((nat \<times> go_error option) \<times> ProcessStreamWriter) lop"
  where
  "Write x pw data =
     st_bind (PostLogSlice x pw data) (\<lambda>(err, pw1).
     st_return (if pw_PassThru pw1 then lx_pass x data else (length data, None), pw1))"

section \<open>A run of the child\<close>

text \<open>What happens while the child runs: it writes to an output, or the ticker of its pings fires.\<close>

datatype run_event = WriteStdout bytes | WriteStderr bytes | PingTick

definition child_event :: "launchy_ext \<Rightarrow> run_event \<Rightarrow> ChildProcess \<Rightarrow> ChildProcess lop" where
  "child_event x e child =
     (case e of
        WriteStdout data \<Rightarrow>
          st_bind (Write x (cp_CmdStdout child) data) (\<lambda>(_, pw).
          st_return (child\<lparr>cp_CmdStdout := pw\<rparr>))
      | WriteStderr data \<Rightarrow>
          st_bind (Write x (cp_CmdStderr child) data) (\<lambda>(_, pw).
          st_return (child\<lparr>cp_CmdStderr := pw\<rparr>))
      | PingTick \<Rightarrow>
          st_bind (SubmitChildProcessPing x child) (\<lambda>_. st_return child))"

fun child_events :: "launchy_ext \<Rightarrow> run_event list \<Rightarrow> ChildProcess \<Rightarrow> ChildProcess lop" where
  "child_events x [] child = st_return child"
| "child_events x (e # es) child = st_bind (child_event x e child) (\<lambda>c. child_events x es c)"

text \<open>
  \<open>Wait\<close> returns nil, an \<open>ExitError\<close> with the exit code, or another error. The child may write
  before its start is reported; the pings begin after it.
\<close>

datatype wait_result = WaitOk | WaitExit int go_error | WaitError go_error

record child_run =
  cr_uid :: string
  cr_start :: "go_error + int"
  cr_early :: "(bool \<times> bytes) list"
  cr_events :: "run_event list"
  cr_wait :: wait_result

definition early_events :: "(bool \<times> bytes) list \<Rightarrow> run_event list" where
  "early_events ws = map (\<lambda>(out, data). if out then WriteStdout data else WriteStderr data) ws"

definition run_result :: "wait_result \<Rightarrow> RunResult" where
  "run_result w =
     (case w of
        WaitOk \<Rightarrow> \<lparr>rr_ExitCode = 0, rr_ExitMessage = []\<rparr>
      | WaitExit code e \<Rightarrow> \<lparr>rr_ExitCode = code, rr_ExitMessage = error_text e\<rparr>
      | WaitError e \<Rightarrow> \<lparr>rr_ExitCode = -1, rr_ExitMessage = error_text e\<rparr>)"

text \<open>The request of the child is set in the child itself, which the writers and the pings share.\<close>

definition RunChildProcess :: "launchy_ext \<Rightarrow> child_run \<Rightarrow> RunResult lop" where
  "RunChildProcess x r =
     st_bind (st_modify (\<lambda>s. s\<lparr>lc_ProcessState := Starting\<rparr>)) (\<lambda>_.
     st_bind st_get (\<lambda>s.
     let child0 = \<lparr>cp_Args = la_Command (lc_args s),
                   cp_Pid = (case cr_start r of Inl e \<Rightarrow> None | Inr pid \<Rightarrow> Some pid),
                   cp_ProcessStartedRequest = None,
                   cp_CmdStdout = writer s (cr_uid r) Stdout,
                   cp_CmdStderr = writer s (cr_uid r) Stderr\<rparr>;
         startErr = (case cr_start r of Inl e \<Rightarrow> Some e | Inr pid \<Rightarrow> None)
     in st_bind (child_events x (early_events (cr_early r)) child0) (\<lambda>child1.
        st_bind (SubmitChildProcessStart x (cr_uid r) child1 startErr) (\<lambda>_.
        st_bind st_get (\<lambda>s1.
        st_bind (st_lift (deref (lc_ChildProcess s1))) (\<lambda>child2.
        st_bind (child_events x (cr_events r) child2) (\<lambda>_.
        st_bind (SubmitChildProcessComplete x (run_result (cr_wait r))) (\<lambda>_.
        st_bind (st_modify (\<lambda>s. s\<lparr>lc_MostRecentExitCode := rr_ExitCode (run_result (cr_wait r)),
           lc_ChildProcess := None, lc_ProcessState := Stopped\<rparr>)) (\<lambda>_.
        st_return (run_result (cr_wait r)))))))))))"

section \<open>Requests to start and stop\<close>

text \<open>
  The runs and the request loop of \<open>SubmitInitialRun\<close> are goroutines. A run that was submitted has
  not started its command yet, so no child is seen; \<open>ctl_child\<close> is whether the state has a child.
\<close>

record run_control =
  ctl_submitted :: nat
  ctl_running :: nat
  ctl_child :: bool
  ctl_cancelled :: bool
  ctl_panic :: bool

definition initial_control :: "LaunchArgs \<Rightarrow> run_control" where
  "initial_control args = \<lparr>ctl_submitted = (if la_NoStart args then 0 else 1), ctl_running = 0,
     ctl_child = False, ctl_cancelled = False, ctl_panic = False\<rparr>"

inductive run_step :: "LaunchArgs \<Rightarrow> run_control \<Rightarrow> run_control \<Rightarrow> bool" for args where
  start_request: "\<not> ctl_panic c \<Longrightarrow> \<not> ctl_cancelled c \<Longrightarrow>
    run_step args c (if ctl_child c then c else c\<lparr>ctl_submitted := Suc (ctl_submitted c)\<rparr>)"
| run_begins: "\<not> ctl_panic c \<Longrightarrow> ctl_submitted c = Suc n \<Longrightarrow>
    run_step args c (c\<lparr>ctl_submitted := n, ctl_running := Suc (ctl_running c), ctl_child := True\<rparr>)"
| run_ends: "\<not> ctl_panic c \<Longrightarrow> ctl_running c = Suc n \<Longrightarrow> ctl_child c \<Longrightarrow>
    run_step args c (c\<lparr>ctl_running := n, ctl_child := False,
      ctl_cancelled := ctl_cancelled c \<or> \<not> la_NoExit args\<rparr>)"
| run_ends_panic: "\<not> ctl_panic c \<Longrightarrow> ctl_running c = Suc n \<Longrightarrow> \<not> ctl_child c \<Longrightarrow>
    run_step args c (c\<lparr>ctl_panic := True\<rparr>)"
| stop_launchy: "\<not> ctl_panic c \<Longrightarrow> run_step args c (c\<lparr>ctl_cancelled := True\<rparr>)"

inductive_cases run_stepE: "run_step args c c'"

end
