(* ===== verification/LaunchyProps.thy ===== *)
theory LaunchyProps
  imports LaunchyController NefarioProps
begin

text \<open>
  What a run of a child reports to nefario, in which order and with which sequence numbers; that
  its output is published where no stream listens; and that two requests to start can run two
  children.
\<close>

section \<open>Runs\<close>

text \<open>The slices of one output among messages: their sequence numbers and their bytes.\<close>

definition message_slices :: "Transport \<Rightarrow> MessageFromLaunchy \<Rightarrow> (nat \<times> bytes) list" where
  "message_slices t m =
     (case m of
        FlStreamWrite w \<Rightarrow>
          (case sw_Record w of
             None \<Rightarrow> []
           | Some r \<Rightarrow> concat (map (\<lambda>b. case b of None \<Rightarrow> [] | Some b \<Rightarrow>
               if buf_Transport b = t then [(str_Sequence r, buf_Data b)] else []) (str_Buffers r)))
      | _ \<Rightarrow> [])"

definition slices :: "Transport \<Rightarrow> MessageFromLaunchy list \<Rightarrow> (nat \<times> bytes) list" where
  "slices t ms = concat (map (message_slices t) ms)"

definition written :: "Transport \<Rightarrow> run_event list \<Rightarrow> bytes list" where
  "written t es = concat (map (\<lambda>e. case e of
     WriteStdout data \<Rightarrow> if t = Stdout then [data] else []
   | WriteStderr data \<Rightarrow> if t = Stderr then [data] else []
   | PingTick \<Rightarrow> []) es)"

text \<open>The sequence numbers of the next \<open>k\<close> records of a writer that has made \<open>n\<close>.\<close>

definition sequences :: "nat \<Rightarrow> nat \<Rightarrow> nat list" where
  "sequences n k = map (\<lambda>i. Suc (n + i) mod 2 ^ 64) [0 ..< k]"

lemma sequences_simps [simp]:
  "sequences n 0 = []"
  "sequences n (Suc k) = Suc n mod 2 ^ 64 # sequences (Suc n) k"
  by (simp_all add: sequences_def upt_rec [of 0] map_Suc_upt [symmetric] comp_def del: upt_Suc)

lemma slices_simps [simp]:
  "slices t [] = []" "slices t (m # ms) = message_slices t m @ slices t ms"
  "slices t (ms @ ns) = slices t ms @ slices t ns"
  by (simp_all add: slices_def)

lemma written_simps [simp]:
  "written t [] = []"
  "written t (WriteStdout d # es) = (if t = Stdout then [d] else []) @ written t es"
  "written t (WriteStderr d # es) = (if t = Stderr then [d] else []) @ written t es"
  "written t (PingTick # es) = written t es"
  by (simp_all add: written_def)

text \<open>A message of a child: a record of its console channel, or a ping.\<close>

definition child_message :: "string \<Rightarrow> MessageFromLaunchy \<Rightarrow> bool" where
  "child_message uid m \<longleftrightarrow>
     (\<exists>w. m = FlStreamWrite w \<and> sw_ProcessUid w = uid \<and> sw_ChannelName w = ConsoleChannelName) \<or>
     (\<exists>p. m = FlProcessPing p \<and> map pp_ProcessUid (ppr_Pings p) = [uid])"

text \<open>The writers of a child with uid \<open>uid\<close> that have made \<open>a\<close> and \<open>b\<close> records.\<close>

definition child_of :: "string \<Rightarrow> nat \<Rightarrow> nat \<Rightarrow> ChildProcess \<Rightarrow> bool" where
  "child_of uid a b c \<longleftrightarrow>
     pw_ProcessUid (cp_CmdStdout c) = uid \<and> pw_ProcessUid (cp_CmdStderr c) = uid \<and>
     pw_ChannelName (cp_CmdStdout c) = ConsoleChannelName \<and>
     pw_ChannelName (cp_CmdStderr c) = ConsoleChannelName \<and>
     pw_Transport (cp_CmdStdout c) = Stdout \<and> pw_Transport (cp_CmdStderr c) = Stderr \<and>
     pw_SequenceCounter (cp_CmdStdout c) = word_of_nat a \<and>
     pw_SequenceCounter (cp_CmdStderr c) = word_of_nat b \<and>
     (\<forall>req. cp_ProcessStartedRequest c = Some req \<longrightarrow> ps_ProcessUid req = uid)"

lemma nefario_send_accepted:
  "lx_refuse x (lc_calls s) = None \<Longrightarrow> nefario_send x mk s =
     Inr (None, s\<lparr>lc_calls := Suc (lc_calls s), lc_sent := lc_sent s @ [mk (lx_now x (lc_calls s))]\<rparr>)"
  by (simp add: nefario_send_def Let_def)

lemmas st_run = st_bind_def st_return_def st_get_def st_modify_def st_lift_def

text \<open>What an operation leaves alone that only sends.\<close>

definition only_sends :: "launchy \<Rightarrow> MessageFromLaunchy list \<Rightarrow> launchy \<Rightarrow> bool" where
  "only_sends s ms s' \<longleftrightarrow> (\<exists>n. s' = s\<lparr>lc_calls := n, lc_sent := lc_sent s @ ms\<rparr>)"

lemma only_sends_simps:
  assumes "only_sends s ms s'"
  shows "lc_sent s' = lc_sent s @ ms" "lc_args s' = lc_args s" "lc_processUid s' = lc_processUid s"
    "lc_minionUid s' = lc_minionUid s" "lc_ChildProcess s' = lc_ChildProcess s"
    "lc_LaunchyProcessStartedRequest s' = lc_LaunchyProcessStartedRequest s"
    "lc_ProcessState s' = lc_ProcessState s" "lc_MostRecentExitCode s' = lc_MostRecentExitCode s"
  using assms by (auto simp: only_sends_def)

lemma only_sends_trans:
  "only_sends s ms s' \<Longrightarrow> only_sends s' ns s'' \<Longrightarrow> only_sends s (ms @ ns) s''"
  by (auto simp: only_sends_def)

definition counted :: "ProcessStreamWriter \<Rightarrow> bytes \<Rightarrow> ProcessStreamWriter" where
  "counted pw data = pw\<lparr>pw_SequenceCounter := pw_SequenceCounter pw + 1,
     pw_ByteCount := pw_ByteCount pw + word_of_nat (length data)\<rparr>"

lemma only_sendsI: "only_sends s ms (s\<lparr>lc_calls := n, lc_sent := lc_sent s @ ms\<rparr>)"
  by (auto simp: only_sends_def)

lemma only_sends_refl: "only_sends s [] s"
  unfolding only_sends_def by (rule exI [of _ "lc_calls s"]) simp

lemma Write_accepted:
  assumes "\<And>n. lx_refuse x n = None"
  obtains v s' where "Write x pw data s = Inr ((v, counted pw data), s')"
    and "only_sends s [FlStreamWrite (post_record (counted pw data) data (lx_now x (lc_calls s)))] s'"
  by (rule that [OF _ only_sendsI])
     (simp add: Write_def PostLogSlice_def st_run Let_def nefario_send_accepted assms counted_def)

lemma SubmitChildProcessPing_accepted:
  assumes "\<And>n. lx_refuse x n = None" and "cp_ProcessStartedRequest c = Some req"
  obtains s' p where "SubmitChildProcessPing x c s = Inr (None, s')" and "only_sends s [FlProcessPing p] s'"
    and "map pp_ProcessUid (ppr_Pings p) = [ps_ProcessUid req]"
  by (rule that [OF _ only_sendsI])
     (simp add: SubmitChildProcessPing_def child_ping_def st_run nefario_send_accepted assms
       wrap_error_def ProcessPingReq_def, simp)

lemma message_slices_post [simp]:
  "message_slices t (FlStreamWrite (post_record pw data now)) =
     (if pw_Transport pw = t then [(unat (pw_SequenceCounter pw), data)] else [])"
  by (simp add: message_slices_def post_record_def)

lemma message_slices_ping [simp]: "message_slices t (FlProcessPing p) = []"
  by (simp add: message_slices_def)

lemma child_message_post:
  "child_message (pw_ProcessUid pw) (FlStreamWrite (post_record pw data now)) \<longleftrightarrow>
     pw_ChannelName pw = ConsoleChannelName"
  by (auto simp: child_message_def post_record_def)

lemma counted_simps [simp]:
  "pw_ProcessUid (counted pw data) = pw_ProcessUid pw"
  "pw_ChannelName (counted pw data) = pw_ChannelName pw"
  "pw_Transport (counted pw data) = pw_Transport pw"
  "pw_SequenceCounter pw = word_of_nat n \<Longrightarrow> pw_SequenceCounter (counted pw data) = word_of_nat (Suc n)"
  by (simp_all add: counted_def add.commute)

lemma child_event_sends:
  assumes acc: "\<And>n. lx_refuse x n = None" and c: "child_of uid a b c"
    and ping: "e = PingTick \<longrightarrow> cp_ProcessStartedRequest c \<noteq> None"
  shows "\<exists>c' s' m. child_event x e c s = Inr (c', s') \<and> only_sends s [m] s' \<and> child_message uid m \<and>
    cp_ProcessStartedRequest c' = cp_ProcessStartedRequest c \<and>
    child_of uid (a + length (written Stdout [e])) (b + length (written Stderr [e])) c' \<and>
    message_slices Stdout m = zip (sequences a (length (written Stdout [e]))) (written Stdout [e]) \<and>
    message_slices Stderr m = zip (sequences b (length (written Stderr [e]))) (written Stderr [e])"
proof (cases e)
  case (WriteStdout data)
  obtain v s' where w: "Write x (cp_CmdStdout c) data s = Inr ((v, counted (cp_CmdStdout c) data), s')"
    and o: "only_sends s [FlStreamWrite
      (post_record (counted (cp_CmdStdout c) data) data (lx_now x (lc_calls s)))] s'"
    using Write_accepted [OF acc] by blast
  let ?c = "c\<lparr>cp_CmdStdout := counted (cp_CmdStdout c) data\<rparr>"
  have "child_event x e c s = Inr (?c, s')" using w WriteStdout by (simp add: child_event_def st_run)
  moreover have "child_of uid (Suc a) b ?c" using c by (simp add: child_of_def del: of_nat_Suc)
  ultimately show ?thesis
    using WriteStdout o c child_message_post [of "counted (cp_CmdStdout c) data" data]
    by (intro exI [of _ ?c] exI [of _ s'] exI) (auto simp: child_of_def unat_of_nat simp del: of_nat_Suc)
next
  case (WriteStderr data)
  obtain v s' where w: "Write x (cp_CmdStderr c) data s = Inr ((v, counted (cp_CmdStderr c) data), s')"
    and o: "only_sends s [FlStreamWrite
      (post_record (counted (cp_CmdStderr c) data) data (lx_now x (lc_calls s)))] s'"
    using Write_accepted [OF acc] by blast
  let ?c = "c\<lparr>cp_CmdStderr := counted (cp_CmdStderr c) data\<rparr>"
  have "child_event x e c s = Inr (?c, s')" using w WriteStderr by (simp add: child_event_def st_run)
  moreover have "child_of uid a (Suc b) ?c" using c by (simp add: child_of_def del: of_nat_Suc)
  ultimately show ?thesis
    using WriteStderr o c child_message_post [of "counted (cp_CmdStderr c) data" data]
    by (intro exI [of _ ?c] exI [of _ s'] exI) (auto simp: child_of_def unat_of_nat simp del: of_nat_Suc)
next
  case PingTick
  with ping obtain req where req: "cp_ProcessStartedRequest c = Some req" by auto
  then obtain s' p where "SubmitChildProcessPing x c s = Inr (None, s')" "only_sends s [FlProcessPing p] s'"
    "map pp_ProcessUid (ppr_Pings p) = [ps_ProcessUid req]"
    using SubmitChildProcessPing_accepted [OF acc] by metis
  with PingTick c req show ?thesis
    by (intro exI [of _ c] exI [of _ s'] exI [of _ "FlProcessPing p"])
       (auto simp: child_event_def st_run child_message_def child_of_def)
qed

lemma sequences_length [simp]: "length (sequences n k) = k"
  by (simp add: sequences_def)

lemma sequences_append:
  "sequences n j @ sequences (n + j) k = sequences n (j + k)"
  by (induction j arbitrary: n) (simp_all, metis add_Suc add_Suc_right)

lemma child_events_send:
  assumes acc: "\<And>n. lx_refuse x n = None" and c: "child_of uid a b c"
    and ping: "PingTick \<in> set es \<longrightarrow> cp_ProcessStartedRequest c \<noteq> None"
  shows "\<exists>c' s' ms. child_events x es c s = Inr (c', s') \<and> only_sends s ms s' \<and>
    (\<forall>m \<in> set ms. child_message uid m) \<and>
    cp_ProcessStartedRequest c' = cp_ProcessStartedRequest c \<and>
    child_of uid (a + length (written Stdout es)) (b + length (written Stderr es)) c' \<and>
    slices Stdout ms = zip (sequences a (length (written Stdout es))) (written Stdout es) \<and>
    slices Stderr ms = zip (sequences b (length (written Stderr es))) (written Stderr es)"
  using c ping
proof (induction es arbitrary: c a b s)
  case Nil
  then show ?case
    by (intro exI [of _ c] exI [of _ s] exI [of _ "[]"]) (simp add: st_run only_sends_refl)
next
  case (Cons e es)
  obtain c1 s1 m where e: "child_event x e c s = Inr (c1, s1)" "only_sends s [m] s1"
      "child_message uid m" "cp_ProcessStartedRequest c1 = cp_ProcessStartedRequest c"
    and c1: "child_of uid (a + length (written Stdout [e])) (b + length (written Stderr [e])) c1"
    and m: "message_slices Stdout m = zip (sequences a (length (written Stdout [e]))) (written Stdout [e])"
      "message_slices Stderr m = zip (sequences b (length (written Stderr [e]))) (written Stderr [e])"
    using child_event_sends [OF acc Cons.prems(1), of e s] Cons.prems(2) by auto
  obtain c2 s2 ms where es: "child_events x es c1 s1 = Inr (c2, s2)" "only_sends s1 ms s2"
      "\<forall>m \<in> set ms. child_message uid m" "cp_ProcessStartedRequest c2 = cp_ProcessStartedRequest c1"
    and c2: "child_of uid (a + length (written Stdout [e]) + length (written Stdout es))
      (b + length (written Stderr [e]) + length (written Stderr es)) c2"
    and ms: "slices Stdout ms = zip (sequences (a + length (written Stdout [e])) (length (written Stdout es)))
        (written Stdout es)"
      "slices Stderr ms = zip (sequences (b + length (written Stderr [e])) (length (written Stderr es)))
        (written Stderr es)"
    using Cons.IH [OF c1, of s1] Cons.prems(2) e(4) by auto
  have "written t (e # es) = written t [e] @ written t es" for t by (cases e) auto
  then show ?case
    using e es c2 m ms only_sends_trans [OF e(2) es(2)]
    by (intro exI [of _ c2] exI [of _ s2] exI [of _ "m # ms"])
       (auto simp: st_run sequences_append [symmetric] add.assoc)
qed

lemma SubmitChildProcessStart_accepted:
  assumes acc: "\<And>n. lx_refuse x n = None" and l: "lc_LaunchyProcessStartedRequest s = Some launchy"
  obtains req s' where "SubmitChildProcessStart x uid child err s = Inr (None, s')"
    and "req = child_request s launchy uid child err (lx_now x (lc_calls s))"
    and "lc_sent s' = lc_sent s @ [FlProcessStarted req]"
    and "lc_ChildProcess s' = Some (child\<lparr>cp_ProcessStartedRequest := Some req\<rparr>)"
    and "lc_processUid s' = lc_processUid s" and "lc_minionUid s' = lc_minionUid s"
  by (rule that [OF _ refl])
     (simp add: SubmitChildProcessStart_def st_run l Let_def nefario_send_accepted acc wrap_error_def,
      simp_all)

lemma SubmitChildProcessComplete_accepted:
  assumes acc: "\<And>n. lx_refuse x n = None" and c: "lc_ChildProcess s = Some child"
    and req: "cp_ProcessStartedRequest child = Some req"
  obtains s' fin where "SubmitChildProcessComplete x rr s = Inr (None, s')"
    and "lc_sent s' = lc_sent s @ [FlProcessCompleted fin]"
    and "pc_ProcessUid fin = ps_ProcessUid req" and "pc_ExitCode fin = rr_ExitCode rr"
    and "pc_ExitMessage fin = rr_ExitMessage rr"
  by (rule that)
     (simp add: SubmitChildProcessComplete_def st_run c req Let_def nefario_send_accepted acc
       wrap_error_def, simp, simp, simp, simp)

lemma child_request_simps [simp]:
  "ps_ProcessUid (child_request s l uid c e now) = uid"
  "ps_ParentProcessRunUid (child_request s l uid c e now) = lc_processUid s"
  "ps_MinionUid (child_request s l uid c e now) = lc_minionUid s"
  "ps_Channels (child_request s l uid c e now) = [''stderr'', ''stdout'']"
  by (simp_all add: child_request_def)

lemma written_append: "written t (es @ fs) = written t es @ written t fs"
  by (simp add: written_def)

lemma early_no_ping: "PingTick \<notin> set (early_events ws)"
  by (auto simp: early_events_def split: if_splits prod.splits)

text \<open>The child of a run before its start, and the first phase: its early output and its start.\<close>

definition new_child :: "launchy \<Rightarrow> child_run \<Rightarrow> ChildProcess" where
  "new_child s r = \<lparr>cp_Args = la_Command (lc_args s),
     cp_Pid = (case cr_start r of Inl e \<Rightarrow> None | Inr pid \<Rightarrow> Some pid),
     cp_ProcessStartedRequest = None, cp_CmdStdout = writer s (cr_uid r) Stdout,
     cp_CmdStderr = writer s (cr_uid r) Stderr\<rparr>"

definition start_error :: "child_run \<Rightarrow> go_error option" where
  "start_error r = (case cr_start r of Inl e \<Rightarrow> Some e | Inr pid \<Rightarrow> None)"

abbreviation early_written :: "child_run \<Rightarrow> Transport \<Rightarrow> bytes list" where
  "early_written r t \<equiv> written t (early_events (cr_early r))"

abbreviation numbered :: "nat \<Rightarrow> bytes list \<Rightarrow> (nat \<times> bytes) list" where
  "numbered n w \<equiv> zip (sequences n (length w)) w"

lemma run_first_phase:
  assumes acc: "\<And>n. lx_refuse x n = None" and l: "lc_LaunchyProcessStartedRequest s = Some launchy"
  obtains child1 s1 s2 early req where
    "child_events x (early_events (cr_early r)) (new_child s r) s = Inr (child1, s1)"
    "SubmitChildProcessStart x (cr_uid r) child1 (start_error r) s1 = Inr (None, s2)"
    "lc_sent s2 = lc_sent s @ early @ [FlProcessStarted req]"
    "lc_ChildProcess s2 = Some (child1\<lparr>cp_ProcessStartedRequest := Some req\<rparr>)"
    "\<forall>m \<in> set early. child_message (cr_uid r) m"
    "\<forall>t \<in> {Stdout, Stderr}. slices t early = numbered 0 (early_written r t)"
    "ps_ProcessUid req = cr_uid r" "ps_ParentProcessRunUid req = lc_processUid s"
    "ps_MinionUid req = lc_minionUid s" "ps_Channels req = [''stderr'', ''stdout'']"
    "child_of (cr_uid r) (length (early_written r Stdout)) (length (early_written r Stderr))
       (child1\<lparr>cp_ProcessStartedRequest := Some req\<rparr>)"
proof -
  have c0: "child_of (cr_uid r) 0 0 (new_child s r)" by (simp add: new_child_def child_of_def writer_def)
  obtain child1 s1 early where e1:
    "child_events x (early_events (cr_early r)) (new_child s r) s = Inr (child1, s1)"
    "only_sends s early s1" "\<forall>m \<in> set early. child_message (cr_uid r) m"
    and c1: "child_of (cr_uid r) (length (early_written r Stdout)) (length (early_written r Stderr)) child1"
    and sl: "\<forall>t \<in> {Stdout, Stderr}. slices t early = numbered 0 (early_written r t)"
    using child_events_send [OF acc c0, of "early_events (cr_early r)" s] early_no_ping by auto
  note o1 = only_sends_simps [OF e1(2)]
  obtain req s2 where st: "SubmitChildProcessStart x (cr_uid r) child1 (start_error r) s1 = Inr (None, s2)"
    and req: "req = child_request s1 launchy (cr_uid r) child1 (start_error r) (lx_now x (lc_calls s1))"
    and s2: "lc_sent s2 = lc_sent s1 @ [FlProcessStarted req]"
      "lc_ChildProcess s2 = Some (child1\<lparr>cp_ProcessStartedRequest := Some req\<rparr>)"
    using SubmitChildProcessStart_accepted [OF acc, of s1 launchy] o1 l by metis
  show thesis
    by (rule that [OF e1(1) st _ s2(2) e1(3) sl]) (use s2(1) o1 req c1 in \<open>auto simp: child_of_def\<close>)
qed

lemma child_run_reports:
  assumes "\<forall>n. lx_refuse x n = None" and "lc_LaunchyProcessStartedRequest s = Some launchy"
  shows "\<exists>s' early late req fin. RunChildProcess x r s = Inr (run_result (cr_wait r), s') \<and>
    lc_sent s' = lc_sent s @ early @ [FlProcessStarted req] @ late @ [FlProcessCompleted fin] \<and>
    ps_ProcessUid req = cr_uid r \<and> ps_ParentProcessRunUid req = lc_processUid s \<and>
    ps_MinionUid req = lc_minionUid s \<and> ps_Channels req = [''stderr'', ''stdout''] \<and>
    pc_ProcessUid fin = cr_uid r \<and> pc_ExitCode fin = rr_ExitCode (run_result (cr_wait r)) \<and>
    (\<forall>m \<in> set (early @ late). child_message (cr_uid r) m) \<and>
    (\<forall>t \<in> {Stdout, Stderr}. slices t (early @ late) =
       zip (sequences 0 (length (written t (early_events (cr_early r) @ cr_events r))))
         (written t (early_events (cr_early r) @ cr_events r))) \<and>
    lc_ProcessState s' = Stopped \<and> lc_ChildProcess s' = None \<and>
    lc_MostRecentExitCode s' = rr_ExitCode (run_result (cr_wait r))"
proof -
  have acc: "\<And>n. lx_refuse x n = None" using assms(1) by blast
  define s0 where "s0 = s\<lparr>lc_ProcessState := Starting\<rparr>"
  have "lc_LaunchyProcessStartedRequest s0 = Some launchy" using assms(2) by (simp add: s0_def)
  from run_first_phase [OF acc this, of r] obtain child1 s1 s2 early req where
    e1: "child_events x (early_events (cr_early r)) (new_child s0 r) s0 = Inr (child1, s1)"
      "SubmitChildProcessStart x (cr_uid r) child1 (start_error r) s1 = Inr (None, s2)"
      "lc_sent s2 = lc_sent s0 @ early @ [FlProcessStarted req]"
      "lc_ChildProcess s2 = Some (child1\<lparr>cp_ProcessStartedRequest := Some req\<rparr>)"
      "\<forall>m \<in> set early. child_message (cr_uid r) m"
    and sl1: "\<forall>t \<in> {Stdout, Stderr}. slices t early = numbered 0 (early_written r t)"
    and req: "ps_ProcessUid req = cr_uid r" "ps_ParentProcessRunUid req = lc_processUid s0"
      "ps_MinionUid req = lc_minionUid s0" "ps_Channels req = [''stderr'', ''stdout'']"
    and c2: "child_of (cr_uid r) (length (early_written r Stdout)) (length (early_written r Stderr))
       (child1\<lparr>cp_ProcessStartedRequest := Some req\<rparr>)"
    by blast
  let ?child2 = "child1\<lparr>cp_ProcessStartedRequest := Some req\<rparr>"
  obtain child3 s3 late where e3: "child_events x (cr_events r) ?child2 s2 = Inr (child3, s3)"
    "only_sends s2 late s3" "\<forall>m \<in> set late. child_message (cr_uid r) m"
    and sl3: "\<forall>t \<in> {Stdout, Stderr}. slices t late =
        numbered (length (early_written r t)) (written t (cr_events r))"
    using child_events_send [OF acc c2, of "cr_events r" s2] by auto
  note o3 = only_sends_simps [OF e3(2)]
  have "lc_ChildProcess s3 = Some ?child2" "cp_ProcessStartedRequest ?child2 = Some req"
    using o3 e1(4) by simp_all
  then obtain s4 fin where fin: "SubmitChildProcessComplete x (run_result (cr_wait r)) s3 = Inr (None, s4)"
    "lc_sent s4 = lc_sent s3 @ [FlProcessCompleted fin]" "pc_ProcessUid fin = ps_ProcessUid req"
    "pc_ExitCode fin = rr_ExitCode (run_result (cr_wait r))"
    by (rule SubmitChildProcessComplete_accepted [OF acc])
  let ?s' = "s4\<lparr>lc_MostRecentExitCode := rr_ExitCode (run_result (cr_wait r)), lc_ChildProcess := None,
    lc_ProcessState := Stopped\<rparr>"
  have "RunChildProcess x r s = Inr (run_result (cr_wait r), ?s')"
    using e1(1,2,4) e3(1) fin(1)
    by (simp add: RunChildProcess_def st_run Let_def s0_def [symmetric] new_child_def start_error_def)
  moreover have "slices t (early @ late) =
       numbered 0 (written t (early_events (cr_early r) @ cr_events r))" if "t \<in> {Stdout, Stderr}" for t
    using bspec [OF sl1 that] bspec [OF sl3 that]
    by (simp add: written_append sequences_append [of 0, simplified, symmetric])
  ultimately show ?thesis
    using o3 e1(3,5) fin e3(3) req
    by (intro exI [of _ ?s'] exI [of _ early] exI [of _ late] exI [of _ req] exI [of _ fin])
       (auto simp: s0_def)
qed

text \<open>
  C14. When nefario takes its messages, a run of a child never panics and reports itself completely
  and in order: everything it wrote before its start, the start under the launcher's uid, the rest,
  and one completion with its exit code; each output arrives whole and in order, numbered from 1; and
  the launcher ends without a child, stopped, with the exit code.
\<close>

theorem child_run_reported:
  assumes "\<forall>n. lx_refuse x n = None" and "lc_LaunchyProcessStartedRequest s = Some launchy"
  shows "\<exists>s' early late req fin. RunChildProcess x r s = Inr (run_result (cr_wait r), s') \<and>
    lc_sent s' = lc_sent s @ early @ [FlProcessStarted req] @ late @ [FlProcessCompleted fin] \<and>
    ps_ProcessUid req = cr_uid r \<and> ps_ParentProcessRunUid req = lc_processUid s \<and>
    ps_MinionUid req = lc_minionUid s \<and> ps_Channels req = [''stderr'', ''stdout''] \<and>
    pc_ProcessUid fin = cr_uid r \<and> pc_ExitCode fin = rr_ExitCode (run_result (cr_wait r)) \<and>
    (\<forall>m \<in> set (early @ late). child_message (cr_uid r) m) \<and>
    (\<forall>t \<in> {Stdout, Stderr}. slices t (early @ late) =
       zip (sequences 0 (length (written t (early_events (cr_early r) @ cr_events r))))
         (written t (early_events (cr_early r) @ cr_events r))) \<and>
    lc_ProcessState s' = Stopped \<and> lc_ChildProcess s' = None \<and>
    lc_MostRecentExitCode s' = rr_ExitCode (run_result (cr_wait r))"
  by (rule child_run_reports [OF assms])

section \<open>Where the output goes\<close>

lemma ScrubSubjectPart_channels [simp]:
  "ScrubSubjectPart ''console'' = ''console''" "ScrubSubjectPart ''stdout'' = ''stdout''"
  "ScrubSubjectPart ''stderr'' = ''stderr''"
  by (simp_all add: ScrubSubjectPart_def scrub_char_def Let_def)

text \<open>
  The output of a child is published where none of its streams listens: nefario creates a
  stream for each of the channels of its start, stderr and stdout, while every record is written to
  the console channel.
\<close>

theorem child_output_has_no_stream:
  assumes "\<forall>n. lx_refuse x n = None" and "lc_LaunchyProcessStartedRequest s = Some launchy"
    and "RunChildProcess x r s = Inr (rr, s')"
    and "FlProcessStarted req \<in> set (drop (length (lc_sent s)) (lc_sent s'))"
    and "FlStreamWrite w \<in> set (drop (length (lc_sent s)) (lc_sent s'))"
    and "ProcessStart cd nx req nf = (None, nf')"
  shows "\<exists>new. nf_streams nf' = nf_streams nf @ new \<and> length new = 2 \<and>
    (\<forall>c \<in> set new. ProcessSubjectName (sw_ProcessUid w) (sw_ChannelName w) \<notin> set (psc_Subjects c))"
proof -
  from child_run_reports [OF assms(1,2), of r] assms(3) obtain early late req0 fin where
    sent: "lc_sent s' = lc_sent s @ early @ [FlProcessStarted req0] @ late @ [FlProcessCompleted fin]"
    and req0: "ps_ProcessUid req0 = cr_uid r" "ps_Channels req0 = [''stderr'', ''stdout'']"
    and ms: "\<forall>m \<in> set (early @ late). child_message (cr_uid r) m"
    by auto
  have "req = req0" using assms(4) ms by (auto simp: sent child_message_def)
  moreover have "sw_ProcessUid w = cr_uid r" "sw_ChannelName w = ''console''"
    using assms(5) ms by (auto simp: sent child_message_def ConsoleChannelName_def)
  ultimately show ?thesis
    using started_streams [OF assms(6)] req0
    by (simp add: process_stream_def ProcessSubjectName_def NewSubject_def)
qed

section \<open>Two children at once\<close>

text \<open>
  A second request to start that arrives before the first run has started its command starts a
  second run, and the end of the later one dereferences the child the earlier end removed: the
  launcher can always reach a panic, whatever its arguments.
\<close>

theorem double_start_panics:
  "\<exists>c. (run_step args)\<^sup>*\<^sup>* (initial_control args) c \<and> ctl_panic c"
proof -
  define c2 where "c2 = \<lparr>ctl_submitted = 2, ctl_running = 0, ctl_child = False, ctl_cancelled = False,
    ctl_panic = False\<rparr>"
  have req: "run_step args c (c\<lparr>ctl_submitted := Suc (ctl_submitted c)\<rparr>)"
    if "\<not> ctl_panic c" "\<not> ctl_cancelled c" "\<not> ctl_child c" for c
    using run_step.start_request [of c args] that by simp
  have s2: "(run_step args)\<^sup>*\<^sup>* (initial_control args) c2"
  proof (cases "la_NoStart args")
    case True
    have "run_step args (initial_control args) (initial_control args\<lparr>ctl_submitted := 1\<rparr>)"
      using req [of "initial_control args"] True by (simp add: initial_control_def)
    moreover have "run_step args (initial_control args\<lparr>ctl_submitted := 1\<rparr>) c2"
      using req [of "initial_control args\<lparr>ctl_submitted := 1\<rparr>"] True
      by (simp add: initial_control_def c2_def numeral_2_eq_2)
    ultimately show ?thesis by (meson converse_rtranclp_into_rtranclp rtranclp.rtrancl_refl)
  next
    case False
    then show ?thesis using req [of "initial_control args"]
      by (intro r_into_rtranclp) (simp add: initial_control_def c2_def numeral_2_eq_2)
  qed
  let ?x = "\<not> la_NoExit args"
  have b1: "run_step args c2 (c2\<lparr>ctl_submitted := 1, ctl_running := 1, ctl_child := True\<rparr>)"
    using run_step.run_begins [of c2 1 args] by (simp add: c2_def)
  have b2: "run_step args (c2\<lparr>ctl_submitted := 1, ctl_running := 1, ctl_child := True\<rparr>)
      (c2\<lparr>ctl_submitted := 0, ctl_running := 2, ctl_child := True\<rparr>)"
    using run_step.run_begins [of "c2\<lparr>ctl_submitted := 1, ctl_running := 1, ctl_child := True\<rparr>" 0 args]
    by (simp add: c2_def numeral_2_eq_2)
  have e1: "run_step args (c2\<lparr>ctl_submitted := 0, ctl_running := 2, ctl_child := True\<rparr>)
      (c2\<lparr>ctl_submitted := 0, ctl_running := 1, ctl_child := False, ctl_cancelled := ?x\<rparr>)"
    using run_step.run_ends [of "c2\<lparr>ctl_submitted := 0, ctl_running := 2, ctl_child := True\<rparr>" 1 args]
    by (simp add: c2_def)
  have e2: "run_step args (c2\<lparr>ctl_submitted := 0, ctl_running := 1, ctl_child := False, ctl_cancelled := ?x\<rparr>)
      (c2\<lparr>ctl_submitted := 0, ctl_running := 1, ctl_child := False, ctl_cancelled := ?x, ctl_panic := True\<rparr>)"
    using run_step.run_ends_panic
        [of "c2\<lparr>ctl_submitted := 0, ctl_running := 1, ctl_child := False, ctl_cancelled := ?x\<rparr>" 0 args]
    by (simp add: c2_def)
  from s2 b1 b2 e1 e2 have "(run_step args)\<^sup>*\<^sup>* (initial_control args)
      (c2\<lparr>ctl_submitted := 0, ctl_running := 1, ctl_child := False, ctl_cancelled := ?x, ctl_panic := True\<rparr>)"
    by (meson rtranclp.rtrancl_into_rtrancl)
  then show ?thesis by (intro exI conjI) (assumption, simp)
qed

section \<open>Examples\<close>

definition demo_lx :: launchy_ext where
  "demo_lx = \<lparr>lx_refuse = (\<lambda>_. None), lx_now = int, lx_getwd = Inr ''/'', lx_os_args = [],
     lx_os_pid = 1, lx_pass = (\<lambda>bs. (length bs, None))\<rparr>"

definition demo_args :: LaunchArgs where
  "demo_args = \<lparr>la_TraceLogging = False, la_Logging = False, la_NoExit = False,
     la_ConsolePassThru = False, la_Category = ''c'', la_NoStart = False, la_Command = [''run''],
     la_MinionUid = ''m'', la_ExtraData = ''{}''\<rparr>"

definition demo_launcher :: launchy where
  "demo_launcher = \<lparr>lc_args = demo_args, lc_processUid = ''lp'', lc_minionUid = [],
     lc_ProcessState = Stopped, lc_MostRecentExitCode = -1, lc_ChildProcess = None,
     lc_LaunchyProcessStartedRequest = Some demo_start, lc_cancelled = False, lc_signals = [],
     lc_sent = [], lc_calls = 0\<rparr>"

definition demo_run :: child_run where
  "demo_run = \<lparr>cr_uid = ''kid'', cr_start = Inr 9, cr_early = [(True, [1])],
     cr_events = [WriteStdout [2], PingTick, WriteStderr [3]], cr_wait = WaitExit 3 (GoErr ''exit'')\<rparr>"

theorem child_run_reported_witness:
  "\<exists>s' ms. RunChildProcess demo_lx demo_run demo_launcher =
       Inr (\<lparr>rr_ExitCode = 3, rr_ExitMessage = ''exit''\<rparr>, s') \<and>
     slices Stdout ms = [(1, [1]), (2, [2])] \<and> lc_ProcessState s' = Stopped"
proof -
  have "\<forall>n. lx_refuse demo_lx n = None"
    and "lc_LaunchyProcessStartedRequest demo_launcher = Some demo_start"
    by (simp_all add: demo_lx_def demo_launcher_def)
  note run = child_run_reported [OF this, of demo_run]
  have "run_result (cr_wait demo_run) = \<lparr>rr_ExitCode = 3, rr_ExitMessage = ''exit''\<rparr>"
    by (simp add: demo_run_def run_result_def)
  moreover have "numbered 0 (written Stdout (early_events (cr_early demo_run) @ cr_events demo_run)) =
      [(1, [1]), (2, [2])]"
    by (simp add: demo_run_def early_events_def)
  moreover obtain s' early late where
    "RunChildProcess demo_lx demo_run demo_launcher = Inr (run_result (cr_wait demo_run), s')"
    "\<forall>t \<in> {Stdout, Stderr}. slices t (early @ late) =
       numbered 0 (written t (early_events (cr_early demo_run) @ cr_events demo_run))"
    "lc_ProcessState s' = Stopped"
    using run by blast
  ultimately show ?thesis by (intro exI [of _ s'] exI [of _ "early @ late"]) simp
qed

theorem child_output_has_no_stream_witness:
  "\<exists>w (nf' :: nefario). FlStreamWrite w \<in> set (lc_sent (snd (projr (RunChildProcess demo_lx demo_run demo_launcher)))) \<and>
     length (nf_streams nf') = 2 \<and>
     (\<forall>c \<in> set (nf_streams nf'). ProcessSubjectName (sw_ProcessUid w) (sw_ChannelName w) \<notin>
        set (psc_Subjects c))"
proof -
  have pre: "\<forall>n. lx_refuse demo_lx n = None"
    "lc_LaunchyProcessStartedRequest demo_launcher = Some demo_start" and l0: "lc_sent demo_launcher = []"
    by (simp_all add: demo_lx_def demo_launcher_def)
  obtain s' early req late fin where run: "RunChildProcess demo_lx demo_run demo_launcher =
      Inr (run_result (cr_wait demo_run), s')"
    and sent: "lc_sent s' = early @ [FlProcessStarted req] @ late @ [FlProcessCompleted fin]"
    and req: "ps_MinionUid req = []" "ps_Channels req = [''stderr'', ''stdout'']"
    and ms: "\<forall>m \<in> set (early @ late). child_message (cr_uid demo_run) m"
    and sl: "slices Stdout (early @ late) =
      numbered 0 (written Stdout (early_events (cr_early demo_run) @ cr_events demo_run))"
    using child_run_reports [OF pre, of demo_run] l0 by (auto simp: demo_launcher_def)
  have "slices Stdout (early @ late) \<noteq> []" unfolding sl by (simp add: demo_run_def early_events_def)
  then obtain m where m: "m \<in> set (early @ late)" "message_slices Stdout m \<noteq> []"
    by (auto simp: slices_def)
  with ms obtain w where w: "m = FlStreamWrite w"
    by (cases m) (auto simp: message_slices_def child_message_def)
  have wsent: "FlStreamWrite w \<in> set (lc_sent s')" and rsent: "FlProcessStarted req \<in> set (lc_sent s')"
    using m(1) w by (auto simp: sent)
  let ?nf = "demo_nf 3\<lparr>nf_calls := 3\<rparr>"
  have "fst (ProcessStart demo_ncd demo_nx req ?nf) = None"
    by (simp add: ProcessStart_def start_queries_def WithQueries_def ext_call_def try_then_def
        InsertStartDto_def db_exec_def row_insert_def AddStream_def nats_add_stream_def eop_ok_def
        start_request_def req demo_nx_def demo_nf_def Let_def)
  then have "ProcessStart demo_ncd demo_nx req ?nf = (None, snd (ProcessStart demo_ncd demo_nx req ?nf))"
    by (simp add: prod_eq_iff)
  from child_output_has_no_stream [OF pre run _ _ this, of w] wsent rsent l0
  have "length (nf_streams (snd (ProcessStart demo_ncd demo_nx req ?nf))) = 2 \<and>
      (\<forall>c \<in> set (nf_streams (snd (ProcessStart demo_ncd demo_nx req ?nf))).
        ProcessSubjectName (sw_ProcessUid w) (sw_ChannelName w) \<notin> set (psc_Subjects c))"
    by (auto simp: demo_nf_def)
  with wsent have "\<exists>w (nf' :: nefario). FlStreamWrite w \<in> set (lc_sent s') \<and> length (nf_streams nf') = 2 \<and>
      (\<forall>c \<in> set (nf_streams nf'). ProcessSubjectName (sw_ProcessUid w) (sw_ChannelName w) \<notin>
        set (psc_Subjects c))" by blast
  then show ?thesis by (simp add: run)
qed

end
