(* ===== verification/LaunchyAgent.thy ===== *)
theory LaunchyAgent
  imports LaunchyController A8
begin

text \<open>
  The minion agent, \<open>src/launchy/agent.go\<close> and \<open>systemctl-utils.go\<close>: the commands it runs, what it
  answers to its rpcs, its own life cycle, and the pass that reconciles the services of systemd with
  the records nefario keeps. Running a command, parsing systemctl's table (a third-party package) and
  the rpcs to nefario are parameters.
\<close>

section \<open>Commands and systemctl\<close>

definition RunLinuxCommand :: "string list \<Rightarrow> string \<Rightarrow> string list \<Rightarrow> string \<times> string list" where
  "RunLinuxCommand prefix name args =
     (let ca = prefix @ [name] @ args in (hd ca, tl ca))"

text \<open>The bullet is one rune of three bytes; trimming knows the ASCII white space.\<close>

definition bullet :: string where "bullet = map char_of [0xE2 :: nat, 0x97, 0x8F]"

definition scrub_line :: "string \<Rightarrow> string" where
  "scrub_line line =
     strings_TrimSpace
       (if strings_HasPrefix line bullet then drop 3 line
        else if strings_HasPrefix line ''*'' then drop 1 line
        else line)"

definition scrubSystemCtlOutput :: "string \<Rightarrow> string" where
  "scrubSystemCtlOutput output =
     strings_Join (map scrub_line (strings_Split (CHR 0x0A) output)) [CHR 0x0A]"

record SystemdUnitInfo =
  ui_Unit :: string
  ui_Load :: string
  ui_Active :: string
  ui_Sub :: string
  ui_Description :: string

record ListSystemdServicesResponse =
  lr_Services :: "SystemdUnitInfo list"
  lr_ErrorMessage :: string
  lr_ErrorOutput :: string

record parsed_unit =
  pu_Name :: string
  pu_Loaded :: string
  pu_State :: string
  pu_Status :: string
  pu_Description :: string

definition unit_info :: "parsed_unit \<Rightarrow> SystemdUnitInfo" where
  "unit_info item = \<lparr>ui_Unit = pu_Name item, ui_Load = pu_Loaded item, ui_Active = pu_State item,
     ui_Sub = pu_Status item, ui_Description = pu_Description item\<rparr>"

text \<open>The response carries the error; the error answered is always nil.\<close>

definition RpcSystemctlListSystemdServices ::
  "(bytes \<Rightarrow> go_error + parsed_unit list) \<Rightarrow> bytes \<times> go_error option \<Rightarrow> ListSystemdServicesResponse"
  where
  "RpcSystemctlListSystemdServices parse out =
     (let outputStr = scrubSystemCtlOutput (bytes_to_string (fst out))
      in case snd out of
           Some err \<Rightarrow> \<lparr>lr_Services = [], lr_ErrorMessage = error_text err, lr_ErrorOutput = outputStr\<rparr>
         | None \<Rightarrow>
             (case parse (string_to_bytes outputStr) of
                Inl err \<Rightarrow> \<lparr>lr_Services = [],
                  lr_ErrorMessage = error_text (WrapErr ''error parsing systemctl output'' err),
                  lr_ErrorOutput = outputStr\<rparr>
              | Inr items \<Rightarrow> \<lparr>lr_Services = map unit_info items, lr_ErrorMessage = [],
                  lr_ErrorOutput = []\<rparr>))"

text \<open>\<open>None\<close> is a nil slice.\<close>

definition parseServicesStatus ::
  "(ListSystemdServicesResponse \<Rightarrow> go_error + bytes) \<Rightarrow> (SystemdUnitInfo \<Rightarrow> go_error + bytes) \<Rightarrow>
   ListSystemdServicesResponse \<Rightarrow> string \<Rightarrow> go_error + bytes option" where
  "parseServicesStatus marshal_all marshal_one services serviceName =
     (if serviceName = [] then
        (case marshal_all services of
           Inl err \<Rightarrow> Inl (WrapErr ''error marshalling systemctl services status to json'' err)
         | Inr bs \<Rightarrow> Inr (Some bs))
      else
        (case List.find (\<lambda>service. ui_Unit service = serviceName) (lr_Services services) of
           None \<Rightarrow> Inr None
         | Some service \<Rightarrow>
             (case marshal_one service of
                Inl err \<Rightarrow> Inl (WrapErr ''error marshalling single systemctl service status'' err)
              | Inr bs \<Rightarrow> Inr (Some bs))))"

datatype SystemdAction = UnspecifiedSA | Stop | Start | Restart | Cat | Status

definition SystemdAction_name :: "SystemdAction \<Rightarrow> string" where
  "SystemdAction_name a =
     (case a of UnspecifiedSA \<Rightarrow> ''UnspecifiedSA'' | Stop \<Rightarrow> ''Stop'' | Start \<Rightarrow> ''Start''
      | Restart \<Rightarrow> ''Restart'' | Cat \<Rightarrow> ''Cat'' | Status \<Rightarrow> ''Status'')"

record SystemdServiceActionResponse =
  ar_CommandOutput :: string
  ar_ErrorMessage :: string

definition RpcSystemdServiceAction ::
  "bool \<Rightarrow> (string list \<Rightarrow> bytes \<times> go_error option) \<Rightarrow>
   (ListSystemdServicesResponse \<Rightarrow> string \<Rightarrow> go_error + bytes option) \<Rightarrow> ListSystemdServicesResponse \<Rightarrow>
   SystemdAction \<Rightarrow> string \<Rightarrow> go_error + SystemdServiceActionResponse" where
  "RpcSystemdServiceAction isLinux run_command parse_status servicesList action serviceName =
     (let actionName = strings_ToLower (SystemdAction_name action);
          respond = (\<lambda>output err. \<lparr>ar_CommandOutput = bytes_to_string output,
             ar_ErrorMessage = (case err of None \<Rightarrow> [] | Some e \<Rightarrow> error_text e)\<rparr>)
      in if isLinux then
           (if action = Status then
              (case parse_status servicesList serviceName of
                 Inl err \<Rightarrow> Inl (WrapErr ''error parseServicesStatus'' err)
               | Inr output \<Rightarrow> Inr (respond (case output of None \<Rightarrow> [] | Some bs \<Rightarrow> bs) None))
            else
              (case run_command [''systemctl'', ''--user'', actionName, serviceName] of
                 (output, err) \<Rightarrow> Inr (respond output err)))
         else Inr (respond (string_to_bytes ''fake output'') None))"

section \<open>Installation\<close>

datatype install_op =
    OpRemoveAll string
  | OpMkdirAll string
  | OpWriteFile string string
  | OpCommand "string list"

text \<open>The operations performed, and the panic of the first that failed.\<close>

fun install_ops ::
  "(install_op \<Rightarrow> go_error option) \<Rightarrow> (string \<times> install_op) list \<Rightarrow> install_op list \<times> go_panic option"
  where
  "install_ops outside [] = ([], None)"
| "install_ops outside ((label, op) # ops) =
     (case outside op of
        Some err \<Rightarrow> ([op], Some (PanicMsg (error_text (WrapErr label err))))
      | None \<Rightarrow> (let (done, p) = install_ops outside ops in (op # done, p)))"

definition unit_file :: "string \<Rightarrow> string \<Rightarrow> string" where
  "unit_file execDir execPath =
     (let nl = [CHR 0x0A]
      in ''[Unit]'' @ nl @ ''Description=minion agent runner'' @ nl @ nl @
         ''[Service]'' @ nl @ ''Type=simple'' @ nl @ ''WorkingDirectory='' @ execDir @ nl @
         ''StandardOutput=journal'' @ nl @ ''ExecStart='' @ execPath @ '' --trace agent'' @ nl @ nl @
         ''[Install]'' @ nl @ ''WantedBy=default.target'' @ nl)"

definition InstallAgent ::
  "(install_op \<Rightarrow> go_error option) \<Rightarrow> (string \<Rightarrow> string) \<Rightarrow> (string \<Rightarrow> string \<Rightarrow> string) \<Rightarrow>
   (string \<Rightarrow> bool \<times> go_error option) \<Rightarrow> go_error + string \<Rightarrow> go_error + string \<Rightarrow>
   install_op list \<times> go_panic option" where
  "InstallAgent outside filepath_Dir filepath_Join DirExists executable home =
     (case executable of
        Inl err \<Rightarrow> ([], None)
      | Inr execPath \<Rightarrow>
          (case home of
             Inl err \<Rightarrow> ([], Some (PanicMsg (error_text (WrapErr ''error getting user home dir'' err))))
           | Inr userHome \<Rightarrow>
               let systemdUserDir = filepath_Join userHome ''.config/systemd/user''
               in (case DirExists systemdUserDir of
                     (_, Some err) \<Rightarrow> ([], Some (PanicMsg (error_text
                        (WrapErr (''error checking for systemd user dir '' @ systemdUserDir) err))))
                   | (exists, None) \<Rightarrow>
                       install_ops outside
                         ((if \<not> exists then [(''error removing systemd user dir '' @ systemdUserDir,
                                              OpRemoveAll systemdUserDir)] else []) @
                          [(''error creating systemd user dir '' @ systemdUserDir, OpMkdirAll systemdUserDir),
                           (''error writing unit file '' @ filepath_Join systemdUserDir ''minion.service'',
                            OpWriteFile (filepath_Join systemdUserDir ''minion.service'')
                              (unit_file (filepath_Dir execPath) execPath)),
                           (''error running systemctl daemon-reload'',
                            OpCommand [''systemctl'', ''--user'', ''daemon-reload'']),
                           (''error running systemctl enable'',
                            OpCommand [''systemctl'', ''--user'', ''enable'', ''minion.service'']),
                           (''error running systemctl start'',
                            OpCommand [''systemctl'', ''--user'', ''start'', ''minion.service''])]))))"

section \<open>Reconciling the services\<close>

definition getStatus :: "SystemdUnitInfo \<Rightarrow> SystemdServiceStatus" where
  "getStatus u =
     (if ui_Sub u = ''running'' then StatusRunning
      else if ui_Sub u = ''dead'' then StatusStopped
      else StatusUnknown)"

definition toServiceUnitJson :: "SystemdUnitInfo \<Rightarrow> ServiceUnitJson" where
  "toServiceUnitJson u = \<lparr>uj_Status = getStatus u, uj_StatusSource = ''systemctl'',
     uj_UnitExists = True, uj_UnitDescription = ui_Description u, uj_UnitName = ui_Unit u\<rparr>"

record ServiceRecordDto =
  srd_Uid :: string
  srd_Name :: string
  srd_MinionUid :: string
  srd_MinionEnabled :: bool

definition mark_gone :: "ServiceUnitJson \<Rightarrow> ServiceUnitJson" where
  "mark_gone u = u\<lparr>uj_UnitExists := False, uj_Status := StatusUnspecified,
     uj_StatusSource := ''service not showing in systemctl''\<rparr>"

text \<open>
  One name of the pass: the action for nefario, if any, and the record as it is after it. The
  comparison is a parameter: \<open>reflect.DeepEqual\<close> also looks at the internal state of the messages.
\<close>

definition slurp_action ::
  "(ServiceUnitJson \<Rightarrow> ServiceUnitJson option \<Rightarrow> bool) \<Rightarrow> string \<Rightarrow> string \<Rightarrow> string \<Rightarrow>
   SystemdUnitInfo option \<Rightarrow> ServiceRecord option \<Rightarrow>
   (SystemdServiceRecordCrud list \<times> ServiceRecord option) run" where
  "slurp_action deepEqual minionUid uid serviceName actual inDb =
     (case (actual, inDb) of
        (Some a, Some d) \<Rightarrow>
          let u = toServiceUnitJson a
          in if \<not> deepEqual u (sr_UnitJson d) then
               let d' = d\<lparr>sr_UnitJson := Some u\<rparr>
               in Inr ([\<lparr>sc_Action = CrudUpdate, sc_Record = Some d'\<rparr>], Some d')
             else Inr ([], Some d)
      | (Some a, None) \<Rightarrow>
          let d' = \<lparr>sr_Uid = uid, sr_Name = serviceName, sr_MinionUid = minionUid,
                    sr_MinionEnabled = False, sr_UnitJson = Some (toServiceUnitJson a)\<rparr>
          in Inr ([\<lparr>sc_Action = CrudInsert, sc_Record = Some d'\<rparr>], Some d')
      | (None, Some d) \<Rightarrow>
          run_bind (deref (sr_UnitJson d)) (\<lambda>u.
            if uj_UnitExists u then
              let d' = d\<lparr>sr_UnitJson := Some (mark_gone u)\<rparr>
              in Inr ([\<lparr>sc_Action = CrudUpdate, sc_Record = Some d'\<rparr>], Some d')
            else Inr ([], Some d))
      | (None, None) \<Rightarrow> Inr ([], None))"

definition service_dto :: "ServiceRecord \<Rightarrow> ServiceRecordDto" where
  "service_dto r = \<lparr>srd_Uid = sr_Uid r, srd_Name = sr_Name r, srd_MinionUid = sr_MinionUid r,
     srd_MinionEnabled = sr_MinionEnabled r\<rparr>"

text \<open>
  The loop over the names: \<open>known\<close> are the services the agent knows by name. Each new record draws a
  random uid from \<open>uid\<close> at the number of its name in the walk.
\<close>

fun slurp_names ::
  "(ServiceUnitJson \<Rightarrow> ServiceUnitJson option \<Rightarrow> bool) \<Rightarrow> string \<Rightarrow> (string \<Rightarrow> string) \<Rightarrow>
   (string \<Rightarrow> SystemdUnitInfo option) \<Rightarrow> (string \<Rightarrow> ServiceRecord option) \<Rightarrow> string list \<Rightarrow>
   (string \<Rightarrow> ServiceRecordDto option) \<Rightarrow>
   (SystemdServiceRecordCrud list \<times> (string \<Rightarrow> ServiceRecordDto option)) run" where
  "slurp_names eq m uid actual db [] known = Inr ([], known)"
| "slurp_names eq m uid actual db (name # names) known =
     run_bind (slurp_action eq m (uid name) name (actual name) (db name)) (\<lambda>(acts, inDb).
     run_bind (if known name = None
               then run_bind (deref inDb) (\<lambda>r. Inr (known(name \<mapsto> service_dto r)))
               else Inr known) (\<lambda>known'.
     run_bind (slurp_names eq m uid actual db names known') (\<lambda>(rest, known'').
       Inr (acts @ rest, known''))))"

definition units_by_name :: "SystemdUnitInfo list \<Rightarrow> string \<Rightarrow> SystemdUnitInfo option" where
  "units_by_name units = fold (\<lambda>u m. m(ui_Unit u \<mapsto> u)) units Map.empty"

definition records_by_name :: "ServiceRecord list \<Rightarrow> string \<Rightarrow> ServiceRecord option" where
  "records_by_name records = fold (\<lambda>r m. m(sr_Name r \<mapsto> r)) records Map.empty"

text \<open>
  \<open>walk1\<close> and \<open>walk2\<close> are the orders in which the keys of the two maps are listed. The actions are
  sent when there are any; \<open>send\<close> is nefario's answer.
\<close>

definition slurp_pass ::
  "(ServiceUnitJson \<Rightarrow> ServiceUnitJson option \<Rightarrow> bool) \<Rightarrow> string \<Rightarrow> (string \<Rightarrow> string) \<Rightarrow>
   string list \<Rightarrow> string list \<Rightarrow> SystemdUnitInfo list \<Rightarrow> ServiceRecord list \<Rightarrow>
   (string \<Rightarrow> ServiceRecordDto option) \<Rightarrow>
   (SystemdServiceRecordCrud list \<times> (string \<Rightarrow> ServiceRecordDto option)) run" where
  "slurp_pass eq m uid walk1 walk2 actualServices servicesInDb known =
     slurp_names eq m uid (units_by_name actualServices) (records_by_name servicesInDb)
       (RemoveDupes (walk1 @ walk2)) known"

definition RunServiceSlurpLoopOnce ::
  "(ServiceUnitJson \<Rightarrow> ServiceUnitJson option \<Rightarrow> bool) \<Rightarrow> string \<Rightarrow> (string \<Rightarrow> string) \<Rightarrow>
   string list \<Rightarrow> string list \<Rightarrow> ListSystemdServicesResponse \<Rightarrow> go_error + ServiceRecord list \<Rightarrow>
   (SystemdServiceRecordCrud list \<Rightarrow> go_error option) \<Rightarrow> (string \<Rightarrow> ServiceRecordDto option) \<Rightarrow>
   (go_error option \<times> SystemdServiceRecordCrud list \<times> (string \<Rightarrow> ServiceRecordDto option)) run" where
  "RunServiceSlurpLoopOnce eq m uid walk1 walk2 fromSystemCtl fromDb send known =
     (case fromDb of
        Inl err \<Rightarrow> Inr (Some (WrapErr ''error listing systemd services in db''
                          (WrapErr ''NefarioListSystemdServiceRecords error'' err)), [], known)
      | Inr records \<Rightarrow>
          run_bind (slurp_pass eq m uid walk1 walk2 (lr_Services fromSystemCtl) records known)
            (\<lambda>(acts, known').
            if acts \<noteq> [] then
              (case send acts of
                 Some err \<Rightarrow> Inr (Some (WrapErr ''error sending systemd service crud actions''
                              (WrapErr ''NefarioSystemdServiceRecordCrud error'' err)), acts, known')
               | None \<Rightarrow> Inr (None, acts, known'))
            else Inr (None, [], known')))"

section \<open>The agent's own process\<close>

definition minion_request :: "launchy_ext \<Rightarrow> string \<Rightarrow> string \<Rightarrow> string \<Rightarrow> string \<Rightarrow> int \<Rightarrow> ProcessStartedRequest"
  where
  "minion_request x processUid minionUid category cwd now =
     \<lparr>ps_ProcessUid = processUid, ps_ParentProcessRunUid = [], ps_ProcessPid = lx_os_pid x,
      ps_MinionUid = minionUid, ps_ServiceUid = [], ps_StartedAt = Some (NowTimeStamp now),
      ps_Command = lx_os_args x, ps_Cwd = cwd, ps_Env = [], ps_Category = category,
      ps_Channels = [], ps_Controllable = True, ps_LaunchError = [], ps_Kind = ''minion'',
      ps_ExtraDataJsonStr = []\<rparr>"

datatype lifecycle_input = LifecycleTick | LifecycleDone

text \<open>\<open>None\<close> while there is no input; an error of a ping ends the process without a completion.\<close>

fun lifecycle_loop :: "launchy_ext \<Rightarrow> string \<Rightarrow> lifecycle_input list \<Rightarrow> (go_error option option) lop" where
  "lifecycle_loop x uid [] = st_return None"
| "lifecycle_loop x uid (LifecycleDone # ins) =
     st_bind (nefario_send x (\<lambda>now. FlProcessCompleted
       \<lparr>pc_ProcessUid = uid, pc_ExitCode = 0, pc_ExitMessage = ''complete'',
        pc_CompletedAt = Some (NowTimeStamp now)\<rparr>)) (\<lambda>err.
     st_return (Some (wrap_error ''NefarioClient.ProcessCompleted error'' err)))"
| "lifecycle_loop x uid (LifecycleTick # ins) =
     st_bind (nefario_send x (\<lambda>now. FlProcessPing (ProcessPingReq now
         \<lparr>pp_ProcessUid = uid, pp_ChannelSizes = []\<rparr>))) (\<lambda>err.
       case err of
         Some e \<Rightarrow> st_return (Some (Some (WrapErr ''NefarioClient.ProcessPing error'' e)))
       | None \<Rightarrow> lifecycle_loop x uid ins)"

definition RunMinionLifecycle ::
  "launchy_ext \<Rightarrow> string \<Rightarrow> string \<Rightarrow> string \<Rightarrow> string \<Rightarrow> lifecycle_input list \<Rightarrow>
   (go_error option option) lop" where
  "RunMinionLifecycle x uid minionUid category mailbox ins =
     (case lx_getwd x of
        Inl err \<Rightarrow> st_return (Some (Some (WrapErr ''error getting cwd'' err)))
      | Inr cwd \<Rightarrow>
          st_bind (nefario_send x (\<lambda>now. FlProcessStarted (minion_request x uid minionUid category cwd now)))
            (\<lambda>err. case err of
               Some e \<Rightarrow> st_return (Some (Some (WrapErr ''NefarioClient.ProcessStart error'' e)))
             | None \<Rightarrow>
                 st_bind (nefario_send x (\<lambda>now. FlUpdateMailbox
                    \<lparr>um_ProcessUid = uid, um_Mailbox = mailbox\<rparr>)) (\<lambda>err. case err of
                   Some e \<Rightarrow> st_return (Some (Some (WrapErr ''NefarioClient.UpdateMailbox error'' e)))
                 | None \<Rightarrow> lifecycle_loop x uid ins)))"

end
