(* ===== verification/LaunchyAgentProps.thy ===== *)
theory LaunchyAgentProps
  imports LaunchyAgent NefarioProps
begin

text \<open>
  The pass that reconciles systemd's services with nefario's records: what it makes of the records,
  that nefario's statements do to the records what the pass means, and that a second pass sends
  nothing.
\<close>

section \<open>Records by name\<close>

definition db_wf :: "ServiceRecord list \<Rightarrow> bool" where
  "db_wf recs \<longleftrightarrow> distinct (map sr_Name recs) \<and> distinct (map sr_Uid recs) \<and>
     (\<forall>r \<in> set recs. sr_UnitJson r \<noteq> None)"

lemma fold_by_key:
  "distinct (map k xs) \<Longrightarrow> fold (\<lambda>x m. m(k x \<mapsto> x)) xs m n = Some y \<longleftrightarrow>
     y \<in> set xs \<and> k y = n \<or> n \<notin> k ` set xs \<and> m n = Some y"
  by (induction xs arbitrary: m) auto

lemma records_by_name_Some:
  "distinct (map sr_Name recs) \<Longrightarrow>
     records_by_name recs n = Some r \<longleftrightarrow> r \<in> set recs \<and> sr_Name r = n"
  by (simp add: records_by_name_def fold_by_key)

definition apply_crud :: "SystemdServiceRecordCrud \<Rightarrow> ServiceRecord list \<Rightarrow> ServiceRecord list" where
  "apply_crud c recs =
     (case sc_Record c of
        None \<Rightarrow> recs
      | Some r \<Rightarrow>
          (case sc_Action c of
             CrudInsert \<Rightarrow> recs @ [r]
           | CrudUpdate \<Rightarrow> map (\<lambda>q. if sr_Uid q = sr_Uid r then q\<lparr>sr_UnitJson := sr_UnitJson r\<rparr> else q) recs
           | _ \<Rightarrow> recs))"

definition unit_of :: "ServiceRecord list \<Rightarrow> string \<Rightarrow> ServiceUnitJson option" where
  "unit_of recs n = Option.bind (records_by_name recs n) sr_UnitJson"

text \<open>What the unit of a name should be, from systemd's unit and the recorded one.\<close>

definition target :: "SystemdUnitInfo option \<Rightarrow> ServiceUnitJson option \<Rightarrow> ServiceUnitJson option" where
  "target actual u =
     (case actual of Some a \<Rightarrow> Some (toServiceUnitJson a)
      | None \<Rightarrow> map_option (\<lambda>u. if uj_UnitExists u then mark_gone u else u) u)"

lemma find_append_name:
  "distinct (map sr_Name (recs @ [r])) \<Longrightarrow>
     records_by_name (recs @ [r]) n = (if n = sr_Name r then Some r else records_by_name recs n)"
  by (simp add: records_by_name_def)

definition set_unit :: "string \<Rightarrow> ServiceUnitJson option \<Rightarrow> ServiceRecord list \<Rightarrow> ServiceRecord list" where
  "set_unit uid u recs = map (\<lambda>q. if sr_Uid q = uid then q\<lparr>sr_UnitJson := u\<rparr> else q) recs"

lemma set_unit_keys [simp]:
  "map sr_Name (set_unit uid u recs) = map sr_Name recs"
  "map sr_Uid (set_unit uid u recs) = map sr_Uid recs"
  by (induction recs) (auto simp: set_unit_def)

lemma set_unit_lookup:
  assumes "db_wf recs" and "records_by_name recs name = Some d"
  shows "records_by_name (set_unit (sr_Uid d) u recs) n =
    (if n = name then Some (d\<lparr>sr_UnitJson := u\<rparr>) else records_by_name recs n)"
proof -
  let ?recs = "set_unit (sr_Uid d) u recs"
  have d: "distinct (map sr_Name recs)" and d': "distinct (map sr_Name ?recs)"
    using assms(1) by (simp_all add: db_wf_def)
  from assms(2) have dr: "d \<in> set recs" "sr_Name d = name" by (simp_all add: records_by_name_Some [OF d])
  have uniq: "r = d" if "r \<in> set recs" "sr_Uid r = sr_Uid d" for r
    using assms(1) that dr(1) by (auto simp: db_wf_def distinct_map inj_on_def)
  have "records_by_name ?recs n = Some r \<longleftrightarrow>
      (if n = name then Some (d\<lparr>sr_UnitJson := u\<rparr>) else records_by_name recs n) = Some r" for r
  proof -
    have "records_by_name ?recs n = Some r \<longleftrightarrow> r \<in> set ?recs \<and> sr_Name r = n"
      by (rule records_by_name_Some [OF d'])
    also have "\<dots> \<longleftrightarrow> (\<exists>q \<in> set recs. r = (if sr_Uid q = sr_Uid d then q\<lparr>sr_UnitJson := u\<rparr> else q) \<and>
        sr_Name q = n)"
      by (auto simp: set_unit_def)
    also have "\<dots> \<longleftrightarrow> (if n = name then r = d\<lparr>sr_UnitJson := u\<rparr> else r \<in> set recs \<and> sr_Name r = n)"
      using dr uniq d by (auto simp: distinct_map inj_on_def)
    finally show ?thesis by (auto simp: records_by_name_Some [OF d])
  qed
  then show ?thesis by (metis option.exhaust)
qed

section \<open>One name\<close>

definition action_of :: "string \<Rightarrow> SystemdServiceRecordCrud \<Rightarrow> bool" where
  "action_of m c \<longleftrightarrow> (\<exists>r u. sc_Record c = Some r \<and> sr_UnitJson r = Some u \<and>
     (sc_Action c = CrudUpdate \<or> sc_Action c = CrudInsert \<and> sr_MinionUid r = m))"

text \<open>What the actions of one name do to the records.\<close>

definition slurp_effect ::
  "string \<Rightarrow> string \<Rightarrow> string \<Rightarrow> SystemdUnitInfo option \<Rightarrow> ServiceRecord list \<Rightarrow>
   SystemdServiceRecordCrud list \<Rightarrow> bool" where
  "slurp_effect m uid name actual recs acts \<longleftrightarrow>
     db_wf (fold apply_crud acts recs) \<and>
     (\<forall>n. n \<noteq> name \<longrightarrow> records_by_name (fold apply_crud acts recs) n = records_by_name recs n) \<and>
     unit_of (fold apply_crud acts recs) name = target actual (unit_of recs name) \<and>
     sr_Uid ` set (fold apply_crud acts recs) \<subseteq> insert uid (sr_Uid ` set recs) \<and>
     (\<forall>c \<in> set acts. action_of m c)"

lemma slurp_action_effect:
  assumes eq: "\<forall>a b. eq a b \<longrightarrow> b = Some a" and wf: "db_wf recs"
    and uid: "uid \<notin> sr_Uid ` set recs"
    and key: "actual \<noteq> None \<or> records_by_name recs name \<noteq> None"
  obtains acts d where "slurp_action eq m uid name actual (records_by_name recs name) = Inr (acts, Some d)"
    and "slurp_effect m uid name actual recs acts"
proof (cases "records_by_name recs name")
  case None
  with key obtain a where a: "actual = Some a" by auto
  let ?d = "\<lparr>sr_Uid = uid, sr_Name = name, sr_MinionUid = m, sr_MinionEnabled = False,
    sr_UnitJson = Some (toServiceUnitJson a)\<rparr>"
  have "sr_Name r \<noteq> name" if "r \<in> set recs" for r
    using None that wf records_by_name_Some [of recs name r] by (auto simp: db_wf_def)
  then have wf': "db_wf (recs @ [?d])" using wf uid by (auto simp: db_wf_def)
  then show thesis
    using find_append_name [of recs ?d]
    by (intro that [of "[\<lparr>sc_Action = CrudInsert, sc_Record = Some ?d\<rparr>]" ?d])
       (auto simp: slurp_effect_def slurp_action_def None a Let_def apply_crud_def unit_of_def target_def db_wf_def action_of_def)
next
  case (Some d)
  with wf obtain u where u: "sr_UnitJson d = Some u"
    by (auto simp: db_wf_def records_by_name_Some)
  have upd: "apply_crud \<lparr>sc_Action = CrudUpdate, sc_Record = Some (d\<lparr>sr_UnitJson := v\<rparr>)\<rparr> recs =
      set_unit (sr_Uid d) v recs" for v
    by (simp add: apply_crud_def set_unit_def)
  have wf': "db_wf (set_unit (sr_Uid d) (Some v) recs)" for v
    using wf by (auto simp: db_wf_def) (auto simp: set_unit_def)
  have uids: "sr_Uid ` set (set_unit (sr_Uid d) v recs) = sr_Uid ` set recs" for v
    by (metis set_map set_unit_keys(2))
  note look = set_unit_lookup [OF wf Some]
  show thesis
  proof (cases "case actual of Some a \<Rightarrow> eq (toServiceUnitJson a) (Some u) | None \<Rightarrow> \<not> uj_UnitExists u")
    case True
    then show thesis
      using eq wf by (intro that [of "[]" d])
        (auto simp: slurp_effect_def slurp_action_def Some u Let_def unit_of_def target_def split: option.splits)
  next
    case False
    define v where "v = (case actual of Some a \<Rightarrow> toServiceUnitJson a | None \<Rightarrow> mark_gone u)"
    let ?d = "d\<lparr>sr_UnitJson := Some v\<rparr>"
    show thesis
      by (rule that [of "[\<lparr>sc_Action = CrudUpdate, sc_Record = Some ?d\<rparr>]" ?d])
         (use False wf' uids in \<open>auto simp: slurp_effect_def slurp_action_def Some u Let_def upd look unit_of_def target_def
            v_def action_of_def split: option.splits\<close>)
  qed
qed

section \<open>A pass\<close>

lemma slurp_names_effect:
  assumes eq: "\<forall>a b. eq a b \<longrightarrow> b = Some a" and inj: "inj uid"
  shows "db_wf recs \<Longrightarrow> distinct names \<Longrightarrow> \<forall>n \<in> set names. uid n \<notin> sr_Uid ` set recs \<Longrightarrow>
    \<forall>n \<in> set names. db n = records_by_name recs n \<and> (actual n \<noteq> None \<or> db n \<noteq> None) \<Longrightarrow>
    \<exists>acts known'. slurp_names eq m uid actual db names known = Inr (acts, known') \<and>
      db_wf (fold apply_crud acts recs) \<and>
      (\<forall>n \<in> set names. unit_of (fold apply_crud acts recs) n = target (actual n) (unit_of recs n) \<and>
         known' n \<noteq> None) \<and>
      (\<forall>n. n \<notin> set names \<longrightarrow> records_by_name (fold apply_crud acts recs) n = records_by_name recs n) \<and>
      (\<forall>c \<in> set acts. action_of m c) \<and> dom known \<subseteq> dom known'"
proof (induction names arbitrary: recs known)
  case (Cons name names)
  have key: "actual name \<noteq> None \<or> records_by_name recs name \<noteq> None"
    and fresh: "uid name \<notin> sr_Uid ` set recs"
    using Cons.prems(3,4) by auto
  obtain acts d where
    act: "slurp_action eq m (uid name) name (actual name) (records_by_name recs name) = Inr (acts, Some d)"
    and effect: "slurp_effect m (uid name) name (actual name) recs acts"
    by (rule slurp_action_effect [OF eq Cons.prems(1) fresh key])
  from effect have wf: "db_wf (fold apply_crud acts recs)"
    and same: "\<forall>n. n \<noteq> name \<longrightarrow> records_by_name (fold apply_crud acts recs) n = records_by_name recs n"
    and new: "unit_of (fold apply_crud acts recs) name = target (actual name) (unit_of recs name)"
    and uids: "sr_Uid ` set (fold apply_crud acts recs) \<subseteq> insert (uid name) (sr_Uid ` set recs)"
    and ok: "\<forall>c \<in> set acts. action_of m c"
    unfolding slurp_effect_def by blast+
  let ?recs = "fold apply_crud acts recs"
  let ?known = "if known name = None then known(name \<mapsto> service_dto d) else known"
  have f1: "\<forall>n \<in> set names. uid n \<notin> sr_Uid ` set ?recs"
  proof
    fix n assume "n \<in> set names"
    with Cons.prems(2,3) inj have "uid n \<noteq> uid name" "uid n \<notin> sr_Uid ` set recs"
      by (auto simp: inj_eq)
    with uids show "uid n \<notin> sr_Uid ` set ?recs" by blast
  qed
  have f2: "\<forall>n \<in> set names. db n = records_by_name ?recs n \<and> (actual n \<noteq> None \<or> db n \<noteq> None)"
    using Cons.prems(2,4) same by auto
  have d: "distinct names" using Cons.prems(2) by simp
  obtain rest known' where
    IH: "slurp_names eq m uid actual db names ?known = Inr (rest, known')"
      "db_wf (fold apply_crud rest ?recs)"
      "\<forall>n \<in> set names. unit_of (fold apply_crud rest ?recs) n = target (actual n) (unit_of ?recs n) \<and>
         known' n \<noteq> None"
      "\<forall>n. n \<notin> set names \<longrightarrow> records_by_name (fold apply_crud rest ?recs) n = records_by_name ?recs n"
      "\<forall>c \<in> set rest. action_of m c" "dom ?known \<subseteq> dom known'"
    using Cons.IH [OF wf d f1 f2, of ?known] by blast
  have "slurp_names eq m uid actual db (name # names) known = Inr (acts @ rest, known')"
    using IH(1) act Cons.prems(4) by (auto simp: if_distrib [of Inr])
  moreover have "known' name \<noteq> None" "dom known \<subseteq> dom known'"
    using IH(6) by (auto split: if_splits)
  moreover have "unit_of (fold apply_crud rest ?recs) n = target (actual n) (unit_of recs n)"
    if "n \<in> set (name # names)" for n
  proof (cases "n = name")
    case True
    with new IH(4) Cons.prems(2) show ?thesis by (simp add: unit_of_def)
  next
    case False
    with that IH(3) same show ?thesis by (simp add: unit_of_def)
  qed
  ultimately show ?case
    using IH same ok by (intro exI [of _ "acts @ rest"] exI [of _ known']) auto
qed auto

lemma slurp_pass_reconciles:
  assumes "\<forall>a b. eq a b \<longrightarrow> b = Some a" and "inj uid" and "db_wf recs"
    and "\<forall>n. uid n \<notin> sr_Uid ` set recs"
    and "set walk1 = dom (units_by_name actual)" and "set walk2 = dom (records_by_name recs)"
  shows "\<exists>acts known'. slurp_pass eq m uid walk1 walk2 actual recs known = Inr (acts, known') \<and>
    db_wf (fold apply_crud acts recs) \<and>
    (\<forall>n. unit_of (fold apply_crud acts recs) n = target (units_by_name actual n) (unit_of recs n)) \<and>
    (\<forall>n \<in> set (walk1 @ walk2). known' n \<noteq> None) \<and> (\<forall>c \<in> set acts. action_of m c)"
proof -
  let ?names = "RemoveDupes (walk1 @ walk2)"
  have names: "distinct ?names" "set ?names = set (walk1 @ walk2)" by (simp_all only: RemoveDupes_set)
  then have "\<forall>n \<in> set ?names. records_by_name recs n = records_by_name recs n \<and>
      (units_by_name actual n \<noteq> None \<or> records_by_name recs n \<noteq> None)"
    using assms(5,6) by auto
  from slurp_names_effect [OF assms(1,2,3) names(1) _ this, of m known] assms(4) obtain acts known' where
    run: "slurp_names eq m uid (units_by_name actual) (records_by_name recs) ?names known = Inr (acts, known')"
    and eff: "db_wf (fold apply_crud acts recs)"
      "\<forall>n \<in> set ?names. unit_of (fold apply_crud acts recs) n =
         target (units_by_name actual n) (unit_of recs n) \<and> known' n \<noteq> None"
      "\<forall>n. n \<notin> set ?names \<longrightarrow> records_by_name (fold apply_crud acts recs) n = records_by_name recs n"
      "\<forall>c \<in> set acts. action_of m c"
    by auto
  have "unit_of (fold apply_crud acts recs) n = target (units_by_name actual n) (unit_of recs n)" for n
  proof (cases "n \<in> set ?names")
    case False
    with names(2) assms(5,6) have "units_by_name actual n = None" "records_by_name recs n = None" by auto
    with eff(3) False show ?thesis by (simp add: unit_of_def target_def)
  qed (use eff(2) in auto)
  with run eff names(2) show ?thesis by (auto simp: slurp_pass_def)
qed

text \<open>
  C10. A pass over systemd's services and nefario's records never panics, whatever the names, and its
  actions turn the records into exactly what systemd shows: every unit systemd lists is recorded as
  listed, every recorded unit it does not list is marked as gone, nothing else changes, names and uids
  stay unique, and the agent knows every name.
\<close>

theorem slurp_reconciles:
  assumes "\<forall>a b. eq a b \<longrightarrow> b = Some a" and "inj uid" and "db_wf recs"
    and "\<forall>n. uid n \<notin> sr_Uid ` set recs"
    and "set walk1 = dom (units_by_name actual)" and "set walk2 = dom (records_by_name recs)"
  shows "\<exists>acts known'. slurp_pass eq m uid walk1 walk2 actual recs known = Inr (acts, known') \<and>
    db_wf (fold apply_crud acts recs) \<and>
    (\<forall>n. unit_of (fold apply_crud acts recs) n = target (units_by_name actual n) (unit_of recs n)) \<and>
    (\<forall>n \<in> set (walk1 @ walk2). known' n \<noteq> None) \<and> (\<forall>c \<in> set acts. action_of m c)"
  by (rule slurp_pass_reconciles [OF assms])

lemma target_idem: "target a (target a u) = target a u"
  by (cases u) (auto simp: target_def mark_gone_def split: option.split)

lemma slurp_names_quiet:
  assumes refl: "\<forall>a. eq a (Some a)"
    and same: "\<forall>n \<in> set names. \<exists>r. db n = Some r \<and> sr_UnitJson r \<noteq> None \<and>
      target (actual n) (sr_UnitJson r) = sr_UnitJson r"
  shows "\<exists>known'. slurp_names eq m uid actual db names known = Inr ([], known')"
  using same
proof (induction names arbitrary: known)
  case (Cons name names)
  then obtain r u where r: "db name = Some r" "sr_UnitJson r = Some u"
    and t: "target (actual name) (Some u) = Some u" by auto
  have "slurp_action eq m (uid name) name (actual name) (db name) = Inr ([], Some r)"
  proof (cases "actual name")
    case (Some a)
    with t have "u = toServiceUnitJson a" by (simp add: target_def)
    with Some r refl show ?thesis by (simp add: slurp_action_def)
  next
    case None
    have "\<not> uj_UnitExists u"
    proof
      assume "uj_UnitExists u"
      with None t have "mark_gone u = u" by (simp add: target_def)
      then have "uj_UnitExists (mark_gone u) = uj_UnitExists u" by simp
      with \<open>uj_UnitExists u\<close> show False by (simp add: mark_gone_def)
    qed
    with None r show ?thesis by (simp add: slurp_action_def)
  qed
  moreover obtain known' where "slurp_names eq m uid actual db names
      (if known name = None then known(name \<mapsto> service_dto r) else known) = Inr ([], known')"
    using Cons by auto
  ultimately show ?case using r by (auto split: if_splits)
qed simp

section \<open>Nefario applies the actions\<close>

text \<open>A unit's JSON parses back.\<close>

definition parses_back :: "nefario_codec \<Rightarrow> SystemdServiceRecordCrud \<Rightarrow> bool" where
  "parses_back cd c \<longleftrightarrow> (\<forall>r u. sc_Record c = Some r \<longrightarrow> sr_UnitJson r = Some u \<longrightarrow>
     snd (nc_unit_parse cd (unit_bytes cd r)) = u)"

definition listing :: "nefario_codec \<Rightarrow> nefario \<Rightarrow> string \<Rightarrow> ServiceRecord list" where
  "listing cd s m =
     map (service_record cd) (filter (\<lambda>(uid, r). svc_MinionUid r = m) (db_service (nf_db s)))"

lemma crud_step_listing:
  assumes "crud_step cd x c s = (None, s')" and "action_of m c"
    and "parses_back cd c"
  shows "listing cd s' m = apply_crud c (listing cd s m)"
proof -
  from assms(2) obtain r u where r: "sc_Record c = Some r" "sr_UnitJson r = Some u"
    and cases: "sc_Action c = CrudUpdate \<or> sc_Action c = CrudInsert \<and> sr_MinionUid r = m"
    by (auto simp: action_of_def)
  have codec: "snd (nc_unit_parse cd (unit_bytes cd r)) = u"
    using assms(3) r by (auto simp: parses_back_def)
  from cases show ?thesis
  proof
    assume upd: "sc_Action c = CrudUpdate"
    with assms(1) r have db: "db_service (nf_db s') =
        row_update (sr_Uid r) (\<lambda>q. q\<lparr>svc_SystemdUnitJson := unit_bytes cd r\<rparr>) (db_service (nf_db s))"
      by (auto simp: crud_step_def UpdateService_def update_service_def eop_None)
    have "map (service_record cd) (filter (\<lambda>(uid, r). svc_MinionUid r = m)
        (row_update (sr_Uid r) (\<lambda>q. q\<lparr>svc_SystemdUnitJson := unit_bytes cd r\<rparr>) rows)) =
      map (\<lambda>q. if sr_Uid q = sr_Uid r then q\<lparr>sr_UnitJson := sr_UnitJson r\<rparr> else q)
        (map (service_record cd) (filter (\<lambda>(uid, r). svc_MinionUid r = m) rows))" for rows
    proof (induction rows)
      case (Cons row rows)
      obtain k q where row: "row = (k, q)" by fastforce
      have "service_record cd (k, q\<lparr>svc_SystemdUnitJson := unit_bytes cd r\<rparr>) =
          (service_record cd (k, q))\<lparr>sr_UnitJson := sr_UnitJson r\<rparr>"
        using codec r(2) by (simp add: service_record_def)
      moreover have "sr_Uid (service_record cd (k, q)) = k" for q by (simp add: service_record_def)
      ultimately show ?case
        using Cons by (cases "k = sr_Uid r") (simp_all add: row row_update_def)
    qed (simp add: row_update_def)
    with db upd r show ?thesis by (simp add: listing_def apply_crud_def)
  next
    assume ins: "sc_Action c = CrudInsert \<and> sr_MinionUid r = m"
    with assms(1) r have "db_service (nf_db s') = db_service (nf_db s) @ [inserted_service cd r]"
      using crud_insert_None by blast
    with ins r codec show ?thesis
      by (simp add: listing_def apply_crud_def inserted_service_def service_record_def)
  qed
qed

lemma crud_steps_listing:
  "crud_steps cd x acts s = (None, s') \<Longrightarrow> \<forall>c \<in> set acts. action_of m c \<and> parses_back cd c \<Longrightarrow>
    listing cd s' m = fold apply_crud acts (listing cd s m)"
proof (induction acts arbitrary: s)
  case (Cons c acts)
  from Cons.prems obtain s1 where "crud_step cd x c s = (None, s1)" "crud_steps cd x acts s1 = (None, s')"
    by (auto simp: eop_None)
  with Cons crud_step_listing show ?case by simp
qed (simp add: eop_None)


text \<open>
  A failed systemctl makes every service look gone: the response of a failed command has no
  services and no error, so the pass marks every recorded unit that exists as gone.
\<close>

theorem failed_systemctl_marks_all_gone:
  assumes "\<forall>a b. eq a b \<longrightarrow> b = Some a" and "inj uid" and "db_wf recs"
    and "\<forall>n. uid n \<notin> sr_Uid ` set recs" and "set walk = dom (records_by_name recs)"
    and "RunServiceSlurpLoopOnce eq m uid [] walk
      (RpcSystemctlListSystemdServices parse (out, Some err)) (Inr recs) send known = Inr (e, acts, known')"
  shows "\<forall>n. unit_of (fold apply_crud acts recs) n =
    map_option (\<lambda>u. if uj_UnitExists u then mark_gone u else u) (unit_of recs n)"
proof -
  have "set [] = dom (units_by_name [])" by (simp add: units_by_name_def)
  from slurp_pass_reconciles [OF assms(1-4) this assms(5), of m known] obtain acts0 known0 where
    "slurp_pass eq m uid [] walk [] recs known = Inr (acts0, known0)"
    and t: "\<forall>n. unit_of (fold apply_crud acts0 recs) n = target None (unit_of recs n)"
    by (auto simp: units_by_name_def)
  with assms(6) have "acts = acts0"
    by (auto simp: RunServiceSlurpLoopOnce_def RpcSystemctlListSystemdServices_def Let_def
        split: if_splits option.splits)
  with t show ?thesis by (simp add: target_def)
qed

section \<open>Examples\<close>

definition demo_ui :: SystemdUnitInfo where
  "demo_ui = \<lparr>ui_Unit = ''new'', ui_Load = ''loaded'', ui_Active = ''active'', ui_Sub = ''running'',
     ui_Description = []\<rparr>"

definition demo_eq :: "ServiceUnitJson \<Rightarrow> ServiceUnitJson option \<Rightarrow> bool" where
  "demo_eq a b = (b = Some a)"

definition demo_uid :: "string \<Rightarrow> string" where "demo_uid n = CHR ''u'' # n"

definition demo_recs :: "ServiceRecord list" where
  "demo_recs = [demo_record\<lparr>sr_Name := ''old''\<rparr>]"

lemma demo_recs_ok:
  "inj demo_uid" "\<forall>a b. demo_eq a b \<longleftrightarrow> b = Some a" "db_wf demo_recs"
  "\<forall>n. demo_uid n \<notin> sr_Uid ` set demo_recs" "set [''new''] = dom (units_by_name [demo_ui])"
  "set [''old''] = dom (records_by_name demo_recs)"
  by (auto simp: demo_uid_def inj_def demo_eq_def demo_recs_def db_wf_def demo_record_def
      units_by_name_def demo_ui_def records_by_name_def)

theorem slurp_reconciles_witness:
  "\<exists>acts known'. slurp_pass demo_eq ''m'' demo_uid [''new''] [''old''] [demo_ui] demo_recs Map.empty =
       Inr (acts, known') \<and>
     map_option uj_UnitExists (unit_of (fold apply_crud acts demo_recs) ''new'') = Some True \<and>
     map_option uj_UnitExists (unit_of (fold apply_crud acts demo_recs) ''old'') = Some False"
proof -
  have eq: "\<forall>a b. demo_eq a b \<longrightarrow> b = Some a" using demo_recs_ok(2) by blast
  have u: "units_by_name [demo_ui] ''old'' = None" "units_by_name [demo_ui] ''new'' = Some demo_ui"
    "unit_of demo_recs ''old'' = Some demo_unit"
    by (simp_all add: units_by_name_def demo_ui_def unit_of_def records_by_name_def demo_recs_def
        demo_record_def)
  from slurp_reconciles [OF eq demo_recs_ok(1,3-6), of "''m''" Map.empty] obtain acts known' where
    run: "slurp_pass demo_eq ''m'' demo_uid [''new''] [''old''] [demo_ui] demo_recs Map.empty = Inr (acts, known')"
    and t: "\<forall>n. unit_of (fold apply_crud acts demo_recs) n =
      target (units_by_name [demo_ui] n) (unit_of demo_recs n)"
    by blast
  from t u have "map_option uj_UnitExists (unit_of (fold apply_crud acts demo_recs) ''new'') = Some True"
    "map_option uj_UnitExists (unit_of (fold apply_crud acts demo_recs) ''old'') = Some False"
    by (simp_all add: target_def toServiceUnitJson_def mark_gone_def demo_unit_def)
  with run show ?thesis by blast
qed

theorem failed_systemctl_marks_all_gone_witness:
  "\<exists>acts known'. RunServiceSlurpLoopOnce demo_eq ''m'' demo_uid [] [''old'']
       (RpcSystemctlListSystemdServices (\<lambda>_. Inr []) ([], Some (GoErr ''exit status 1''))) (Inr demo_recs)
       (\<lambda>_. None) Map.empty = Inr (None, acts, known') \<and>
     map_option uj_UnitExists (unit_of (fold apply_crud acts demo_recs) ''old'') = Some False"
proof -
  have eq: "\<forall>a b. demo_eq a b \<longrightarrow> b = Some a" using demo_recs_ok(2) by blast
  have "\<exists>acts known'. RunServiceSlurpLoopOnce demo_eq ''m'' demo_uid [] [''old'']
      (RpcSystemctlListSystemdServices (\<lambda>_. Inr []) ([], Some (GoErr ''exit status 1''))) (Inr demo_recs)
      (\<lambda>_. None) Map.empty = Inr (None, acts, known')"
    by (simp add: RunServiceSlurpLoopOnce_def RpcSystemctlListSystemdServices_def slurp_pass_def
        RemoveDupes_def units_by_name_def records_by_name_def demo_recs_def demo_record_def
        slurp_action_def demo_unit_def Let_def)
  then obtain acts known' where run: "RunServiceSlurpLoopOnce demo_eq ''m'' demo_uid [] [''old'']
      (RpcSystemctlListSystemdServices (\<lambda>_. Inr []) ([], Some (GoErr ''exit status 1''))) (Inr demo_recs)
      (\<lambda>_. None) Map.empty = Inr (None, acts, known')" by blast
  from failed_systemctl_marks_all_gone [OF eq demo_recs_ok(1,3,4,6) run]
  have "map_option uj_UnitExists (unit_of (fold apply_crud acts demo_recs) ''old'') = Some False"
    by (simp add: unit_of_def records_by_name_def demo_recs_def demo_record_def demo_unit_def
        mark_gone_def)
  with run show ?thesis by blast
qed

text \<open>A codec whose units all parse to the one systemd shows, and a service of another minion.\<close>

definition demo_ucd :: nefario_codec where
  "demo_ucd = demo_ncd\<lparr>nc_unit_parse := (\<lambda>_. (None, toServiceUnitJson demo_ui))\<rparr>"


end
