(* ===== verification/LaunchyJournal.thy ===== *)
theory LaunchyJournal
  imports LaunchyAgent
begin

text \<open>
  The reader of journald, \<open>src/launchy/journalctl-utils.go\<close> and the manager of \<open>agent.go\<close>: what a
  line means, the runs ("slurps") it starts and ends per service, the publisher of a run's output,
  and the records of services. The decoders, the nefario client, the pids and the random uids are
  parameters; goroutines are the steps of a relation.
\<close>

section \<open>Lines\<close>

record JournalCtlMessage =
  jm_CodeFunc :: string
  jm_SyslogId :: string
  jm_Message :: bytes
  jm_SystemdUserUnit :: string
  jm_UserUnit :: string
  jm_JobType :: string

datatype MessageKind =
    AppMessage | KindStart | KindStopping | KindFailed | KindStopped | JournalUnknown

record journal_codec =
  jc_bytes :: "bytes \<Rightarrow> go_error + bytes"
  jc_string :: "bytes \<Rightarrow> go_error + string"
  jc_line :: "bytes \<Rightarrow> go_error + JournalCtlMessage"

text \<open>
  \<open>MessageLine\<close>: a pointer that may be nil, and an error. The line it remembers is the one it would
  decode again.
\<close>

definition MessageLine :: "journal_codec \<Rightarrow> JournalCtlMessage \<Rightarrow> string option \<times> go_error option" where
  "MessageLine jc jcm =
     (case jm_Message jcm of
        [] \<Rightarrow> (None, None)
      | firstCh # _ \<Rightarrow>
          if firstCh = 0x5B then
            (case jc_bytes jc (jm_Message jcm) of
               Inl err \<Rightarrow> (Some [], Some err) | Inr bs \<Rightarrow> (Some (bytes_to_string bs), None))
          else if firstCh = 0x22 then
            (case jc_string jc (jm_Message jcm) of
               Inl err \<Rightarrow> (Some [], Some err) | Inr line \<Rightarrow> (Some line, None))
          else if bytes_to_string (jm_Message jcm) = ''null'' then (None, None)
          else (None, Some (GoErr (''unknown message format - '' @ bytes_to_string (jm_Message jcm)))))"

definition message_kind :: "journal_codec \<Rightarrow> JournalCtlMessage \<Rightarrow> MessageKind run" where
  "message_kind jc jcm =
     (if jm_SyslogId jcm = ''systemd'' then
        if jm_JobType jcm = ''start'' then Inr KindStart
        else if jm_JobType jcm = ''stop'' then Inr KindStopped
        else if jm_CodeFunc jcm = ''unit_status_log_starting_stopping_reloading'' then
          (let (messageP, err) = MessageLine jc jcm
           in run_bind (deref messageP) (\<lambda>message.
                Inr (if err = None \<and> strings_HasPrefix message ''Stopping '' then KindStopping
                     else JournalUnknown)))
        else if jm_CodeFunc jcm = ''unit_log_resources'' then
          (let (messageP, err) = MessageLine jc jcm
           in run_bind (deref messageP) (\<lambda>message.
                Inr (if err = None \<and> strings_Contains message '': Consumed'' \<and>
                       strings_HasSuffix message '' CPU time.'' then KindFailed
                     else JournalUnknown)))
        else Inr JournalUnknown
      else Inr AppMessage)"

section \<open>State\<close>

text \<open>
  A run. \<open>sl_shutdown\<close> is whether \<open>ShutdownOnce\<close> has run; \<open>sl_ended\<close> whether its publisher has
  returned; the channel holds at most 100 buffers.
\<close>

record ProcessRunSlurp =
  sl_service :: string
  sl_ProcessUid :: string
  sl_queue :: "Buffer list"
  sl_taken :: "Buffer list"
  sl_Running :: bool
  sl_shutdown :: bool
  sl_cancelled :: bool
  sl_ended :: bool

record SystemdService =
  ss_Record :: ServiceRecordDto
  ss_CurrentSlurp :: "nat option"

record agent =
  ag_MinionUid :: string
  ag_ProcessUid :: string
  ag_services :: "string \<Rightarrow> SystemdService option"
  ag_slurps :: "ProcessRunSlurp list"
  ag_sent :: "MessageFromLaunchy list"
  ag_calls :: nat
  ag_uids :: nat
  ag_notFound :: "string set"

record agent_ext =
  ax_refuse :: "nat \<Rightarrow> go_error option"
  ax_now :: "nat \<Rightarrow> int"
  ax_MainPID :: "nat \<Rightarrow> string \<Rightarrow> bytes \<times> go_error option"
  ax_uid :: "nat \<Rightarrow> string"

type_synonym 'a aop = "(agent, 'a) st"

definition agent_send :: "agent_ext \<Rightarrow> (int \<Rightarrow> MessageFromLaunchy) \<Rightarrow> (go_error option) aop" where
  "agent_send x mk a =
     (let n = ag_calls a; a1 = a\<lparr>ag_calls := Suc n\<rparr>
      in case ax_refuse x n of
           Some e \<Rightarrow> Inr (Some e, a1)
         | None \<Rightarrow> Inr (None, a1\<lparr>ag_sent := ag_sent a @ [mk (ax_now x n)]\<rparr>))"

definition set_slurp :: "nat \<Rightarrow> (ProcessRunSlurp \<Rightarrow> ProcessRunSlurp) \<Rightarrow> unit aop" where
  "set_slurp i f = st_modify (\<lambda>a. a\<lparr>ag_slurps := (ag_slurps a)[i := f (ag_slurps a ! i)]\<rparr>)"

definition set_current :: "string \<Rightarrow> nat option \<Rightarrow> unit aop" where
  "set_current name i = st_modify (\<lambda>a. a\<lparr>ag_services := (ag_services a)
     (name := map_option (\<lambda>s. s\<lparr>ss_CurrentSlurp := i\<rparr>) (ag_services a name))\<rparr>)"

section \<open>Runs\<close>

text \<open>\<open>currentPid\<close> on the output of systemctl; an error is logged.\<close>

definition currentPid :: "bytes \<times> go_error option \<Rightarrow> string" where
  "currentPid out =
     (case snd out of
        Some err \<Rightarrow> []
      | None \<Rightarrow>
          let (pid, bad) = strconv_Atoi (strings_TrimSpace (bytes_to_string (fst out)))
          in if bad then [] else int_to_string pid)"

definition to_int32 :: "int \<Rightarrow> int" where
  "to_int32 i = sint (word_of_int i :: 32 word)"

definition slurp_request :: "agent \<Rightarrow> SystemdService \<Rightarrow> string \<Rightarrow> string \<Rightarrow> int \<Rightarrow> ProcessStartedRequest" where
  "slurp_request a info uid pid now =
     \<lparr>ps_ProcessUid = uid, ps_ParentProcessRunUid = ag_ProcessUid a,
      ps_ProcessPid = to_int32 (fst (strconv_Atoi pid)), ps_MinionUid = ag_MinionUid a,
      ps_ServiceUid = srd_Uid (ss_Record info), ps_StartedAt = Some (NowTimeStamp now),
      ps_Command = [], ps_Cwd = [], ps_Env = [], ps_Category = ''journalctl'',
      ps_Channels = [ConsoleChannelName], ps_Controllable = False, ps_LaunchError = [],
      ps_Kind = ''journalctl'', ps_ExtraDataJsonStr = ''{}''\<rparr>"

text \<open>\<open>None\<close> is the nil it returns when nefario refused the start.\<close>

definition StartProcessRunSlurp :: "agent_ext \<Rightarrow> string \<Rightarrow> SystemdService \<Rightarrow> (nat option) aop" where
  "StartProcessRunSlurp x name info =
     st_bind st_get (\<lambda>a.
     let pid = currentPid (ax_MainPID x (ag_calls a) (srd_Name (ss_Record info)));
         uid = ax_uid x (ag_uids a)
     in st_bind (st_modify (\<lambda>a. a\<lparr>ag_uids := Suc (ag_uids a)\<rparr>)) (\<lambda>_.
        st_bind (agent_send x (\<lambda>now. FlProcessStarted (slurp_request a info uid pid now))) (\<lambda>err.
        if err \<noteq> None then st_return None
        else st_bind (st_modify (\<lambda>a. a\<lparr>ag_slurps := ag_slurps a @
               [\<lparr>sl_service = name, sl_ProcessUid = uid, sl_queue = [], sl_taken = [],
                 sl_Running = True, sl_shutdown = False, sl_cancelled = False, sl_ended = False\<rparr>]\<rparr>)) (\<lambda>_.
             st_bind st_get (\<lambda>a. st_return (Some (length (ag_slurps a) - 1)))))))"

definition completed_request :: "string \<Rightarrow> string \<Rightarrow> int \<Rightarrow> ProcessCompletedRequest" where
  "completed_request uid exitMessage now =
     \<lparr>pc_ProcessUid = uid, pc_ExitCode = 0, pc_ExitMessage = exitMessage,
      pc_CompletedAt = Some (NowTimeStamp now)\<rparr>"

definition slurp_Shutdown :: "agent_ext \<Rightarrow> nat \<Rightarrow> string \<Rightarrow> unit aop" where
  "slurp_Shutdown x i exitMessage =
     st_bind st_get (\<lambda>a.
     if sl_shutdown (ag_slurps a ! i) then st_return ()
     else
       st_bind (agent_send x (\<lambda>now. FlProcessCompleted
         (completed_request (sl_ProcessUid (ag_slurps a ! i)) exitMessage now))) (\<lambda>_.
       set_slurp i (\<lambda>sl. sl\<lparr>sl_shutdown := True, sl_Running := False, sl_cancelled := True\<rparr>)))"

section \<open>The reader\<close>

definition try_service :: "agent \<Rightarrow> string \<Rightarrow> string option \<times> string list \<Rightarrow> string option \<times> string list" where
  "try_service a serviceName st =
     (if fst st = None \<and> serviceName \<noteq> []
      then (if ag_services a serviceName = None then None else Some serviceName, snd st @ [serviceName])
      else st)"

definition find_service :: "agent \<Rightarrow> JournalCtlMessage \<Rightarrow> string option \<times> string list" where
  "find_service a m = try_service a (jm_UserUnit m) (try_service a (jm_SystemdUserUnit m) (None, []))"

definition stopCurrentSlurp :: "agent_ext \<Rightarrow> string \<Rightarrow> string \<Rightarrow> unit aop" where
  "stopCurrentSlurp x name exitMessage =
     st_bind st_get (\<lambda>a.
     case Option.bind (ag_services a name) ss_CurrentSlurp of
       None \<Rightarrow> st_return ()
     | Some i \<Rightarrow> st_bind (slurp_Shutdown x i exitMessage) (\<lambda>_. set_current name None))"

definition newSlurp :: "agent_ext \<Rightarrow> string \<Rightarrow> unit aop" where
  "newSlurp x name =
     st_bind (stopCurrentSlurp x name ''disappeared'') (\<lambda>_.
     st_bind st_get (\<lambda>a.
     st_bind (st_lift (deref (ag_services a name))) (\<lambda>info.
     st_bind (StartProcessRunSlurp x name info) (\<lambda>i. set_current name i))))"

definition line_buffer :: "agent_ext \<Rightarrow> agent \<Rightarrow> string \<Rightarrow> Buffer" where
  "line_buffer x a line = \<lparr>buf_Timestamp = Some (NowTimeStamp (ax_now x (ag_calls a))),
     buf_Data = string_to_bytes (line @ [CHR 0x0A]), buf_Transport = TransportUnspecified\<rparr>"

text \<open>A line of the application: the send dereferences the current run, which may be nil.\<close>

definition app_message :: "agent_ext \<Rightarrow> string \<Rightarrow> string \<Rightarrow> unit aop" where
  "app_message x name line =
     st_bind st_get (\<lambda>a.
     st_bind (if Option.bind (ag_services a name) ss_CurrentSlurp = None then newSlurp x name
              else st_return ()) (\<lambda>_.
     st_bind st_get (\<lambda>a.
     st_bind (st_lift (deref (Option.bind (ag_services a name) ss_CurrentSlurp))) (\<lambda>i.
     set_slurp i (\<lambda>sl. sl\<lparr>sl_queue := sl_queue sl @ [line_buffer x a line]\<rparr>)))))"

definition handle_message :: "journal_codec \<Rightarrow> agent_ext \<Rightarrow> JournalCtlMessage \<Rightarrow> unit aop" where
  "handle_message jc x m =
     (if jm_SystemdUserUnit m = ''minion.service'' then st_return ()
      else
        st_bind st_get (\<lambda>a.
        case find_service a m of
          (None, tried) \<Rightarrow> st_modify (\<lambda>a. a\<lparr>ag_notFound := ag_notFound a \<union> set tried\<rparr>)
        | (Some name, _) \<Rightarrow>
            st_bind (st_lift (deref (ag_services a name))) (\<lambda>service.
            if \<not> srd_MinionEnabled (ss_Record service) \<and> ss_CurrentSlurp service = None then st_return ()
            else
              st_bind (st_lift (message_kind jc m)) (\<lambda>kind.
              case kind of
                AppMessage \<Rightarrow>
                  (case MessageLine jc m of
                     (_, Some err) \<Rightarrow> st_return ()
                   | (None, None) \<Rightarrow> st_return ()
                   | (Some line, None) \<Rightarrow> app_message x name line)
              | KindStart \<Rightarrow> newSlurp x name
              | KindFailed \<Rightarrow> stopCurrentSlurp x name ''failed''
              | KindStopped \<Rightarrow> stopCurrentSlurp x name ''stopped''
              | _ \<Rightarrow> st_return ()))))"

text \<open>A line that is no JSON is logged.\<close>

definition handle_line :: "journal_codec \<Rightarrow> agent_ext \<Rightarrow> bytes \<Rightarrow> unit aop" where
  "handle_line jc x line =
     (case jc_line jc line of Inl err \<Rightarrow> st_return () | Inr m \<Rightarrow> handle_message jc x m)"

section \<open>The manager\<close>

definition processRecord :: "ServiceRecordDto \<Rightarrow> agent \<Rightarrow> agent" where
  "processRecord record a =
     (if srd_MinionUid record = ag_MinionUid a then
        (case ag_services a (srd_Name record) of
           Some service \<Rightarrow> a\<lparr>ag_services := (ag_services a)(srd_Name record \<mapsto>
             service\<lparr>ss_Record := (ss_Record service)\<lparr>srd_MinionEnabled := srd_MinionEnabled record\<rparr>\<rparr>)\<rparr>
         | None \<Rightarrow> a\<lparr>ag_services := (ag_services a)(srd_Name record \<mapsto>
             \<lparr>ss_Record = record, ss_CurrentSlurp = None\<rparr>)\<rparr>)
      else a)"

text \<open>The pings of the running slurps, \<open>walk\<close> the order of the services.\<close>

definition journal_pings :: "agent \<Rightarrow> string list \<Rightarrow> (string \<Rightarrow> nat) \<Rightarrow> ProcessPing list" where
  "journal_pings a walk sizes =
     concat (map (\<lambda>name. case Option.bind (ag_services a name) ss_CurrentSlurp of
        None \<Rightarrow> []
      | Some i \<Rightarrow> [\<lparr>pp_ProcessUid = sl_ProcessUid (ag_slurps a ! i),
                  pp_ChannelSizes = [(''journalctl'', sizes (sl_ProcessUid (ag_slurps a ! i)))]\<rparr>]) walk)"

definition journal_ping :: "agent_ext \<Rightarrow> string list \<Rightarrow> (string \<Rightarrow> nat) \<Rightarrow> unit aop" where
  "journal_ping x walk sizes =
     st_bind st_get (\<lambda>a.
     let pings = journal_pings a walk sizes
     in if pings \<noteq> [] then
          st_bind (agent_send x (\<lambda>now. FlProcessPing
            \<lparr>ppr_Pings = pings, ppr_Timestamp = Some (NowTimeStamp now)\<rparr>)) (\<lambda>_. st_return ())
        else st_return ())"

text \<open>
  The steps of the agent: a line of the journal, which waits while a channel is full; a publisher
  takes a buffer; the pid of a run is gone; the publisher of a cancelled run returns, which shuts the
  run down; a record of a service arrives; the pings are sent.
\<close>

definition channels_ok :: "agent \<Rightarrow> bool" where
  "channels_ok a = (\<forall>sl \<in> set (ag_slurps a). length (sl_queue sl) \<le> 100)"

inductive agent_step :: "journal_codec \<Rightarrow> agent_ext \<Rightarrow> agent \<Rightarrow> agent \<Rightarrow> bool" for jc x where
  step_line: "handle_line jc x line a = Inr ((), a') \<Longrightarrow> channels_ok a' \<Longrightarrow> agent_step jc x a a'"
| step_take: "i < length (ag_slurps a) \<Longrightarrow> \<not> sl_ended (ag_slurps a ! i) \<Longrightarrow>
    sl_queue (ag_slurps a ! i) = b # q \<Longrightarrow>
    set_slurp i (\<lambda>sl. sl\<lparr>sl_queue := q, sl_taken := sl_taken sl @ [b]\<rparr>) a = Inr ((), a') \<Longrightarrow>
    agent_step jc x a a'"
| step_pid_gone: "i < length (ag_slurps a) \<Longrightarrow>
    set_slurp i (\<lambda>sl. sl\<lparr>sl_cancelled := True\<rparr>) a = Inr ((), a') \<Longrightarrow> agent_step jc x a a'"
| step_ended: "i < length (ag_slurps a) \<Longrightarrow> sl_cancelled (ag_slurps a ! i) \<Longrightarrow>
    \<not> sl_ended (ag_slurps a ! i) \<Longrightarrow>
    st_bind (slurp_Shutdown x i ''failed'') (\<lambda>_. set_slurp i (\<lambda>sl. sl\<lparr>sl_ended := True\<rparr>)) a = Inr ((), a') \<Longrightarrow>
    agent_step jc x a a'"
| step_record: "agent_step jc x a (processRecord record a)"
| step_ping: "journal_ping x walk sizes a = Inr ((), a') \<Longrightarrow> agent_step jc x a a'"

section \<open>The publisher of a run\<close>

record CaptureWindow =
  cw_MaxBytes :: int
  cw_MaxTime :: int

definition default_window :: CaptureWindow where
  "default_window = \<lparr>cw_MaxBytes = 1000000, cw_MaxTime = 3000\<rparr>"

text \<open>Times are in milliseconds. The first buffers are four nil pointers.\<close>

record publisher =
  pb_byteCount :: int
  pb_currentBuffers :: "Buffer option list"
  pb_start :: int
  pb_size :: int
  pb_sent :: "StreamWriteRequest list"

definition new_publisher :: "int \<Rightarrow> publisher" where
  "new_publisher now = \<lparr>pb_byteCount = 0, pb_currentBuffers = replicate 4 None, pb_start = now,
     pb_size = 0, pb_sent = []\<rparr>"

definition sendCurrentBuffers :: "string \<Rightarrow> nat \<Rightarrow> int \<Rightarrow> publisher \<Rightarrow> publisher" where
  "sendCurrentBuffers uid seq now p =
     (if pb_currentBuffers p \<noteq> [] then
        p\<lparr>pb_sent := pb_sent p @
            [\<lparr>sw_ProcessUid = uid, sw_ChannelName = ConsoleChannelName,
              sw_Record = Some \<lparr>str_Timestamp = Some (NowTimeStamp now), str_Sequence = seq,
                                str_Buffers = pb_currentBuffers p\<rparr>\<rparr>],
          pb_size := pb_size p + pb_byteCount p, pb_byteCount := 0, pb_currentBuffers := [],
          pb_start := now\<rparr>
      else p\<lparr>pb_start := now\<rparr>)"

text \<open>
  A turn of the loop reads the time (the second time is that of a send); when the window is still
  open it waits for the end of the context, a buffer or the end of the window. The waits that were not
  reached are returned, with whether the loop ended.
\<close>

datatype publish_wait = PubDone | PubBuffer Buffer | PubTimeout

fun publisher_loop ::
  "CaptureWindow \<Rightarrow> string \<Rightarrow> nat \<Rightarrow> (int \<times> int) list \<Rightarrow> publish_wait list \<Rightarrow> publisher \<Rightarrow>
   bool \<times> publish_wait list \<times> publisher"
  where
  "publisher_loop w uid seq [] waits p = (False, waits, p)"
| "publisher_loop w uid seq ((now, now') # clock) waits p =
     (if pb_start p + cw_MaxTime w - now \<le> 0 then
        publisher_loop w uid seq clock waits (sendCurrentBuffers uid seq now' p)
      else
        (case waits of
           [] \<Rightarrow> (False, [], p)
         | PubDone # rest \<Rightarrow> (True, rest, sendCurrentBuffers uid seq now' p)
         | PubBuffer b # rest \<Rightarrow>
             let p1 = p\<lparr>pb_byteCount := pb_byteCount p + int (length (buf_Data b)),
                        pb_currentBuffers := pb_currentBuffers p @ [Some b]\<rparr>
             in publisher_loop w uid seq clock rest
                  (if pb_byteCount p1 \<ge> cw_MaxBytes w then sendCurrentBuffers uid seq now' p1 else p1)
         | PubTimeout # rest \<Rightarrow>
             publisher_loop w uid seq clock rest (sendCurrentBuffers uid seq now' p)))"

end
