(* ===== verification/LaunchyJournalProps.thy ===== *)
theory LaunchyJournalProps
  imports LaunchyJournal
begin

text \<open>
  What holds of the agent in every reachable state (one live run per service, each completed at most
  once), when its reader panics, and that the publisher of a run loses nothing it received.
\<close>

section \<open>The invariant\<close>

definition current :: "agent \<Rightarrow> string \<Rightarrow> nat option" where
  "current a name = Option.bind (ag_services a name) ss_CurrentSlurp"

definition completions :: "string \<Rightarrow> MessageFromLaunchy list \<Rightarrow> nat" where
  "completions uid ms = length (filter (\<lambda>m. case m of
     FlProcessCompleted c \<Rightarrow> pc_ProcessUid c = uid | _ \<Rightarrow> False) ms)"

text \<open>The runs: their uids were drawn and are distinct, and a run is completed once at most.\<close>

definition runs_ok :: "agent_ext \<Rightarrow> ProcessRunSlurp list \<Rightarrow> nat \<Rightarrow> MessageFromLaunchy list \<Rightarrow> bool" where
  "runs_ok x slurps drawn sent \<longleftrightarrow>
     distinct (map sl_ProcessUid slurps) \<and> sl_ProcessUid ` set slurps \<subseteq> ax_uid x ` {..< drawn} \<and>
     (\<forall>sl \<in> set slurps. completions (sl_ProcessUid sl) sent \<le> (if sl_shutdown sl then 1 else 0)) \<and>
     (\<forall>uid. completions uid sent \<noteq> 0 \<longrightarrow> uid \<in> sl_ProcessUid ` set slurps)"

text \<open>A current run is of its service, and a run that was not shut down is current.\<close>

definition currents_ok :: "ProcessRunSlurp list \<Rightarrow> (string \<Rightarrow> nat option) \<Rightarrow> bool" where
  "currents_ok slurps cur \<longleftrightarrow>
     (\<forall>name i. cur name = Some i \<longrightarrow> i < length slurps \<and> sl_service (slurps ! i) = name) \<and>
     (\<forall>i < length slurps. \<not> sl_shutdown (slurps ! i) \<longrightarrow> cur (sl_service (slurps ! i)) = Some i)"

definition agent_ok :: "agent_ext \<Rightarrow> agent \<Rightarrow> bool" where
  "agent_ok x a \<longleftrightarrow> runs_ok x (ag_slurps a) (ag_uids a) (ag_sent a) \<and> currents_ok (ag_slurps a) (current a)"

lemma completions_simps [simp]:
  "completions uid [] = 0"
  "completions uid (ms @ ns) = completions uid ms + completions uid ns"
  "completions uid [FlProcessCompleted (completed_request u msg now)] = (if u = uid then 1 else 0)"
  "completions uid [FlProcessStarted r] = 0" "completions uid [FlProcessPing p] = 0"
  by (simp_all add: completions_def completed_request_def)

lemma current_set [simp]:
  "ag_services a name \<noteq> None \<Longrightarrow>
     current (a\<lparr>ag_services := (ag_services a)(name := map_option (\<lambda>s. s\<lparr>ss_CurrentSlurp := i\<rparr>) (ag_services a name))\<rparr>) =
     (current a)(name := i)"
  by (auto simp: current_def fun_eq_iff)

lemma current_frame [simp]:
  "current (a\<lparr>ag_slurps := l\<rparr>) = current a" "current (a\<lparr>ag_sent := m\<rparr>) = current a"
  "current (a\<lparr>ag_calls := n\<rparr>) = current a" "current (a\<lparr>ag_uids := n\<rparr>) = current a"
  "current (a\<lparr>ag_notFound := t\<rparr>) = current a"
  by (simp_all add: current_def fun_eq_iff)

lemma st_post_agent_send [wp_simps]:
  "st_post (agent_send x mk) a P \<longleftrightarrow>
     (case ax_refuse x (ag_calls a) of
        Some e \<Rightarrow> P (Some e) (a\<lparr>ag_calls := Suc (ag_calls a)\<rparr>)
      | None \<Rightarrow> P None (a\<lparr>ag_calls := Suc (ag_calls a),
                  ag_sent := ag_sent a @ [mk (ax_now x (ag_calls a))]\<rparr>))"
  by (simp add: st_post_def agent_send_def Let_def split: option.split)

text \<open>A run that changes neither service nor uid nor is reopened.\<close>

definition same_run :: "ProcessRunSlurp \<Rightarrow> ProcessRunSlurp \<Rightarrow> bool" where
  "same_run sl sl' \<longleftrightarrow> sl_service sl' = sl_service sl \<and> sl_ProcessUid sl' = sl_ProcessUid sl \<and>
     (sl_shutdown sl \<longrightarrow> sl_shutdown sl')"

lemma uids_update:
  "i < length slurps \<Longrightarrow> sl_ProcessUid sl = sl_ProcessUid (slurps ! i) \<Longrightarrow>
     map sl_ProcessUid (slurps[i := sl]) = map sl_ProcessUid slurps"
  by (metis list_update_id map_update)

lemma runs_ok_update:
  assumes "runs_ok x slurps n sent" and i: "i < length slurps" and same: "same_run (slurps ! i) sl"
  shows "runs_ok x (slurps[i := sl]) n sent"
proof -
  from same have uid: "sl_ProcessUid sl = sl_ProcessUid (slurps ! i)" by (simp add: same_run_def)
  have sub: "set (slurps[i := sl]) \<subseteq> insert sl (set slurps)" by (rule set_update_subset_insert)
  have "completions (sl_ProcessUid sl) sent \<le> (if sl_shutdown sl then 1 else 0)"
  proof -
    have "completions (sl_ProcessUid sl) sent \<le> (if sl_shutdown (slurps ! i) then 1 else 0)"
      using assms(1) nth_mem [OF i] by (simp only: runs_ok_def uid)
    with same show ?thesis by (auto simp: same_run_def split: if_splits)
  qed
  with sub assms(1) have "\<forall>s \<in> set (slurps[i := sl]).
      completions (sl_ProcessUid s) sent \<le> (if sl_shutdown s then 1 else 0)"
    unfolding runs_ok_def by blast
  moreover have set: "sl_ProcessUid ` set (slurps[i := sl]) = sl_ProcessUid ` set slurps"
    using uids_update [OF i uid] by (metis list.set_map)
  ultimately show ?thesis
    using assms(1) unfolding runs_ok_def uids_update [OF i uid] set by blast
qed

lemma currents_ok_update:
  assumes "currents_ok slurps cur" and "i < length slurps" and "same_run (slurps ! i) sl"
  shows "currents_ok (slurps[i := sl]) cur"
  using assms unfolding currents_ok_def same_run_def by (auto simp: nth_list_update)

text \<open>A shutdown: the completion and the run shut down.\<close>

lemma runs_ok_shutdown:
  assumes "runs_ok x slurps n sent" and i: "i < length slurps" and open_: "\<not> sl_shutdown (slurps ! i)"
    and "sl_ProcessUid sl = sl_ProcessUid (slurps ! i)" and "sl_shutdown sl"
  shows "runs_ok x (slurps[i := sl]) n (sent @ [FlProcessCompleted (completed_request (sl_ProcessUid sl) msg now)])"
proof -
  let ?uid = "sl_ProcessUid sl"
  have uids: "map sl_ProcessUid (slurps[i := sl]) = map sl_ProcessUid slurps"
    by (rule uids_update [OF i assms(4)])
  then have set: "sl_ProcessUid ` set (slurps[i := sl]) = sl_ProcessUid ` set slurps" by (metis list.set_map)
  have zero: "completions ?uid sent = 0"
    using assms(1,4) open_ i by (auto simp: runs_ok_def) (metis le_zero_eq nth_mem)
  have other: "sl_ProcessUid (slurps ! j) \<noteq> ?uid" if "j < length slurps" "j \<noteq> i" for j
    using assms(1,4) i that by (auto simp: runs_ok_def distinct_conv_nth)
  have "completions (sl_ProcessUid (slurps[i := sl] ! j))
      (sent @ [FlProcessCompleted (completed_request ?uid msg now)]) \<le>
      (if sl_shutdown (slurps[i := sl] ! j) then 1 else 0)" if "j < length slurps" for j
    using assms(1,5) zero other [of j] that i by (cases "j = i") (auto simp: runs_ok_def)
  then have "\<forall>s \<in> set (slurps[i := sl]). completions (sl_ProcessUid s)
      (sent @ [FlProcessCompleted (completed_request ?uid msg now)]) \<le> (if sl_shutdown s then 1 else 0)"
    by (metis in_set_conv_nth length_list_update)
  moreover have "uid \<in> sl_ProcessUid ` set slurps"
    if "completions uid (sent @ [FlProcessCompleted (completed_request ?uid msg now)]) \<noteq> 0" for uid
  proof (cases "uid = ?uid")
    case True
    with assms(4) nth_mem [OF i] show ?thesis by (metis imageI)
  next
    case False
    with that assms(1) show ?thesis by (simp add: runs_ok_def)
  qed
  ultimately show ?thesis using assms(1) unfolding runs_ok_def uids set by blast
qed

lemma runs_ok_started:
  assumes "runs_ok x slurps n sent" and "inj (ax_uid x)"
    and "sl_ProcessUid sl = ax_uid x n" and "\<not> sl_shutdown sl"
  shows "runs_ok x (slurps @ [sl]) (Suc n) (sent @ [FlProcessStarted r])"
proof -
  have new: "ax_uid x n \<notin> sl_ProcessUid ` set slurps"
  proof
    assume "ax_uid x n \<in> sl_ProcessUid ` set slurps"
    with assms(1) have "ax_uid x n \<in> ax_uid x ` {..< n}" by (auto simp: runs_ok_def)
    with assms(2) show False by (auto dest: injD)
  qed
  then have "completions (ax_uid x n) sent = 0" using assms(1) by (auto simp: runs_ok_def)
  with assms new show ?thesis unfolding runs_ok_def by (auto simp: less_Suc_eq)
qed

lemma runs_ok_drawn: "runs_ok x slurps n sent \<Longrightarrow> runs_ok x slurps (Suc n) sent"
  unfolding runs_ok_def by (auto simp: lessThan_Suc)

lemma runs_ok_other:
  "runs_ok x slurps n sent \<Longrightarrow> \<forall>uid. completions uid ms = 0 \<Longrightarrow> runs_ok x slurps n (sent @ ms)"
  by (simp add: runs_ok_def)

lemma currents_okI:
  assumes "\<And>name i. cur name = Some i \<Longrightarrow> i < length slurps \<and> sl_service (slurps ! i) = name"
    and "\<And>i. i < length slurps \<Longrightarrow> \<not> sl_shutdown (slurps ! i) \<Longrightarrow> cur (sl_service (slurps ! i)) = Some i"
  shows "currents_ok slurps cur"
  using assms by (simp add: currents_ok_def)

lemma currents_okD:
  assumes "currents_ok slurps cur"
  shows "cur name = Some i \<Longrightarrow> i < length slurps \<and> sl_service (slurps ! i) = name"
    and "i < length slurps \<Longrightarrow> \<not> sl_shutdown (slurps ! i) \<Longrightarrow> cur (sl_service (slurps ! i)) = Some i"
  using assms by (simp_all add: currents_ok_def)

lemma currents_ok_stop:
  assumes "currents_ok slurps cur" and "cur name = Some i" and "sl_shutdown sl"
    and "same_run (slurps ! i) sl"
  shows "currents_ok (slurps[i := sl]) (cur(name := None))"
proof (rule currents_okI)
  fix n j assume "(cur(name := None)) n = Some j"
  then show "j < length (slurps[i := sl]) \<and> sl_service (slurps[i := sl] ! j) = n"
    using currents_okD(1) [OF assms(1), of n j] assms(4)
    by (cases "j = i") (auto simp: same_run_def split: if_splits)
next
  fix j assume j: "j < length (slurps[i := sl])" "\<not> sl_shutdown (slurps[i := sl] ! j)"
  then have "j \<noteq> i" using assms(3) by auto
  with j currents_okD(2) [OF assms(1), of j] assms(2)
  show "(cur(name := None)) (sl_service (slurps[i := sl] ! j)) = Some j" by auto
qed

lemma currents_ok_start:
  assumes "currents_ok slurps cur" and "cur name = None" and "sl_service sl = name"
  shows "currents_ok (slurps @ [sl]) (cur(name := Some (length slurps)))"
proof (rule currents_okI)
  fix n j assume "(cur(name := Some (length slurps))) n = Some j"
  then show "j < length (slurps @ [sl]) \<and> sl_service ((slurps @ [sl]) ! j) = n"
    using currents_okD(1) [OF assms(1), of n j] assms(3)
    by (auto simp: nth_append split: if_splits)
next
  fix j assume j: "j < length (slurps @ [sl])" "\<not> sl_shutdown ((slurps @ [sl]) ! j)"
  show "(cur(name := Some (length slurps))) (sl_service ((slurps @ [sl]) ! j)) = Some j"
  proof (cases "j = length slurps")
    case False
    with j currents_okD(2) [OF assms(1), of j] assms(2) show ?thesis by (auto simp: nth_append)
  qed (simp add: assms(3))
qed

lemma current_None: "current a name = None \<Longrightarrow> (current a)(name := None) = current a"
  by (simp add: fun_upd_idem_iff)

definition with_current :: "string \<Rightarrow> nat option \<Rightarrow> agent \<Rightarrow> agent" where
  "with_current name i a = a\<lparr>ag_services := (ag_services a)
     (name := map_option (\<lambda>s. s\<lparr>ss_CurrentSlurp := i\<rparr>) (ag_services a name))\<rparr>"

lemma with_current_simps [simp]:
  "ag_slurps (with_current name i a) = ag_slurps a" "ag_sent (with_current name i a) = ag_sent a"
  "ag_uids (with_current name i a) = ag_uids a"
  "dom (ag_services (with_current name i a)) = dom (ag_services a)"
  "ag_services a name \<noteq> None \<Longrightarrow> current (with_current name i a) = (current a)(name := i)"
  by (auto simp: with_current_def current_def fun_eq_iff)

lemma set_current_post [wp_simps]:
  "st_post (set_current name i) a P \<longleftrightarrow> P () (with_current name i a)"
  by (simp add: set_current_def with_current_def wp_simps)

lemma set_slurp_post [wp_simps]:
  "st_post (set_slurp i f) a P \<longleftrightarrow> P () (a\<lparr>ag_slurps := (ag_slurps a)[i := f (ag_slurps a ! i)]\<rparr>)"
  by (simp add: set_slurp_def wp_simps)

lemma Shutdown_post:
  assumes runs: "runs_ok x (ag_slurps a) (ag_uids a) (ag_sent a)" and i: "i < length (ag_slurps a)"
  shows "st_post (slurp_Shutdown x i msg) a (\<lambda>_ a'.
    runs_ok x (ag_slurps a') (ag_uids a') (ag_sent a') \<and> ag_services a' = ag_services a \<and>
    (\<exists>sl. ag_slurps a' = (ag_slurps a)[i := sl] \<and> same_run (ag_slurps a ! i) sl \<and> sl_shutdown sl))"
proof (cases "sl_shutdown (ag_slurps a ! i)")
  case True
  then show ?thesis
    using runs by (auto simp: slurp_Shutdown_def wp_simps same_run_def
        intro!: exI [of _ "ag_slurps a ! i"])
next
  case False
  let ?sl = "(ag_slurps a ! i)\<lparr>sl_shutdown := True, sl_Running := False, sl_cancelled := True\<rparr>"
  have same: "same_run (ag_slurps a ! i) ?sl" by (simp add: same_run_def)
  have "runs_ok x ((ag_slurps a)[i := ?sl]) (ag_uids a) (ag_sent a @
      [FlProcessCompleted (completed_request (sl_ProcessUid ?sl) msg now)])" for now
    by (rule runs_ok_shutdown [OF runs i False]) simp_all
  with runs_ok_update [OF runs i same] same False show ?thesis
    by (auto simp: slurp_Shutdown_def wp_simps split: option.split)
qed

lemma stopCurrentSlurp_post:
  assumes "agent_ok x a" and "ag_services a name \<noteq> None"
  shows "st_post (stopCurrentSlurp x name msg) a (\<lambda>_ a'. agent_ok x a' \<and> current a' name = None \<and>
    dom (ag_services a') = dom (ag_services a))"
proof (cases "current a name")
  case None
  with assms show ?thesis by (simp add: stopCurrentSlurp_def wp_simps current_def)
next
  case (Some i)
  with assms have runs: "runs_ok x (ag_slurps a) (ag_uids a) (ag_sent a)"
    and cur: "currents_ok (ag_slurps a) (current a)" and i: "i < length (ag_slurps a)"
    by (auto simp: agent_ok_def currents_ok_def)
  have "st_post (slurp_Shutdown x i msg) a (\<lambda>u a'. st_post (set_current name None) a' (\<lambda>_ a'.
      agent_ok x a' \<and> current a' name = None \<and> dom (ag_services a') = dom (ag_services a)))"
  proof (rule st_post_mono [OF Shutdown_post [OF runs i]])
    fix u and a' :: agent
    assume "runs_ok x (ag_slurps a') (ag_uids a') (ag_sent a') \<and> ag_services a' = ag_services a \<and>
      (\<exists>sl. ag_slurps a' = (ag_slurps a)[i := sl] \<and> same_run (ag_slurps a ! i) sl \<and> sl_shutdown sl)"
    moreover from this have "current a' = current a" by (simp add: current_def fun_eq_iff)
    ultimately show "st_post (set_current name None) a' (\<lambda>_ a'.
      agent_ok x a' \<and> current a' name = None \<and> dom (ag_services a') = dom (ag_services a))"
      using currents_ok_stop [OF cur Some] assms(2)
      by (auto simp: wp_simps agent_ok_def)
  qed
  with Some show ?thesis by (simp add: stopCurrentSlurp_def wp_simps current_def)
qed

lemma StartProcessRunSlurp_post:
  assumes "agent_ok x a" and "inj (ax_uid x)" and "current a name = None"
    and "ag_services a name = Some info"
  shows "st_post (StartProcessRunSlurp x name info) a (\<lambda>i a'. st_post (set_current name i) a' (\<lambda>_ a'.
    agent_ok x a' \<and> dom (ag_services a') = dom (ag_services a)))"
proof -
  have runs: "runs_ok x (ag_slurps a) (ag_uids a) (ag_sent a)"
    and cur: "currents_ok (ag_slurps a) (current a)"
    using assms(1) by (auto simp: agent_ok_def)
  note started = runs_ok_started [OF runs assms(2)] currents_ok_start [OF cur assms(3)]
  show ?thesis
    using started runs_ok_drawn [OF runs] cur assms(3,4) current_None [OF assms(3)]
    by (auto simp: StartProcessRunSlurp_def Let_def wp_simps agent_ok_def split: option.split)
qed

lemma newSlurp_post:
  assumes "agent_ok x a" and "inj (ax_uid x)" and "ag_services a name \<noteq> None"
  shows "st_post (newSlurp x name) a (\<lambda>_ a'. agent_ok x a' \<and> dom (ag_services a') = dom (ag_services a))"
  unfolding newSlurp_def st_post_bind
  by (rule st_post_mono [OF stopCurrentSlurp_post [OF assms(1,3)]])
     (use assms(3) in \<open>auto simp: st_post_bind st_post_basic
        dest: StartProcessRunSlurp_post [OF _ assms(2)]\<close>)

lemma newSlurp_ok:
  assumes "agent_ok x a" and "inj (ax_uid x)" and "ag_services a name \<noteq> None"
  shows "st_post (newSlurp x name) a (\<lambda>_ a'. agent_ok x a')"
  by (rule st_post_mono [OF newSlurp_post [OF assms]]) (rule conjunct1)

lemma stopCurrentSlurp_ok:
  assumes "agent_ok x a" and "ag_services a name \<noteq> None"
  shows "st_post (stopCurrentSlurp x name msg) a (\<lambda>_ a'. agent_ok x a')"
  by (rule st_post_mono [OF stopCurrentSlurp_post [OF assms]]) (rule conjunct1)

lemma set_slurp_keeps:
  assumes "agent_ok x a" and "i < length (ag_slurps a)" and "same_run (ag_slurps a ! i) sl"
  shows "agent_ok x (a\<lparr>ag_slurps := (ag_slurps a)[i := sl]\<rparr>)"
  using assms by (simp add: agent_ok_def runs_ok_update currents_ok_update)

lemma set_slurp_ok:
  assumes "agent_ok x a" and "i < length (ag_slurps a)" and "same_run (ag_slurps a ! i) (f (ag_slurps a ! i))"
  shows "st_post (set_slurp i f) a (\<lambda>_ a'. agent_ok x a')"
  using set_slurp_keeps [OF assms] by (simp add: set_slurp_def wp_simps)

lemma agent_ok_current: "agent_ok x a \<Longrightarrow> current a name = Some i \<Longrightarrow> i < length (ag_slurps a)"
  by (simp add: agent_ok_def currents_ok_def)

lemma push_line_post:
  assumes "agent_ok x a"
  shows "st_post (st_bind (st_lift (deref (Option.bind (ag_services a name) ss_CurrentSlurp))) (\<lambda>i.
      set_slurp i (\<lambda>sl. sl\<lparr>sl_queue := sl_queue sl @ [b]\<rparr>))) a (\<lambda>_ a'. agent_ok x a')"
  unfolding st_post_bind st_post_basic current_def [symmetric]
  using assms by (auto dest: agent_ok_current intro!: set_slurp_ok simp: same_run_def)

lemma app_message_post:
  assumes "agent_ok x a" and "inj (ax_uid x)" and "ag_services a name \<noteq> None"
  shows "st_post (app_message x name line) a (\<lambda>_ a'. agent_ok x a')"
proof -
  have "st_post (if Option.bind (ag_services a name) ss_CurrentSlurp = None then newSlurp x name
      else st_return ()) a (\<lambda>_ a'. agent_ok x a')"
    unfolding st_post_cases st_post_basic using newSlurp_ok [OF assms] assms(1) by iprover
  then show ?thesis
    unfolding app_message_def st_post_bind [of st_get] st_post_basic(2)
      st_post_bind [of "if _ then _ else _"]
    by (rule st_post_mono) (rule push_line_post)
qed

lemma find_service_known: "find_service a m = (Some name, tried) \<Longrightarrow> ag_services a name \<noteq> None"
  by (auto simp: find_service_def try_service_def split: if_splits)

lemma handle_message_post:
  assumes "agent_ok x a" and "inj (ax_uid x)"
  shows "st_post (handle_message jc x m) a (\<lambda>_ a'. agent_ok x a')"
proof -
  obtain found tried where f: "find_service a m = (found, tried)" by fastforce
  have skip: "agent_ok x (a\<lparr>ag_notFound := t\<rparr>)" for t using assms(1) by (simp add: agent_ok_def)
  show ?thesis
  proof (cases found)
    case None
    with f skip assms(1) show ?thesis by (simp add: handle_message_def wp_simps)
  next
    case (Some name)
    with f have known: "ag_services a name \<noteq> None" by (simp add: find_service_known)
    note post = stopCurrentSlurp_ok [OF assms(1) known] newSlurp_ok [OF assms known]
      app_message_post [OF assms known]
    have branch: "st_post (case kind of
        AppMessage \<Rightarrow> (case MessageLine jc m of
           (_, Some err) \<Rightarrow> st_return ()
         | (None, None) \<Rightarrow> st_return ()
         | (Some line, None) \<Rightarrow> app_message x name line)
      | KindStart \<Rightarrow> newSlurp x name
      | KindFailed \<Rightarrow> stopCurrentSlurp x name ''failed''
      | KindStopped \<Rightarrow> stopCurrentSlurp x name ''stopped''
      | _ \<Rightarrow> st_return ()) a (\<lambda>_ a'. agent_ok x a')" for kind
      using post assms(1)
      by (cases kind; cases "MessageLine jc m"; cases "fst (MessageLine jc m)"; cases "snd (MessageLine jc m)")
         (simp_all add: st_post_basic)
    show ?thesis
      using f Some assms(1) branch
      by (simp add: handle_message_def st_post_bind st_post_basic st_post_cases(1))
  qed
qed

lemma current_processRecord [simp]: "current (processRecord rcd a) = current a"
  by (auto simp: processRecord_def current_def fun_eq_iff split: option.split)

lemma agent_step_keeps:
  assumes "agent_step jc x a a'" and "agent_ok x a" and "inj (ax_uid x)"
  shows "agent_ok x a'"
  using assms(1)
proof cases
  case (step_line line)
  have "st_post (handle_line jc x line) a (\<lambda>_ a'. agent_ok x a')"
    using handle_message_post [OF assms(2,3)] assms(2)
    by (auto simp: handle_line_def wp_simps)
  then show ?thesis using step_line by (auto dest: st_postD)
next
  case (step_ended i)
  have runs: "runs_ok x (ag_slurps a) (ag_uids a) (ag_sent a)"
    and cur: "currents_ok (ag_slurps a) (current a)"
    using assms(2) by (auto simp: agent_ok_def)
  have "st_post (st_bind (slurp_Shutdown x i ''failed'') (\<lambda>_. set_slurp i (\<lambda>sl. sl\<lparr>sl_ended := True\<rparr>))) a
      (\<lambda>_ a'. agent_ok x a')"
    unfolding st_post_bind
  proof (rule st_post_mono [OF Shutdown_post [OF runs step_ended(1)]])
    fix u and b :: agent
    assume b: "runs_ok x (ag_slurps b) (ag_uids b) (ag_sent b) \<and> ag_services b = ag_services a \<and>
      (\<exists>sl. ag_slurps b = (ag_slurps a)[i := sl] \<and> same_run (ag_slurps a ! i) sl \<and> sl_shutdown sl)"
    then have "current b = current a" by (simp add: current_def fun_eq_iff)
    with b currents_ok_update [OF cur step_ended(1)] have "agent_ok x b" by (auto simp: agent_ok_def)
    with b step_ended(1) show "st_post (set_slurp i (\<lambda>sl. sl\<lparr>sl_ended := True\<rparr>)) b (\<lambda>_ a'. agent_ok x a')"
      by (auto simp: wp_simps same_run_def intro!: set_slurp_keeps)
  qed
  then show ?thesis using step_ended by (auto dest: st_postD)
next
  case (step_take i b q)
  then show ?thesis
    using set_slurp_keeps [OF assms(2) step_take(1)] by (auto simp: set_slurp_def same_run_def)
next
  case (step_pid_gone i)
  then show ?thesis
    using set_slurp_keeps [OF assms(2) step_pid_gone(1)] by (auto simp: set_slurp_def same_run_def)
next
  case (step_record rcd)
  have "ag_slurps (processRecord rcd a) = ag_slurps a" "ag_sent (processRecord rcd a) = ag_sent a"
    "ag_uids (processRecord rcd a) = ag_uids a"
    by (auto simp: processRecord_def split: option.split)
  with assms(2) step_record show ?thesis by (simp add: agent_ok_def)
next
  case (step_ping walk sizes)
  have "st_post (journal_ping x walk sizes) a (\<lambda>_ a'. agent_ok x a')"
    using assms(2) runs_ok_other [of x "ag_slurps a" "ag_uids a" "ag_sent a"]
    by (auto simp: journal_ping_def Let_def wp_simps agent_ok_def split: option.split)
  then show ?thesis using step_ping by (auto dest: st_postD)
qed


section \<open>Panics of the reader\<close>

text \<open>
  The reader of the journal panics, and with it the agent, on two lines the agent has no control
  of: a systemd line about a watched service without a message, and a line of a service that has no
  run when nefario does not take the start of one.
\<close>

theorem journal_reader_panics:
  assumes "jm_SystemdUserUnit m \<noteq> ''minion.service''" and "find_service a m = (Some name, tried)"
    and "ag_services a name = Some service" and "srd_MinionEnabled (ss_Record service)"
  shows "(jm_SyslogId m = ''systemd'' \<longrightarrow> jm_JobType m \<notin> {''start'', ''stop''} \<longrightarrow>
       jm_CodeFunc m \<in> {''unit_status_log_starting_stopping_reloading'', ''unit_log_resources''} \<longrightarrow>
       fst (MessageLine jc m) = None \<longrightarrow> handle_message jc x m a = Inl PanicNil) \<and>
    (jm_SyslogId m \<noteq> ''systemd'' \<longrightarrow> MessageLine jc m = (Some line, None) \<longrightarrow>
       ss_CurrentSlurp service = None \<longrightarrow> ax_refuse x (ag_calls a) \<noteq> None \<longrightarrow>
       handle_message jc x m a = Inl PanicNil)"
proof (intro conjI impI)
  assume "jm_SyslogId m = ''systemd''" "jm_JobType m \<notin> {''start'', ''stop''}"
    "jm_CodeFunc m \<in> {''unit_status_log_starting_stopping_reloading'', ''unit_log_resources''}"
    "fst (MessageLine jc m) = None"
  then have "message_kind jc m = Inl PanicNil"
    by (cases "MessageLine jc m") (auto simp: message_kind_def)
  with assms show "handle_message jc x m a = Inl PanicNil"
    by (simp add: handle_message_def st_bind_def st_get_def st_lift_def)
next
  assume r: "jm_SyslogId m \<noteq> ''systemd''" "MessageLine jc m = (Some line, None)"
    "ss_CurrentSlurp service = None" "ax_refuse x (ag_calls a) \<noteq> None"
  then obtain e where e: "ax_refuse x (ag_calls a) = Some e" by auto
  have "message_kind jc m = Inr AppMessage" using r(1) by (simp add: message_kind_def)
  with assms r e show "handle_message jc x m a = Inl PanicNil"
    by (simp add: handle_message_def app_message_def newSlurp_def stopCurrentSlurp_def
        StartProcessRunSlurp_def agent_send_def set_current_def st_bind_def st_get_def st_lift_def
        st_modify_def st_return_def Let_def)
qed

section \<open>The publisher\<close>

definition sent_buffers :: "publisher \<Rightarrow> Buffer option list" where
  "sent_buffers p = concat (map (\<lambda>w. case sw_Record w of None \<Rightarrow> [] | Some r \<Rightarrow> str_Buffers r) (pb_sent p))"

fun received :: "publish_wait list \<Rightarrow> Buffer list" where
  "received [] = []"
| "received (PubBuffer b # ws) = b # received ws"
| "received (w # ws) = received ws"

lemma sendCurrentBuffers_buffers:
  "sent_buffers (sendCurrentBuffers uid seq now p) = sent_buffers p @ pb_currentBuffers p"
  "pb_currentBuffers (sendCurrentBuffers uid seq now p) = []"
  by (auto simp: sendCurrentBuffers_def sent_buffers_def)

lemma publisher_loop_buffers:
  "publisher_loop w uid seq clock waits p = (fin, rest, p') \<Longrightarrow>
    \<exists>taken. waits = taken @ rest \<and>
      sent_buffers p' @ pb_currentBuffers p' =
        sent_buffers p @ pb_currentBuffers p @ map Some (received taken) \<and>
      (fin \<longrightarrow> pb_currentBuffers p' = [])"
proof (induction w uid seq clock waits p rule: publisher_loop.induct)
  case (2 w uid seq now now' clock waits p)
  show ?case
  proof (cases "pb_start p + cw_MaxTime w - now \<le> 0")
    case True
    with 2(1) [OF True] 2(4) show ?thesis
      by (simp add: sendCurrentBuffers_buffers)
  next
    case False
    show ?thesis
    proof (cases waits)
      case Nil
      with False 2(4) show ?thesis by auto
    next
      case (Cons v vs)
      show ?thesis
      proof (cases v)
        case PubDone
        with Cons False 2(4) show ?thesis
          by (intro exI [of _ "[PubDone]"]) (auto simp: sendCurrentBuffers_buffers)
      next
        case (PubBuffer b)
        let ?p1 = "p\<lparr>pb_byteCount := pb_byteCount p + int (length (buf_Data b)),
          pb_currentBuffers := pb_currentBuffers p @ [Some b]\<rparr>"
        from 2(2) [OF False, of v vs b] Cons PubBuffer False 2(4) obtain taken where
          "vs = taken @ rest" "fin \<longrightarrow> pb_currentBuffers p' = []"
          "sent_buffers p' @ pb_currentBuffers p' =
            sent_buffers (if pb_byteCount ?p1 \<ge> cw_MaxBytes w then sendCurrentBuffers uid seq now' ?p1 else ?p1) @
            pb_currentBuffers (if pb_byteCount ?p1 \<ge> cw_MaxBytes w then sendCurrentBuffers uid seq now' ?p1 else ?p1) @
            map Some (received taken)"
          by (auto simp: Let_def)
        moreover have "sent_buffers ?p1 = sent_buffers p" by (simp add: sent_buffers_def)
        ultimately show ?thesis using Cons PubBuffer
          by (intro exI [of _ "PubBuffer b # taken"])
             (auto simp: sendCurrentBuffers_buffers split: if_splits)
      next
        case PubTimeout
        with 2(3) [OF False, of v vs] Cons False 2(4) obtain taken where
          "vs = taken @ rest" "fin \<longrightarrow> pb_currentBuffers p' = []"
          "sent_buffers p' @ pb_currentBuffers p' =
            sent_buffers (sendCurrentBuffers uid seq now' p) @
            pb_currentBuffers (sendCurrentBuffers uid seq now' p) @ map Some (received taken)"
          by auto
        with Cons PubTimeout show ?thesis
          by (intro exI [of _ "PubTimeout # taken"]) (auto simp: sendCurrentBuffers_buffers)
      qed
    qed
  qed
qed auto


section \<open>Examples\<close>

definition demo_journal_record :: ServiceRecordDto where
  "demo_journal_record = \<lparr>srd_Uid = ''s1'', srd_Name = ''web.service'', srd_MinionUid = ''m1'',
     srd_MinionEnabled = True\<rparr>"

definition demo_agent :: agent where
  "demo_agent = \<lparr>ag_MinionUid = ''m1'', ag_ProcessUid = ''p1'',
     ag_services = [''web.service'' \<mapsto> \<lparr>ss_Record = demo_journal_record, ss_CurrentSlurp = None\<rparr>],
     ag_slurps = [], ag_sent = [], ag_calls = 0, ag_uids = 0, ag_notFound = {}\<rparr>"

definition demo_agent_ext :: "go_error option \<Rightarrow> agent_ext" where
  "demo_agent_ext refuse = \<lparr>ax_refuse = (\<lambda>_. refuse), ax_now = int, ax_MainPID = (\<lambda>_ _. ([], None)),
     ax_uid = (\<lambda>n. replicate n (CHR ''u''))\<rparr>"

definition demo_line :: "string \<Rightarrow> bytes \<Rightarrow> string \<Rightarrow> JournalCtlMessage" where
  "demo_line job msg syslog = \<lparr>jm_CodeFunc = ''unit_log_resources'', jm_SyslogId = syslog, jm_Message = msg,
     jm_SystemdUserUnit = [], jm_UserUnit = ''web.service'', jm_JobType = job\<rparr>"

definition demo_journal :: journal_codec where
  "demo_journal = \<lparr>jc_bytes = (\<lambda>_. Inr []), jc_string = (\<lambda>_. Inr ''hello''),
     jc_line = (\<lambda>_. Inr (demo_line ''start'' [] ''systemd''))\<rparr>"

lemmas demo_agent_simps = demo_journal_record_def demo_agent_def demo_agent_ext_def demo_line_def
  demo_journal_def handle_line_def handle_message_def find_service_def try_service_def
  message_kind_def newSlurp_def stopCurrentSlurp_def StartProcessRunSlurp_def agent_send_def
  set_current_def st_bind_def st_get_def st_lift_def st_modify_def st_return_def Let_def


theorem journal_reader_panics_witness:
  "handle_message demo_journal (demo_agent_ext None) (demo_line [] [] ''systemd'') demo_agent = Inl PanicNil \<and>
   handle_message demo_journal (demo_agent_ext (Some (GoErr ''gone''))) (demo_line [] [0x22] ''web'') demo_agent =
     Inl PanicNil"
proof -
  have "find_service demo_agent (demo_line [] msg syslog) = (Some ''web.service'', [''web.service''])" for msg syslog
    by (simp add: find_service_def try_service_def demo_agent_def demo_line_def)
  note panics = journal_reader_panics [OF _ this, of _ _
    "\<lparr>ss_Record = demo_journal_record, ss_CurrentSlurp = None\<rparr>" demo_journal _ "''hello''"]
  show ?thesis
    using panics [of "[]" "''systemd''" "demo_agent_ext None"]
      panics [of "[0x22]" "''web''" "demo_agent_ext (Some (GoErr ''gone''))"]
    by (simp add: demo_line_def demo_agent_def demo_journal_record_def demo_agent_ext_def demo_journal_def
        MessageLine_def)
qed

definition demo_buffer :: Buffer where
  "demo_buffer = \<lparr>buf_Timestamp = None, buf_Data = [0x68, 0x0A], buf_Transport = TransportUnspecified\<rparr>"


end
