(* ===== verification/Host.thy ===== *)
theory Host
  imports HermesProto A8Files
begin

text \<open>
  The machine the deployment and launcher code works on: the parts of \<open>path/filepath\<close>, \<open>os\<close> and
  \<open>os/exec\<close> that the source uses, over an explicit tree of directories, files and symbolic links. The
  operating system may refuse any call, and an external command changes the tree as it pleases.
  Permissions and times of files are left out; a call that fails changes nothing.
\<close>

section \<open>Computations that return an error\<close>

named_theorems err_simps \<open>computations that return an error or a value\<close>

type_synonym ('s, 'a) est = "('s, go_error + 'a) st"

definition e_return :: "'a \<Rightarrow> ('s, 'a) est" where "e_return x = st_return (Inr x)"

definition e_fail :: "go_error \<Rightarrow> ('s, 'a) est" where "e_fail e = st_return (Inl e)"

definition e_bind :: "('s, 'a) est \<Rightarrow> ('a \<Rightarrow> ('s, 'b) est) \<Rightarrow> ('s, 'b) est" where
  "e_bind m f = st_bind m (\<lambda>r. case r of Inl e \<Rightarrow> st_return (Inl e) | Inr x \<Rightarrow> f x)"

definition e_then :: "('s, unit) est \<Rightarrow> ('s, 'b) est \<Rightarrow> ('s, 'b) est" where
  "e_then m k = e_bind m (\<lambda>_. k)"

text \<open>\<open>stacktrace.Propagate\<close> of the error, if any; an error that is only logged.\<close>

definition e_wrap :: "string \<Rightarrow> ('s, 'a) est \<Rightarrow> ('s, 'a) est" where
  "e_wrap label m = st_bind m (\<lambda>r. st_return (case r of Inl e \<Rightarrow> Inl (WrapErr label e) | Inr x \<Rightarrow> Inr x))"

definition e_ignore :: "('s, 'a) est \<Rightarrow> ('s, unit) est" where
  "e_ignore m = st_bind m (\<lambda>_. e_return ())"

definition e_lift :: "'a run \<Rightarrow> ('s, 'a) est" where
  "e_lift r = st_bind (st_lift r) e_return"

fun e_each :: "('a \<Rightarrow> ('s, unit) est) \<Rightarrow> 'a list \<Rightarrow> ('s, unit) est" where
  "e_each f [] = e_return ()"
| "e_each f (x # xs) = e_then (f x) (e_each f xs)"

text \<open>A loop that goes on after an error and collects the errors.\<close>

fun e_collect :: "('a \<Rightarrow> ('s, unit) est) \<Rightarrow> 'a list \<Rightarrow> ('s, ('a \<times> go_error) list) est" where
  "e_collect f [] = e_return []"
| "e_collect f (x # xs) =
     st_bind (f x) (\<lambda>r. e_bind (e_collect f xs) (\<lambda>errs.
       e_return (case r of Inl e \<Rightarrow> (x, e) # errs | Inr u \<Rightarrow> errs)))"

lemma st_post_err [wp_simps]:
  "st_post (e_return x) s P \<longleftrightarrow> P (Inr x) s"
  "st_post (e_fail e) s P \<longleftrightarrow> P (Inl e) s"
  "st_post (e_bind m f) s P \<longleftrightarrow>
     st_post m s (\<lambda>r s'. (\<forall>e. r = Inl e \<longrightarrow> P (Inl e) s') \<and> (\<forall>x. r = Inr x \<longrightarrow> st_post (f x) s' P))"
  "st_post (e_then m' k) s P \<longleftrightarrow>
     st_post m' s (\<lambda>r s'. (\<forall>e. r = Inl e \<longrightarrow> P (Inl e) s') \<and> (\<forall>x. r = Inr x \<longrightarrow> st_post k s' P))"
  "st_post (e_wrap l m'') s P \<longleftrightarrow>
     st_post m'' s (\<lambda>r s'. P (case r of Inl e \<Rightarrow> Inl (WrapErr l e) | Inr x \<Rightarrow> Inr x) s')"
  "st_post (e_lift v) s P \<longleftrightarrow> (\<forall>x. v = Inr x \<longrightarrow> P (Inr x) s)"
  by (simp_all add: e_return_def e_fail_def e_bind_def e_then_def e_wrap_def e_lift_def wp_simps)

lemma st_post_ignore [wp_simps]: "st_post (e_ignore m) s P \<longleftrightarrow> st_post m s (\<lambda>_ s'. P (Inr ()) s')"
  by (simp add: e_ignore_def wp_simps)

text \<open>A loop keeps what each of its rounds keeps.\<close>

lemma st_post_each:
  assumes "\<And>x s. x \<in> set xs \<Longrightarrow> I s \<Longrightarrow> st_post (f x) s (\<lambda>_. I)" and "I s"
  shows "st_post (e_each f xs) s (\<lambda>_. I)"
  using assms
proof (induction xs arbitrary: s)
  case Nil
  then show ?case by (simp add: wp_simps)
next
  case (Cons x xs)
  have "st_post (f x) s (\<lambda>_. I)" by (rule Cons.prems(1)) (use Cons.prems(2) in simp_all)
  then show ?case
    by (simp add: wp_simps) (erule st_post_mono, use Cons in auto)
qed

section \<open>Paths\<close>

text \<open>\<open>filepath.Clean\<close>: the names of a path without empty ones and dots, \<open>..\<close> resolved.\<close>

definition rooted :: "string \<Rightarrow> bool" where "rooted s = (s \<noteq> [] \<and> hd s = CHR ''/'')"

definition path_names :: "string \<Rightarrow> string list" where
  "path_names s = filter (\<lambda>c. c \<noteq> [] \<and> c \<noteq> ''.'') (strings_Split (CHR ''/'') s)"

fun clean_names :: "bool \<Rightarrow> string list \<Rightarrow> string list \<Rightarrow> string list" where
  "clean_names r acc [] = rev acc"
| "clean_names r acc (c # cs) =
     (if c = ''..'' then
        (if acc \<noteq> [] \<and> hd acc \<noteq> ''..'' then clean_names r (tl acc) cs
         else if r then clean_names r acc cs
         else clean_names r (c # acc) cs)
      else clean_names r (c # acc) cs)"

definition filepath_Clean :: "string \<Rightarrow> string" where
  "filepath_Clean s =
     (let out = clean_names (rooted s) [] (path_names s)
      in if rooted s then CHR ''/'' # strings_Join out ''/''
         else if out = [] then ''.'' else strings_Join out ''/'')"

definition filepath_Join :: "string list \<Rightarrow> string" where
  "filepath_Join es =
     (case dropWhile (\<lambda>e. e = []) es of [] \<Rightarrow> [] | es' \<Rightarrow> filepath_Clean (strings_Join es' ''/''))"

definition filepath_Base :: "string \<Rightarrow> string" where
  "filepath_Base s =
     (if s = [] then ''.''
      else let t = strings_TrimRight s ''/''
           in if t = [] then ''/'' else last (strings_Split (CHR ''/'') t))"

definition filepath_Dir :: "string \<Rightarrow> string" where
  "filepath_Dir s = filepath_Clean (strings_Join (butlast (strings_Split (CHR ''/'') s) @ [[]]) ''/'')"

section \<open>The tree\<close>

text \<open>
  A node is found by its names from the root, which itself is a directory. \<open>walk\<close> resolves a path
  the way the system does, following at most \<open>n\<close> links.
\<close>

datatype node = Dir | RegularFile bytes | Link string

type_synonym tree = "string list \<Rightarrow> node option"

definition ENOENT :: go_error where "ENOENT = GoErr ''no such file or directory''"
definition ENOTDIR :: go_error where "ENOTDIR = GoErr ''not a directory''"
definition EISDIR :: go_error where "EISDIR = GoErr ''is a directory''"
definition EEXIST :: go_error where "EEXIST = GoErr ''file exists''"
definition ELOOP :: go_error where "ELOOP = GoErr ''too many levels of symbolic links''"
definition ENOTEMPTY :: go_error where "ENOTEMPTY = GoErr ''directory not empty''"
definition EINVAL :: go_error where "EINVAL = GoErr ''invalid argument''"

definition node_at :: "tree \<Rightarrow> string list \<Rightarrow> node option" where
  "node_at t p = (if p = [] then Some Dir else t p)"

text \<open>A path leads to a node, to a name missing in an existing directory, or nowhere.\<close>

datatype walk_result = Found "string list" | Missing "string list" | Nowhere go_error

fun walk :: "tree \<Rightarrow> nat \<Rightarrow> string list \<Rightarrow> string list \<Rightarrow> walk_result" where
  "walk t n p [] = Found p"
| "walk t n p (c # cs) =
     (if c = ''..'' then walk t n (butlast p) cs
      else case t (p @ [c]) of
          None \<Rightarrow> if cs = [] then Missing (p @ [c]) else Nowhere ENOENT
        | Some Dir \<Rightarrow> walk t n (p @ [c]) cs
        | Some (RegularFile b) \<Rightarrow> if cs = [] then Found (p @ [c]) else Nowhere ENOTDIR
        | Some (Link l) \<Rightarrow>
            (case n of 0 \<Rightarrow> Nowhere ELOOP
             | Suc m \<Rightarrow> walk t m (if rooted l then [] else p) (path_names l @ cs)))"

definition max_links :: nat where "max_links = 40"

definition full_names :: "string \<Rightarrow> string \<Rightarrow> string list" where
  "full_names cwd s = (if rooted s then path_names s else path_names cwd @ path_names s)"

definition follow :: "tree \<Rightarrow> string \<Rightarrow> string \<Rightarrow> walk_result" where
  "follow t cwd s = walk t max_links [] (full_names cwd s)"

text \<open>The name a path ends with, in its directory, not followed when it is a link.\<close>

definition no_follow :: "tree \<Rightarrow> string \<Rightarrow> string \<Rightarrow> walk_result" where
  "no_follow t cwd s =
     (let ns = full_names cwd s
      in if ns = [] then Found []
         else if last ns = ''..'' then walk t max_links [] ns
         else case walk t max_links [] (butlast ns) of
                Found p \<Rightarrow>
                  if node_at t p \<noteq> Some Dir then Nowhere ENOTDIR
                  else if t (p @ [last ns]) = None then Missing (p @ [last ns]) else Found (p @ [last ns])
              | Missing p \<Rightarrow> Nowhere ENOENT
              | Nowhere e \<Rightarrow> Nowhere e)"

definition tree_stat :: "tree \<Rightarrow> string \<Rightarrow> string \<Rightarrow> stat_result" where
  "tree_stat t cwd s =
     (case follow t cwd s of
        Found p \<Rightarrow> if node_at t p = Some Dir then StatIsDir else StatIsFile
      | Missing p \<Rightarrow> StatNotExist
      | Nowhere e \<Rightarrow> if e = ENOENT then StatNotExist else StatFailed e)"

definition tree_read :: "tree \<Rightarrow> string \<Rightarrow> string \<Rightarrow> bytes option \<times> go_error option" where
  "tree_read t cwd s =
     (case follow t cwd s of
        Found p \<Rightarrow> (case node_at t p of Some (RegularFile b) \<Rightarrow> (Some b, None) | _ \<Rightarrow> (None, Some EISDIR))
      | Missing p \<Rightarrow> (None, Some ENOENT)
      | Nowhere e \<Rightarrow> (None, Some e))"

section \<open>Changes of the tree\<close>

fun tree_mkdirs :: "tree \<Rightarrow> string list \<Rightarrow> string list \<Rightarrow> go_error + tree" where
  "tree_mkdirs t p [] = Inr t"
| "tree_mkdirs t p (c # cs) =
     (if c = ''..'' then tree_mkdirs t (butlast p) cs
      else case t (p @ [c]) of
          None \<Rightarrow> tree_mkdirs (t(p @ [c] \<mapsto> Dir)) (p @ [c]) cs
        | Some Dir \<Rightarrow> tree_mkdirs t (p @ [c]) cs
        | Some (RegularFile b) \<Rightarrow> Inl ENOTDIR
        | Some (Link l) \<Rightarrow>
            (case walk t max_links (if rooted l then [] else p) (path_names l) of
               Found q \<Rightarrow> if node_at t q = Some Dir then tree_mkdirs t q cs else Inl ENOTDIR
             | _ \<Rightarrow> Inl EEXIST))"

definition tree_mkdir :: "tree \<Rightarrow> string \<Rightarrow> string \<Rightarrow> go_error + tree" where
  "tree_mkdir t cwd s =
     (case no_follow t cwd s of
        Found p \<Rightarrow> Inl EEXIST | Missing p \<Rightarrow> Inr (t(p \<mapsto> Dir)) | Nowhere e \<Rightarrow> Inl e)"

definition tree_write :: "tree \<Rightarrow> string \<Rightarrow> string \<Rightarrow> bytes \<Rightarrow> go_error + tree" where
  "tree_write t cwd s content =
     (case follow t cwd s of
        Found p \<Rightarrow> if node_at t p = Some Dir then Inl EISDIR else Inr (t(p \<mapsto> RegularFile content))
      | Missing p \<Rightarrow> Inr (t(p \<mapsto> RegularFile content))
      | Nowhere e \<Rightarrow> Inl e)"

definition tree_symlink :: "tree \<Rightarrow> string \<Rightarrow> string \<Rightarrow> string \<Rightarrow> go_error + tree" where
  "tree_symlink t cwd target s =
     (case no_follow t cwd s of
        Found p \<Rightarrow> Inl EEXIST | Missing p \<Rightarrow> Inr (t(p \<mapsto> Link target)) | Nowhere e \<Rightarrow> Inl e)"

definition below :: "string list \<Rightarrow> string list \<Rightarrow> bool" where
  "below p q = (take (length p) q = p)"

definition tree_remove :: "tree \<Rightarrow> (string list \<Rightarrow> bool) \<Rightarrow> string \<Rightarrow> string \<Rightarrow> go_error + tree" where
  "tree_remove t empty_dir cwd s =
     (case no_follow t cwd s of
        Found p \<Rightarrow> if node_at t p = Some Dir \<and> \<not> empty_dir p then Inl ENOTEMPTY else Inr (t(p := None))
      | Missing p \<Rightarrow> Inl ENOENT
      | Nowhere e \<Rightarrow> Inl e)"

definition tree_remove_all :: "tree \<Rightarrow> string \<Rightarrow> string \<Rightarrow> go_error + tree" where
  "tree_remove_all t cwd s =
     (case no_follow t cwd s of
        Found p \<Rightarrow> Inr (\<lambda>q. if below p q then None else t q)
      | Missing p \<Rightarrow> Inr t
      | Nowhere e \<Rightarrow> if e = ENOENT then Inr t else Inl e)"

text \<open>A rename moves what is below the old name; the new name must not be a directory.\<close>

definition tree_rename :: "tree \<Rightarrow> string \<Rightarrow> string \<Rightarrow> string \<Rightarrow> go_error + tree" where
  "tree_rename t cwd old new =
     (case no_follow t cwd old of
        Missing p \<Rightarrow> Inl ENOENT
      | Nowhere e \<Rightarrow> Inl e
      | Found p \<Rightarrow>
          (let moved = (\<lambda>d q. if below d q then t (p @ drop (length d) q)
                             else if below p q then None else t q)
           in case no_follow t cwd new of
                Nowhere e \<Rightarrow> Inl e
              | Missing d \<Rightarrow> if below p d then Inl EINVAL else Inr (moved d)
              | Found d \<Rightarrow>
                  if d = p then Inr t
                  else if node_at t d = Some Dir then Inl EEXIST
                  else if node_at t p = Some Dir then Inl ENOTDIR
                  else Inr (moved d)))"

section \<open>The machine\<close>

text \<open>
  The commands that were run, each with its working directory, are kept. \<open>hx_listing\<close> gives the names
  in a directory in the order \<open>os.ReadDir\<close> gives them.
\<close>

record host =
  h_tree :: tree
  h_ops :: nat
  h_commands :: "(string \<times> string list) list"

record host_ext =
  hx_refuse :: "nat \<Rightarrow> go_error option"
  hx_command :: "nat \<Rightarrow> string \<Rightarrow> string list \<Rightarrow> tree \<Rightarrow> tree \<times> go_error option"
  hx_listing :: "tree \<Rightarrow> string list \<Rightarrow> string list"
  hx_fs :: file_system
  hx_cwd :: string
  hx_home :: "go_error + string"
  hx_user :: "go_error + string"
  hx_timestamp :: "nat \<Rightarrow> string"

type_synonym 'a hop = "(host, 'a) est"

definition lists_names :: "(tree \<Rightarrow> string list \<Rightarrow> string list) \<Rightarrow> bool" where
  "lists_names listing \<longleftrightarrow> (\<forall>t p. distinct (listing t p) \<and> set (listing t p) = {c. t (p @ [c]) \<noteq> None})"

definition host_fs :: "host_ext \<Rightarrow> host \<Rightarrow> file_system" where
  "host_fs x h = (hx_fs x)
     \<lparr>fs_stat := (\<lambda>s. case hx_refuse x (h_ops h) of
          Some e \<Rightarrow> StatFailed e | None \<Rightarrow> tree_stat (h_tree h) (hx_cwd x) s),
      fs_read := (\<lambda>s. case hx_refuse x (h_ops h) of
          Some e \<Rightarrow> (None, Some e) | None \<Rightarrow> tree_read (h_tree h) (hx_cwd x) s),
      fs_abs := (\<lambda>s. Inr (if rooted s then filepath_Clean s else filepath_Join [hx_cwd x, s]))\<rparr>"

definition os_query :: "host_ext \<Rightarrow> (file_system \<Rightarrow> 'a run) \<Rightarrow> 'a hop" where
  "os_query x q h =
     run_bind (q (host_fs x h)) (\<lambda>a. Inr (Inr a, h\<lparr>h_ops := Suc (h_ops h)\<rparr>))"

definition os_change :: "host_ext \<Rightarrow> (tree \<Rightarrow> go_error + tree) \<Rightarrow> unit hop" where
  "os_change x f h =
     (let h1 = h\<lparr>h_ops := Suc (h_ops h)\<rparr>
      in case hx_refuse x (h_ops h) of
           Some e \<Rightarrow> Inr (Inl e, h1)
         | None \<Rightarrow> (case f (h_tree h) of
               Inl e \<Rightarrow> Inr (Inl e, h1)
             | Inr t \<Rightarrow> Inr (Inr (), h1\<lparr>h_tree := t\<rparr>)))"

definition os_ReadFileE :: "host_ext \<Rightarrow> string \<Rightarrow> bytes hop" where
  "os_ReadFileE x s =
     e_bind (os_query x (\<lambda>fs. Inr (ReadFileE fs s))) (\<lambda>r.
       case r of (_, Some e) \<Rightarrow> e_fail e
       | (None, None) \<Rightarrow> e_return [] | (Some b, None) \<Rightarrow> e_return b)"

definition os_MkdirAll :: "host_ext \<Rightarrow> string \<Rightarrow> unit hop" where
  "os_MkdirAll x s = os_change x (\<lambda>t. tree_mkdirs t [] (full_names (hx_cwd x) s))"

definition os_Mkdir :: "host_ext \<Rightarrow> string \<Rightarrow> unit hop" where
  "os_Mkdir x s = os_change x (\<lambda>t. tree_mkdir t (hx_cwd x) s)"

definition os_WriteFile :: "host_ext \<Rightarrow> string \<Rightarrow> bytes \<Rightarrow> unit hop" where
  "os_WriteFile x s content = os_change x (\<lambda>t. tree_write t (hx_cwd x) s content)"

definition os_Symlink :: "host_ext \<Rightarrow> string \<Rightarrow> string \<Rightarrow> unit hop" where
  "os_Symlink x target s = os_change x (\<lambda>t. tree_symlink t (hx_cwd x) target s)"

definition os_Remove :: "host_ext \<Rightarrow> string \<Rightarrow> unit hop" where
  "os_Remove x s = os_change x (\<lambda>t. tree_remove t (\<lambda>p. hx_listing x t p = []) (hx_cwd x) s)"

definition os_RemoveAll :: "host_ext \<Rightarrow> string \<Rightarrow> unit hop" where
  "os_RemoveAll x s = os_change x (\<lambda>t. tree_remove_all t (hx_cwd x) s)"

definition os_Rename :: "host_ext \<Rightarrow> string \<Rightarrow> string \<Rightarrow> unit hop" where
  "os_Rename x old new = os_change x (\<lambda>t. tree_rename t (hx_cwd x) old new)"

text \<open>The entries of a directory: a name and whether it is a directory itself.\<close>

definition os_ReadDir :: "host_ext \<Rightarrow> string \<Rightarrow> (string \<times> bool) list hop" where
  "os_ReadDir x s h =
     (let h1 = h\<lparr>h_ops := Suc (h_ops h)\<rparr>; t = h_tree h
      in case hx_refuse x (h_ops h) of
           Some e \<Rightarrow> Inr (Inl e, h1)
         | None \<Rightarrow>
             (case follow t (hx_cwd x) s of
                Missing p \<Rightarrow> Inr (Inl ENOENT, h1)
              | Nowhere e \<Rightarrow> Inr (Inl e, h1)
              | Found p \<Rightarrow>
                  if node_at t p \<noteq> Some Dir then Inr (Inl ENOTDIR, h1)
                  else Inr (Inr (map (\<lambda>c. (c, t (p @ [c]) = Some Dir)) (hx_listing x t p)), h1)))"

definition os_command :: "host_ext \<Rightarrow> string \<Rightarrow> string list \<Rightarrow> unit hop" where
  "os_command x dir args h =
     (let r = hx_command x (h_ops h) dir args (h_tree h);
          h1 = h\<lparr>h_ops := Suc (h_ops h), h_tree := fst r, h_commands := h_commands h @ [(dir, args)]\<rparr>
      in Inr (case snd r of None \<Rightarrow> Inr () | Some e \<Rightarrow> Inl e, h1))"

definition os_timestamp :: "host_ext \<Rightarrow> string hop" where
  "os_timestamp x h = Inr (Inr (hx_timestamp x (h_ops h)), h\<lparr>h_ops := Suc (h_ops h)\<rparr>)"

section \<open>What calls keep\<close>

lemma st_post_os_change [wp_simps]:
  "st_post (os_change x f) h P \<longleftrightarrow>
     (\<forall>e. hx_refuse x (h_ops h) = Some e \<longrightarrow> P (Inl e) (h\<lparr>h_ops := Suc (h_ops h)\<rparr>)) \<and>
     (hx_refuse x (h_ops h) = None \<longrightarrow>
        (\<forall>e. f (h_tree h) = Inl e \<longrightarrow> P (Inl e) (h\<lparr>h_ops := Suc (h_ops h)\<rparr>)) \<and>
        (\<forall>t. f (h_tree h) = Inr t \<longrightarrow> P (Inr ()) (h\<lparr>h_ops := Suc (h_ops h), h_tree := t\<rparr>)))"
  by (auto simp: st_post_def os_change_def Let_def split: option.splits sum.splits)

lemma st_post_os_query [wp_simps]:
  "st_post (os_query x q) h P \<longleftrightarrow>
     (\<forall>a. q (host_fs x h) = Inr a \<longrightarrow> P (Inr a) (h\<lparr>h_ops := Suc (h_ops h)\<rparr>))"
  by (auto simp: st_post_def os_query_def run_bind_eq_Inr)

lemma st_post_os_ReadDir [wp_simps]:
  "(\<And>r. P r (h\<lparr>h_ops := Suc (h_ops h)\<rparr>)) \<Longrightarrow> st_post (os_ReadDir x s) h P"
  by (auto simp: st_post_def os_ReadDir_def Let_def split: option.splits walk_result.splits if_splits)

lemma st_post_os_command [wp_simps]:
  "st_post (os_command x dir args) h P \<longleftrightarrow>
     (\<forall>t r. hx_command x (h_ops h) dir args (h_tree h) = (t, r) \<longrightarrow>
        P (case r of None \<Rightarrow> Inr () | Some e \<Rightarrow> Inl e)
          (h\<lparr>h_ops := Suc (h_ops h), h_tree := t, h_commands := h_commands h @ [(dir, args)]\<rparr>))"
  by (auto simp: st_post_def os_command_def Let_def)

lemma st_post_os_timestamp [wp_simps]:
  "st_post (os_timestamp x) h P \<longleftrightarrow> P (Inr (hx_timestamp x (h_ops h))) (h\<lparr>h_ops := Suc (h_ops h)\<rparr>)"
  by (simp add: st_post_def os_timestamp_def)

lemma host_fs_stat:
  "fs_stat (host_fs x h) s =
     (case hx_refuse x (h_ops h) of Some e \<Rightarrow> StatFailed e | None \<Rightarrow> tree_stat (h_tree h) (hx_cwd x) s)"
  by (simp add: host_fs_def)

text \<open>Directories and links stay where they are.\<close>

definition same_places :: "tree \<Rightarrow> tree \<Rightarrow> bool" where
  "same_places t t' \<longleftrightarrow> (\<forall>p n. t p = Some n \<longrightarrow> (\<nexists>b. n = RegularFile b) \<longrightarrow> t' p = Some n)"

lemma same_places_refl [simp, intro]: "same_places t t"
  by (simp add: same_places_def)

lemma same_places_trans: "same_places t t' \<Longrightarrow> same_places t' t'' \<Longrightarrow> same_places t t''"
  by (simp add: same_places_def)

lemma same_placesD:
  "same_places t t' \<Longrightarrow> t p = Some Dir \<Longrightarrow> t' p = Some Dir"
  "same_places t t' \<Longrightarrow> t p = Some (Link l) \<Longrightarrow> t' p = Some (Link l)"
  by (simp_all add: same_places_def)

lemma same_places_new: "t p = None \<Longrightarrow> same_places t (t(p \<mapsto> n))"
  by (auto simp: same_places_def)

lemma same_places_file: "t p = Some (RegularFile b) \<Longrightarrow> same_places t (t(p \<mapsto> n))"
  by (auto simp: same_places_def)

text \<open>A path that leads to a directory leads to the same one in a tree that keeps the places.\<close>

lemma walk_same_places:
  "walk t n p cs = Found q \<Longrightarrow> node_at t q = Some Dir \<Longrightarrow> same_places t t' \<Longrightarrow> walk t' n p cs = Found q"
proof (induction t n p cs rule: walk.induct)
  case (1 t n p)
  then show ?case by simp
next
  case (2 t n p c cs)
  show ?case
  proof (cases "c = ''..''")
    case True
    with 2 show ?thesis by simp
  next
    case False
    show ?thesis
    proof (cases "t (p @ [c])")
      case None
      with 2(4) False show ?thesis by (simp split: if_splits)
    next
      case (Some node)
      then show ?thesis
      proof (cases node)
        case Dir
        with 2(2) 2(4-) Some False show ?thesis by (simp add: same_placesD(1))
      next
        case (RegularFile b)
        with 2(4-) Some False show ?thesis by (auto simp: node_at_def split: if_splits)
      next
        case (Link l)
        with 2(3) 2(4-) Some False show ?thesis
          by (cases n) (auto simp: same_placesD(2))
      qed
    qed
  qed
qed

lemma follow_same_places:
  "follow t cwd s = Found q \<Longrightarrow> node_at t q = Some Dir \<Longrightarrow> same_places t t' \<Longrightarrow> follow t' cwd s = Found q"
  unfolding follow_def by (rule walk_same_places)

lemma node_at_same_places:
  "node_at t q = Some Dir \<Longrightarrow> same_places t t' \<Longrightarrow> node_at t' q = Some Dir"
  by (auto simp: node_at_def same_placesD(1) split: if_splits)

lemma tree_stat_dir_same_places:
  assumes "tree_stat t cwd s = StatIsDir" and "same_places t t'"
  shows "tree_stat t' cwd s = StatIsDir"
proof -
  from assms(1) obtain q where "follow t cwd s = Found q" "node_at t q = Some Dir"
    by (auto simp: tree_stat_def split: walk_result.splits if_splits)
  with assms(2) follow_same_places [OF this assms(2)] show ?thesis
    by (simp add: tree_stat_def node_at_same_places)
qed

lemma walk_Missing: "walk t n p cs = Missing q \<Longrightarrow> t q = None"
  by (induction t n p cs rule: walk.induct)
     (auto split: if_splits option.splits node.splits nat.splits)

text \<open>A path that starts in a directory leads to a directory or a file, never to a link.\<close>

definition dirs_to :: "tree \<Rightarrow> string list \<Rightarrow> bool" where
  "dirs_to t p = (\<forall>i \<le> length p. node_at t (take i p) = Some Dir)"

lemma dirs_to_root [simp]: "dirs_to t []"
  by (simp add: dirs_to_def node_at_def)

lemma dirs_to_butlast: "dirs_to t p \<Longrightarrow> dirs_to t (butlast p)"
  unfolding dirs_to_def
proof (intro allI impI)
  fix i assume "\<forall>i\<le>length p. node_at t (take i p) = Some Dir" and "i \<le> length (butlast p)"
  then show "node_at t (take i (butlast p)) = Some Dir"
    by (cases p rule: rev_cases) (auto dest: spec [of _ i])
qed

lemma dirs_to_snoc: "dirs_to t p \<Longrightarrow> t (p @ [c]) = Some Dir \<Longrightarrow> dirs_to t (p @ [c])"
  by (auto simp: dirs_to_def node_at_def le_Suc_eq)

lemma dirs_to_node: "dirs_to t p \<Longrightarrow> node_at t p = Some Dir"
  by (auto simp: dirs_to_def dest: spec [of _ "length p"])

lemma walk_Found:
  "walk t n p cs = Found q \<Longrightarrow> dirs_to t p \<Longrightarrow> dirs_to t q \<or> (\<exists>b. t q = Some (RegularFile b) \<and> q \<noteq> [])"
proof (induction t n p cs rule: walk.induct)
  case (1 t n p)
  then show ?case by simp
next
  case (2 t n p c cs)
  show ?case
  proof (cases "c = ''..''")
    case True
    with 2 show ?thesis by (simp add: dirs_to_butlast)
  next
    case False
    show ?thesis
    proof (cases "t (p @ [c])")
      case None
      with 2(4) False show ?thesis by (simp split: if_splits)
    next
      case (Some node)
      then show ?thesis
      proof (cases node)
        case Dir
        with 2(2) 2(4-) Some False show ?thesis by (simp add: dirs_to_snoc)
      next
        case (RegularFile b)
        with 2(4-) Some False show ?thesis by (auto split: if_splits)
      next
        case (Link l)
        with 2(3) 2(4-) Some False show ?thesis by (cases n) (auto split: if_splits)
      qed
    qed
  qed
qed

lemma follow_cases:
  assumes "follow t cwd s = Found q"
  shows "node_at t q = Some Dir \<or> (\<exists>b. t q = Some (RegularFile b) \<and> q \<noteq> [])"
  using walk_Found [of t max_links "[]" "full_names cwd s" q] assms
  by (auto simp: follow_def dest: dirs_to_node)

lemma follow_Missing: "follow t cwd s = Missing q \<Longrightarrow> t q = None"
  unfolding follow_def by (rule walk_Missing)

lemma no_follow_Missing: "no_follow t cwd s = Missing q \<Longrightarrow> t q = None"
  by (auto simp: no_follow_def Let_def walk_Missing split: if_splits walk_result.splits)

text \<open>Creating and writing keeps the places.\<close>

lemma tree_write_places: "tree_write t cwd s b = Inr t' \<Longrightarrow> same_places t t'"
  using follow_cases [of t cwd s]
  by (auto simp: tree_write_def same_places_def node_at_def dest!: follow_Missing
      split: walk_result.splits if_splits)

lemma tree_symlink_places: "tree_symlink t cwd target s = Inr t' \<Longrightarrow> same_places t t'"
  by (auto simp: tree_symlink_def same_places_def dest!: no_follow_Missing split: walk_result.splits)

lemma tree_mkdir_places: "tree_mkdir t cwd s = Inr t' \<Longrightarrow> same_places t t'"
  by (auto simp: tree_mkdir_def same_places_def dest!: no_follow_Missing split: walk_result.splits)

lemma tree_mkdirs_places: "tree_mkdirs t p cs = Inr t' \<Longrightarrow> same_places t t'"
proof (induction t p cs rule: tree_mkdirs.induct)
  case (1 t p)
  then show ?case by simp
next
  case (2 t p c cs)
  show ?case
  proof (cases "c \<noteq> ''..'' \<and> t (p @ [c]) = None")
    case True
    with 2(5) have made: "tree_mkdirs (t(p @ [c] \<mapsto> Dir)) (p @ [c]) cs = Inr t'" by simp
    from True have new: "c \<noteq> ''..''" "t (p @ [c]) = None" by iprover+
    have "same_places (t(p @ [c] \<mapsto> Dir)) t'" by (rule 2(2) [OF new made])
    with True show ?thesis by (blast intro: same_places_trans same_places_new)
  next
    case False
    with 2 show ?thesis by (auto split: if_splits option.splits node.splits walk_result.splits)
  qed
qed

text \<open>A link stays where its path finds it.\<close>

lemma no_follow_link:
  assumes "no_follow t cwd s = Found p" and "node_at t p = Some (Link l)" and "same_places t t'"
  shows "no_follow t' cwd s = Found p"
proof -
  let ?ns = "full_names cwd s"
  have p: "p \<noteq> []" "t p = Some (Link l)" using assms(2) by (auto simp: node_at_def split: if_splits)
  have ne: "?ns \<noteq> []" using assms(1) p(1) by (auto simp: no_follow_def Let_def)
  have last: "last ?ns \<noteq> ''..''"
  proof
    assume "last ?ns = ''..''"
    with assms(1) ne have "follow t cwd s = Found p" by (simp add: no_follow_def follow_def Let_def)
    from follow_cases [OF this] assms(2) p show False by auto
  qed
  with assms(1) ne obtain q where q: "walk t max_links [] (butlast ?ns) = Found q"
    "node_at t q = Some Dir" "p = q @ [last ?ns]"
    by (auto simp: no_follow_def Let_def split: walk_result.splits if_splits)
  have "walk t' max_links [] (butlast ?ns) = Found q"
    using walk_same_places [OF q(1,2) assms(3)] .
  with ne last q p(2) node_at_same_places [OF q(2) assms(3)] same_placesD(2) [OF assms(3) p(2)]
  show ?thesis by (simp add: no_follow_def Let_def)
qed

text \<open>A tree that only grew.\<close>

definition grown :: "tree \<Rightarrow> tree \<Rightarrow> bool" where
  "grown t t' \<longleftrightarrow> (\<forall>p n. t p = Some n \<longrightarrow> t' p = Some n)"

lemma grown_refl [simp, intro]: "grown t t" by (simp add: grown_def)

lemma grown_trans: "grown t t' \<Longrightarrow> grown t' t'' \<Longrightarrow> grown t t''" by (simp add: grown_def)

lemma grownD: "grown t t' \<Longrightarrow> t p = Some n \<Longrightarrow> t' p = Some n" by (simp add: grown_def)

lemma grown_places: "grown t t' \<Longrightarrow> same_places t t'" by (simp add: grown_def same_places_def)

lemma tree_mkdirs_grown: "tree_mkdirs t p cs = Inr t' \<Longrightarrow> grown t t'"
proof (induction t p cs rule: tree_mkdirs.induct)
  case (1 t p)
  then show ?case by simp
next
  case (2 t p c cs)
  show ?case
  proof (cases "c \<noteq> ''..'' \<and> t (p @ [c]) = None")
    case True
    with 2(5) have made: "tree_mkdirs (t(p @ [c] \<mapsto> Dir)) (p @ [c]) cs = Inr t'" by simp
    from True have new: "c \<noteq> ''..''" "t (p @ [c]) = None" by iprover+
    have "grown (t(p @ [c] \<mapsto> Dir)) t'" by (rule 2(2) [OF new made])
    moreover have "grown t (t(p @ [c] \<mapsto> Dir))" using new(2) by (auto simp: grown_def)
    ultimately show ?thesis by (blast intro: grown_trans)
  next
    case False
    with 2 show ?thesis by (auto split: if_splits option.splits node.splits walk_result.splits)
  qed
qed

lemma no_follow_grown:
  assumes "no_follow t cwd s = Found p" and "p \<noteq> []" and "t p \<noteq> None" and "last (full_names cwd s) \<noteq> ''..''"
    and "grown t t'"
  shows "no_follow t' cwd s = Found p"
proof -
  let ?ns = "full_names cwd s"
  have ne: "?ns \<noteq> []" using assms(1,2) by (auto simp: no_follow_def Let_def)
  with assms(1,4) obtain q where q: "walk t max_links [] (butlast ?ns) = Found q"
    "node_at t q = Some Dir" "p = q @ [last ?ns]"
    by (auto simp: no_follow_def Let_def split: walk_result.splits if_splits)
  have "walk t' max_links [] (butlast ?ns) = Found q"
    using walk_same_places [OF q(1,2) grown_places [OF assms(5)]] .
  with ne assms(3-5) q node_at_same_places [OF q(2) grown_places [OF assms(5)]] show ?thesis
    by (auto simp: no_follow_def Let_def dest: grownD)
qed

text \<open>A rename moves all that is below the old name, or leaves the tree alone.\<close>

lemma tree_rename_moves:
  assumes "tree_rename t cwd old new = Inr t'" and "no_follow t cwd old = Found p"
  shows "t' = t \<or> (\<exists>b. \<forall>q. t' (b @ q) = t (p @ q))"
proof -
  let ?moved = "\<lambda>d q. if below d q then t (p @ drop (length d) q) else if below p q then None else t q"
  have "t' = t \<or> (\<exists>d. t' = ?moved d)"
    using assms by (auto simp: tree_rename_def Let_def split: walk_result.splits if_splits)
  moreover have "?moved d (d @ q) = t (p @ q)" for d q by (simp add: below_def)
  ultimately show ?thesis by blast
qed

section \<open>Invariants of computations\<close>

named_theorems inv_intros \<open>computations that keep an invariant\<close>

definition keeps :: "('s \<Rightarrow> bool) \<Rightarrow> ('s, 'a) st \<Rightarrow> bool" where
  "keeps I m \<longleftrightarrow> (\<forall>s. I s \<longrightarrow> st_post m s (\<lambda>_. I))"

lemma keepsD: "keeps I m \<Longrightarrow> I s \<Longrightarrow> st_post m s (\<lambda>_. I)"
  by (simp add: keeps_def)

lemma keeps_basic [inv_intros]:
  "keeps I (st_return x)" "keeps I (e_return y)" "keeps I (e_fail e)" "keeps I (e_lift r)"
  by (simp_all add: keeps_def wp_simps)

lemma keeps_bind [inv_intros]: "keeps I m \<Longrightarrow> (\<And>x. keeps I (f x)) \<Longrightarrow> keeps I (e_bind m f)"
  unfolding keeps_def st_post_err(3) by (auto elim!: st_post_mono)

lemma keeps_then [inv_intros]: "keeps I m \<Longrightarrow> keeps I k \<Longrightarrow> keeps I (e_then m k)"
  unfolding e_then_def by (rule keeps_bind)

lemma keeps_wrap [inv_intros]: "keeps I m \<Longrightarrow> keeps I (e_wrap l m)"
  by (simp add: keeps_def wp_simps)

lemma keeps_ignore [inv_intros]: "keeps I m \<Longrightarrow> keeps I (e_ignore m)"
  by (simp add: keeps_def wp_simps)

lemma keeps_if [inv_intros]: "keeps I m \<Longrightarrow> keeps I m' \<Longrightarrow> keeps I (if b then m else m')"
  by simp

lemma keeps_cases [inv_intros]:
  "(\<And>e. keeps I (l e)) \<Longrightarrow> (\<And>x. keeps I (f x)) \<Longrightarrow> keeps I (case r of Inl e \<Rightarrow> l e | Inr x \<Rightarrow> f x)"
  "keeps I k \<Longrightarrow> (\<And>x. keeps I (g x)) \<Longrightarrow> keeps I (case v of None \<Rightarrow> k | Some x \<Rightarrow> g x)"
  "(\<And>a b. keeps I (j a b)) \<Longrightarrow> keeps I (case p of (a, b) \<Rightarrow> j a b)"
  by (simp_all split: sum.split option.split prod.split)

lemma keeps_each [inv_intros]: "(\<And>x. keeps I (f x)) \<Longrightarrow> keeps I (e_each f xs)"
  by (induction xs) (auto intro: inv_intros)

lemma keeps_collect [inv_intros]: "(\<And>x. keeps I (f x)) \<Longrightarrow> keeps I (e_collect f xs)"
proof (induction xs)
  case (Cons x xs)
  then show ?case
    unfolding keeps_def e_collect.simps st_post_bind st_post_err(1,3)
    by (fastforce elim!: st_post_mono)
qed (auto intro: inv_intros)

text \<open>A step that keeps an invariant, before what is to be shown.\<close>

lemma st_post_bind_keeps:
  assumes "keeps I m" and "I s" and "\<And>x s'. I s' \<Longrightarrow> st_post (f x) s' P" and "\<And>e s'. I s' \<Longrightarrow> P (Inl e) s'"
  shows "st_post (e_bind m f) s P"
  unfolding st_post_err(3) by (rule st_post_mono [OF keepsD [OF assms(1,2)]]) (simp add: assms(3,4))

lemma st_post_then_keeps:
  assumes "keeps I m" and "I s" and "\<And>s'. I s' \<Longrightarrow> st_post k s' P" and "\<And>e s'. I s' \<Longrightarrow> P (Inl e) s'"
  shows "st_post (e_then m k) s P"
  unfolding e_then_def by (rule st_post_bind_keeps [OF assms(1,2)]) (simp_all add: assms(3,4))

lemma st_post_ifI: "(b \<Longrightarrow> st_post m s P) \<Longrightarrow> (\<not> b \<Longrightarrow> st_post m' s P) \<Longrightarrow> st_post (if b then m else m') s P"
  by simp

lemma st_post_returnI: "P (Inr x) s \<Longrightarrow> st_post (e_return x) s P"
  by (simp add: wp_simps)

text \<open>The invariant that directories and links stay in place.\<close>

definition places_kept :: "tree \<Rightarrow> host \<Rightarrow> bool" where
  "places_kept t0 h = same_places t0 (h_tree h)"

lemma places_kept_ops [simp]: "places_kept t0 (h\<lparr>h_ops := n\<rparr>) = places_kept t0 h"
  by (simp add: places_kept_def)

lemma places_kept_change:
  "(\<And>t t'. f t = Inr t' \<Longrightarrow> same_places t t') \<Longrightarrow> keeps (places_kept t0) (os_change x f)"
  unfolding keeps_def places_kept_def st_post_os_change by (auto intro: same_places_trans)

lemma places_kept_calls [inv_intros]:
  "keeps (places_kept t0) (os_MkdirAll x s)" "keeps (places_kept t0) (os_Mkdir x s)"
  "keeps (places_kept t0) (os_WriteFile x s b)" "keeps (places_kept t0) (os_Symlink x l s)"
  "keeps (places_kept t0) (os_change x Inr)"
  unfolding os_MkdirAll_def os_Mkdir_def os_WriteFile_def os_Symlink_def
  by (rule places_kept_change, auto dest: tree_mkdirs_places tree_mkdir_places tree_write_places
      tree_symlink_places)+

lemma places_kept_queries [inv_intros]:
  "keeps (places_kept t0) (os_query x q)" "keeps (places_kept t0) (os_timestamp x)"
  "keeps (places_kept t0) (os_ReadDir x s)"
  by (simp_all add: keeps_def wp_simps)

lemma places_kept_read [inv_intros]: "keeps (places_kept t0) (os_ReadFileE x s)"
  unfolding os_ReadFileE_def by (intro inv_intros)

definition keeps_places :: "host_ext \<Rightarrow> bool" where
  "keeps_places x = (\<forall>n dir args t. same_places t (fst (hx_command x n dir args t)))"

lemma places_kept_command [inv_intros]:
  "keeps_places x \<Longrightarrow> keeps (places_kept t0) (os_command x dir args)"
  unfolding keeps_def keeps_places_def places_kept_def
  by (auto simp: st_post_def os_command_def Let_def intro: same_places_trans)

end
