(* ===== verification/Devops.thy ===== *)
theory Devops
  imports Host
begin

text \<open>
  The configuration of the devops command (\<open>src/devops/config.go\<close>) and the servers, users and apps it
  loads (\<open>src/devops/deploy.go\<close>, \<open>InstallDescriptor\<close> of \<open>install.go\<close>). The HOCON library and the JSON
  decoders are parameters. The back pointers of an app are copies: nothing changes after the load.
\<close>

section \<open>Configuration\<close>

record DevopsConfig =
  dc_ProxmoxHostsDir :: string
  dc_ServerAppConfigsDir :: string

record SubCommandArgs =
  sca_Config :: DevopsConfig
  sca_RemainingArgs :: "string list"

fun find_first_dir :: "file_system \<Rightarrow> string list \<Rightarrow> string run" where
  "find_first_dir fs [] = Inr []"
| "find_first_dir fs (d # ds) =
     run_bind (DirectoryExists fs d) (\<lambda>ex. if ex then Inr d else find_first_dir fs ds)"

definition findDirs :: "file_system \<Rightarrow> string \<Rightarrow> string \<Rightarrow> string run" where
  "findDirs fs userHome name =
     find_first_dir fs (map (\<lambda>parent. filepath_Join [userHome, parent, name])
       [[], ''code'', ''code/accur8''])"

definition default_dirs :: "file_system \<Rightarrow> string \<Rightarrow> (go_error + DevopsConfig) run" where
  "default_dirs fs userHome =
     run_bind (findDirs fs userHome ''proxmox-hosts'') (\<lambda>p.
     run_bind (findDirs fs userHome ''server-app-configs'') (\<lambda>s.
     Inr (Inr \<lparr>dc_ProxmoxHostsDir = p, dc_ServerAppConfigsDir = s\<rparr>)))"

text \<open>A file that does not decode is a warning.\<close>

definition loadDefaultConfig ::
  "file_system \<Rightarrow> (bytes \<Rightarrow> go_error + DevopsConfig) \<Rightarrow> go_error + string \<Rightarrow> (go_error + DevopsConfig) run"
  where
  "loadDefaultConfig fs unmarshal home =
     (case home of
        Inl err \<Rightarrow> Inr (Inl err)
      | Inr userHome \<Rightarrow>
          let devopsConfigFile = filepath_Join [userHome, ''devops.json'']
          in run_bind (FileExists fs devopsConfigFile) (\<lambda>ex.
             if ex then
               run_bind (ReadFile fs devopsConfigFile) (\<lambda>content.
               (case unmarshal (case content of None \<Rightarrow> [] | Some b \<Rightarrow> b) of
                  Inl err \<Rightarrow> default_dirs fs userHome
                | Inr config \<Rightarrow> Inr (Inr config)))
             else default_dirs fs userHome))"

definition find_key :: "file_system \<Rightarrow> string \<Rightarrow> string \<Rightarrow> string list run" where
  "find_key fs homeDir keyName =
     (let sshKeyPath = filepath_Join [homeDir, ''.ssh'', keyName]
      in run_bind (FileExists fs sshKeyPath) (\<lambda>ex.
         if ex then
           run_bind (ReadFile fs sshKeyPath) (\<lambda>contents.
             Inr [strings_TrimSpace (bytes_to_string (case contents of None \<Rightarrow> [] | Some b \<Rightarrow> b))])
         else Inr []))"

definition FindSshKeyPublicKeys :: "file_system \<Rightarrow> go_error + string \<Rightarrow> string list run" where
  "FindSshKeyPublicKeys fs homeDir =
     (case homeDir of
        Inl err \<Rightarrow> Inr []
      | Inr dir \<Rightarrow>
          run_bind (find_key fs dir ''id_rsa.pub'') (\<lambda>rsa.
          run_bind (find_key fs dir ''id_ed25519.pub'') (\<lambda>ed. Inr (rsa @ ed))))"

section \<open>Apps\<close>

record InstallDescriptor =
  id_Name :: string
  id_Organization :: string
  id_Artifact :: string
  id_Version :: string
  id_InstallDir :: string
  id_WebappExplode :: "bool option"
  id_MainClass :: string
  id_Branch :: string
  id_Repo :: string
  id_JavaRuntimeVersion :: string
  id_BackupDir :: string
  id_JvmArgs :: "string list"
  id_Args :: "string list"
  id_IncludeDefaultVmArgs :: bool
  id_LinkDataDir :: bool
  id_LinkTempDir :: bool
  id_LinkCacheDir :: bool
  id_LinkLogsDir :: bool

definition empty_descriptor :: InstallDescriptor where
  "empty_descriptor = \<lparr>id_Name = [], id_Organization = [], id_Artifact = [], id_Version = [],
     id_InstallDir = [], id_WebappExplode = None, id_MainClass = [], id_Branch = [], id_Repo = [],
     id_JavaRuntimeVersion = [], id_BackupDir = [], id_JvmArgs = [], id_Args = [],
     id_IncludeDefaultVmArgs = False, id_LinkDataDir = False, id_LinkTempDir = False,
     id_LinkCacheDir = False, id_LinkLogsDir = False\<rparr>"

record Timer =
  tm_OnCalendar :: string
  tm_OnBootSec :: string
  tm_OnUnitActiveSec :: string
  tm_OnUnitInactiveSec :: string

record Launcher =
  ln_Kind :: string
  ln_Timer :: "Timer option"
  ln_RawConfig :: string

text \<open>The tasks of a clean-up are not loaded.\<close>

record CleanUp =
  cu_Kind :: string
  cu_Restart :: bool
  cu_ForceStart :: bool
  cu_Timer :: string

record ApplicationDotHocon =
  ah_Install :: "InstallDescriptor option"
  ah_Launcher :: "Launcher option"
  ah_CleanUp :: "CleanUp option"
  ah_ListenPort :: "int option"
  ah_DomainNames :: "string list"
  ah_CaddyConfig :: string

record LastDeploy =
  ld_Version :: string
  ld_Timestamp :: string
  ld_SshKeys :: "string list"

record ServerD =
  dsv_Name :: string
  dsv_VpnName :: string
  dsv_Dir :: string
  dsv_NameInCaddy :: string
  dsv_CaddyServer :: string

record UserD =
  us_Name :: string
  us_Dir :: string
  us_Server :: ServerD

record App =
  app_Name :: string
  app_Dir :: string
  app_User :: UserD
  app_ApplicationDotHocon :: "ApplicationDotHocon option"
  app_LastDeploy :: "LastDeploy option"

record Root =
  rt_Dir :: string
  rt_Servers :: "(ServerD \<times> (UserD \<times> App list) list) list"
  rt_StagingDir :: string

section \<open>Loading\<close>

text \<open>
  A configuration as the HOCON library gives it: a missing string or list is empty, a missing number 0;
  a number or a boolean that does not parse panics.
\<close>

datatype hocon = Hocon
  (hc_GetString: "string \<Rightarrow> string")
  (hc_GetStringList: "string \<Rightarrow> string list")
  (hc_GetInt32: "string \<Rightarrow> int run")
  (hc_GetBoolean: "string \<Rightarrow> bool run")
  (hc_HasNode: "string \<Rightarrow> bool")
  (hc_GetConfig: "string \<Rightarrow> hocon option")

record devops_env =
  de_fs :: file_system
  de_ReadDir :: "string \<Rightarrow> go_error + (string \<times> bool) list"
  de_LoadConfig :: "string \<Rightarrow> hocon option run"
  de_LastDeploy :: "bytes \<Rightarrow> go_error + LastDeploy"

definition LoadLastDeployJson :: "devops_env \<Rightarrow> string \<Rightarrow> (go_error + LastDeploy option) run" where
  "LoadLastDeployJson e appDir =
     (let filePath = filepath_Join [appDir, ''last-deploy.json'']
      in run_bind (FileExists (de_fs e) filePath) (\<lambda>ex.
         if \<not> ex then Inr (Inr None)
         else run_bind (ReadFile (de_fs e) filePath) (\<lambda>content.
              Inr (case de_LastDeploy e (case content of None \<Rightarrow> [] | Some b \<Rightarrow> b) of
                     Inl err \<Rightarrow> Inl (GoErr (''error loading last-deploy.json file: '' @ filePath))
                   | Inr l \<Rightarrow> Inr (Some l)))))"

text \<open>A panic of the library is recovered into an error.\<close>

definition loadHoconFile :: "devops_env \<Rightarrow> string \<Rightarrow> go_error + hocon" where
  "loadHoconFile e filePath =
     (case FileExists (de_fs e) filePath of
        Inl p \<Rightarrow> Inl (GoErr (''error parsing hocon '' @ filePath))
      | Inr False \<Rightarrow> Inl (GoErr (''file not found: '' @ filePath))
      | Inr True \<Rightarrow>
          (case de_LoadConfig e filePath of
             Inl p \<Rightarrow> Inl (GoErr (''error parsing hocon '' @ filePath))
           | Inr None \<Rightarrow> Inl (GoErr (''error loading hocon file: '' @ filePath))
           | Inr (Some config) \<Rightarrow> Inr config))"

definition hocon_timer :: "hocon \<Rightarrow> Timer" where
  "hocon_timer timer = \<lparr>tm_OnCalendar = hc_GetString timer ''onCalendar'',
     tm_OnBootSec = hc_GetString timer ''onBootSec'',
     tm_OnUnitActiveSec = hc_GetString timer ''onUnitActiveSec'',
     tm_OnUnitInactiveSec = hc_GetString timer ''onUnitInactiveSec''\<rparr>"

definition hocon_launcher :: "hocon \<Rightarrow> Launcher" where
  "hocon_launcher launcher = \<lparr>ln_Kind = hc_GetString launcher ''kind'',
     ln_Timer = map_option hocon_timer (hc_GetConfig launcher ''timer''),
     ln_RawConfig = hc_GetString launcher ''rawConfig''\<rparr>"

definition hocon_install :: "string \<Rightarrow> hocon \<Rightarrow> InstallDescriptor run" where
  "hocon_install appDir install =
     run_bind (if hc_HasNode install ''webappExplode'' then hc_GetBoolean install ''webappExplode''
               else Inr True) (\<lambda>b.
     Inr (empty_descriptor\<lparr>id_Name := filepath_Base appDir,
       id_MainClass := hc_GetString install ''mainClass'',
       id_Args := hc_GetStringList install ''args'',
       id_JvmArgs := hc_GetStringList install ''jvmArgs'',
       id_Artifact := hc_GetString install ''artifact'',
       id_Organization := hc_GetString install ''organization'',
       id_Version := hc_GetString install ''version'',
       id_Branch := hc_GetString install ''branch'',
       id_JavaRuntimeVersion := hc_GetString install ''javaVersion'',
       id_Repo := hc_GetString install ''repo'',
       id_WebappExplode := Some b\<rparr>))"

definition hocon_cleanup :: "hocon \<Rightarrow> CleanUp run" where
  "hocon_cleanup cleanUp =
     run_bind (hc_GetBoolean cleanUp ''restart'') (\<lambda>restart.
     run_bind (hc_GetBoolean cleanUp ''forceStart'') (\<lambda>forceStart.
     Inr \<lparr>cu_Kind = hc_GetString cleanUp ''kind'', cu_Restart = restart,
          cu_ForceStart = forceStart, cu_Timer = hc_GetString cleanUp ''timer''\<rparr>))"

definition run_option :: "('a \<Rightarrow> 'b run) \<Rightarrow> 'a option \<Rightarrow> 'b option run" where
  "run_option f v = (case v of None \<Rightarrow> Inr None | Some a \<Rightarrow> run_bind (f a) (\<lambda>b. Inr (Some b)))"

definition app_dot_hocon :: "string \<Rightarrow> hocon \<Rightarrow> ApplicationDotHocon run" where
  "app_dot_hocon appDir config =
     run_bind (hc_GetInt32 config ''listenPort'') (\<lambda>listenPort.
     let dn = hc_GetString config ''domainName''
     in run_bind (run_option (hocon_install appDir) (hc_GetConfig config ''install'')) (\<lambda>install.
        run_bind (run_option hocon_cleanup (hc_GetConfig config ''cleanUp'')) (\<lambda>cleanUp.
        Inr \<lparr>ah_Install = install,
             ah_Launcher = map_option hocon_launcher (hc_GetConfig config ''launcher''),
             ah_CleanUp = cleanUp,
             ah_ListenPort = (if listenPort \<noteq> 0 then Some listenPort else None),
             ah_DomainNames = (if dn \<noteq> [] then [dn] else []) @ hc_GetStringList config ''domainNames'',
             ah_CaddyConfig = hc_GetString config ''caddyConfig''\<rparr>)))"

definition loadApplicationDotHocon :: "devops_env \<Rightarrow> string \<Rightarrow> (go_error + ApplicationDotHocon) run" where
  "loadApplicationDotHocon e appDir =
     (let filePath = filepath_Join [appDir, ''application.hocon'']
      in case loadHoconFile e filePath of
           Inl err \<Rightarrow> Inr (Inl (WrapErr (''error parsing hocon file: '' @ filePath) err))
         | Inr config \<Rightarrow> run_bind (app_dot_hocon appDir config) (\<lambda>a. Inr (Inr a)))"

text \<open>The error of the first load is overwritten by the second: the app then has no configuration.\<close>

definition loadApp :: "devops_env \<Rightarrow> UserD \<Rightarrow> string \<Rightarrow> (go_error + App option) run" where
  "loadApp e user appDir =
     run_bind (FileExists (de_fs e) (filepath_Join [appDir, ''application.hocon''])) (\<lambda>ex.
     if \<not> ex then Inr (Inr None)
     else
       run_bind (loadApplicationDotHocon e appDir) (\<lambda>adh.
       run_bind (LoadLastDeployJson e appDir) (\<lambda>last.
       Inr (case last of
              Inl err \<Rightarrow> Inl err
            | Inr lastDeploy \<Rightarrow> Inr (Some
                \<lparr>app_Name = filepath_Base appDir, app_Dir = appDir, app_User = user,
                 app_ApplicationDotHocon = (case adh of Inl err \<Rightarrow> None | Inr a \<Rightarrow> Some a),
                 app_LastDeploy = lastDeploy\<rparr>)))))"

text \<open>The entries that load; an error of an entry is a warning, and a nil entry is left out.\<close>

fun load_entries :: "(string \<Rightarrow> (go_error + 'a option) run) \<Rightarrow> string list \<Rightarrow> 'a list run" where
  "load_entries load [] = Inr []"
| "load_entries load (d # ds) =
     run_bind (load d) (\<lambda>r. run_bind (load_entries load ds) (\<lambda>rest.
       Inr (case r of Inr (Some a) \<Rightarrow> a # rest | _ \<Rightarrow> rest)))"

definition loadUser :: "devops_env \<Rightarrow> ServerD \<Rightarrow> string \<Rightarrow> (go_error + (UserD \<times> App list) option) run" where
  "loadUser e server userDir =
     (let userHoconFile = filepath_Join [userDir, ''user.hocon'']
      in run_bind (DirectoryExists (de_fs e) userDir) (\<lambda>ex.
         if \<not> ex then Inr (Inr None)
         else run_bind (FileExists (de_fs e) userHoconFile) (\<lambda>ex.
              if \<not> ex then Inr (Inr None)
              else run_bind (de_LoadConfig e userHoconFile) (\<lambda>config.
                   case config of
                     None \<Rightarrow> Inr (Inl (GoErr (''error loading user.hocon file: '' @ userHoconFile)))
                   | Some c \<Rightarrow>
                       let user = \<lparr>us_Name = filepath_Base userDir, us_Dir = userDir, us_Server = server\<rparr>
                       in (case de_ReadDir e userDir of
                             Inl err \<Rightarrow> Inr (Inl err)
                           | Inr entries \<Rightarrow>
                               run_bind (load_entries (loadApp e user)
                                   (map (\<lambda>n. filepath_Join [userDir, fst n]) (filter snd entries)))
                                 (\<lambda>apps. Inr (Inr (Some (user, apps)))))))))"

text \<open>Here the entries are not filtered: a file in the directory of a server is tried as a user.\<close>

definition loadServer ::
  "devops_env \<Rightarrow> string \<Rightarrow> (go_error + (ServerD \<times> (UserD \<times> App list) list) option) run" where
  "loadServer e dir =
     (let serverHoconFile = filepath_Join [dir, ''server.hocon'']
      in run_bind (DirectoryExists (de_fs e) dir) (\<lambda>ex.
         if \<not> ex then Inr (Inr None)
         else run_bind (FileExists (de_fs e) serverHoconFile) (\<lambda>ex.
              if \<not> ex then Inr (Inr None)
              else run_bind (de_LoadConfig e serverHoconFile) (\<lambda>config.
                   case config of
                     None \<Rightarrow> Inr (Inl (GoErr (''error loading server.hocon file: '' @ serverHoconFile)))
                   | Some c \<Rightarrow>
                       let server = \<lparr>dsv_Name = filepath_Base dir, dsv_VpnName = hc_GetString c ''vpnName'',
                             dsv_Dir = dir, dsv_NameInCaddy = hc_GetString c ''nameInCaddy'',
                             dsv_CaddyServer = hc_GetString c ''caddyServer''\<rparr>
                       in (case de_ReadDir e dir of
                             Inl err \<Rightarrow> Inr (Inl err)
                           | Inr entries \<Rightarrow>
                               run_bind (load_entries (loadUser e server)
                                   (map (\<lambda>n. filepath_Join [dir, fst n]) entries))
                                 (\<lambda>users. Inr (Inr (Some (server, users)))))))))"

text \<open>A directory that does not exist is a nil root without an error.\<close>

definition loadRoot :: "devops_env \<Rightarrow> string \<Rightarrow> (go_error + Root option) run" where
  "loadRoot e rootDir =
     run_bind (DirectoryExists (de_fs e) rootDir) (\<lambda>ex.
     if \<not> ex then Inr (Inr None)
     else (case de_ReadDir e rootDir of
             Inl err \<Rightarrow> Inr (Inl err)
           | Inr entries \<Rightarrow>
               run_bind (load_entries (loadServer e)
                   (map (\<lambda>n. filepath_Join [rootDir, fst n]) (filter snd entries)))
                 (\<lambda>servers. Inr (Inr (Some \<lparr>rt_Dir = rootDir, rt_Servers = servers,
                    rt_StagingDir = filepath_Join [rootDir, ''.staging'']\<rparr>)))))"

section \<open>Accessors\<close>

definition Apps :: "Root \<Rightarrow> App list" where
  "Apps root = concat (map (\<lambda>(server, users). concat (map snd users)) (rt_Servers root))"

definition IsNamed :: "ApplicationDotHocon \<Rightarrow> string \<Rightarrow> bool" where
  "IsNamed adh domainName = (domainName \<in> set (ah_DomainNames adh))"

definition DomainName :: "ApplicationDotHocon \<Rightarrow> string" where
  "DomainName adh = (case ah_DomainNames adh of [] \<Rightarrow> [] | dn # _ \<Rightarrow> dn)"

text \<open>A search that panics at the first app without a configuration.\<close>

fun find_app :: "App list \<Rightarrow> string \<Rightarrow> App option run" where
  "find_app [] domainName = Inr None"
| "find_app (app # apps) domainName =
     run_bind (deref (app_ApplicationDotHocon app)) (\<lambda>adh.
       if IsNamed adh domainName then Inr (Some app) else find_app apps domainName)"

definition FindApp :: "Root \<Rightarrow> string \<Rightarrow> App option run" where
  "FindApp root domainName = find_app (Apps root) domainName"

definition HomeDir :: "UserD \<Rightarrow> string" where
  "HomeDir user = filepath_Join [''/home/'', us_Name user]"

definition AppsDir :: "UserD \<Rightarrow> string" where
  "AppsDir user = filepath_Join [HomeDir user, ''apps'']"

definition server_SshName :: "ServerD \<Rightarrow> string" where
  "server_SshName server = (if dsv_VpnName server \<noteq> [] then dsv_VpnName server else dsv_Name server)"

definition user_SshName :: "UserD \<Rightarrow> string" where
  "user_SshName user = us_Name user @ ''@'' @ server_SshName (us_Server user)"

definition BackupsDir :: "UserD \<Rightarrow> string" where
  "BackupsDir user = filepath_Join [AppsDir user, ''.backups'']"

definition CaddyName :: "ServerD \<Rightarrow> string" where
  "CaddyName server = (if dsv_NameInCaddy server \<noteq> [] then dsv_NameInCaddy server else dsv_VpnName server)"

definition InstallDir :: "App \<Rightarrow> string" where
  "InstallDir app = filepath_Join [AppsDir (app_User app), app_Name app]"

definition ExecPath :: "App \<Rightarrow> string" where
  "ExecPath app = filepath_Join [InstallDir app, ''bin'', app_Name app]"

end
