(* ===== verification/DevopsInstall.thy ===== *)
theory DevopsInstall
  imports Devops
begin

text \<open>
  The local installation of an app: \<open>src/devops/install.go\<close>, over the machine of theory \<open>Host\<close>. The JSON
  codecs, the URL library and the web service that describes a build are parameters.
\<close>

section \<open>Descriptions\<close>

text \<open>The messages of the validation, in their order.\<close>

definition validation_errors :: "InstallDescriptor \<Rightarrow> string list" where
  "validation_errors args =
     (if id_Name args = [] then [''Name is required''] else []) @
     (if id_Organization args = [] then [''Organization is required''] else []) @
     (if id_Artifact args = [] then [''Artifact is required''] else []) @
     (if id_InstallDir args = [] then [''InstallDir is required''] else []) @
     (if id_MainClass args = [] then [''MainClass is required''] else []) @
     (if (id_Version args = [] \<or> id_Version args = ''latest'') \<and> id_Branch args = []
      then [''Branch is required if version is latest''] else [])"

definition validateArgs :: "InstallDescriptor \<Rightarrow> go_error option" where
  "validateArgs args =
     (let errors = validation_errors args
      in if errors \<noteq> [] then Some (GoErr (''Validation errors: ['' @ strings_Join errors '' '' @ '']''))
         else None)"

record NixBuildDescriptionRequest =
  nr_Name :: string
  nr_MainClass :: string
  nr_Organization :: string
  nr_Artifact :: string
  nr_Version :: string
  nr_JavaVersion :: string
  nr_JvmArgs :: "string list"
  nr_Args :: "string list"
  nr_Repo :: string
  nr_Branch :: string
  nr_WebappExplode :: "bool option"

record FileContents =
  fc_Filename :: string
  fc_Contents :: string

text \<open>The resolution that comes with the answer is only written to a file again.\<close>

record NixBuildDescriptionResponse =
  nbr_Files :: "FileContents list"
  nbr_ResolvedVersion :: string
  nbr_ResolutionResponse :: json

record Repository =
  rep_Prefix :: string
  rep_RawRepoUrl :: string
  rep_ResolvedUrl :: string
  rep_RootUrl :: string
  rep_User :: string
  rep_Password :: string

record ResolvedDirectories =
  rd_TempInstallDir :: string
  rd_TempBuildDir :: string
  rd_InstallDir :: string
  rd_AppsRootDir :: string

text \<open>\<open>ix_post\<close> is a request to the service: it cannot be made, fails, or its body cannot be read.\<close>

datatype http_result = RequestInvalid go_error | RequestFailed go_error | BodyFailed go_error | Body bytes

record install_ext =
  ix_url_Parse :: "string \<Rightarrow> go_error + string"
  ix_UserPassword :: "string \<Rightarrow> string \<Rightarrow> string \<Rightarrow> string"
  ix_root_Parse :: "string \<Rightarrow> go_url option"
  ix_request_json :: "NixBuildDescriptionRequest \<Rightarrow> go_error + bytes"
  ix_post :: "nat \<Rightarrow> string \<Rightarrow> bytes \<Rightarrow> http_result"
  ix_response :: "bytes \<Rightarrow> go_error + NixBuildDescriptionResponse"
  ix_response_json :: "NixBuildDescriptionResponse \<Rightarrow> bytes"
  ix_descriptor :: "bytes \<Rightarrow> go_error + InstallDescriptor"
  ix_descriptor_json :: "InstallDescriptor \<Rightarrow> string"

section \<open>Repository\<close>

definition resolveA8Dir :: "host_ext \<Rightarrow> string hop" where
  "resolveA8Dir x =
     (case hx_home x of
        Inl err \<Rightarrow> e_fail (WrapErr ''Error getting home directory'' err)
      | Inr homeDir \<Rightarrow>
          let dirPath = filepath_Join [homeDir, ''.a8'']
          in e_bind (os_query x (\<lambda>fs. Inr (fs_stat fs dirPath))) (\<lambda>st.
             if st = StatNotExist then
               e_then (e_wrap (''Error creating directory '' @ dirPath) (os_Mkdir x dirPath)) (e_return dirPath)
             else e_return dirPath))"

definition default_repo_props :: string where
  "default_repo_props = strings_Join
     [[], ''repo_url      = https://locus.accur8.net/repos/all'', ''repo_realm    = Accur8 Repo'',
      ''# repo_user     = my_repo_user'', ''# repo_password = my_repo_password'',
      [CHR 0x09, CHR 0x09]] [CHR 0x0A]"

text \<open>The error of the write into the new file is dropped.\<close>

definition create_repo_props :: "host_ext \<Rightarrow> string \<Rightarrow> unit hop" where
  "create_repo_props x path =
     e_then (e_wrap (''Error creating file '' @ path) (os_WriteFile x path []))
     (e_then (e_ignore (os_WriteFile x path (string_to_bytes default_repo_props)))
     (e_wrap (''Error closing file '' @ path) (os_change x Inr)))"

definition readRepoDotProps :: "host_ext \<Rightarrow> (string \<Rightarrow> string option) hop" where
  "readRepoDotProps x =
     e_bind (e_wrap ''Error resolving a8 directory'' (resolveA8Dir x)) (\<lambda>dirPath.
     let path = filepath_Join [dirPath, ''repo.properties'']
     in e_bind (os_query x (\<lambda>fs. Inr (fs_stat fs path))) (\<lambda>st.
        e_then (if st = StatNotExist then create_repo_props x path else e_return ())
        (e_bind (os_query x (\<lambda>fs. Inr (fs_read fs path))) (\<lambda>content.
         st_return (ReadPropertiesFile (\<lambda>_. case content of
           (_, Some err) \<Rightarrow> Inl err | (None, None) \<Rightarrow> Inr [] | (Some b, None) \<Rightarrow> Inr (bytes_to_string b))
           path)))))"

definition property :: "(string \<Rightarrow> string option) \<Rightarrow> string \<Rightarrow> string" where
  "property m k = (case m k of None \<Rightarrow> [] | Some v \<Rightarrow> v)"

text \<open>A parsed URL is its text.\<close>

definition resolveRepository ::
  "install_ext \<Rightarrow> string \<Rightarrow> (string \<Rightarrow> string option) \<Rightarrow> go_error + Repository" where
  "resolveRepository ix repoPrefix props =
     (let prefix = (if repoPrefix = [] then ''repo'' else repoPrefix);
          raw = property props (prefix @ ''_url'');
          user = property props (prefix @ ''_user'');
          password = property props (prefix @ ''_password'')
      in case ix_url_Parse ix raw of
           Inl err \<Rightarrow> Inl (WrapErr (''Error parsing URL '' @ raw) err)
         | Inr url \<Rightarrow>
             let resolved = (if user \<noteq> [] then ix_UserPassword ix user password url else url)
             in Inr \<lparr>rep_Prefix = prefix, rep_RawRepoUrl = raw, rep_ResolvedUrl = resolved,
                     rep_RootUrl = RootUrl (ix_root_Parse ix) resolved, rep_User = user,
                     rep_Password = password\<rparr>)"

definition build_request :: "InstallDescriptor \<Rightarrow> NixBuildDescriptionRequest" where
  "build_request d =
     \<lparr>nr_Name = id_Name d, nr_MainClass = id_MainClass d, nr_Organization = id_Organization d,
      nr_Artifact = id_Artifact d,
      nr_Version = (if id_Version d = [] then ''latest'' else id_Version d),
      nr_JavaVersion = id_JavaRuntimeVersion d, nr_JvmArgs = id_JvmArgs d, nr_Args = id_Args d,
      nr_Repo = [], nr_Branch = id_Branch d, nr_WebappExplode = id_WebappExplode d\<rparr>"

definition http_post :: "install_ext \<Rightarrow> string \<Rightarrow> bytes \<Rightarrow> bytes hop" where
  "http_post ix url body h =
     Inr (case ix_post ix (h_ops h) url body of
            RequestInvalid err \<Rightarrow> Inl (WrapErr ''Error creating request:'' err)
          | RequestFailed err \<Rightarrow> Inl (WrapErr ''Error making request:'' err)
          | BodyFailed err \<Rightarrow> Inl (WrapErr ''Error reading response body:'' err)
          | Body b \<Rightarrow> Inr b, h\<lparr>h_ops := Suc (h_ops h)\<rparr>)"

definition fetch_description ::
  "install_ext \<Rightarrow> Repository \<Rightarrow> NixBuildDescriptionRequest \<Rightarrow> NixBuildDescriptionResponse hop" where
  "fetch_description ix repo req =
     e_bind (e_wrap ''Error marshalling JSON:'' (st_return (ix_request_json ix req))) (\<lambda>body.
     e_bind (http_post ix (rep_RootUrl repo @ ''/api/nixBuildDescription'') body) (\<lambda>b.
     e_wrap (''Error unmarshalling JSON: -- '' @ bytes_to_string b) (st_return (ix_response ix b))))"

definition FetchBuildDescription ::
  "install_ext \<Rightarrow> Repository \<Rightarrow> InstallDescriptor \<Rightarrow> NixBuildDescriptionResponse hop" where
  "FetchBuildDescription ix repo d = fetch_description ix repo (build_request d)"

section \<open>Directories\<close>

definition filepath_Abs :: "host_ext \<Rightarrow> string \<Rightarrow> string" where
  "filepath_Abs x s = (if rooted s then filepath_Clean s else filepath_Join [hx_cwd x, s])"

definition resolveDirectories :: "host_ext \<Rightarrow> InstallDescriptor \<Rightarrow> ResolvedDirectories hop" where
  "resolveDirectories x d =
     (let installDir = filepath_Abs x (id_InstallDir d)
      in e_bind (os_timestamp x) (\<lambda>timestampStr.
         let tempInstallDir = filepath_Join [filepath_Dir installDir,
               ''./.build/'' @ id_Name d @ ''-'' @ timestampStr];
             tempBuildDir = filepath_Join [tempInstallDir, ''nix'']
         in e_then (e_wrap (''Error creating tempBuildDir '' @ tempBuildDir) (os_MkdirAll x tempBuildDir))
            (e_return \<lparr>rd_TempInstallDir = tempInstallDir, rd_TempBuildDir = tempBuildDir,
                       rd_InstallDir = installDir, rd_AppsRootDir = filepath_Dir installDir\<rparr>)))"

definition write_build_file :: "host_ext \<Rightarrow> string \<Rightarrow> FileContents \<Rightarrow> unit hop" where
  "write_build_file x buildDir f =
     (let filePath = filepath_Join [buildDir, fc_Filename f]
      in e_wrap (''Error writing file '' @ filePath)
           (os_WriteFile x filePath (string_to_bytes (fc_Contents f))))"

definition nix_build_command :: "string list" where
  "nix_build_command = [''nix-build'', ''--out-link'', ''build'', ''-E'',
     ''with import <nixpkgs> {}; (callPackage ./default.nix {})'']"

definition runNixBuild :: "host_ext \<Rightarrow> install_ext \<Rightarrow> string \<Rightarrow> NixBuildDescriptionResponse \<Rightarrow> unit hop" where
  "runNixBuild x ix buildDir response =
     e_then (e_each (write_build_file x buildDir) (nbr_Files response))
     (e_then (e_ignore (os_WriteFile x (filepath_Join [buildDir, ''build-description.json''])
         (ix_response_json ix response)))
     (e_wrap (''Error executing command in '' @ buildDir) (os_command x buildDir nix_build_command)))"

definition gcroot_link :: "string \<Rightarrow> string \<Rightarrow> string" where
  "gcroot_link gcrootDir nixBuildDir =
     filepath_Join [gcrootDir,
       strings_ReplaceAll (strings_ReplaceAll nixBuildDir (CHR ''-'') ''--'') (CHR ''/'') ''-'']"

definition createNixGcroot :: "host_ext \<Rightarrow> ResolvedDirectories \<Rightarrow> unit hop" where
  "createNixGcroot x dirs =
     e_bind (st_return (hx_user x)) (\<lambda>username.
     let gcrootDir = filepath_Join [''/nix/var/nix/gcroots/per-user'', username]
     in e_bind (os_query x (\<lambda>fs. DirectoryExists fs gcrootDir)) (\<lambda>ex.
        if ex then
          let nixBuildDir = filepath_Join [rd_InstallDir dirs, ''nix/build''];
              link = gcroot_link gcrootDir nixBuildDir
          in e_bind (os_query x (\<lambda>fs. FileExists fs link)) (\<lambda>ex.
             e_then (if ex then os_Remove x link else e_return ()) (os_Symlink x nixBuildDir link))
        else e_return ()))"

section \<open>The install directory\<close>

definition install_link :: "host_ext \<Rightarrow> string \<Rightarrow> string \<times> string \<Rightarrow> unit hop" where
  "install_link x tempInstallDir l =
     (let (name, suffix) = l; linkSuffix = (if suffix = [] then name else suffix)
      in e_wrap (''Error creating symlink '' @ name)
           (os_Symlink x (''nix/build/'' @ linkSuffix) (filepath_Join [tempInstallDir, name])))"

text \<open>
  The naive copy. Each level of the recursion makes the path at least two bytes longer, and the system
  refuses a path of 4096 bytes, so the directory 2048 levels down cannot be read.
\<close>

definition ENAMETOOLONG :: go_error where "ENAMETOOLONG = GoErr ''file name too long''"

fun copy_levels :: "host_ext \<Rightarrow> nat \<Rightarrow> string \<Rightarrow> string \<Rightarrow> unit hop" where
  "copy_levels x 0 sourceDir targetDir =
     e_bind (os_query x (\<lambda>fs. DirectoryExists fs targetDir)) (\<lambda>ex.
     e_then (if ex then e_return () else e_ignore (os_MkdirAll x targetDir))
       (e_fail (WrapErr (''Error reading directory '' @ sourceDir) ENAMETOOLONG)))"
| "copy_levels x (Suc n) sourceDir targetDir =
     e_bind (os_query x (\<lambda>fs. DirectoryExists fs targetDir)) (\<lambda>ex.
     e_then (if ex then e_return () else e_ignore (os_MkdirAll x targetDir))
     (e_bind (e_wrap (''Error reading directory '' @ sourceDir) (os_ReadDir x sourceDir))
       (e_each (\<lambda>entry.
          let sourceName = filepath_Join [sourceDir, fst entry];
              targetName = filepath_Join [targetDir, fst entry]
          in if snd entry then copy_levels x n sourceName targetName
             else e_bind (e_wrap (''Error reading file '' @ sourceName) (os_ReadFileE x sourceName))
                    (\<lambda>content. e_wrap (''Error writing file '' @ targetName)
                       (os_WriteFile x targetName content))))))"

definition max_levels :: nat where "max_levels = 2048"

definition copyDirectory :: "host_ext \<Rightarrow> string \<Rightarrow> string \<Rightarrow> unit hop" where
  "copyDirectory x sourceDir targetDir = copy_levels x max_levels sourceDir targetDir"

definition linkExternalDir :: "host_ext \<Rightarrow> ResolvedDirectories \<Rightarrow> InstallDescriptor \<Rightarrow> string \<Rightarrow> unit hop" where
  "linkExternalDir x dirs d name =
     (let dir = filepath_Join [rd_AppsRootDir dirs, ''.'' @ name, id_Name d];
          inInstallDir = filepath_Join [rd_TempInstallDir dirs, name]
      in e_bind (os_query x (\<lambda>fs. DirectoryExists fs dir)) (\<lambda>ex.
         e_then (if ex then e_return ()
                 else e_wrap (''Error creating directory '' @ dir) (os_MkdirAll x dir))
           (e_wrap (''Error creating symlink '' @ inInstallDir @ '' -> '' @ dir)
             (os_Symlink x dir inInstallDir))))"

definition setupInstallDir ::
  "host_ext \<Rightarrow> string \<Rightarrow> ResolvedDirectories \<Rightarrow> InstallDescriptor \<Rightarrow> unit hop" where
  "setupInstallDir x installSpecDir dirs d =
     (let temp = rd_TempInstallDir dirs;
          links = [(''bin'', []), (''lib'', [])] @
            (if id_WebappExplode d = Some True then [(''webapp-composite'', ''webapp-composite/webapp'')] else [])
      in e_bind (e_collect (install_link x temp) links) (\<lambda>errors.
         if errors \<noteq> [] then
           e_fail (GoErr (''Error setting up install directory: ['' @
             strings_Join (map (\<lambda>e. error_text (snd e)) errors) '' '' @ '']''))
         else
           e_then (e_wrap (''Error copying '' @ installSpecDir @ '' to '' @ temp)
                     (copyDirectory x installSpecDir temp))
           (e_each (\<lambda>(name, config). if config then
                e_wrap (''Error linking '' @ name @ '' directory'') (linkExternalDir x dirs d name)
              else e_return ())
             [(''data'', id_LinkDataDir d), (''tmp'', id_LinkTempDir d), (''cache'', id_LinkCacheDir d),
              (''logs'', id_LinkLogsDir d)])))"

definition ensure_dir :: "host_ext \<Rightarrow> string \<Rightarrow> unit hop" where
  "ensure_dir x dir =
     e_bind (os_query x (\<lambda>fs. DirectoryExists fs dir)) (\<lambda>ex.
       if ex then e_return ()
       else e_wrap (''Error creating root backup directory '' @ dir) (os_MkdirAll x dir))"

definition backupInstallDir :: "host_ext \<Rightarrow> ResolvedDirectories \<Rightarrow> InstallDescriptor \<Rightarrow> unit hop" where
  "backupInstallDir x dirs d =
     (let installDir = rd_InstallDir dirs
      in if id_BackupDir d = [] then
           e_wrap (''Error deleting directory '' @ installDir) (os_RemoveAll x installDir)
         else
           e_bind (os_query x (\<lambda>fs. DirectoryExists fs (id_InstallDir d))) (\<lambda>ex.
           if ex then
             let backupRootDir = filepath_Abs x (id_BackupDir d)
             in e_then (ensure_dir x backupRootDir)
                (e_bind (os_timestamp x) (\<lambda>timestamp.
                 let backupDir = filepath_Join [backupRootDir, id_Name d @ ''-'' @ timestamp]
                 in e_then (ensure_dir x backupRootDir)
                    (e_wrap (''Error moving directory: '' @ installDir @ '' - '' @ backupDir)
                      (os_Rename x installDir backupDir))))
           else e_return ()))"

section \<open>The installation\<close>

definition InstallJavaProcess :: "host_ext \<Rightarrow> install_ext \<Rightarrow> string \<Rightarrow> InstallDescriptor \<Rightarrow> unit hop" where
  "InstallJavaProcess x ix installSpecDir d =
     e_bind (resolveDirectories x d) (\<lambda>dirs.
     e_then (e_ignore (os_WriteFile x (filepath_Join [rd_TempBuildDir dirs, ''install-descriptor.json''])
       (string_to_bytes (ix_descriptor_json ix d))))
     (e_bind (readRepoDotProps x) (\<lambda>props.
      e_bind (st_return (resolveRepository ix (id_Repo d) props)) (\<lambda>repo.
      e_bind (FetchBuildDescription ix repo d) (\<lambda>buildDescription.
      e_then (runNixBuild x ix (rd_TempBuildDir dirs) buildDescription)
      (e_then (createNixGcroot x dirs)
      (e_then (setupInstallDir x installSpecDir dirs d)
      (e_then (backupInstallDir x dirs d)
      (e_wrap (''Error renaming directory '' @ rd_TempInstallDir dirs @ '' to '' @ rd_InstallDir dirs)
        (os_Rename x (rd_TempInstallDir dirs) (rd_InstallDir dirs)))))))))))"

definition Install :: "host_ext \<Rightarrow> install_ext \<Rightarrow> SubCommandArgs \<Rightarrow> unit hop" where
  "Install x ix sub =
     (case sca_RemainingArgs sub of
        [installSpecDir] \<Rightarrow>
          let specDirAbs = filepath_Abs x installSpecDir;
              file = filepath_Join [specDirAbs, ''install-descriptor.json'']
          in e_bind (e_wrap (''Error reading '' @ file) (os_ReadFileE x file)) (\<lambda>bytes.
             e_bind (e_wrap ''Error unmarshaling JSON:'' (st_return (ix_descriptor ix bytes))) (\<lambda>args.
             case validateArgs args of
               Some err \<Rightarrow> e_fail (WrapErr ''Error validating arguments'' err)
             | None \<Rightarrow> e_wrap ''Error installing Java process''
                 (InstallJavaProcess x ix specDirAbs args)))
      | _ \<Rightarrow> e_fail (GoErr ''Usage: a8-install [--trace] <install-spec-dir>''))"

section \<open>The garbage collector root\<close>

text \<open>The steps before the root is created keep the directories and links of the machine.\<close>

lemma readRepoDotProps_keeps [inv_intros]: "keeps (places_kept t0) (readRepoDotProps x)"
  unfolding readRepoDotProps_def resolveA8Dir_def create_repo_props_def Let_def by (intro inv_intros)

lemma fetch_description_keeps [inv_intros]: "keeps (places_kept t0) (fetch_description ix repo req)"
proof -
  have "keeps (places_kept t0) (http_post ix url body)" for url body
    by (simp add: keeps_def st_post_def http_post_def)
  then show ?thesis unfolding fetch_description_def by (intro inv_intros)
qed

lemma runNixBuild_keeps [inv_intros]:
  "keeps_places x \<Longrightarrow> keeps (places_kept t0) (runNixBuild x ix dir response)"
  unfolding runNixBuild_def write_build_file_def Let_def by (intro inv_intros)

lemma resolveDirectories_keeps [inv_intros]: "keeps (places_kept t0) (resolveDirectories x d)"
  unfolding resolveDirectories_def Let_def by (intro inv_intros)

lemma resolveDirectories_dir:
  "st_post (resolveDirectories x d) h
     (\<lambda>r h'. \<forall>dirs. r = Inr dirs \<longrightarrow> rd_InstallDir dirs = filepath_Abs x (id_InstallDir d))"
  by (simp add: resolveDirectories_def Let_def wp_simps os_MkdirAll_def)

text \<open>A link in place of the root is never replaced: it leads to a directory, so it is no file to remove.\<close>

lemma createNixGcroot_link:
  assumes "hx_user x = Inr u" and "gdir = filepath_Join [''/nix/var/nix/gcroots/per-user'', u]"
    and "link = gcroot_link gdir (filepath_Join [rd_InstallDir dirs, ''nix/build''])"
    and "tree_stat t0 (hx_cwd x) gdir = StatIsDir" and "tree_stat t0 (hx_cwd x) link = StatIsDir"
    and "no_follow t0 (hx_cwd x) link = Found p" and "node_at t0 p = Some (Link l)"
    and "places_kept t0 h"
  shows "st_post (createNixGcroot x dirs) h (\<lambda>r _. r \<noteq> Inr ())"
proof -
  have kept: "same_places t0 (h_tree h)" using assms(8) by (simp add: places_kept_def)
  have stat: "tree_stat (h_tree h) (hx_cwd x) gdir = StatIsDir" "tree_stat (h_tree h) (hx_cwd x) link = StatIsDir"
    using assms(4,5) tree_stat_dir_same_places [OF _ kept] by blast+
  have "no_follow (h_tree h) (hx_cwd x) link = Found p" by (rule no_follow_link [OF assms(6,7) kept])
  then have "tree_symlink (h_tree h) (hx_cwd x) target link = Inl EEXIST" for target
    by (simp add: tree_symlink_def)
  moreover have "DirectoryExists (host_fs x h) gdir \<noteq> Inr False"
    using stat(1) by (simp add: DirectoryExists_def host_fs_stat split: option.split)
  moreover have "FileExists (host_fs x (h\<lparr>h_ops := n\<rparr>)) link \<noteq> Inr True" for n
    using stat(2) by (simp add: FileExists_def host_fs_stat split: option.split)
  ultimately show ?thesis
    unfolding createNixGcroot_def Let_def assms(1) os_Symlink_def
    by (auto simp: wp_simps assms(2,3) [symmetric])
qed

text \<open>
  C37. An app can be installed once only. When the root of its build is in place, a link that leads to
  the built directory, no later installation into the same directory succeeds: the link is not removed
  (it leads to a directory, and only files are), and the new link is refused because it exists.
\<close>

theorem reinstall_never_succeeds:
  assumes "keeps_places x" and "hx_user x = Inr u"
    and "gdir = filepath_Join [''/nix/var/nix/gcroots/per-user'', u]"
    and "link = gcroot_link gdir (filepath_Join [filepath_Abs x (id_InstallDir d), ''nix/build''])"
    and "tree_stat (h_tree h) (hx_cwd x) gdir = StatIsDir"
    and "tree_stat (h_tree h) (hx_cwd x) link = StatIsDir"
    and "no_follow (h_tree h) (hx_cwd x) link = Found p" and "node_at (h_tree h) p = Some (Link l)"
  shows "InstallJavaProcess x ix installSpecDir d h \<noteq> Inr (Inr (), h')"
proof -
  let ?I = "places_kept (h_tree h)"
  have I: "?I h" by (simp add: places_kept_def)
  have dirs: "st_post (resolveDirectories x d) h (\<lambda>r h'. ?I h' \<and>
      (\<forall>dirs. r = Inr dirs \<longrightarrow> rd_InstallDir dirs = filepath_Abs x (id_InstallDir d)))"
    unfolding st_post_conj using keepsD [OF resolveDirectories_keeps I] resolveDirectories_dir by blast
  have root: "st_post (e_then (createNixGcroot x ds) k) h1 (\<lambda>r _. r \<noteq> Inr ())"
    if "?I h1" "rd_InstallDir ds = filepath_Abs x (id_InstallDir d)" for ds k h1
    unfolding st_post_err(4)
    by (rule st_post_mono [OF createNixGcroot_link [OF assms(2,3) _ assms(5-8) that(1)]])
       (use that(2) assms(4) in auto)
  have "st_post (InstallJavaProcess x ix installSpecDir d) h (\<lambda>r _. r \<noteq> Inr ())"
    unfolding InstallJavaProcess_def FetchBuildDescription_def st_post_err(3) [of "resolveDirectories x d"]
  proof (rule st_post_mono [OF dirs], intro conjI allI impI, goal_cases)
    case (2 r h1 ds)
    then show ?case
      using assms(1)
      by (intro st_post_then_keeps [where I = ?I] st_post_bind_keeps [where I = ?I] root inv_intros) auto
  qed simp
  then show ?thesis by (auto dest: st_postD)
qed

section \<open>The backup\<close>

lemma grown_calls [inv_intros]:
  "keeps (\<lambda>h. grown t (h_tree h)) (os_query x q)" "keeps (\<lambda>h. grown t (h_tree h)) (os_timestamp x)"
  "keeps (\<lambda>h. grown t (h_tree h)) (os_MkdirAll x s)"
  unfolding keeps_def os_MkdirAll_def by (auto simp: wp_simps dest: tree_mkdirs_grown intro: grown_trans)

lemma ensure_dir_grows [inv_intros]: "keeps (\<lambda>h. grown t (h_tree h)) (ensure_dir x dir)"
  unfolding ensure_dir_def by (intro inv_intros)

definition moved_or_kept :: "string list \<Rightarrow> tree \<Rightarrow> bool \<Rightarrow> tree \<Rightarrow> bool" where
  "moved_or_kept p t moved t' \<longleftrightarrow>
     (\<forall>q n. t (p @ q) = Some n \<longrightarrow> t' (p @ q) = Some n) \<or>
     (moved \<and> (\<exists>b. \<forall>q n. t (p @ q) = Some n \<longrightarrow> t' (b @ q) = Some n))"

lemma moved_or_kept_grown: "grown t t' \<Longrightarrow> moved_or_kept p t b t'"
  by (simp add: moved_or_kept_def grownD)

lemma rename_moves_or_keeps:
  assumes "grown t (h_tree h)" and "no_follow (h_tree h) (hx_cwd x) old = Found p"
  shows "st_post (os_Rename x old new) h (\<lambda>r h'. moved_or_kept p t (r = Inr ()) (h_tree h'))"
proof -
  have "moved_or_kept p t True t'" if "tree_rename (h_tree h) (hx_cwd x) old new = Inr t'" for t'
    using tree_rename_moves [OF that assms(2)] assms(1) unfolding moved_or_kept_def
    by (metis grownD)
  then show ?thesis
    using moved_or_kept_grown [OF assms(1)] by (auto simp: os_Rename_def wp_simps)
qed

text \<open>
  C36. With a backup directory, whatever the backup of an install directory answers and wherever it
  stops, everything that was below the install directory is still there, or, when it succeeded, at the
  same place below another directory.
\<close>

theorem backup_loses_nothing:
  assumes "backupInstallDir x dirs d h = Inr (r, h')" and "id_BackupDir d \<noteq> []"
    and "no_follow (h_tree h) (hx_cwd x) (rd_InstallDir dirs) = Found p" and "p \<noteq> []"
    and "h_tree h p \<noteq> None" and "last (full_names (hx_cwd x) (rd_InstallDir dirs)) \<noteq> ''..''"
  shows "(\<forall>q n. h_tree h (p @ q) = Some n \<longrightarrow> h_tree h' (p @ q) = Some n) \<or>
    (r = Inr () \<and> (\<exists>b. \<forall>q n. h_tree h (p @ q) = Some n \<longrightarrow> h_tree h' (b @ q) = Some n))"
proof -
  let ?t = "h_tree h"
  have kept: "moved_or_kept p ?t b (h_tree h1)" if "grown ?t (h_tree h1)" for b h1
    using that by (rule moved_or_kept_grown)
  have move: "st_post (os_Rename x (rd_InstallDir dirs) new) h1
      (\<lambda>r h'. moved_or_kept p ?t (r = Inr ()) (h_tree h'))" if "grown ?t (h_tree h1)" for new h1
    by (rule rename_moves_or_keeps [OF that no_follow_grown [OF assms(3-6) that]])
  have wrapped: "st_post (e_wrap l (os_Rename x (rd_InstallDir dirs) new)) h1
      (\<lambda>r h'. moved_or_kept p ?t (r = Inr ()) (h_tree h'))" if "grown ?t (h_tree h1)" for l new h1
    unfolding st_post_err(5) by (rule st_post_mono [OF move [OF that]]) (auto split: sum.splits)
  let ?I = "\<lambda>h1. grown ?t (h_tree h1)"
  have "st_post (backupInstallDir x dirs d) h (\<lambda>r h'. moved_or_kept p ?t (r = Inr ()) (h_tree h'))"
    unfolding backupInstallDir_def Let_def if_not_P [OF assms(2)]
    by (intro st_post_bind_keeps [where I = ?I] st_post_then_keeps [where I = ?I] st_post_ifI
        st_post_returnI inv_intros wrapped kept) (rule grown_refl | assumption)+
  with assms(1) show ?thesis by (auto dest!: st_postD simp: moved_or_kept_def)
qed

section \<open>Examples\<close>

definition installed_tree :: tree where
  "installed_tree = map_of
     [([''apps''], Dir), ([''apps'', ''a''], Dir), ([''apps'', ''a'', ''nix''], Dir),
      ([''apps'', ''a'', ''nix'', ''build''], Link ''/nix/store/x''), ([''nix''], Dir),
      ([''nix'', ''store''], Dir), ([''nix'', ''store'', ''x''], Dir), ([''nix'', ''var''], Dir),
      ([''nix'', ''var'', ''nix''], Dir), ([''nix'', ''var'', ''nix'', ''gcroots''], Dir),
      ([''nix'', ''var'', ''nix'', ''gcroots'', ''per-user''], Dir),
      ([''nix'', ''var'', ''nix'', ''gcroots'', ''per-user'', ''me''], Dir),
      ([''nix'', ''var'', ''nix'', ''gcroots'', ''per-user'', ''me'', ''-apps-a-nix-build''],
        Link ''/apps/a/nix/build'')]"

definition installed_host :: host where
  "installed_host = \<lparr>h_tree = installed_tree, h_ops = 0, h_commands = []\<rparr>"

definition install_machine :: host_ext where
  "install_machine = \<lparr>hx_refuse = (\<lambda>_. None), hx_command = (\<lambda>_ _ _ t. (t, None)), hx_listing = (\<lambda>_ _. []),
     hx_fs = \<lparr>fs_stat = (\<lambda>_. StatNotExist), fs_read = (\<lambda>_. (None, None)),
        fs_readlink = (\<lambda>_. LinkNotExist), fs_abs = Inr, fs_expand = Inr\<rparr>,
     hx_cwd = ''/'', hx_home = Inr ''/home/me'', hx_user = Inr ''me'',
     hx_timestamp = (\<lambda>_. ''20240101-000000'')\<rparr>"

definition demo_descriptor :: InstallDescriptor where
  "demo_descriptor = empty_descriptor\<lparr>id_Name := ''a'', id_InstallDir := ''/apps/a'', id_BackupDir := ''/b''\<rparr>"

definition demo_gcroot :: string where
  "demo_gcroot = gcroot_link (filepath_Join [''/nix/var/nix/gcroots/per-user'', ''me''])
     (filepath_Join [filepath_Abs install_machine (id_InstallDir demo_descriptor), ''nix/build''])"

lemma installed_facts:
  "tree_stat installed_tree ''/'' (filepath_Join [''/nix/var/nix/gcroots/per-user'', ''me'']) = StatIsDir"
  "tree_stat installed_tree ''/'' demo_gcroot = StatIsDir"
  "no_follow installed_tree ''/'' demo_gcroot =
     Found [''nix'', ''var'', ''nix'', ''gcroots'', ''per-user'', ''me'', ''-apps-a-nix-build'']"
  "node_at installed_tree [''nix'', ''var'', ''nix'', ''gcroots'', ''per-user'', ''me'', ''-apps-a-nix-build''] =
     Some (Link ''/apps/a/nix/build'')"
  by code_simp+

theorem reinstall_never_succeeds_witness:
  "\<forall>ix h'. InstallJavaProcess install_machine ix ''/spec'' demo_descriptor installed_host \<noteq> Inr (Inr (), h')"
  by (intro allI, rule reinstall_never_succeeds [OF _ _ refl demo_gcroot_def])
     (use installed_facts in \<open>auto simp: keeps_places_def install_machine_def installed_host_def\<close>)

definition demo_dirs :: ResolvedDirectories where
  "demo_dirs = \<lparr>rd_TempInstallDir = ''/apps/.build/a'', rd_TempBuildDir = ''/apps/.build/a/nix'',
     rd_InstallDir = ''/apps/a'', rd_AppsRootDir = ''/apps''\<rparr>"

lemma demo_backup:
  "(case backupInstallDir install_machine demo_dirs demo_descriptor installed_host of
      Inr (Inr u, h') \<Rightarrow> h_tree h' [''apps'', ''a'', ''nix''] = None | _ \<Rightarrow> False)"
  "no_follow installed_tree ''/'' ''/apps/a'' = Found [''apps'', ''a'']"
  "installed_tree ([''apps'', ''a''] @ [''nix'']) = Some Dir"
  "last (full_names ''/'' ''/apps/a'') \<noteq> ''..''"
  by code_simp+

theorem backup_loses_nothing_witness:
  "\<exists>h' b. backupInstallDir install_machine demo_dirs demo_descriptor installed_host = Inr (Inr (), h') \<and>
     h_tree h' [''apps'', ''a'', ''nix''] = None \<and> h_tree h' (b @ [''nix'']) = Some Dir"
proof -
  obtain r h' where eq: "backupInstallDir install_machine demo_dirs demo_descriptor installed_host = Inr (r, h')"
    using demo_backup(1) by (auto split: sum.splits)
  then have run: "backupInstallDir install_machine demo_dirs demo_descriptor installed_host = Inr (Inr (), h')"
    and gone: "h_tree h' [''apps'', ''a'', ''nix''] = None"
    using demo_backup(1) by (cases r; simp)+
  have "(\<forall>q n. h_tree installed_host ([''apps'', ''a''] @ q) = Some n \<longrightarrow> h_tree h' ([''apps'', ''a''] @ q) = Some n) \<or>
    ((Inr () :: go_error + unit) = Inr () \<and> (\<exists>b. \<forall>q n. h_tree installed_host ([''apps'', ''a''] @ q) = Some n \<longrightarrow>
       h_tree h' (b @ q) = Some n))"
    by (rule backup_loses_nothing [OF run])
       (use demo_backup(2-) in \<open>simp_all add: demo_descriptor_def demo_dirs_def installed_host_def
          install_machine_def installed_tree_def\<close>)
  with gone run demo_backup(3) show ?thesis by (fastforce simp: installed_host_def)
qed

end
