(* ===== verification/LaunchyJava.thy ===== *)
theory LaunchyJava
  imports DevopsInstall LaunchyController
begin

text \<open>
  The preparation of a Java program by the launcher: \<open>src/launchy/java-launchy.go\<close>, over the machine of
  theory \<open>Host\<close>. The directory of the launcher, its properties and the request to the build service
  are the code of \<open>src/devops/install.go\<close> once more (theory \<open>DevopsInstall\<close>).
\<close>

section \<open>Launcher file\<close>

record LauncherJson =
  lj_Name :: string
  lj_MainClass :: string
  lj_Organization :: string
  lj_Artifact :: string
  lj_Branch :: string
  lj_Repo :: string
  lj_JavaVersion :: string

record InstalledApp =
  ia_InstalledExecPath :: string
  ia_Version :: string

record CmdJavaProcessFlagsS =
  jf_LauncherJsonFile :: "string option"
  jf_Version :: "string option"

datatype launch_action = RunChild | RunJava | UpgradeJava

record java_ext =
  jx_install :: install_ext
  jx_launcher :: "bytes \<Rightarrow> go_error + LauncherJson"
  jx_executable :: "go_error + string"

text \<open>The name is set to a constant.\<close>

definition state_name :: string where "state_name = ''a8-codegen''"

definition readLauncherJson :: "host_ext \<Rightarrow> java_ext \<Rightarrow> CmdJavaProcessFlagsS \<Rightarrow> LauncherJson hop" where
  "readLauncherJson x jx flags =
     e_bind (case jf_LauncherJsonFile flags of
               Some f \<Rightarrow> e_return f
             | None \<Rightarrow> (case jx_executable jx of
                   Inl err \<Rightarrow> e_fail (WrapErr ''Error getting executable path'' err)
                 | Inr exec \<Rightarrow> e_return (exec @ ''.json''))) (\<lambda>f.
     let filename = filepath_Abs x f
     in e_bind (e_wrap (''Error reading file '' @ filename) (os_ReadFileE x filename)) (\<lambda>jsonBytes.
        e_wrap (''Error unmarshaling JSON from '' @ filename @ '' -- '' @ bytes_to_string jsonBytes)
          (st_return (jx_launcher jx jsonBytes))))"

section \<open>The cache of versions\<close>

definition launchy_resolveA8Dir :: "host_ext \<Rightarrow> string hop" where
  "launchy_resolveA8Dir x = resolveA8Dir x"

definition launchy_readRepoDotProps :: "host_ext \<Rightarrow> (string \<Rightarrow> string option) hop" where
  "launchy_readRepoDotProps x = readRepoDotProps x"

definition version_path :: "string \<Rightarrow> LauncherJson \<Rightarrow> string \<Rightarrow> string" where
  "version_path a8dir lj version = filepath_Join [a8dir, lj_Organization lj, lj_Artifact lj, version]"

definition resolveVersionsCacheDir :: "host_ext \<Rightarrow> LauncherJson \<Rightarrow> string \<Rightarrow> bool \<Rightarrow> string hop" where
  "resolveVersionsCacheDir x lj version mkdir =
     e_bind (e_wrap ''Error resolving a8 directory'' (launchy_resolveA8Dir x)) (\<lambda>a8dir.
     let path = version_path a8dir lj version
     in if mkdir then
          e_bind (os_query x (\<lambda>fs. Inr (fs_stat fs path))) (\<lambda>st.
          e_then (if st = StatNotExist then e_wrap (''Error creating directory '' @ path) (os_MkdirAll x path)
                  else e_return ()) (e_return path))
        else e_return path)"

definition currentVersionDir :: "host_ext \<Rightarrow> LauncherJson \<Rightarrow> string hop" where
  "currentVersionDir x lj = resolveVersionsCacheDir x lj ''current'' False"

definition loadFromCache :: "host_ext \<Rightarrow> LauncherJson \<Rightarrow> InstalledApp option hop" where
  "loadFromCache x lj =
     e_bind (currentVersionDir x lj) (\<lambda>cvd.
     e_bind (os_query x (\<lambda>fs. DirectoryExists fs cvd)) (\<lambda>ex.
     e_return (if ex then Some \<lparr>ia_InstalledExecPath = filepath_Join [cvd, ''bin'', state_name],
                                ia_Version = []\<rparr>
               else None)))"

section \<open>Installation\<close>

definition java_version :: "CmdJavaProcessFlagsS \<Rightarrow> string" where
  "java_version flags =
     (case jf_Version flags of None \<Rightarrow> ''latest'' | Some v \<Rightarrow> if v = [] then ''latest'' else v)"

definition java_build_request :: "CmdJavaProcessFlagsS \<Rightarrow> LauncherJson \<Rightarrow> NixBuildDescriptionRequest" where
  "java_build_request flags lj =
     \<lparr>nr_Name = state_name, nr_MainClass = lj_MainClass lj, nr_Organization = lj_Organization lj,
      nr_Artifact = lj_Artifact lj, nr_Version = java_version flags, nr_JavaVersion = lj_JavaVersion lj,
      nr_JvmArgs = [], nr_Args = [], nr_Repo = [], nr_Branch = lj_Branch lj, nr_WebappExplode = None\<rparr>"

definition java_FetchBuildDescription ::
  "java_ext \<Rightarrow> CmdJavaProcessFlagsS \<Rightarrow> Repository \<Rightarrow> LauncherJson \<Rightarrow> NixBuildDescriptionResponse hop" where
  "java_FetchBuildDescription jx flags repo lj =
     fetch_description (jx_install jx) repo (java_build_request flags lj)"

definition java_resolveRepository ::
  "java_ext \<Rightarrow> LauncherJson \<Rightarrow> (string \<Rightarrow> string option) \<Rightarrow> go_error + Repository" where
  "java_resolveRepository jx lj props = resolveRepository (jx_install jx) (lj_Repo lj) props"

definition installApp ::
  "host_ext \<Rightarrow> java_ext \<Rightarrow> CmdJavaProcessFlagsS \<Rightarrow> (string \<Rightarrow> string option) \<Rightarrow> LauncherJson \<Rightarrow>
   InstalledApp hop" where
  "installApp x jx flags props lj =
     e_bind (st_return (java_resolveRepository jx lj props)) (\<lambda>repo.
     e_bind (java_FetchBuildDescription jx flags repo lj) (\<lambda>response.
     e_bind (resolveVersionsCacheDir x lj (nbr_ResolvedVersion response) True) (\<lambda>versionCacheDir.
     e_then (e_each (write_build_file x versionCacheDir) (nbr_Files response))
     (e_then (e_ignore (os_WriteFile x (filepath_Join [versionCacheDir, ''build-description.json''])
         (ix_response_json (jx_install jx) response)))
     (e_then (e_wrap (''Error executing command in '' @ versionCacheDir)
         (os_command x versionCacheDir nix_build_command))
     (e_bind (currentVersionDir x lj) (\<lambda>cvd.
      e_bind (os_query x (\<lambda>fs. DirectoryExists fs cvd)) (\<lambda>ex.
      e_then (if ex then e_ignore (os_Remove x cvd) else e_return ())
      (e_then (e_wrap (''Error creating symlink '' @ cvd @ '' -> '' @ versionCacheDir)
          (os_Symlink x versionCacheDir cvd))
      (e_return \<lparr>ia_InstalledExecPath = filepath_Join [versionCacheDir, ''build'', ''bin'', state_name],
                 ia_Version = []\<rparr>))))))))))"

section \<open>Preparation\<close>

definition updateLaunchArgs :: "InstalledApp \<Rightarrow> LaunchArgs \<Rightarrow> LaunchArgs" where
  "updateLaunchArgs app args = args\<lparr>la_Command := ia_InstalledExecPath app # la_Command args\<rparr>"

text \<open>The action (run or upgrade) is not looked at.\<close>

definition PrepareJavaProcess ::
  "host_ext \<Rightarrow> java_ext \<Rightarrow> launch_action \<Rightarrow> LaunchArgs \<Rightarrow> CmdJavaProcessFlagsS \<Rightarrow> LaunchArgs hop" where
  "PrepareJavaProcess x jx action args flags =
     e_bind (launchy_readRepoDotProps x) (\<lambda>props.
     e_bind (readLauncherJson x jx flags) (\<lambda>lj.
     e_bind (loadFromCache x lj) (\<lambda>cached.
     e_bind (case cached of Some app \<Rightarrow> e_return app | None \<Rightarrow> installApp x jx flags props lj) (\<lambda>app.
     e_return (updateLaunchArgs app args)))))"

section \<open>Paths below a directory\<close>

lemma strings_Split_append:
  "strings_Split c (a @ c # b) = strings_Split c a @ strings_Split c b"
proof (induction a)
  case (Cons d a)
  obtain r rs where "strings_Split c a = r # rs" by (cases "strings_Split c a") auto
  with Cons show ?case by (simp add: Let_def)
qed (simp add: Let_def)

lemma path_names_append: "path_names (a @ CHR ''/'' # b) = path_names a @ path_names b"
  by (simp add: path_names_def strings_Split_append)

text \<open>Names as they occur in a path: not empty, no dot, no slash.\<close>

definition name_ok :: "string \<Rightarrow> bool" where
  "name_ok c \<longleftrightarrow> c \<noteq> [] \<and> c \<noteq> ''.'' \<and> CHR ''/'' \<notin> set c"

lemma strings_Split_absent: "c \<notin> set s \<Longrightarrow> strings_Split c s = [s]"
  by (induction s) (auto simp: Let_def)

lemma path_names_name: "name_ok c \<Longrightarrow> path_names c = [c]"
  by (simp add: path_names_def name_ok_def strings_Split_absent)

lemma path_names_Nil [simp]: "path_names [] = []"
  by (simp add: path_names_def)

lemma path_names_Join: "\<forall>c \<in> set cs. name_ok c \<Longrightarrow> path_names (strings_Join cs ''/'') = cs"
proof (induction cs rule: induct_list012)
  case (3 a b cs)
  then show ?case using path_names_append [of a] path_names_name [of a] by simp
qed (simp_all add: path_names_name)

lemma strings_Split_no_sep: "s \<in> set (strings_Split c t) \<Longrightarrow> c \<notin> set s"
proof (induction t arbitrary: s)
  case (Cons d t)
  obtain r rs where r: "strings_Split c t = r # rs" by (cases "strings_Split c t") auto
  with Cons.IH [of r] Cons.IH [of s] Cons.prems show ?case by (auto simp: Let_def split: if_splits)
qed simp

lemma path_names_ok: "c \<in> set (path_names s) \<Longrightarrow> name_ok c"
  by (auto simp: path_names_def name_ok_def dest: strings_Split_no_sep)

lemma clean_names_ok:
  "\<forall>c \<in> set acc \<union> set cs. name_ok c \<Longrightarrow> c \<in> set (clean_names r acc cs) \<Longrightarrow> name_ok c"
proof (induction r acc cs rule: clean_names.induct)
  case (2 r acc c' cs)
  then show ?case by (auto split: if_splits dest: list.set_sel(2))
qed simp

text \<open>A rooted path that was cleaned has no dots left.\<close>

lemma clean_names_no_dots:
  "\<forall>c \<in> set acc. c \<noteq> ''..'' \<Longrightarrow> c \<in> set (clean_names True acc cs) \<Longrightarrow> c \<noteq> ''..''"
proof (induction True acc cs rule: clean_names.induct)
  case (2 acc c' cs)
  then show ?case by (auto split: if_splits dest: list.set_sel(2))
qed simp

lemma clean_names_id: "\<forall>c \<in> set cs. c \<noteq> ''..'' \<Longrightarrow> clean_names r acc cs = rev acc @ cs"
  by (induction cs arbitrary: acc) auto

lemma rooted_Clean:
  assumes "rooted s"
  shows "rooted (filepath_Clean s)" "path_names (filepath_Clean s) = clean_names True [] (path_names s)"
    "\<forall>c \<in> set (path_names (filepath_Clean s)). name_ok c \<and> c \<noteq> ''..''"
proof -
  let ?cs = "clean_names True [] (path_names s)"
  have eq: "filepath_Clean s = CHR ''/'' # strings_Join ?cs ''/''" using assms by (simp add: filepath_Clean_def)
  have ok: "\<forall>c \<in> set ?cs. name_ok c \<and> c \<noteq> ''..''"
    using clean_names_ok [of "[]" "path_names s"] path_names_ok clean_names_no_dots [of "[]"] by auto
  then have names: "path_names (filepath_Clean s) = ?cs"
    using path_names_append [of "[]" "strings_Join ?cs ''/''"] path_names_Join [of ?cs] by (simp add: eq)
  show "rooted (filepath_Clean s)" by (simp add: eq rooted_def)
  show "path_names (filepath_Clean s) = ?cs" by (rule names)
  show "\<forall>c \<in> set (path_names (filepath_Clean s)). name_ok c \<and> c \<noteq> ''..''" using ok names by simp
qed

lemma Join_below:
  assumes "rooted s" and "\<forall>c \<in> set (path_names s). name_ok c \<and> c \<noteq> ''..''"
    and "name_ok a" and "a \<noteq> ''..''" and "name_ok b" and "b \<noteq> ''..''"
  shows "path_names (filepath_Join [s, a, b]) = path_names s @ [a, b]" "rooted (filepath_Join [s, a, b])"
proof -
  have s: "s \<noteq> []" using assms(1) by (simp add: rooted_def)
  then have eq: "filepath_Join [s, a, b] = filepath_Clean (s @ ''/'' @ a @ ''/'' @ b)"
    by (simp add: filepath_Join_def)
  have r: "rooted (s @ ''/'' @ a @ ''/'' @ b)" using assms(1) by (auto simp: rooted_def)
  have "path_names (s @ ''/'' @ a @ ''/'' @ b) = path_names s @ [a, b]"
    using path_names_append [of s] path_names_append [of a] path_names_name assms(3,5) by simp
  then show "path_names (filepath_Join [s, a, b]) = path_names s @ [a, b]"
    unfolding eq rooted_Clean(2) [OF r] using assms by (subst clean_names_id) auto
  show "rooted (filepath_Join [s, a, b])" unfolding eq by (rule rooted_Clean(1) [OF r])
qed

lemma walk_append:
  "walk t n p cs = Found q \<Longrightarrow> node_at t q = Some Dir \<Longrightarrow> \<exists>m. walk t n p (cs @ ds) = walk t m q ds"
proof (induction t n p cs rule: walk.induct)
  case (1 t n p)
  then show ?case by auto
next
  case (2 t n p c cs)
  show ?case
  proof (cases "c = ''..''")
    case True
    with 2 show ?thesis by simp
  next
    case False
    show ?thesis
    proof (cases "t (p @ [c])")
      case None
      with 2(4) False show ?thesis by (simp split: if_splits)
    next
      case (Some node)
      then show ?thesis
      proof (cases node)
        case Dir
        with 2(2) 2(4-) Some False show ?thesis by simp
      next
        case (RegularFile b)
        with 2(4-) Some False show ?thesis by (auto simp: node_at_def split: if_splits)
      next
        case (Link l)
        with 2(3) 2(4-) Some False show ?thesis by (cases n) auto
      qed
    qed
  qed
qed

section \<open>The cached program\<close>

lemma loadFromCache_path:
  "st_post (loadFromCache x lj) h (\<lambda>r h'. \<forall>home app. hx_home x = Inr home \<longrightarrow> r = Inr (Some app) \<longrightarrow>
     ia_InstalledExecPath app =
       filepath_Join [version_path (filepath_Join [home, ''.a8'']) lj ''current'', ''bin'', state_name])"
  by (auto simp: loadFromCache_def currentVersionDir_def resolveVersionsCacheDir_def
      launchy_resolveA8Dir_def resolveA8Dir_def Let_def os_Mkdir_def wp_simps split: sum.split)

lemma Join_rooted:
  assumes "rooted s"
  shows "rooted (filepath_Join (s # es))" "\<forall>c \<in> set (path_names (filepath_Join (s # es))). name_ok c \<and> c \<noteq> ''..''"
proof -
  obtain s' where s: "s = CHR ''/'' # s'" using assms by (cases s) (auto simp: rooted_def)
  have "rooted (strings_Join (s # es) ''/'')" by (cases es) (simp_all add: s rooted_def)
  with s show "rooted (filepath_Join (s # es))"
    "\<forall>c \<in> set (path_names (filepath_Join (s # es))). name_ok c \<and> c \<noteq> ''..''"
    using rooted_Clean by (simp_all add: filepath_Join_def)
qed

text \<open>
  The program a later launch finds in the cache is not there. An installation leaves its program
  in the build directory of the version, and a launch that finds the version in the cache is given the
  path without that directory: nothing is there unless the version has a bin of its own.
\<close>

theorem cached_program_is_missing:
  assumes "loadFromCache x lj h = Inr (Inr (Some app), h')"
    and "hx_home x = Inr home" and "rooted home"
    and "follow (h_tree h') (hx_cwd x) (version_path (filepath_Join [home, ''.a8'']) lj ''current'') = Found q"
    and "node_at (h_tree h') q = Some Dir" and "h_tree h' (q @ [''bin'']) = None"
  shows "ia_InstalledExecPath app =
      filepath_Join [version_path (filepath_Join [home, ''.a8'']) lj ''current'', ''bin'', state_name] \<and>
    tree_stat (h_tree h') (hx_cwd x) (ia_InstalledExecPath app) = StatNotExist"
proof -
  let ?cvd = "version_path (filepath_Join [home, ''.a8'']) lj ''current''"
  have path: "ia_InstalledExecPath app = filepath_Join [?cvd, ''bin'', state_name]"
    using st_postD [OF loadFromCache_path assms(1)] assms(2) by blast
  have "rooted ?cvd" "\<forall>c \<in> set (path_names ?cvd). name_ok c \<and> c \<noteq> ''..''"
    unfolding version_path_def using Join_rooted Join_rooted(1) [OF assms(3)] by blast+
  then have below: "path_names (filepath_Join [?cvd, ''bin'', state_name]) = path_names ?cvd @ [''bin'', state_name]"
    "rooted (filepath_Join [?cvd, ''bin'', state_name])" and r: "rooted ?cvd"
    using Join_below [of ?cvd "''bin''" state_name] by (simp_all add: name_ok_def state_name_def)
  from assms(4) r have "walk (h_tree h') max_links [] (path_names ?cvd) = Found q"
    by (simp add: follow_def full_names_def)
  from walk_append [OF this assms(5), of "[''bin'', state_name]"] below assms(6)
  have "follow (h_tree h') (hx_cwd x) (ia_InstalledExecPath app) = Nowhere ENOENT"
    by (auto simp: path follow_def full_names_def)
  with path show ?thesis by (simp add: tree_stat_def)
qed

definition cached_tree :: tree where
  "cached_tree = map_of
     [([''home''], Dir), ([''home'', ''me''], Dir), ([''home'', ''me'', ''.a8''], Dir),
      ([''home'', ''me'', ''.a8'', ''org''], Dir), ([''home'', ''me'', ''.a8'', ''org'', ''app''], Dir),
      ([''home'', ''me'', ''.a8'', ''org'', ''app'', ''1.0''], Dir),
      ([''home'', ''me'', ''.a8'', ''org'', ''app'', ''1.0'', ''build''], Link ''/nix/store/x''),
      ([''home'', ''me'', ''.a8'', ''org'', ''app'', ''current''], Link ''/home/me/.a8/org/app/1.0'')]"

definition cached_host :: host where
  "cached_host = \<lparr>h_tree = cached_tree, h_ops = 0, h_commands = []\<rparr>"

definition demo_launcher_json :: LauncherJson where
  "demo_launcher_json = \<lparr>lj_Name = ''app'', lj_MainClass = ''Main'', lj_Organization = ''org'',
     lj_Artifact = ''app'', lj_Branch = ''master'', lj_Repo = [], lj_JavaVersion = []\<rparr>"

lemma demo_cached:
  "(case loadFromCache install_machine demo_launcher_json cached_host of
      Inr (r, h') \<Rightarrow> (case r of Inr (Some app) \<Rightarrow>
        h_tree h' [''home'', ''me'', ''.a8'', ''org'', ''app'', ''1.0'', ''bin''] = None \<and>
        follow (h_tree h') ''/'' (version_path (filepath_Join [''/home/me'', ''.a8'']) demo_launcher_json ''current'') =
          Found [''home'', ''me'', ''.a8'', ''org'', ''app'', ''1.0''] \<and>
        node_at (h_tree h') [''home'', ''me'', ''.a8'', ''org'', ''app'', ''1.0''] = Some Dir | _ \<Rightarrow> False)
    | _ \<Rightarrow> False)"
  by code_simp

theorem cached_program_is_missing_witness:
  "\<exists>app h'. loadFromCache install_machine demo_launcher_json cached_host = Inr (Inr (Some app), h') \<and>
     tree_stat (h_tree h') ''/'' (ia_InstalledExecPath app) = StatNotExist"
proof -
  obtain r h' where eq: "loadFromCache install_machine demo_launcher_json cached_host = Inr (r, h')"
    using demo_cached by (auto split: sum.splits)
  with demo_cached obtain app where run: "loadFromCache install_machine demo_launcher_json cached_host = Inr (Inr (Some app), h')"
    by (auto split: sum.splits option.splits)
  have "hx_home install_machine = Inr ''/home/me''" "rooted ''/home/me''" "hx_cwd install_machine = ''/''"
    by (simp_all add: install_machine_def rooted_def)
  with cached_program_is_missing [OF run] demo_cached run show ?thesis by fastforce
qed

end
