(* ===== verification/LaunchyMain.thy ===== *)
theory LaunchyMain
  imports LaunchyJava LaunchyJournal HermesServer
begin

text \<open>
  The main programs of the minion: a run of a child (\<open>RunChildProcessMain0\<close> of
  \<open>src/launchy/old-launchy-main.go\<close> with the rpc service of \<open>launchy-rpc-server.go\<close>) and the agent
  (\<open>AgentMain\<close>, its rpc server, its slurper of services and the start of its journal manager, of
  \<open>agent.go\<close>). The flags, the configuration, the connections and the preparation of a Java program
  (\<open>PrepareJavaProcess\<close> of theory \<open>LaunchyJava\<close>) are inputs; logging is left out.
\<close>

section \<open>Flags and configuration\<close>

record CmdGlobalFlagsS =
  gf_TraceLogging :: bool
  gf_Logging :: bool
  gf_Category :: string
  gf_ExtraData :: string

record CmdRunChildProcessFlagsS =
  rf_NoStart :: bool
  rf_NoExit :: bool
  rf_ConsolePassThru :: bool

record MinionMainConfig =
  mmc_LocalNatsUrl :: string
  mmc_CentralNatsUrl :: string
  mmc_MinionUid :: string
  mmc_NefarioSubject :: Subject
  mmc_RemoteLinuxCommandPrefix :: "string list"

definition launch_args :: "CmdRunChildProcessFlagsS \<Rightarrow> CmdGlobalFlagsS \<Rightarrow> LaunchArgs" where
  "launch_args flags globalFlags =
     \<lparr>la_TraceLogging = gf_TraceLogging globalFlags, la_Logging = gf_Logging globalFlags,
      la_NoExit = rf_NoExit flags, la_ConsolePassThru = rf_ConsolePassThru flags,
      la_Category = gf_Category globalFlags, la_NoStart = rf_NoStart flags, la_Command = [],
      la_MinionUid = [], la_ExtraData = gf_ExtraData globalFlags\<rparr>"

text \<open>How a main program ends when it does not panic: \<open>os.Exit\<close>, or a code and an error.\<close>

datatype main_end = OsExit int | MainReturns int "go_error option"

section \<open>The life of a launcher\<close>

text \<open>
  What happens to a launcher: its ticker fires, a run of the child goes from its start to its end, a
  signal comes while no child runs or while one does, the goroutine of the rpc service makes its
  mailbox, or the launcher is told to stop. A run that ends stops the launcher unless it is to wait.
\<close>

datatype launcher_input =
    LauncherTick
  | LauncherRun child_run
  | LauncherSignal
  | LauncherRpc
  | LauncherStop

definition launcher_signal :: "unit lop" where
  "launcher_signal =
     st_bind st_get (\<lambda>s.
       if IsProcessRunning s then StopRunningProcess Interupt
       else st_modify (\<lambda>s. s\<lparr>lc_cancelled := True\<rparr>))"

definition launcher_child :: "launchy_ext \<Rightarrow> child_run \<Rightarrow> unit lop" where
  "launcher_child x r =
     st_bind (RunChildProcess x r) (\<lambda>_.
       st_modify (\<lambda>s. if \<not> la_NoExit (lc_args s) then s\<lparr>lc_cancelled := True\<rparr> else s))"

text \<open>The rpc service asks for a mailbox without saying where: the answer or the panic of that.\<close>

definition rpc_service_config :: RpcMailboxConfig where
  "rpc_service_config = \<lparr>rmc_Url = [], rmc_MailboxKey = None\<rparr>"

definition launcher_rpc :: "(RpcMailboxConfig \<Rightarrow> (go_error + string) run) \<Rightarrow> launchy_ext \<Rightarrow> unit lop" where
  "launcher_rpc create_mailbox x =
     st_bind (st_lift (create_mailbox rpc_service_config)) (\<lambda>r.
       case r of
         Inl err \<Rightarrow> st_lift (Inl (PanicMsg (error_text err)))
       | Inr address \<Rightarrow>
           st_bind st_get (\<lambda>s.
           st_bind (nefario_send x (\<lambda>now. FlUpdateMailbox
              \<lparr>um_ProcessUid = lc_processUid s, um_Mailbox = address\<rparr>)) (\<lambda>err. st_return ())))"

definition launcher_event :: "(RpcMailboxConfig \<Rightarrow> (go_error + string) run) \<Rightarrow> launchy_ext \<Rightarrow> launcher_input \<Rightarrow> unit lop"
  where
  "launcher_event create_mailbox x e =
     (case e of
        LauncherTick \<Rightarrow> st_bind (launchy_ping x) (\<lambda>_. st_return ())
      | LauncherRun r \<Rightarrow> launcher_child x r
      | LauncherSignal \<Rightarrow> launcher_signal
      | LauncherRpc \<Rightarrow> launcher_rpc create_mailbox x
      | LauncherStop \<Rightarrow> RpcStopLaunchy)"

text \<open>The wait for the context; the answer is whether it was cancelled.\<close>

fun launcher_events ::
  "(RpcMailboxConfig \<Rightarrow> (go_error + string) run) \<Rightarrow> launchy_ext \<Rightarrow> launcher_input list \<Rightarrow> bool lop" where
  "launcher_events create_mailbox x [] = st_bind st_get (\<lambda>s. st_return (lc_cancelled s))"
| "launcher_events create_mailbox x (e # es) =
     st_bind st_get (\<lambda>s.
       if lc_cancelled s then st_return True
       else st_bind (launcher_event create_mailbox x e) (\<lambda>_. launcher_events create_mailbox x es))"

text \<open>
  From the launcher's report of its own start, whose error is dropped, to the report of its end, which
  says 0 whatever the child did; \<open>None\<close> while it waits.
\<close>

definition launcher_life ::
  "(RpcMailboxConfig \<Rightarrow> (go_error + string) run) \<Rightarrow> launchy_ext \<Rightarrow> launcher_input list \<Rightarrow> main_end option lop"
  where
  "launcher_life create_mailbox x es =
     st_bind (SubmitLaunchyProcessStart x) (\<lambda>_.
     st_bind (launcher_events create_mailbox x es) (\<lambda>over.
       if over then
         st_bind st_get (\<lambda>s.
         st_bind (nefario_send x (\<lambda>now. FlProcessCompleted
            \<lparr>pc_ProcessUid = lc_processUid s, pc_ExitCode = 0, pc_ExitMessage = [],
             pc_CompletedAt = Some (NowTimeStamp now)\<rparr>)) (\<lambda>err.
         st_return (Some (MainReturns 0 None))))
       else st_return None))"

section \<open>RunChildProcessMain0\<close>

record main_env =
  me_args :: "string list"
  me_flags :: CmdRunChildProcessFlagsS
  me_globalFlags :: CmdGlobalFlagsS
  me_IsValidJson :: "string \<Rightarrow> bool"
  me_config :: "MinionMainConfig option"
  me_prepare :: "launch_action \<Rightarrow> LaunchArgs \<Rightarrow> go_error + LaunchArgs"
  me_connect_central :: "go_error option"
  me_connect_local :: "go_error option"
  me_current_user :: "go_error option"
  me_uid :: string

text \<open>The arguments of the launch, or the end of the program.\<close>

definition main_launch_args :: "main_env \<Rightarrow> launch_action \<Rightarrow> main_end + (MinionMainConfig \<times> LaunchArgs)" where
  "main_launch_args env action =
     (let args0 = launch_args (me_flags env) (me_globalFlags env)
      in if \<not> me_IsValidJson env (la_ExtraData args0) then Inl (OsExit 1)
         else (case me_config env of
                 None \<Rightarrow> Inl (OsExit 1)
               | Some config \<Rightarrow>
                   let args1 = args0\<lparr>la_MinionUid := mmc_MinionUid config\<rparr>;
                       args2 = args1\<lparr>la_Command := me_args env\<rparr>;
                       failed = (\<lambda>err. MainReturns (-1) (Some (WrapErr ''PrepareJavaProcess error'' err)))
                   in (case action of
                         RunChild \<Rightarrow> Inr (config, args2)
                       | RunJava \<Rightarrow>
                           (case me_prepare env action args2 of
                              Inl err \<Rightarrow> Inl (failed err) | Inr args3 \<Rightarrow> Inr (config, args3))
                       | UpgradeJava \<Rightarrow>
                           (case me_prepare env action args1 of
                              Inl err \<Rightarrow> Inl (failed err) | Inr args3 \<Rightarrow> Inl (MainReturns 0 None)))))"

text \<open>The mailbox of the launcher or the agent: no key is given.\<close>

definition main_mailbox ::
  "'w hermes_ext \<Rightarrow> go_error option \<Rightarrow> string \<Rightarrow> ('w, mbox_id) HermesMailbox.hop" where
  "main_mailbox ext connect url =
     st_bind (CreateRpcMailbox ext connect \<lparr>rmc_Url = url, rmc_MailboxKey = None\<rparr>) (\<lambda>r.
       case r of Inl err \<Rightarrow> st_lift (Inl (PanicMsg (error_text err))) | Inr i \<Rightarrow> st_return i)"

text \<open>The answer has the state of the launcher once there is one.\<close>

definition RunChildProcessMain0 ::
  "'w hermes_ext \<Rightarrow> launchy_ext \<Rightarrow> main_env \<Rightarrow> launch_action \<Rightarrow>
   (RpcMailboxConfig \<Rightarrow> (go_error + string) run) \<Rightarrow> launcher_input list \<Rightarrow>
   ('w, main_end option \<times> launchy option) HermesMailbox.hop" where
  "RunChildProcessMain0 ext x env action create_mailbox es =
     (case main_launch_args env action of
        Inl e \<Rightarrow> st_return (Some e, None)
      | Inr (config, args) \<Rightarrow>
          st_bind (main_mailbox ext (me_connect_central env) (mmc_CentralNatsUrl config)) (\<lambda>mailbox.
          st_bind (st_lift (slice_get (la_Command args) 0)) (\<lambda>name.
          case NewNefarioServiceClient (me_connect_local env) (mmc_NefarioSubject config) of
            Inl err \<Rightarrow> st_lift (Inl (PanicMsg (error_text err)))
          | Inr nefarioClient \<Rightarrow>
              st_bind (st_lift (NewLaunchyController (me_current_user env) args (me_uid env))) (\<lambda>s.
              st_bind (st_lift (launcher_life create_mailbox x es s)) (\<lambda>(e, s').
                st_return (e, Some s'))))))"

section \<open>The agent\<close>

definition agent_subprocesses :: "string list" where
  "agent_subprocesses = [''agent-rpc'', ''service-slurper'', ''nefario-lifecycle'', ''journalctl-manager'']"

text \<open>\<open>AgentMain\<close> up to the wait for its sub-processes: what it has submitted by then.\<close>

definition AgentMain ::
  "'w hermes_ext \<Rightarrow> main_env \<Rightarrow> ('w, main_end + string list) HermesMailbox.hop" where
  "AgentMain ext env =
     (case me_config env of
        None \<Rightarrow> st_return (Inl (OsExit 1))
      | Some config \<Rightarrow>
          st_bind (main_mailbox ext (me_connect_central env) (mmc_CentralNatsUrl config)) (\<lambda>mailbox.
          case me_current_user env of
            Some err \<Rightarrow> st_lift (Inl (PanicMsg (error_text (WrapErr ''error getting current user'' err))))
          | None \<Rightarrow>
              (case NewNefarioServiceClient (me_connect_local env) (mmc_NefarioSubject config) of
                 Inl err \<Rightarrow> st_lift (Inl (PanicMsg (error_text err)))
               | Inr nefarioClient \<Rightarrow> st_return (Inr agent_subprocesses))))"

text \<open>The names the agent's rpc server answers to.\<close>

definition agent_handlers :: "string list" where
  "agent_handlers = [''ListSystemdServices'', ''SystemdServiceAction'']"

text \<open>A pass of the slurper: what systemctl and nefario answer, and the walks over their names.\<close>

record slurp_input =
  si_walk1 :: "string list"
  si_walk2 :: "string list"
  si_systemctl :: ListSystemdServicesResponse
  si_records :: "go_error + ServiceRecord list"
  si_send :: "SystemdServiceRecordCrud list \<Rightarrow> go_error option"
  si_uid :: "string \<Rightarrow> string"

record slurper =
  sp_known :: "string \<Rightarrow> ServiceRecordDto option"
  sp_sent :: "SystemdServiceRecordCrud list"
  sp_loaded :: bool

definition slurp_single ::
  "(ServiceUnitJson \<Rightarrow> ServiceUnitJson option \<Rightarrow> bool) \<Rightarrow> string \<Rightarrow> slurp_input \<Rightarrow> slurper \<Rightarrow> slurper run" where
  "slurp_single eq minionUid i s =
     run_bind (RunServiceSlurpLoopOnce eq minionUid (si_uid i) (si_walk1 i) (si_walk2 i) (si_systemctl i)
         (si_records i) (si_send i) (sp_known s)) (\<lambda>(err, acts, known).
       Inr (s\<lparr>sp_known := known, sp_sent := sp_sent s @ acts\<rparr>))"

fun slurper_ticks ::
  "(ServiceUnitJson \<Rightarrow> ServiceUnitJson option \<Rightarrow> bool) \<Rightarrow> string \<Rightarrow> slurp_input option list \<Rightarrow> slurper \<Rightarrow>
   slurper run" where
  "slurper_ticks eq minionUid [] s = Inr s"
| "slurper_ticks eq minionUid (None # is) s = Inr s"
| "slurper_ticks eq minionUid (Some i # is) s =
     run_bind (slurp_single eq minionUid i s) (slurper_ticks eq minionUid is)"

text \<open>\<open>None\<close> among the ticks is the end of the context.\<close>

definition RunServiceSlurper ::
  "(ServiceUnitJson \<Rightarrow> ServiceUnitJson option \<Rightarrow> bool) \<Rightarrow> string \<Rightarrow> slurp_input \<Rightarrow> slurp_input option list \<Rightarrow>
   slurper \<Rightarrow> slurper run" where
  "RunServiceSlurper eq minionUid first ticks s =
     run_bind (slurp_single eq minionUid first s) (\<lambda>s1.
       slurper_ticks eq minionUid ticks (s1\<lparr>sp_loaded := True\<rparr>))"

text \<open>The journal manager first takes the records nefario has.\<close>

definition initial_records :: "go_error + ServiceRecord list \<Rightarrow> agent \<Rightarrow> agent" where
  "initial_records r a =
     (case r of Inl err \<Rightarrow> a | Inr records \<Rightarrow> fold (\<lambda>rec a. processRecord (service_dto rec) a) records a)"

definition RunJournalCtlManager :: "go_error option \<Rightarrow> go_error + ServiceRecord list \<Rightarrow> agent \<Rightarrow> go_error + agent" where
  "RunJournalCtlManager connect records a =
     (case connect of
        Some err \<Rightarrow> Inl (WrapErr ''error resolving nats conn'' err)
      | None \<Rightarrow> Inr (initial_records records a))"

section \<open>What the mains come to\<close>

text \<open>A mailbox without a key is never made: the nil key is asked whether it is empty.\<close>

lemma main_mailbox_panics: "\<exists>p. main_mailbox ext connect url h = Inl p"
  by (auto simp: main_mailbox_def CreateRpcMailbox_def st_bind_def st_lift_def st_return_def
      split: option.splits)

lemma after_mailbox: "st_bind (main_mailbox ext connect url) f h \<noteq> Inr y"
  using main_mailbox_panics [of ext connect url h] by (auto simp: st_bind_def)

text \<open>
  C40. No launcher comes as far as a controller, let alone a child: every run of a child or of a Java
  program that gets through its arguments panics at its mailbox, so it ends with exit code 1, with the
  error of the preparation, or with 0 for an upgrade, and never with a state; and the agent panics
  before it submits any of its sub-processes, or exits with 1.
\<close>

theorem minion_never_starts:
  "(RunChildProcessMain0 ext x env action create_mailbox es h = Inr ((e, st), h') \<longrightarrow>
      st = None \<and> (action = RunChild \<longrightarrow> e = Some (OsExit 1))) \<and>
   (AgentMain ext env h = Inr (r, h'') \<longrightarrow> r = Inl (OsExit 1))"
proof (intro conjI impI)
  assume run: "RunChildProcessMain0 ext x env action create_mailbox es h = Inr ((e, st), h')"
  then obtain e0 where e0: "main_launch_args env action = Inl e0" "e = Some e0" "st = None"
    by (auto simp: RunChildProcessMain0_def after_mailbox split: sum.splits prod.splits)
  show "st = None" by (rule e0)
  assume "action = RunChild"
  with e0 show "e = Some (OsExit 1)"
    by (auto simp: main_launch_args_def Let_def split: if_splits option.splits)
next
  assume agent: "AgentMain ext env h = Inr (r, h'')"
  show "r = Inl (OsExit 1)"
  proof (cases "me_config env")
    case None
    with agent show ?thesis by (simp add: AgentMain_def)
  next
    case (Some config)
    with agent main_mailbox_panics [of ext "me_connect_central env" "mmc_CentralNatsUrl config" h]
    show ?thesis by (auto simp: AgentMain_def st_bind_def)
  qed
qed

definition demo_main :: main_env where
  "demo_main = \<lparr>me_args = [''sleep'', ''1''],
     me_flags = \<lparr>rf_NoStart = False, rf_NoExit = False, rf_ConsolePassThru = False\<rparr>,
     me_globalFlags = \<lparr>gf_TraceLogging = False, gf_Logging = True, gf_Category = [], gf_ExtraData = ''{''\<rparr>,
     me_IsValidJson = (\<lambda>s. s = ''{}''), me_config = None, me_prepare = (\<lambda>a args. Inr args),
     me_connect_central = None, me_connect_local = None, me_current_user = None, me_uid = ''u''\<rparr>"

theorem minion_never_starts_witness:
  "\<forall>x cm es. \<exists>e st. RunChildProcessMain0 demo_hext x demo_main RunChild cm es (demo_store demo_full) =
     Inr ((e, st), demo_store demo_full) \<and> st = None \<and> e = Some (OsExit 1)"
proof (intro allI)
  fix x cm es
  obtain e st where "RunChildProcessMain0 demo_hext x demo_main RunChild cm es (demo_store demo_full) =
      Inr ((e, st), demo_store demo_full)"
    by (auto simp: RunChildProcessMain0_def main_launch_args_def launch_args_def demo_main_def st_return_def Let_def)
  with minion_never_starts show "\<exists>e st. RunChildProcessMain0 demo_hext x demo_main RunChild cm es
      (demo_store demo_full) = Inr ((e, st), demo_store demo_full) \<and> st = None \<and> e = Some (OsExit 1)"
    by blast
qed

end
