(* ===== verification/DevopsDeploy.thy ===== *)
theory DevopsDeploy
  imports Devops
begin

text \<open>
  The deployment of apps (\<open>src/devops/deploy.go\<close>) and of servers (\<open>src/devops/nix-deploy.go\<close>). What the
  commands answer is given by the machine of theory \<open>Host\<close>; the copy of the staging directory is a
  third-party parameter.
\<close>

section \<open>Commands\<close>

record RunCommandArgs =
  rc_Command :: "string list"
  rc_WorkingDir :: string

text \<open>\<open>Run\<close> fails for a non-zero exit code; the check of the exit code after it never fails.\<close>

definition RunCommandX :: "host_ext \<Rightarrow> RunCommandArgs \<Rightarrow> unit hop" where
  "RunCommandX x args =
     e_bind (e_lift (slice_get (rc_Command args) 0)) (\<lambda>_.
     e_wrap (''error running command: '' @ strings_Join (rc_Command args) '' '')
       (os_command x (rc_WorkingDir args) (rc_Command args)))"

definition RunCommand :: "host_ext \<Rightarrow> string list \<Rightarrow> unit hop" where
  "RunCommand x args = RunCommandX x \<lparr>rc_Command = args, rc_WorkingDir = []\<rparr>"

section \<open>Deployments\<close>

record DeployInfo =
  di_DomainName :: string
  di_Version :: string

definition ParseDeployInfo :: "string \<Rightarrow> go_error + DeployInfo" where
  "ParseDeployInfo rawArg =
     (if rawArg = [] then Inl (GoErr ''empty argument'')
      else let parts = strings_SplitN2 rawArg '':''
           in Inr \<lparr>di_DomainName = parts ! 0,
                   di_Version = (if length parts = 1 \<or> parts ! 1 = [] then ''current'' else parts ! 1)\<rparr>)"

fun parse_infos :: "string list \<Rightarrow> go_error + DeployInfo list" where
  "parse_infos [] = Inr []"
| "parse_infos (a # as) =
     (case ParseDeployInfo a of
        Inl e \<Rightarrow> Inl e
      | Inr d \<Rightarrow> (case parse_infos as of Inl e \<Rightarrow> Inl e | Inr ds \<Rightarrow> Inr (d # ds)))"

definition isCurrentVersionLabel :: "string \<Rightarrow> bool" where
  "isCurrentVersionLabel version = (version \<in> set [''current'', []])"

record devops_ext =
  dx_LoadConfig :: "tree \<Rightarrow> string \<Rightarrow> hocon option run"
  dx_LastDeploy :: "bytes \<Rightarrow> go_error + LastDeploy"
  dx_descriptor_json :: "InstallDescriptor \<Rightarrow> bytes"
  dx_last_json :: "LastDeploy \<Rightarrow> bytes"
  dx_CopyDirectory :: "string \<Rightarrow> string \<Rightarrow> tree \<Rightarrow> tree \<times> go_error option"
  dx_now :: "nat \<Rightarrow> string"
  dx_user_home :: "go_error + string"
  dx_trace :: bool

definition env_of :: "host_ext \<Rightarrow> devops_ext \<Rightarrow> host \<Rightarrow> devops_env" where
  "env_of x dx h =
     \<lparr>de_fs = host_fs x h,
      de_ReadDir = (\<lambda>s. case os_ReadDir x s h of Inl p \<Rightarrow> Inl ENOENT | Inr (r, _) \<Rightarrow> r),
      de_LoadConfig = dx_LoadConfig dx (h_tree h),
      de_LastDeploy = dx_LastDeploy dx\<rparr>"

definition copy_staging :: "host_ext \<Rightarrow> devops_ext \<Rightarrow> string \<Rightarrow> string \<Rightarrow> unit hop" where
  "copy_staging x dx src dst h =
     (let (t, r) = dx_CopyDirectory dx src dst (h_tree h)
      in Inr (case r of None \<Rightarrow> Inr () | Some e \<Rightarrow> Inl e, h\<lparr>h_ops := Suc (h_ops h), h_tree := t\<rparr>))"

definition deploy_descriptor :: "App \<Rightarrow> string \<Rightarrow> InstallDescriptor \<Rightarrow> InstallDescriptor" where
  "deploy_descriptor app version install = install
     \<lparr>id_Name := app_Name app, id_Version := version, id_BackupDir := BackupsDir (app_User app),
      id_InstallDir := filepath_Join [AppsDir (app_User app), app_Name app],
      id_IncludeDefaultVmArgs := True, id_LinkCacheDir := True, id_LinkLogsDir := True,
      id_LinkDataDir := True, id_LinkTempDir := True\<rparr>"

text \<open>The three commands: the remote directory, the copy, the installation there.\<close>

definition deploy_commands :: "devops_ext \<Rightarrow> UserD \<Rightarrow> string \<Rightarrow> string \<Rightarrow> string list list" where
  "deploy_commands dx user localDir remoteDir =
     (let sshName = user_SshName user
      in [[''ssh'', sshName, ''--'', ''mkdir'', ''-p'', remoteDir],
          [''rsync'', ''--recursive'', ''--links'', ''--perms'', localDir @ ''/'',
           sshName @ '':'' @ remoteDir @ ''/''],
          [''ssh'', sshName, ''--'', ''a8''] @ (if dx_trace dx then [''--trace''] else []) @
            [''local-install'', remoteDir]])"

definition settle_version :: "App \<Rightarrow> string \<Rightarrow> go_error + string" where
  "settle_version app version =
     (if isCurrentVersionLabel version then
        (case app_LastDeploy app of
           None \<Rightarrow> Inl (GoErr ''last-deploy.json needed in order to fetch current version'')
         | Some l \<Rightarrow> Inr (ld_Version l))
      else Inr version)"

definition write_last_deploy :: "host_ext \<Rightarrow> devops_ext \<Rightarrow> App \<Rightarrow> string \<Rightarrow> unit hop" where
  "write_last_deploy x dx app version =
     st_bind st_get (\<lambda>h.
     e_bind (os_query x (\<lambda>fs. FindSshKeyPublicKeys fs (dx_user_home dx))) (\<lambda>keys.
     e_ignore (os_WriteFile x (filepath_Join [app_Dir app, ''last-deploy.json''])
       (dx_last_json dx \<lparr>ld_Version = version, ld_Timestamp = dx_now dx (h_ops h), ld_SshKeys = keys\<rparr>))))"

definition stage_app :: "host_ext \<Rightarrow> devops_ext \<Rightarrow> App \<Rightarrow> string \<Rightarrow> unit hop" where
  "stage_app x dx app localStagingDir =
     e_bind (os_query x (\<lambda>fs. DirectoryExists fs localStagingDir)) (\<lambda>ex.
     e_then (if ex then os_RemoveAll x localStagingDir else e_return ())
     (e_then (os_MkdirAll x localStagingDir)
     (e_then (copy_staging x dx (app_Dir app) localStagingDir)
     (let staged = filepath_Join [localStagingDir, ''last-deploy.json'']
      in e_bind (os_query x (\<lambda>fs. FileExists fs staged)) (\<lambda>ex.
         if ex then e_ignore (os_Remove x staged) else e_return ())))))"

definition DeployApp :: "host_ext \<Rightarrow> devops_ext \<Rightarrow> Root \<Rightarrow> App \<Rightarrow> string \<Rightarrow> unit hop" where
  "DeployApp x dx root app version0 =
     (let user = app_User app
      in e_bind (os_timestamp x) (\<lambda>timestamp.
         let stagingName = app_Name app @ ''-'' @ timestamp;
             localStagingDir = filepath_Join [rt_StagingDir root, stagingName];
             remoteStagingDir = filepath_Join [HomeDir user, ''.a8-staging'', stagingName]
         in e_then (stage_app x dx app localStagingDir)
            (e_bind (e_lift (deref (app_ApplicationDotHocon app))) (\<lambda>adh.
             e_bind (st_return (settle_version app version0)) (\<lambda>version.
             e_bind (e_lift (deref (ah_Install adh))) (\<lambda>install.
             e_then (os_WriteFile x (filepath_Join [localStagingDir, ''install-descriptor.json''])
                (dx_descriptor_json dx (deploy_descriptor app version install)))
             (e_then (e_each (RunCommand x) (deploy_commands dx user localStagingDir remoteStagingDir))
             (write_last_deploy x dx app version))))))))"

section \<open>The deploy command\<close>

definition find_apps :: "Root option \<Rightarrow> DeployInfo list \<Rightarrow> (DeployInfo \<times> App option) list run" where
  "find_apps root ds =
     run_map (\<lambda>d. run_bind (deref root) (\<lambda>rt.
       run_bind (FindApp rt (di_DomainName d)) (\<lambda>app. Inr (d, app)))) ds"

definition errors_text :: "string list \<Rightarrow> go_error" where
  "errors_text es = GoErr (''errors: '' @ strings_Join es '', '')"

definition deploy_one :: "host_ext \<Rightarrow> devops_ext \<Rightarrow> Root option \<Rightarrow> DeployInfo \<times> App option \<Rightarrow> unit hop" where
  "deploy_one x dx root d =
     e_bind (e_lift (deref (snd d))) (\<lambda>app.
     e_bind (e_lift (deref root)) (\<lambda>rt. DeployApp x dx rt app (di_Version (fst d))))"

definition Deploy :: "host_ext \<Rightarrow> devops_ext \<Rightarrow> SubCommandArgs \<Rightarrow> unit hop" where
  "Deploy x dx sub =
     e_bind (st_return (parse_infos (sca_RemainingArgs sub))) (\<lambda>deploys.
     let configsDir = dc_ServerAppConfigsDir (sca_Config sub)
     in e_bind (st_bind st_get (\<lambda>h. st_lift (loadRoot (env_of x dx h) configsDir))) (\<lambda>root.
        e_bind (e_lift (find_apps root deploys)) (\<lambda>found.
        let missing = filter (\<lambda>d. snd d = None) found
        in if missing \<noteq> [] then
             e_fail (errors_text (map (\<lambda>d. ''app not found: '' @ di_DomainName (fst d)) missing))
           else
             e_bind (e_collect (deploy_one x dx root) found) (\<lambda>errs.
             if errs \<noteq> [] then
               e_fail (errors_text (map (\<lambda>(d, e). ''error deploying app '' @ di_DomainName (fst d) @
                  '': '' @ error_text e) errs))
             else RunCommand x [''git'', ''-C'', configsDir, ''commit'', ''-am'',
                    ''deployed '' @ strings_Join (sca_RemainingArgs sub) '' '']))))"

section \<open>The nix-deploy command\<close>

definition nix_deploy_server :: "host_ext \<Rightarrow> string \<Rightarrow> bool \<Rightarrow> string \<Rightarrow> unit hop" where
  "nix_deploy_server x rootDir force serverName =
     (let serverPath = filepath_Join [rootDir, serverName]
      in e_bind (os_query x (\<lambda>fs. DirectoryExists fs serverPath)) (\<lambda>ex.
         if \<not> ex then e_fail (GoErr (''server '' @ serverName @ '' does not exist in '' @ rootDir))
         else RunCommandX x \<lparr>rc_Command = ''./deploy'' # (if force then [''--force''] else []),
                rc_WorkingDir = serverPath\<rparr>))"

definition NixDeploy :: "host_ext \<Rightarrow> SubCommandArgs \<Rightarrow> unit hop" where
  "NixDeploy x sub =
     (if dc_ProxmoxHostsDir (sca_Config sub) = [] then
        e_fail (GoErr (''proxmoxHostsDir must be set in ~/.a8/devops.json or findable in '' @
          ''~ ~/code or ~/code/accur8''))
      else
        let force = ''--force'' \<in> set (sca_RemainingArgs sub)
        in e_each (nix_deploy_server x (dc_ProxmoxHostsDir (sca_Config sub)) force)
             (filter (\<lambda>a. \<not> strings_HasPrefix a ''--'') (sca_RemainingArgs sub)))"

section \<open>The commands of a deployment\<close>

text \<open>Only commands are logged as commands.\<close>

lemma commands_kept:
  "st_post (os_change x f) h (\<lambda>_ h'. h_commands h' = h_commands h)"
  "st_post (os_query x q) h (\<lambda>_ h'. h_commands h' = h_commands h)"
  "st_post (os_timestamp x) h (\<lambda>_ h'. h_commands h' = h_commands h)"
  "st_post (copy_staging x dx src dst) h (\<lambda>_ h'. h_commands h' = h_commands h)"
  by (simp_all add: wp_simps)
     (auto simp: copy_staging_def st_post_def split: prod.splits)

lemma stage_app_commands: "st_post (stage_app x dx app dir) h (\<lambda>_ h'. h_commands h' = h_commands h)"
  by (auto simp: stage_app_def Let_def wp_simps os_MkdirAll_def os_RemoveAll_def os_Remove_def
      copy_staging_def st_post_def [of "copy_staging x dx src dst" for src dst] split: prod.splits)

lemma write_last_deploy_commands:
  "st_post (write_last_deploy x dx app v) h (\<lambda>r h'. h_commands h' = h_commands h \<and> r = Inr ())"
  by (auto simp: write_last_deploy_def wp_simps os_WriteFile_def)

lemma RunCommand_post:
  assumes "c \<noteq> []"
  shows "st_post (RunCommand x c) h (\<lambda>r h'. h_commands h' = h_commands h @ [([], c)])"
  using assms
  by (auto simp: RunCommand_def RunCommandX_def wp_simps slice_get_def)

lemma each_RunCommand:
  assumes "\<forall>c \<in> set cs. c \<noteq> []"
  shows "st_post (e_each (RunCommand x) cs) h (\<lambda>r h'. \<exists>k \<le> length cs.
    h_commands h' = h_commands h @ map (Pair []) (take k cs) \<and> (\<forall>u. r = Inr u \<longrightarrow> k = length cs))"
  using assms
proof (induction cs arbitrary: h)
  case Nil
  then show ?case by (simp add: wp_simps)
next
  case (Cons c cs)
  show ?case
    unfolding e_each.simps st_post_err(4)
  proof (rule st_post_mono [OF RunCommand_post])
    show "c \<noteq> []" using Cons.prems by simp
    fix r and h1 :: host assume h1: "h_commands h1 = h_commands h @ [([], c)]"
    have "st_post (e_each (RunCommand x) cs) h1 (\<lambda>r h'. \<exists>k \<le> length (c # cs).
        h_commands h' = h_commands h @ map (Pair []) (take k (c # cs)) \<and>
        (\<forall>u. r = Inr u \<longrightarrow> k = length (c # cs)))"
    proof (rule st_post_mono [OF Cons.IH])
      show "\<forall>c\<in>set cs. c \<noteq> []" using Cons.prems by simp
      fix r' and h2 :: host
      assume "\<exists>k\<le>length cs. h_commands h2 = h_commands h1 @ map (Pair []) (take k cs) \<and>
        (\<forall>u. r' = Inr u \<longrightarrow> k = length cs)"
      then obtain k where "k \<le> length cs" "h_commands h2 = h_commands h1 @ map (Pair []) (take k cs)"
        "\<forall>u. r' = Inr u \<longrightarrow> k = length cs" by blast
      with h1 show "\<exists>k \<le> length (c # cs).
        h_commands h2 = h_commands h @ map (Pair []) (take k (c # cs)) \<and>
        (\<forall>u. r' = Inr u \<longrightarrow> k = length (c # cs))"
        by (intro exI [of _ "Suc k"]) simp
    qed
    moreover have "\<exists>k \<le> length (c # cs).
        h_commands h1 = h_commands h @ map (Pair []) (take k (c # cs)) \<and>
        (\<forall>u. Inl e = Inr u \<longrightarrow> k = length (c # cs))" for e :: go_error
      using h1 by (intro exI [of _ 1]) simp
    ultimately show "(\<forall>e. r = Inl e \<longrightarrow> (\<exists>k \<le> length (c # cs).
          h_commands h1 = h_commands h @ map (Pair []) (take k (c # cs)) \<and>
          (\<forall>u. (Inl e :: go_error + unit) = Inr u \<longrightarrow> k = length (c # cs)))) \<and>
        (\<forall>u. r = Inr u \<longrightarrow> st_post (e_each (RunCommand x) cs) h1 (\<lambda>r h'. \<exists>k \<le> length (c # cs).
          h_commands h' = h_commands h @ map (Pair []) (take k (c # cs)) \<and>
          (\<forall>u. r = Inr u \<longrightarrow> k = length (c # cs))))"
      by blast
  qed
qed

definition deploy_run :: "devops_ext \<Rightarrow> (string \<times> string list) list \<Rightarrow> bool" where
  "deploy_run dx run = (\<exists>user l r k. run = map (Pair []) (take k (deploy_commands dx user l r)))"

lemma deploy_commands_simps [simp]:
  "length (deploy_commands dx user l r) = 3" "\<forall>c \<in> set (deploy_commands dx user l r). c \<noteq> []"
  by (auto simp: deploy_commands_def Let_def)

lemma deploy_run_Nil [simp]: "deploy_run dx []"
  unfolding deploy_run_def by (intro exI [of _ 0] exI) simp

definition deployed :: "devops_ext \<Rightarrow> host \<Rightarrow> go_error + unit \<Rightarrow> host \<Rightarrow> bool" where
  "deployed dx h r h' \<longleftrightarrow> (\<exists>run. h_commands h' = h_commands h @ run \<and> deploy_run dx run \<and>
     (\<forall>u. r = Inr u \<longrightarrow> length run = 3))"

lemma deployed_error: "h_commands h' = h_commands h \<Longrightarrow> deployed dx h (Inl e) h'"
  unfolding deployed_def by (intro exI [of _ "[]"]) simp

lemma run_and_record_post:
  assumes "h_commands h = h_commands h0"
  shows "st_post (e_then (e_each (RunCommand x) (deploy_commands dx user l r))
      (write_last_deploy x dx app v)) h (deployed dx h0)"
  unfolding st_post_err(4)
proof (rule st_post_mono [OF each_RunCommand])
  show "\<forall>c\<in>set (deploy_commands dx user l r). c \<noteq> []" by simp
  fix res :: "go_error + unit" and h1 :: host
  assume "\<exists>k\<le>length (deploy_commands dx user l r). h_commands h1 =
      h_commands h @ map (Pair []) (take k (deploy_commands dx user l r)) \<and>
      (\<forall>u. res = Inr u \<longrightarrow> k = length (deploy_commands dx user l r))"
  then obtain k where k: "h_commands h1 = h_commands h @ map (Pair []) (take k (deploy_commands dx user l r))"
    "\<forall>u. res = Inr u \<longrightarrow> k = 3" by auto
  have run: "deploy_run dx (map (Pair []) (take k (deploy_commands dx user l r)))"
    unfolding deploy_run_def by blast
  have "deployed dx h0 (Inl e) h1" for e
    unfolding deployed_def using k(1) run assms by auto
  moreover have "st_post (write_last_deploy x dx app v) h1 (deployed dx h0)" if "res = Inr u" for u
    by (rule st_post_mono [OF write_last_deploy_commands])
       (use k run assms that in \<open>auto simp: deployed_def\<close>)
  ultimately show "(\<forall>e. res = Inl e \<longrightarrow> deployed dx h0 (Inl e) h1) \<and>
      (\<forall>u. res = Inr u \<longrightarrow> st_post (write_last_deploy x dx app v) h1 (deployed dx h0))" by blast
qed

lemma DeployApp_deployed: "st_post (DeployApp x dx root app v) h (deployed dx h)"
proof -
  have writes: "st_post (os_WriteFile x s b) h1 (\<lambda>_ h'. h_commands h' = h_commands h)"
    if "h_commands h1 = h_commands h" for s b h1
    using that commands_kept(1) [of x _ h1] by (simp add: os_WriteFile_def)
  have staged: "st_post (e_then (stage_app x dx app dir) k) h1 (deployed dx h)"
    if "h_commands h1 = h_commands h"
      and "\<And>h2. h_commands h2 = h_commands h \<Longrightarrow> st_post k h2 (deployed dx h)" for dir k h1
    unfolding st_post_err(4)
    by (rule st_post_mono [OF stage_app_commands]) (use that in \<open>auto intro: deployed_error\<close>)
  have written: "st_post (e_then (os_WriteFile x s b) k) h1 (deployed dx h)"
    if "h_commands h1 = h_commands h"
      and "\<And>h2. h_commands h2 = h_commands h \<Longrightarrow> st_post k h2 (deployed dx h)" for s b k h1
    unfolding st_post_err(4)
    by (rule st_post_mono [OF writes [OF that(1)]]) (use that in \<open>auto intro: deployed_error\<close>)
  show ?thesis
    unfolding DeployApp_def Let_def
    by (auto simp: wp_simps(1-8) st_post_err(3,6) st_post_basic(1) st_post_os_timestamp
        intro!: staged written run_and_record_post deployed_error)
qed

lemma deploy_one_deployed: "st_post (deploy_one x dx root d) h (deployed dx h)"
  by (cases "snd d"; cases root)
     (simp_all add: deploy_one_def st_post_err(3,6) DeployApp_deployed)

definition collected :: "devops_ext \<Rightarrow> host \<Rightarrow> nat \<Rightarrow> bool \<Rightarrow> host \<Rightarrow> bool" where
  "collected dx h n complete h' \<longleftrightarrow> (\<exists>runs. h_commands h' = h_commands h @ concat runs \<and>
     length runs = n \<and> (\<forall>run \<in> set runs. deploy_run dx run) \<and>
     (complete \<longrightarrow> (\<forall>run \<in> set runs. length run = 3)))"

lemma collected_Cons:
  assumes "deployed dx h r h1" and "collected dx h1 n complete h2"
  shows "collected dx h (Suc n) (r = Inr () \<and> complete) h2"
proof -
  from assms obtain run runs where
    "h_commands h1 = h_commands h @ run" "deploy_run dx run" "\<forall>u. r = Inr u \<longrightarrow> length run = 3"
    "h_commands h2 = h_commands h1 @ concat runs" "length runs = n"
    "\<forall>run \<in> set runs. deploy_run dx run" "complete \<longrightarrow> (\<forall>run \<in> set runs. length run = 3)"
    unfolding deployed_def collected_def by blast
  then show ?thesis unfolding collected_def by (intro exI [of _ "run # runs"]) auto
qed

lemma collect_deployments:
  "st_post (e_collect (deploy_one x dx root) ds) h (\<lambda>r h'. \<exists>errs. r = Inr errs \<and>
     collected dx h (length ds) (errs = []) h')"
proof (induction ds arbitrary: h)
  case Nil
  then show ?case by (simp add: wp_simps collected_def)
next
  case (Cons d ds)
  have step: "st_post (e_bind (e_collect (deploy_one x dx root) ds) (\<lambda>errs.
      e_return (case r of Inl e \<Rightarrow> (d, e) # errs | Inr u \<Rightarrow> errs))) h1
    (\<lambda>r h'. \<exists>errs. r = Inr errs \<and> collected dx h (length (d # ds)) (errs = []) h')"
    if "deployed dx h r h1" for r h1
    unfolding st_post_err(1,3)
    by (rule st_post_mono [OF Cons.IH])
       (use collected_Cons [OF that] in \<open>fastforce split: sum.splits\<close>)
  show ?case
    unfolding e_collect.simps st_post_bind
    by (rule st_post_mono [OF deploy_one_deployed]) (rule step)
qed

definition commit_command :: "SubCommandArgs \<Rightarrow> string list" where
  "commit_command sub = [''git'', ''-C'', dc_ServerAppConfigsDir (sca_Config sub), ''commit'', ''-am'',
     ''deployed '' @ strings_Join (sca_RemainingArgs sub) '' '']"

lemma parse_infos_length: "parse_infos as = Inr ds \<Longrightarrow> length ds = length as"
  by (induction as arbitrary: ds) (auto split: sum.splits)

lemma find_apps_length: "find_apps root ds = Inr found \<Longrightarrow> length found = length ds"
  unfolding find_apps_def by (rule run_map_length)


section \<open>An app that does not parse\<close>

lemma find_app_panics:
  assumes "app_ApplicationDotHocon app = None"
    and "\<forall>a \<in> set before. \<exists>adh. app_ApplicationDotHocon a = Some adh \<and> \<not> IsNamed adh dn"
  shows "find_app (before @ app # after) dn = Inl PanicNil"
  using assms(2) by (induction before) (auto simp: assms(1))

text \<open>
  An app whose application.hocon does not parse is loaded without its configuration (the error is
  overwritten by the result of the next load), and every deployment of an app that comes after it
  panics, whatever the app it asks for.
\<close>

theorem unparsable_app_breaks_deploy:
  assumes "FileExists (de_fs e) (filepath_Join [appDir, ''application.hocon'']) = Inr True"
    and "loadHoconFile e (filepath_Join [appDir, ''application.hocon'']) = Inl err"
    and "LoadLastDeployJson e appDir = Inr (Inr lastDeploy)"
    and "loadRoot (env_of x dx h) (dc_ServerAppConfigsDir (sca_Config sub)) = Inr (Inr (Some root))"
    and "Apps root = before @ app # after"
    and "loadApp e user appDir = Inr (Inr (Some app))"
    and "parse_infos (sca_RemainingArgs sub) = Inr (d # ds)"
    and "\<forall>a \<in> set before. \<exists>adh. app_ApplicationDotHocon a = Some adh \<and> \<not> IsNamed adh (di_DomainName d)"
  shows "Deploy x dx sub h = Inl PanicNil"
proof -
  from assms(1-3,6) have "app_ApplicationDotHocon app = None"
    by (auto simp: loadApp_def loadApplicationDotHocon_def Let_def)
  then have "FindApp root (di_DomainName d) = Inl PanicNil"
    unfolding FindApp_def assms(5) by (rule find_app_panics) (rule assms(8))
  then have "find_apps (Some root) (d # ds) = Inl PanicNil" by (simp add: find_apps_def)
  with assms(4,7) show ?thesis
    by (simp add: Deploy_def Let_def e_bind_def st_bind_def st_return_def st_get_def st_lift_def e_lift_def)
qed

section \<open>Examples\<close>

definition demo_tree :: tree where
  "demo_tree = map_of
     [([''c''], Dir), ([''c'', ''s''], Dir), ([''c'', ''s'', ''server.hocon''], RegularFile []),
      ([''c'', ''s'', ''u''], Dir), ([''c'', ''s'', ''u'', ''user.hocon''], RegularFile []),
      ([''c'', ''s'', ''u'', ''a''], Dir),
      ([''c'', ''s'', ''u'', ''a'', ''application.hocon''], RegularFile [])]"

definition demo_host :: host where
  "demo_host = \<lparr>h_tree = demo_tree, h_ops = 0, h_commands = []\<rparr>"

definition demo_fs0 :: file_system where
  "demo_fs0 = \<lparr>fs_stat = (\<lambda>_. StatNotExist), fs_read = (\<lambda>_. (None, None)),
     fs_readlink = (\<lambda>_. LinkNotExist), fs_abs = Inr, fs_expand = Inr\<rparr>"

definition demo_hx :: host_ext where
  "demo_hx = \<lparr>hx_refuse = (\<lambda>_. None), hx_command = (\<lambda>_ _ _ t. (t, None)),
     hx_listing = (\<lambda>t p. filter (\<lambda>c. t (p @ [c]) \<noteq> None)
        [''s'', ''server.hocon'', ''u'', ''user.hocon'', ''a'', ''application.hocon'']),
     hx_fs = demo_fs0, hx_cwd = ''/'', hx_home = Inr ''/home/me'', hx_user = Inr ''me'',
     hx_timestamp = (\<lambda>_. ''20240101-000000'')\<rparr>"

definition demo_hocon :: hocon where
  "demo_hocon = Hocon (\<lambda>_. []) (\<lambda>k. if k = ''domainNames'' then [''a.org''] else []) (\<lambda>_. Inr 0)
     (\<lambda>_. Inr False) (\<lambda>_. False)
     (\<lambda>k. if k = ''install'' then
        Some (Hocon (\<lambda>_. []) (\<lambda>_. []) (\<lambda>_. Inr 0) (\<lambda>_. Inr False) (\<lambda>_. False) (\<lambda>_. None)) else None)"

definition demo_dx :: "bool \<Rightarrow> devops_ext" where
  "demo_dx parses = \<lparr>dx_LoadConfig = (\<lambda>t s. if strings_HasSuffix s ''application.hocon'' \<and> \<not> parses
        then Inl (PanicMsg ''unexpected token'') else Inr (Some demo_hocon)),
     dx_LastDeploy = (\<lambda>_. Inl (GoErr ''bad'')), dx_descriptor_json = (\<lambda>_. []), dx_last_json = (\<lambda>_. []),
     dx_CopyDirectory = (\<lambda>_ _ t. (t, None)), dx_now = (\<lambda>_. []), dx_user_home = Inr ''/home/me'',
     dx_trace = False\<rparr>"

definition demo_sub :: "string list \<Rightarrow> SubCommandArgs" where
  "demo_sub args = \<lparr>sca_Config = \<lparr>dc_ProxmoxHostsDir = [], dc_ServerAppConfigsDir = ''/c''\<rparr>,
     sca_RemainingArgs = args\<rparr>"

definition demo_root :: "bool \<Rightarrow> Root option" where
  "demo_root parses = (case loadRoot (env_of demo_hx (demo_dx parses) demo_host) ''/c'' of
     Inr (Inr r) \<Rightarrow> r | _ \<Rightarrow> None)"

lemma demo_deploy_runs:
  "(case Deploy demo_hx (demo_dx True) (demo_sub [''a.org:1.2'']) demo_host of
      Inr (Inr u, h') \<Rightarrow> True | _ \<Rightarrow> False)"
  by code_simp


lemma demo_broken_root:
  "(case loadRoot (env_of demo_hx (demo_dx False) demo_host) ''/c'' of
      Inr (Inr (Some root)) \<Rightarrow> (case Apps root of
        [app] \<Rightarrow> loadApp (env_of demo_hx (demo_dx False) demo_host) (app_User app) ''/c/s/u/a'' = Inr (Inr (Some app))
      | _ \<Rightarrow> False)
    | _ \<Rightarrow> False)"
  by code_simp

lemma demo_broken_app:
  "FileExists (de_fs (env_of demo_hx (demo_dx False) demo_host))
     (filepath_Join [''/c/s/u/a'', ''application.hocon'']) = Inr True"
  "isl (loadHoconFile (env_of demo_hx (demo_dx False) demo_host)
     (filepath_Join [''/c/s/u/a'', ''application.hocon'']))"
  "LoadLastDeployJson (env_of demo_hx (demo_dx False) demo_host) ''/c/s/u/a'' = Inr (Inr None)"
  "parse_infos [''x.org''] = Inr [\<lparr>di_DomainName = ''x.org'', di_Version = ''current''\<rparr>]"
  by code_simp+

theorem unparsable_app_breaks_deploy_witness:
  "Deploy demo_hx (demo_dx False) (demo_sub [''x.org'']) demo_host = Inl PanicNil"
proof -
  obtain root app where root: "loadRoot (env_of demo_hx (demo_dx False) demo_host) ''/c'' = Inr (Inr (Some root))"
    "Apps root = [] @ app # []"
    "loadApp (env_of demo_hx (demo_dx False) demo_host) (app_User app) ''/c/s/u/a'' = Inr (Inr (Some app))"
    using demo_broken_root by (auto split: sum.splits option.splits list.splits)
  obtain err where err: "loadHoconFile (env_of demo_hx (demo_dx False) demo_host)
      (filepath_Join [''/c/s/u/a'', ''application.hocon'']) = Inl err"
    using demo_broken_app(2) by (auto simp: isl_def)
  show ?thesis
    by (rule unparsable_app_breaks_deploy [OF demo_broken_app(1) err demo_broken_app(3) _ root(2,3)])
       (use root(1) demo_broken_app(4) in \<open>simp_all add: demo_sub_def\<close>)
qed

end
