(* ===== verification/DevopsNixgen.thy ===== *)
theory DevopsNixgen
  imports DevopsDeploy
begin

text \<open>
  The generation of the server configurations: \<open>src/devops/nixgen.go\<close>. The template library is a
  parameter; the files are written to the machine of theory \<open>Host\<close>.
\<close>

section \<open>Files\<close>

record NixFile =
  nf_Server :: string
  nf_Module :: string
  nf_Name :: string
  nf_Content :: string

definition nf_Path :: "NixFile \<Rightarrow> string" where
  "nf_Path f = filepath_Join [nf_Server f, nf_Module f, ''managed'', nf_Name f]"

definition nl :: string where "nl = [CHR 0x0A]"
definition tab :: string where "tab = [CHR 0x09]"
definition quoted :: "string \<Rightarrow> string" where "quoted s = CHR 0x22 # s @ [CHR 0x22]"

text \<open>\<open>lines\<close> joins the lines of a raw string literal.\<close>

definition lines :: "string list \<Rightarrow> string" where "lines ls = strings_Join ls nl"

definition supervisor_template :: "string \<Rightarrow> string \<Rightarrow> string" where
  "supervisor_template auto startsecs = lines
     [''[program:{{.AppName}}]'', [], ''command = {{.Command}}'', [], ''directory = {{.Directory}}'', [],
      ''autostart       = '' @ auto, ''autorestart     = '' @ auto, ''startretries    = 0'',
      ''startsecs       = '' @ startsecs, ''redirect_stderr = true'', ''user            = {{.User}}'', []]"

definition supervisorDaemonTemplate :: string where
  "supervisorDaemonTemplate = supervisor_template ''true'' ''5''"

definition supervisorTimerTemplate :: string where
  "supervisorTimerTemplate = supervisor_template ''false'' ''0''"

section \<open>Templates\<close>

text \<open>The data of a template: a missing timer or clean-up is nil.\<close>

record TemplateConfig =
  tc_AppName :: string
  tc_Command :: string
  tc_Directory :: string
  tc_User :: string
  tc_Timer :: "Timer option"
  tc_CleanUp :: "CleanUp option"

type_synonym template_lib = "string \<Rightarrow> string \<Rightarrow> TemplateConfig \<Rightarrow> go_error + string"

definition RunTemplate :: "template_lib \<Rightarrow> string \<Rightarrow> App \<Rightarrow> string \<Rightarrow> (go_error + string) run" where
  "RunTemplate lib content app templateName =
     run_bind (deref (app_ApplicationDotHocon app)) (\<lambda>adh.
     run_bind (deref (ah_Launcher adh)) (\<lambda>launcher.
     Inr (case lib templateName content
            \<lparr>tc_AppName = app_Name app, tc_Command = ExecPath app, tc_Directory = InstallDir app,
             tc_User = us_Name (app_User app), tc_Timer = ln_Timer launcher, tc_CleanUp = ah_CleanUp adh\<rparr> of
          Inl err \<Rightarrow> Inl (WrapErr (''failed to execute '' @ templateName @ '' template'') err)
        | Inr s \<Rightarrow> Inr s)))"

definition template_file ::
  "template_lib \<Rightarrow> string \<Rightarrow> App \<Rightarrow> string \<Rightarrow> string \<Rightarrow> string \<Rightarrow> (string \<Rightarrow> string) \<Rightarrow>
   (go_error + NixFile option) run" where
  "template_file lib content app templateName module name scrub =
     run_bind (RunTemplate lib content app templateName) (\<lambda>r.
     Inr (case r of
            Inl err \<Rightarrow> Inl err
          | Inr s \<Rightarrow> Inr (Some \<lparr>nf_Server = dsv_Name (us_Server (app_User app)), nf_Module = module,
                              nf_Name = name, nf_Content = scrub s\<rparr>)))"

section \<open>Configurations of an app\<close>

definition CaddyConfig :: "App \<Rightarrow> NixFile option run" where
  "CaddyConfig app =
     run_bind (deref (app_ApplicationDotHocon app)) (\<lambda>adh.
     let server = us_Server (app_User app);
         file = (\<lambda>content. \<lparr>nf_Server = dsv_CaddyServer server, nf_Module = ''caddy'',
           nf_Name = dsv_Name server @ ''-'' @ app_Name app @ ''.caddy'', nf_Content = content\<rparr>)
     in Inr (if ah_CaddyConfig adh = [] then
               (case ah_ListenPort adh of
                  None \<Rightarrow> None
                | Some listenPort \<Rightarrow> Some (file
                    (strings_TrimLeft
                       (lines [[], strings_Join (ah_DomainNames adh) '' '' @ '' {'', ''  encode zstd gzip'',
                          ''  reverse_proxy '' @ CaddyName server @ '':'' @ int_to_string listenPort,
                          CHR ''}'' # tab @ tab, tab @ tab])
                       (nl @ '' ''))))
             else Some (file (ah_CaddyConfig adh))))"

definition SupervisorConfig :: "template_lib \<Rightarrow> App \<Rightarrow> (go_error + NixFile option) run" where
  "SupervisorConfig lib app =
     run_bind (deref (app_ApplicationDotHocon app)) (\<lambda>adh.
     run_bind (deref (ah_Launcher adh)) (\<lambda>launcher.
     if ln_Kind launcher = ''supervisor'' then
       template_file lib
         (if ln_RawConfig launcher = [] then
            (if ln_Timer launcher = None then supervisorDaemonTemplate else supervisorTimerTemplate)
          else ln_RawConfig launcher)
         app ''supervisor'' ''supervisor'' (app_Name app @ ''.conf'') (\<lambda>s. s)
     else Inr (Inr None)))"

definition timer_template :: string where
  "timer_template = lines
     [[], ''{'', tab @ ''systemd.timers.{{.AppName}} = {'',
      tab @ tab @ ''wantedBy = [ '' @ quoted ''timers.target'' @ '' ];'', tab @ tab @ ''timerConfig = {'',
      tab @ tab @ tab @ ''OnCalendar = '' @ quoted ''{{.Timer.OnCalendar}}'' @ '';'',
      tab @ tab @ tab @ ''OnUnitActiveSec = '' @ quoted ''{{.Timer.OnUnitActiveSec}}'' @ '';'',
      tab @ tab @ tab @ ''OnUnitInactiveSec = '' @ quoted ''{{.Timer.OnUnitInactiveSec}}'' @ '';'',
      tab @ tab @ tab @ ''OnBootSec = '' @ quoted ''{{.Timer.OnBootSec}}'' @ '';'',
      tab @ tab @ tab @ ''Unit = '' @ quoted ''{{.AppName}}.service'' @ '';'',
      tab @ tab @ ''};'', tab @ tab @ ''# persistent = true;'', tab @ ''};'', [],
      tab @ ''systemd.services.{{.AppName}} = {'', tab @ tab @ ''serviceConfig = {'',
      tab @ tab @ tab @ ''Environment='' @ quoted ''PATH=/run/current-system/sw/bin'' @ '';'',
      tab @ tab @ tab @ ''Type = '' @ quoted ''oneshot'' @ '';'',
      tab @ tab @ tab @ ''User = '' @ quoted ''{{.User}}'' @ '';'',
      tab @ tab @ tab @ ''ExecStart = '' @ quoted ''supervisorctl start {{.AppName}}'' @ '';'',
      tab @ tab @ ''};'', tab @ tab @ ''wantedBy = [ '' @ quoted ''multi-user.target'' @ '' ];'',
      tab @ ''};'', CHR ''}'' # tab @ tab @ ''  '', []]"

definition SystemdTimerConfig :: "template_lib \<Rightarrow> App \<Rightarrow> (go_error + NixFile option) run" where
  "SystemdTimerConfig lib app =
     run_bind (deref (app_ApplicationDotHocon app)) (\<lambda>adh.
     run_bind (deref (ah_Launcher adh)) (\<lambda>launcher.
     if ln_Timer launcher = None then Inr (Inr None)
     else template_file lib timer_template app ''systemdTimer'' ''systemd'' (app_Name app @ ''.nix'')
            (\<lambda>s. s)))"

definition cleanup_service_template :: string where
  "cleanup_service_template = lines
     [[], ''{ inputs, ... }:'' @ tab, [], ''let '',
      tab @ ''a8-scripts = inputs.a8-scripts.packages.x86_64-linux.a8-scripts;'', ''in {'',
      tab @ ''systemd.services.{{.AppName}} = {'', tab @ tab @ ''serviceConfig = {'',
      tab @ tab @ tab @ ''Environment='' @ quoted ''PATH=/run/current-system/sw/bin'' @ '';'',
      tab @ tab @ tab @ ''Type = '' @ quoted ''oneshot'' @ '';'',
      tab @ tab @ tab @ ''User = '' @ quoted ''{{.User}}'' @ '';'',
      tab @ tab @ tab @ ''ExecStart = '' @ quoted ''${a8-scripts}/pydevops/daily-cleanup.py'' @ '';'',
      tab @ tab @ ''};'', tab @ tab @ ''wantedBy = [ '' @ quoted ''multi-user.target'' @ '' ];'',
      tab @ ''};'', CHR ''}'' # tab @ tab @ ''  '', []]"

definition CleanUpSystemdServiceConfig :: "template_lib \<Rightarrow> App \<Rightarrow> (go_error + NixFile option) run" where
  "CleanUpSystemdServiceConfig lib app =
     run_bind (deref (app_ApplicationDotHocon app)) (\<lambda>adh.
     if ah_CleanUp adh = None then Inr (Inr None)
     else template_file lib cleanup_service_template app ''systemdTimer'' ''systemd''
            (app_Name app @ ''-cleanup-service.nix'') strings_TrimSpace)"

definition cleanup_timer_template :: string where
  "cleanup_timer_template = lines
     [[], ''{ ... }:'' @ tab, ''{'', tab @ ''systemd.timers.{{.AppName}} = {'',
      tab @ tab @ ''wantedBy = [ '' @ quoted ''timers.target'' @ '' ];'', tab @ tab @ ''timerConfig = {'',
      tab @ tab @ tab @ ''OnCalendar = '' @ quoted ''{{.CleanUp.Timer}}'' @ '';'',
      tab @ tab @ tab @ ''Unit = '' @ quoted ''daily-cleanup.service'' @ '';'',
      tab @ tab @ ''};'', tab @ tab @ ''# persistent = true;'', tab @ ''};'', ''}'', []]"

definition CleanUpSystemdTimerConfig :: "template_lib \<Rightarrow> App \<Rightarrow> (go_error + NixFile option) run" where
  "CleanUpSystemdTimerConfig lib app =
     run_bind (deref (app_ApplicationDotHocon app)) (\<lambda>adh.
     if ah_CleanUp adh = None then Inr (Inr None)
     else template_file lib cleanup_timer_template app ''systemdTimer'' ''systemd''
            (app_Name app @ ''-cleanup-timer.nix'') strings_TrimSpace)"

text \<open>An error of a generator is logged and its file left out.\<close>

definition file_of :: "go_error + NixFile option \<Rightarrow> NixFile list" where
  "file_of r = (case r of Inr (Some f) \<Rightarrow> [f] | _ \<Rightarrow> [])"

definition GenerateContent :: "template_lib \<Rightarrow> App \<Rightarrow> NixFile list run" where
  "GenerateContent lib app =
     run_bind (CaddyConfig app) (\<lambda>cc.
     run_bind (SupervisorConfig lib app) (\<lambda>svc.
     run_bind (CleanUpSystemdTimerConfig lib app) (\<lambda>ct.
     run_bind (CleanUpSystemdServiceConfig lib app) (\<lambda>cs.
     run_bind (SystemdTimerConfig lib app) (\<lambda>tm.
     Inr (file_of (Inr cc) @ file_of svc @ file_of ct @ file_of cs @ file_of tm))))))"

section \<open>The nixgen command\<close>

definition write_nix_file :: "host_ext \<Rightarrow> string \<Rightarrow> NixFile \<Rightarrow> unit hop" where
  "write_nix_file x nixgenRoot f =
     (let path = filepath_Join [nixgenRoot, nf_Path f]; dir = filepath_Dir path
      in e_bind (os_query x (\<lambda>fs. DirectoryExists fs dir)) (\<lambda>ex.
         e_then (if ex then e_return () else os_MkdirAll x dir)
           (os_WriteFile x path (string_to_bytes (nf_Content f)))))"

definition nix_files_in :: "string \<Rightarrow> NixFile list \<Rightarrow> string \<Rightarrow> NixFile list" where
  "nix_files_in nixgenRoot files dir =
     filter (\<lambda>f. let path = filepath_Join [nixgenRoot, nf_Path f]
       in strings_HasSuffix path ''.nix'' \<and> filepath_Dir path = dir) files"

definition default_nix :: "NixFile list \<Rightarrow> string" where
  "default_nix files = lines
     [[], ''{ inputs, ... }:'', [], ''{'', tab @ ''imports = ['',
      strings_Join (map (\<lambda>f. ''  ./'' @ filepath_Base (nf_Path f)) files) nl, tab @ ''];'', ''}'']"

text \<open>The directories with Nix files are visited in the order \<open>walk\<close> of a Go map.\<close>

definition NixGen ::
  "host_ext \<Rightarrow> devops_ext \<Rightarrow> template_lib \<Rightarrow> string list \<Rightarrow> SubCommandArgs \<Rightarrow> unit hop" where
  "NixGen x dx lib walk_dirs sub =
     (let cfg = sca_Config sub
      in if dc_ProxmoxHostsDir cfg = [] \<or> dc_ServerAppConfigsDir cfg = [] then
           e_fail (GoErr (''proxmoxHostsDir and serverAppConfigsDir must be set in ~/.a8/devops.json or '' @
             ''findable in ~ ~/code or ~/code/accur8''))
         else
           e_bind (st_bind st_get (\<lambda>h. st_lift (loadRoot (env_of x dx h) (dc_ServerAppConfigsDir cfg)))) (\<lambda>root.
           e_bind (e_lift (deref root)) (\<lambda>rt.
           e_bind (e_lift (run_map (GenerateContent lib) (Apps rt))) (\<lambda>generated.
           let files = concat generated;
               nixgenRoot = filepath_Join [dc_ProxmoxHostsDir cfg, ''nixgen'']
           in e_bind (os_query x (\<lambda>fs. DirectoryExists fs nixgenRoot)) (\<lambda>ex.
              e_then (if ex then os_RemoveAll x nixgenRoot else e_return ())
              (e_then (e_each (write_nix_file x nixgenRoot) files)
              (e_each (\<lambda>dir. os_WriteFile x (filepath_Join [dir, ''default.nix''])
                 (string_to_bytes (default_nix (nix_files_in nixgenRoot files dir)))) walk_dirs)))))))"

section \<open>Apps that cannot be generated\<close>

lemma run_map_panics:
  assumes "f x = Inl p" and "\<forall>y \<in> set before. \<exists>z. f y = Inr z"
  shows "run_map f (before @ x # after) = Inl p"
  using assms(2) by (induction before) (auto simp: assms(1))

lemma GenerateContent_no_launcher:
  "app_ApplicationDotHocon app = Some adh \<Longrightarrow> ah_Launcher adh = None \<Longrightarrow> GenerateContent lib app = Inl PanicNil"
  by (simp add: GenerateContent_def CaddyConfig_def SupervisorConfig_def Let_def)

text \<open>
  One app without a launcher section, on any server, makes the whole generation panic, before the
  directory of the generated files is cleared and before any file is written.
\<close>

theorem app_without_launcher_breaks_nixgen:
  assumes "dc_ProxmoxHostsDir (sca_Config sub) \<noteq> []" and "dc_ServerAppConfigsDir (sca_Config sub) \<noteq> []"
    and "loadRoot (env_of x dx h) (dc_ServerAppConfigsDir (sca_Config sub)) = Inr (Inr (Some root))"
    and "Apps root = before @ app # after" and "\<forall>a \<in> set before. \<exists>fs. GenerateContent lib a = Inr fs"
    and "app_ApplicationDotHocon app = Some adh" and "ah_Launcher adh = None"
  shows "NixGen x dx lib walk_dirs sub h = Inl PanicNil"
proof -
  have "run_map (GenerateContent lib) (Apps root) = Inl PanicNil"
    unfolding assms(4) using GenerateContent_no_launcher [OF assms(6,7)] assms(5) by (rule run_map_panics)
  with assms(1-3) show ?thesis
    by (simp add: NixGen_def Let_def e_bind_def st_bind_def st_return_def st_get_def st_lift_def
        e_lift_def e_return_def)
qed

definition demo_nix_sub :: SubCommandArgs where
  "demo_nix_sub = \<lparr>sca_Config = \<lparr>dc_ProxmoxHostsDir = ''/p'', dc_ServerAppConfigsDir = ''/c''\<rparr>,
     sca_RemainingArgs = []\<rparr>"

lemma demo_no_launcher:
  "(case loadRoot (env_of demo_hx (demo_dx True) demo_host) ''/c'' of
      Inr (Inr (Some root)) \<Rightarrow> (case Apps root of
        [app] \<Rightarrow> (case app_ApplicationDotHocon app of Some adh \<Rightarrow> ah_Launcher adh = None | None \<Rightarrow> False)
      | _ \<Rightarrow> False)
    | _ \<Rightarrow> False)"
  by code_simp

theorem app_without_launcher_breaks_nixgen_witness:
  "NixGen demo_hx (demo_dx True) (\<lambda>_ _ _. Inr []) [] demo_nix_sub demo_host = Inl PanicNil"
proof -
  obtain root app adh where "loadRoot (env_of demo_hx (demo_dx True) demo_host) ''/c'' = Inr (Inr (Some root))"
    "Apps root = [] @ app # []" "app_ApplicationDotHocon app = Some adh" "ah_Launcher adh = None"
    using demo_no_launcher by (auto split: sum.splits option.splits list.splits)
  then show ?thesis
    by (intro app_without_launcher_breaks_nixgen [where before = "[]" and after = "[]"])
       (simp_all add: demo_nix_sub_def)
qed

end
