(* ===== verification/A8Run.thy ===== *)
theory A8Run
  imports A8App
begin

text \<open>
  Running an app, the rest of \<open>src/a8/a8.go\<close>: \<open>RunMultiRoutineApp\<close> (the goroutines of the app functions,
  the one that closes the channel of errors, and the one that collects them), \<open>RunApp\<close> (the app function,
  signals, and the wait for completion), \<open>SubmitGoRoutine\<close> and the contexts. The goroutines are step
  relations; a step is one channel operation or statement.
\<close>

section \<open>Steps that come to an end\<close>

text \<open>
  What the two runs below share: an invariant of the steps, a measure each step lowers, and a step as
  long as nothing was returned. So a run is bounded, and from every state a return is reached.
\<close>

locale ending_steps =
  fixes next_step :: "'s \<Rightarrow> 's \<Rightarrow> bool"
    and good :: "'s \<Rightarrow> bool"
    and work :: "'s \<Rightarrow> nat"
    and returned :: "'s \<Rightarrow> bool"
  assumes good_step: "next_step s t \<Longrightarrow> good s \<Longrightarrow> good t"
    and work_step: "next_step s t \<Longrightarrow> good s \<Longrightarrow> work t < work s"
    and not_stuck: "good s \<Longrightarrow> \<not> returned s \<Longrightarrow> \<exists>t. next_step s t"
begin

lemma steps_bounded: "(next_step ^^ k) s t \<Longrightarrow> good s \<Longrightarrow> good t \<and> k + work t \<le> work s"
proof (induction k arbitrary: t)
  case (Suc k)
  then obtain u where u: "(next_step ^^ k) s u" "next_step u t" by auto
  with Suc.IH [OF u(1) Suc.prems(2)] good_step [OF u(2)] work_step [OF u(2)] show ?case by auto
qed simp

lemma run_bounded: "(next_step ^^ k) s t \<Longrightarrow> good s \<Longrightarrow> k \<le> work s"
  using steps_bounded [of k s t] by simp

lemma return_reached: "good s \<Longrightarrow> \<exists>t. next_step\<^sup>*\<^sup>* s t \<and> returned t"
proof (induction "work s" arbitrary: s rule: less_induct)
  case less
  show ?case
  proof (cases "returned s")
    case False
    with not_stuck less.prems obtain u where u: "next_step s u" by blast
    with less good_step work_step obtain t where "next_step\<^sup>*\<^sup>* u t" "returned t" by blast
    with u show ?thesis by (blast intro: converse_rtranclp_into_rtranclp)
  qed blast
qed

end

section \<open>RunMultiRoutineApp\<close>

text \<open>
  A goroutine runs its app function, sends the error if there is one, and calls \<open>Done\<close>. The channel has
  no buffer: a send meets the collector or waits.
\<close>

datatype routine =
    RtRunning
  | RtSending go_error
  | RtFinishing "go_error option"
  | RtDone "go_error option"

record multi_app =
  ma_routines :: "routine list"
  ma_wg :: nat
  ma_closed :: bool
  ma_collected :: "go_error list"
  ma_returned :: "go_error list option"
  ma_panicked :: bool

definition multi_start :: "nat \<Rightarrow> multi_app" where
  "multi_start n = \<lparr>ma_routines = replicate n RtRunning, ma_wg = n, ma_closed = False, ma_collected = [],
     ma_returned = None, ma_panicked = False\<rparr>"

definition set_routine :: "nat \<Rightarrow> routine \<Rightarrow> multi_app \<Rightarrow> multi_app" where
  "set_routine i r s = s\<lparr>ma_routines := (ma_routines s)[i := r]\<rparr>"

definition routine_is :: "multi_app \<Rightarrow> nat \<Rightarrow> routine \<Rightarrow> bool" where
  "routine_is s i r \<longleftrightarrow> i < length (ma_routines s) \<and> ma_routines s ! i = r"

text \<open>\<open>errors.Join\<close> of what was collected is nil for no errors; the list is kept here.\<close>

inductive multi_step :: "multi_app \<Rightarrow> multi_app \<Rightarrow> bool" where
  ma_return_ok: "routine_is s i RtRunning \<Longrightarrow> multi_step s (set_routine i (RtFinishing None) s)"
| ma_return_err: "routine_is s i RtRunning \<Longrightarrow> multi_step s (set_routine i (RtSending err) s)"
| ma_send: "routine_is s i (RtSending err) \<Longrightarrow> \<not> ma_closed s \<Longrightarrow> ma_returned s = None \<Longrightarrow>
    multi_step s (set_routine i (RtFinishing (Some err)) (s\<lparr>ma_collected := ma_collected s @ [err]\<rparr>))"
| ma_send_closed: "routine_is s i (RtSending err) \<Longrightarrow> ma_closed s \<Longrightarrow>
    multi_step s (s\<lparr>ma_panicked := True\<rparr>)"
| ma_wg_done: "routine_is s i (RtFinishing r) \<Longrightarrow>
    multi_step s (set_routine i (RtDone r) (s\<lparr>ma_wg := ma_wg s - 1\<rparr>))"
| ma_close: "ma_wg s = 0 \<Longrightarrow> \<not> ma_closed s \<Longrightarrow> multi_step s (s\<lparr>ma_closed := True\<rparr>)"
| ma_collect_end: "ma_closed s \<Longrightarrow> ma_returned s = None \<Longrightarrow>
    multi_step s (s\<lparr>ma_returned := Some (ma_collected s)\<rparr>)"

inductive_cases multi_stepE: "multi_step s t"

inductive multi_reach :: "nat \<Rightarrow> multi_app \<Rightarrow> bool" for n where
  multi_reach_start: "multi_reach n (multi_start n)"
| multi_reach_step: "multi_reach n s \<Longrightarrow> multi_step s t \<Longrightarrow> multi_reach n t"

text \<open>The error a routine has handed over, and whether it still counts in the wait group.\<close>

definition handed_over :: "routine \<Rightarrow> go_error multiset" where
  "handed_over r = (case r of RtFinishing (Some e) \<Rightarrow> {#e#} | RtDone (Some e) \<Rightarrow> {#e#} | _ \<Rightarrow> {#})"

definition is_done :: "routine \<Rightarrow> bool" where
  "is_done r = (case r of RtDone e \<Rightarrow> True | _ \<Rightarrow> False)"

definition handed :: "routine list \<Rightarrow> go_error multiset" where
  "handed rs = sum_list (map handed_over rs)"

definition pending :: "routine list \<Rightarrow> nat" where
  "pending rs = sum_list (map (\<lambda>r. if is_done r then 0 else 1) rs)"

definition multi_ok :: "multi_app \<Rightarrow> bool" where
  "multi_ok s \<longleftrightarrow> ma_wg s = pending (ma_routines s) \<and> mset (ma_collected s) = handed (ma_routines s) \<and>
     (ma_closed s \<longrightarrow> ma_wg s = 0) \<and> \<not> ma_panicked s \<and>
     (ma_returned s \<noteq> None \<longrightarrow> ma_closed s \<and> ma_returned s = Some (ma_collected s))"

lemma sum_list_map_update:
  fixes f :: "'a \<Rightarrow> 'b :: comm_monoid_add"
  assumes "i < length xs"
  shows "sum_list (map f (xs[i := x])) + f (xs ! i) = sum_list (map f xs) + f x"
  using assms
proof (induction xs arbitrary: i)
  case (Cons y ys)
  show ?case
  proof (cases i)
    case (Suc j)
    with Cons have "sum_list (map f (ys[j := x])) + f (ys ! j) = sum_list (map f ys) + f x" by simp
    with Suc show ?thesis by (simp add: add.assoc)
  qed (simp add: ac_simps)
qed simp

lemma pending_update:
  "i < length rs \<Longrightarrow> pending (rs[i := r]) + (if is_done (rs ! i) then 0 else 1) =
     pending rs + (if is_done r then 0 else 1)"
  unfolding pending_def by (rule sum_list_map_update)

lemma handed_update:
  "i < length rs \<Longrightarrow> handed (rs[i := r]) + handed_over (rs ! i) = handed rs + handed_over r"
  unfolding handed_def by (rule sum_list_map_update)

lemma pending_0: "pending rs = 0 \<longleftrightarrow> list_all is_done rs"
  by (induction rs) (auto simp: pending_def)

lemmas routine_cases = is_done_def handed_over_def

lemma routine_is_pending:
  "routine_is s i r \<Longrightarrow> \<not> is_done r \<Longrightarrow> 0 < pending (ma_routines s)"
  using pending_0 [of "ma_routines s"] by (auto simp: routine_is_def list_all_length)

lemma set_routine_simps [simp]:
  "ma_routines (set_routine i r s) = (ma_routines s)[i := r]" "ma_wg (set_routine i r s) = ma_wg s"
  "ma_closed (set_routine i r s) = ma_closed s" "ma_collected (set_routine i r s) = ma_collected s"
  "ma_returned (set_routine i r s) = ma_returned s" "ma_panicked (set_routine i r s) = ma_panicked s"
  by (simp_all add: set_routine_def)

lemma multi_step_ok:
  assumes "multi_step s t" and "multi_ok s"
  shows "multi_ok t"
  using assms
proof (cases rule: multi_step.cases)
  case (ma_return_ok i)
  then show ?thesis
    using pending_update [of i "ma_routines s" "RtFinishing None"] handed_update [of i "ma_routines s" "RtFinishing None"]
      assms(2) by (auto simp: multi_ok_def routine_is_def routine_cases)
next
  case (ma_return_err i err)
  then show ?thesis
    using pending_update [of i "ma_routines s" "RtSending err"] handed_update [of i "ma_routines s" "RtSending err"]
      assms(2) by (auto simp: multi_ok_def routine_is_def routine_cases)
next
  case (ma_send i err)
  then show ?thesis
    using pending_update [of i "ma_routines s" "RtFinishing (Some err)"]
      handed_update [of i "ma_routines s" "RtFinishing (Some err)"]
      assms(2) by (auto simp: multi_ok_def routine_is_def routine_cases)
next
  case (ma_send_closed i err)
  then show ?thesis
    using routine_is_pending [of s i "RtSending err"] assms(2) by (simp add: multi_ok_def routine_cases)
next
  case (ma_wg_done i r)
  then have "\<not> ma_closed s"
    using routine_is_pending [of s i "RtFinishing r"] assms(2) by (auto simp: multi_ok_def routine_cases)
  with ma_wg_done show ?thesis
    using pending_update [of i "ma_routines s" "RtDone r"] handed_update [of i "ma_routines s" "RtDone r"]
      assms(2) by (auto simp: multi_ok_def routine_is_def routine_cases)
qed (simp_all add: multi_ok_def)

lemma multi_reach_ok: "multi_reach n s \<Longrightarrow> multi_ok s \<and> length (ma_routines s) = n"
proof (induction rule: multi_reach.induct)
  case multi_reach_start
  have "handed (replicate n RtRunning) = {#}" "pending (replicate n RtRunning) = n"
    by (induction n) (simp_all add: handed_def pending_def routine_cases)
  then show ?case by (simp add: multi_ok_def multi_start_def)
next
  case (multi_reach_step s t)
  then show ?case using multi_step_ok by (auto elim!: multi_stepE)
qed

text \<open>The steps a routine and the two other goroutines have left.\<close>

definition routine_work :: "routine \<Rightarrow> nat" where
  "routine_work r = (case r of RtRunning \<Rightarrow> 3 | RtSending e \<Rightarrow> 2 | RtFinishing e \<Rightarrow> 1 | RtDone e \<Rightarrow> 0)"

definition multi_work :: "multi_app \<Rightarrow> nat" where
  "multi_work s = sum_list (map routine_work (ma_routines s)) + (if ma_closed s then 0 else 1) +
     (if ma_returned s = None then 1 else 0)"

lemma work_update:
  "i < length rs \<Longrightarrow> sum_list (map routine_work (rs[i := r])) + routine_work (rs ! i) =
     sum_list (map routine_work rs) + routine_work r"
  by (rule sum_list_map_update)

lemma multi_step_work:
  assumes "multi_step s t" and "multi_ok s"
  shows "multi_work t < multi_work s"
  using assms
proof (cases rule: multi_step.cases)
  case (ma_return_ok i)
  then show ?thesis using work_update [of i "ma_routines s" "RtFinishing None"]
    by (simp add: multi_work_def routine_is_def routine_work_def)
next
  case (ma_return_err i err)
  then show ?thesis using work_update [of i "ma_routines s" "RtSending err"]
    by (simp add: multi_work_def routine_is_def routine_work_def)
next
  case (ma_send i err)
  then show ?thesis using work_update [of i "ma_routines s" "RtFinishing (Some err)"]
    by (simp add: multi_work_def routine_is_def routine_work_def)
next
  case (ma_send_closed i err)
  then show ?thesis
    using routine_is_pending [of s i "RtSending err"] assms(2) by (simp add: multi_ok_def routine_cases)
next
  case (ma_wg_done i r)
  then show ?thesis using work_update [of i "ma_routines s" "RtDone r"]
    by (simp add: multi_work_def routine_is_def routine_work_def)
qed (simp_all add: multi_work_def)

lemma multi_not_stuck:
  assumes "multi_ok s" and "ma_returned s = None"
  shows "\<exists>t. multi_step s t"
proof (cases "ma_closed s")
  case True
  then show ?thesis using assms(2) by (blast intro: ma_collect_end)
next
  case False
  show ?thesis
  proof (cases "ma_wg s = 0")
    case True
    then show ?thesis using False by (blast intro: ma_close)
  next
    case wg: False
    then have "\<not> list_all is_done (ma_routines s)" using assms(1) pending_0 [of "ma_routines s"]
      by (simp add: multi_ok_def)
    then obtain i where i: "i < length (ma_routines s)" "\<not> is_done (ma_routines s ! i)"
      by (auto simp: list_all_length)
    show ?thesis
    proof (cases "ma_routines s ! i")
      case RtRunning
      then show ?thesis using i ma_return_ok [of s i] by (auto simp: routine_is_def)
    next
      case (RtSending err)
      then show ?thesis using i False assms(2) ma_send [of s i err] by (auto simp: routine_is_def)
    next
      case (RtFinishing r)
      then show ?thesis using i ma_wg_done [of s i r] by (auto simp: routine_is_def)
    next
      case (RtDone r)
      then show ?thesis using i by (simp add: is_done_def)
    qed
  qed
qed

lemma multi_good_step:
  assumes "multi_step s t" and "multi_ok s \<and> length (ma_routines s) = n"
  shows "multi_ok t \<and> length (ma_routines t) = n"
  using multi_step_ok [of s t] assms by (auto elim!: multi_stepE)

interpretation ma: ending_steps multi_step multi_ok multi_work "\<lambda>s. ma_returned s \<noteq> None"
  by unfold_locales (use multi_good_step in blast, use multi_step_work in blast, use multi_not_stuck in blast)

text \<open>
  C25. However the goroutines of \<open>RunMultiRoutineApp\<close> interleave, none sends on the closed channel; the
  collector returns only when every app function has ended, and then it has each of their errors once;
  every run takes at most \<open>3 n + 2\<close> steps, and from each of its states the return can be reached.
\<close>

theorem multi_app_collects_all:
  assumes "multi_reach n s"
  shows "\<not> ma_panicked s \<and> (\<exists>t. multi_step\<^sup>*\<^sup>* s t \<and> ma_returned t \<noteq> None) \<and>
    (\<forall>k t. (multi_step ^^ k) (multi_start n) t \<longrightarrow> k \<le> 3 * n + 2) \<and>
    (\<forall>errs. ma_returned s = Some errs \<longrightarrow>
       list_all is_done (ma_routines s) \<and> length (ma_routines s) = n \<and>
       mset errs = handed (ma_routines s))"
proof -
  have ok: "multi_ok s" and len: "length (ma_routines s) = n" using multi_reach_ok [OF assms] by auto
  have start: "multi_ok (multi_start n)" using multi_reach_ok [OF multi_reach_start] by blast
  have "multi_work (multi_start n) = 3 * n + 2"
    by (simp add: multi_work_def multi_start_def routine_work_def sum_list_replicate)
  with ma.run_bounded [OF _ start] have "k \<le> 3 * n + 2" if "(multi_step ^^ k) (multi_start n) t" for k t
    using that by metis
  moreover have "list_all is_done (ma_routines s) \<and> mset errs = handed (ma_routines s)"
    if "ma_returned s = Some errs" for errs
    using ok that pending_0 [of "ma_routines s"] by (auto simp: multi_ok_def)
  ultimately show ?thesis using ma.return_reached [OF ok] ok len by (auto simp: multi_ok_def)
qed

section \<open>RunApp\<close>

text \<open>
  The goroutine of the app function sets \<open>complete\<close> and then sends what the function returned; the main
  goroutine waits for a signal or that value, cancels the context, and waits for the value once more when
  \<open>complete\<close> is not set. The channel has no buffer.
\<close>

datatype app_fn = FnRunning | FnCompleting "go_error option" | FnSent

datatype app_main = MainSelect | MainTest | MainAwait | MainReturned

record run_app =
  ra_fn :: app_fn
  ra_main :: app_main
  ra_complete :: bool
  ra_cancelled :: bool

definition run_app_start :: run_app where
  "run_app_start = \<lparr>ra_fn = FnRunning, ra_main = MainSelect, ra_complete = False, ra_cancelled = False\<rparr>"

inductive run_app_step :: "run_app \<Rightarrow> run_app \<Rightarrow> bool" where
  ra_fn_returns: "ra_fn s = FnRunning \<Longrightarrow>
    run_app_step s (s\<lparr>ra_fn := FnCompleting err, ra_complete := True\<rparr>)"
| ra_signal: "ra_main s = MainSelect \<Longrightarrow> run_app_step s (s\<lparr>ra_main := MainTest, ra_cancelled := True\<rparr>)"
| ra_completion: "ra_main s = MainSelect \<Longrightarrow> ra_fn s = FnCompleting err \<Longrightarrow>
    run_app_step s (s\<lparr>ra_fn := FnSent, ra_main := MainTest, ra_cancelled := True\<rparr>)"
| ra_test: "ra_main s = MainTest \<Longrightarrow>
    run_app_step s (s\<lparr>ra_main := (if ra_complete s then MainReturned else MainAwait)\<rparr>)"
| ra_await: "ra_main s = MainAwait \<Longrightarrow> ra_fn s = FnCompleting err \<Longrightarrow>
    run_app_step s (s\<lparr>ra_fn := FnSent, ra_main := MainReturned\<rparr>)"

inductive_cases run_app_stepE: "run_app_step s t"

inductive run_app_reach :: "run_app \<Rightarrow> bool" where
  run_app_reach_start: "run_app_reach run_app_start"
| run_app_reach_step: "run_app_reach s \<Longrightarrow> run_app_step s t \<Longrightarrow> run_app_reach t"

definition run_app_ok :: "run_app \<Rightarrow> bool" where
  "run_app_ok s \<longleftrightarrow> (ra_complete s \<longleftrightarrow> ra_fn s \<noteq> FnRunning) \<and>
     (ra_main s = MainReturned \<longrightarrow> ra_complete s) \<and> (ra_main s \<noteq> MainSelect \<longrightarrow> ra_cancelled s) \<and>
     (ra_main s = MainAwait \<longrightarrow> ra_fn s \<noteq> FnSent) \<and> (ra_main s = MainSelect \<longrightarrow> ra_fn s \<noteq> FnSent)"

definition run_app_work :: "run_app \<Rightarrow> nat" where
  "run_app_work s = (case ra_fn s of FnRunning \<Rightarrow> 1 | _ \<Rightarrow> 0) +
     (case ra_main s of MainSelect \<Rightarrow> 3 | MainTest \<Rightarrow> 2 | MainAwait \<Rightarrow> 1 | MainReturned \<Rightarrow> 0)"

lemma run_app_step_work: "run_app_step s t \<Longrightarrow> run_app_work t < run_app_work s"
  by (cases rule: run_app_step.cases) (auto simp: run_app_work_def)

lemma run_app_step_ok:
  assumes "run_app_step s t" and "run_app_ok s"
  shows "run_app_ok t"
  using assms by (cases rule: run_app_step.cases) (auto simp: run_app_ok_def)

lemma run_app_not_stuck:
  assumes "run_app_ok s" and "ra_main s \<noteq> MainReturned"
  shows "\<exists>t. run_app_step s t"
proof (cases "ra_fn s")
  case FnRunning
  then show ?thesis by (blast intro: ra_fn_returns)
next
  case (FnCompleting err)
  with assms(2) show ?thesis by (cases "ra_main s") (blast intro: ra_signal ra_test ra_await)+
next
  case FnSent
  with assms have "ra_main s = MainTest" by (cases "ra_main s") (auto simp: run_app_ok_def)
  then show ?thesis by (blast intro: ra_test)
qed

interpretation ra: ending_steps run_app_step run_app_ok run_app_work "\<lambda>s. ra_main s = MainReturned"
  by unfold_locales (use run_app_step_ok run_app_step_work run_app_not_stuck in blast)+

lemma run_app_reach_ok: "run_app_reach s \<Longrightarrow> run_app_ok s"
proof (induction rule: run_app_reach.induct)
  case run_app_reach_start
  then show ?case by (simp add: run_app_ok_def run_app_start_def)
qed (rule run_app_step_ok)

text \<open>
  C26. \<open>RunApp\<close> returns only after the app function has returned, with the context cancelled; every run
  takes at most four steps, and from each of its states the return can be reached: the wait after a
  signal meets the value of the app function whenever that comes, before or after the signal.
\<close>

theorem run_app_returns_after_app:
  assumes "run_app_reach s"
  shows "(ra_main s = MainReturned \<longrightarrow> ra_fn s \<noteq> FnRunning \<and> ra_cancelled s) \<and>
    (\<exists>t. run_app_step\<^sup>*\<^sup>* s t \<and> ra_main t = MainReturned) \<and>
    (\<forall>k t. (run_app_step ^^ k) run_app_start t \<longrightarrow> k \<le> 4)"
proof -
  have ok: "run_app_ok s" by (rule run_app_reach_ok [OF assms])
  have "run_app_ok run_app_start" by (rule run_app_reach_ok [OF run_app_reach_start])
  moreover have "run_app_work run_app_start = 4" by (simp add: run_app_work_def run_app_start_def)
  ultimately have "k \<le> 4" if "(run_app_step ^^ k) run_app_start t" for k t
    using ra.run_bounded [OF that] by simp
  then show ?thesis using ra.return_reached [OF ok] ok by (auto simp: run_app_ok_def)
qed

section \<open>SubmitGoRoutine\<close>

text \<open>
  \<open>recover\<close> is deferred by the function that starts the goroutine, not by the goroutine: what the
  thunk panics with is not caught. The result is what the goroutine does to the program.
\<close>

datatype go_end = GoEnded "go_error option" | ProgramPanics go_panic

definition SubmitGoRoutine :: "go_error option run \<Rightarrow> go_end" where
  "SubmitGoRoutine thunk = (case thunk of Inl p \<Rightarrow> ProgramPanics p | Inr err \<Rightarrow> GoEnded err)"

section \<open>Contexts\<close>

text \<open>
  The contexts of a program, numbered; each has its parent, an earlier one, and whether it is done.
  \<open>context.WithCancel\<close> makes a child that is done when its parent is, and cancelling one is seen by all
  below it: the pass goes through the contexts in the order they were made.
\<close>

record go_context =
  gc_parent :: "nat option"
  gc_done :: bool

type_synonym contexts = "go_context list"

definition context_done :: "contexts \<Rightarrow> nat \<Rightarrow> bool" where
  "context_done cs i = (i < length cs \<and> gc_done (cs ! i))"

definition NewContext :: "contexts \<Rightarrow> nat \<times> contexts" where
  "NewContext cs = (length cs, cs @ [\<lparr>gc_parent = None, gc_done = False\<rparr>])"

definition ChildContext :: "nat \<Rightarrow> contexts \<Rightarrow> nat \<times> contexts" where
  "ChildContext i cs = (length cs, cs @ [\<lparr>gc_parent = Some i, gc_done = context_done cs i\<rparr>])"

definition SubProcessContext :: "nat \<Rightarrow> contexts \<Rightarrow> nat \<times> contexts" where
  "SubProcessContext i cs = ChildContext i cs"

fun cancel_pass :: "contexts \<Rightarrow> contexts \<Rightarrow> contexts" where
  "cancel_pass seen [] = seen"
| "cancel_pass seen (c # cs) =
     cancel_pass (seen @ [c\<lparr>gc_done := gc_done c \<or>
       (case gc_parent c of None \<Rightarrow> False | Some p \<Rightarrow> context_done seen p)\<rparr>]) cs"

definition Cancel :: "nat \<Rightarrow> contexts \<Rightarrow> contexts" where
  "Cancel i cs = cancel_pass [] (if i < length cs then cs[i := (cs ! i)\<lparr>gc_done := True\<rparr>] else cs)"

definition context_Err :: "contexts \<Rightarrow> nat \<Rightarrow> go_error option" where
  "context_Err cs i = (if context_done cs i then Some (GoErr ''context canceled'') else None)"

text \<open>\<open>i\<close> is \<open>j\<close> or above it.\<close>

inductive above :: "contexts \<Rightarrow> nat \<Rightarrow> nat \<Rightarrow> bool" for cs where
  above_refl: "i < length cs \<Longrightarrow> above cs i i"
| above_parent: "above cs i p \<Longrightarrow> j < length cs \<Longrightarrow> gc_parent (cs ! j) = Some p \<Longrightarrow> above cs i j"

inductive_cases aboveE: "above cs i j"

definition contexts_ok :: "contexts \<Rightarrow> bool" where
  "contexts_ok cs \<longleftrightarrow> (\<forall>j < length cs. \<forall>p. gc_parent (cs ! j) = Some p \<longrightarrow>
     p < j \<and> (gc_done (cs ! p) \<longrightarrow> gc_done (cs ! j)))"

lemma cancel_pass_length [simp]: "length (cancel_pass seen cs) = length seen + length cs"
  by (induction cs arbitrary: seen) simp_all

lemma cancel_pass_seen: "k < length seen \<Longrightarrow> cancel_pass seen cs ! k = seen ! k"
  by (induction cs arbitrary: seen) (simp_all add: nth_append)

lemma cancel_pass_nth:
  "k < length cs \<Longrightarrow> cancel_pass seen cs ! (length seen + k) =
     (cs ! k)\<lparr>gc_done := gc_done (cs ! k) \<or>
       (case gc_parent (cs ! k) of None \<Rightarrow> False
        | Some p \<Rightarrow> p < length seen + k \<and> gc_done (cancel_pass seen cs ! p))\<rparr>"
proof (induction cs arbitrary: seen k)
  case (Cons c cs)
  define c' where "c' = c\<lparr>gc_done := gc_done c \<or>
      (case gc_parent c of None \<Rightarrow> False | Some p \<Rightarrow> context_done seen p)\<rparr>"
  have step: "cancel_pass seen (c # cs) = cancel_pass (seen @ [c']) cs" by (simp add: c'_def)
  show ?case
  proof (cases k)
    case 0
    have "cancel_pass (seen @ [c']) cs ! p = seen ! p" if "p < length seen" for p
      using that cancel_pass_seen [of p "seen @ [c']" cs] by (simp add: nth_append)
    then have e: "(case gc_parent c of None \<Rightarrow> False | Some p \<Rightarrow> context_done seen p) =
        (case gc_parent c of None \<Rightarrow> False
         | Some p \<Rightarrow> p < length seen \<and> gc_done (cancel_pass (seen @ [c']) cs ! p))"
      by (auto simp: context_done_def split: option.splits)
    have "cancel_pass (seen @ [c']) cs ! length seen = c'"
      using cancel_pass_seen [of "length seen" "seen @ [c']" cs] by simp
    also have "\<dots> = c\<lparr>gc_done := gc_done c \<or>
        (case gc_parent c of None \<Rightarrow> False
         | Some p \<Rightarrow> p < length seen \<and> gc_done (cancel_pass (seen @ [c']) cs ! p))\<rparr>"
      by (subst c'_def) (simp only: e)
    finally show ?thesis using 0 by (simp add: step del: cancel_pass.simps cong: option.case_cong)
  next
    case (Suc m)
    with Cons.prems Cons.IH [of m "seen @ [c']"] show ?thesis
      by (simp add: step del: cancel_pass.simps cong: option.case_cong)
  qed
qed simp

lemma above_le: "above cs i j \<Longrightarrow> contexts_ok cs \<Longrightarrow> i \<le> j \<and> j < length cs"
  by (induction rule: above.induct) (auto simp: contexts_ok_def dest!: spec)


section \<open>Examples\<close>

definition demo_contexts :: contexts where
  "demo_contexts = [\<lparr>gc_parent = None, gc_done = False\<rparr>, \<lparr>gc_parent = Some 0, gc_done = False\<rparr>,
     \<lparr>gc_parent = Some 0, gc_done = True\<rparr>, \<lparr>gc_parent = Some 1, gc_done = False\<rparr>]"


lemma demo_multi_reach:
  "\<exists>s. multi_reach 1 s \<and> ma_returned s = Some [GoErr ''boom'']"
proof -
  define s0 where "s0 = multi_start 1"
  define s1 where "s1 = set_routine 0 (RtSending (GoErr ''boom'')) s0"
  define s2 where "s2 = set_routine 0 (RtFinishing (Some (GoErr ''boom''))) (s1\<lparr>ma_collected := ma_collected s1 @ [GoErr ''boom'']\<rparr>)"
  define s3 where "s3 = set_routine 0 (RtDone (Some (GoErr ''boom''))) (s2\<lparr>ma_wg := ma_wg s2 - 1\<rparr>)"
  define s4 where "s4 = s3\<lparr>ma_closed := True\<rparr>"
  define s5 where "s5 = s4\<lparr>ma_returned := Some (ma_collected s4)\<rparr>"
  note defs = s0_def s1_def s2_def s3_def s4_def s5_def multi_start_def routine_is_def
  have "multi_reach 1 s0" unfolding s0_def by (rule multi_reach_start)
  then have "multi_reach 1 s1" unfolding s1_def
    by (rule multi_reach_step) (rule ma_return_err, simp add: defs)
  then have "multi_reach 1 s2" unfolding s2_def
    by (rule multi_reach_step) (rule ma_send, simp_all add: defs)
  then have "multi_reach 1 s3" unfolding s3_def
    by (rule multi_reach_step) (rule ma_wg_done, simp add: defs)
  then have "multi_reach 1 s4" unfolding s4_def
    by (rule multi_reach_step) (rule ma_close, simp_all add: defs)
  then have "multi_reach 1 s5" unfolding s5_def
    by (rule multi_reach_step) (rule ma_collect_end, simp_all add: defs)
  moreover have "ma_returned s5 = Some [GoErr ''boom'']" by (simp add: defs)
  ultimately show ?thesis by blast
qed

theorem multi_app_collects_all_witness:
  "\<exists>s. multi_reach 1 s \<and> ma_returned s = Some [GoErr ''boom''] \<and> handed (ma_routines s) = {#GoErr ''boom''#}"
proof -
  obtain s where s: "multi_reach 1 s" "ma_returned s = Some [GoErr ''boom'']" using demo_multi_reach by blast
  from multi_app_collects_all [OF s(1)] s show ?thesis by (metis mset.simps(1) mset_single_iff_right mset.simps(2))
qed

theorem run_app_returns_after_app_witness:
  "\<exists>s. run_app_reach s \<and> ra_main s = MainReturned \<and> ra_fn s \<noteq> FnRunning"
proof -
  define s1 where "s1 = run_app_start\<lparr>ra_main := MainTest, ra_cancelled := True\<rparr>"
  define s2 where "s2 = s1\<lparr>ra_fn := FnCompleting None, ra_complete := True\<rparr>"
  define s3 where "s3 = s2\<lparr>ra_main := (if ra_complete s2 then MainReturned else MainAwait)\<rparr>"
  have "run_app_reach s1" unfolding s1_def
    by (rule run_app_reach_step [OF run_app_reach_start]) (rule ra_signal, simp add: run_app_start_def)
  then have "run_app_reach s2" unfolding s2_def
    by (rule run_app_reach_step) (rule ra_fn_returns, simp add: s1_def run_app_start_def)
  then have r: "run_app_reach s3" unfolding s3_def
    by (rule run_app_reach_step) (rule ra_test, simp add: s2_def s1_def run_app_start_def)
  have "ra_main s3 = MainReturned" by (simp add: s3_def s2_def)
  with run_app_returns_after_app [OF r] r show ?thesis by blast
qed

end
