(* ===== verification/HermesDownload.thy ===== *)
theory HermesDownload
  imports HermesServer Nefario
begin

text \<open>
  The download services of \<open>src/hermes/download-builders.go\<close>: the output of a process
  (\<open>BuildDownloadStreamService\<close>) and a channel of a mailbox (\<open>BuildDownloadChannelService\<close>).

  What a request does to its response and subscription is a list of \<open>dl_event\<close>. The subscription is a
  function that gives what \<open>Fetch\<close> answers at each turn and whether the context of the request is done
  after it. The loops may not end, so they are partial functions: \<open>None\<close> is a request that never
  returns. The protobuf and JSON encoders are parameters; an \<open>Ack\<close> that fails is only logged.
\<close>

section \<open>Requests, turns and events\<close>

datatype dl_event =
    DlHeader string string
  | DlError string int
  | DlWrite bytes
  | DlFlush
  | DlAck
  | DlUnsubscribe

record dl_metadata =
  dmd_Stream :: nat
  dmd_UnixMilli :: int

text \<open>A message of the stream; \<open>Metadata\<close> answers nil and an error where it is \<open>None\<close>.\<close>

record dl_msg =
  dm_Data :: bytes
  dm_Metadata :: "dl_metadata option"

record dl_turn =
  dt_err :: "go_error option"
  dt_msgs :: "dl_msg list"
  dt_done :: bool

record dl_nats =
  dn_stream_info :: "string \<Rightarrow> go_error + (nat \<times> nat)"
  dn_pull_subscribe :: "string \<Rightarrow> string \<Rightarrow> deliver_policy \<Rightarrow> go_error option"

record dl_codec =
  dc_record :: "bytes \<Rightarrow> go_error + StreamRecord"
  dc_receipt :: "bytes \<Rightarrow> go_error + SendReceipt"
  dc_message :: "bytes \<Rightarrow> go_error + Message"
  dc_receipt_json :: "SendReceipt \<Rightarrow> ServerEnvelope option \<Rightarrow> go_error + bytes"
  dc_message_json :: "Message \<Rightarrow> go_error + bytes"

definition dl_timeout :: "go_error \<Rightarrow> bool" where
  "dl_timeout err \<longleftrightarrow> error_text err = ''nats: timeout'' \<or> errors_Is err (GoErr ''nats: timeout'')"

text \<open>\<open>metadata.Sequence.Stream >= streamInfo.State.LastSeq\<close>, false on nil metadata.\<close>

definition at_last_seq :: "nat \<Rightarrow> dl_msg \<Rightarrow> bool" where
  "at_last_seq lastSeq msg =
     (case dm_Metadata msg of None \<Rightarrow> False | Some md \<Rightarrow> lastSeq \<le> dmd_Stream md)"

text \<open>The labelled loop: the body leaves a state and whether it broke out, or panics.\<close>

partial_function (option) dl_loop ::
  "('s \<Rightarrow> 't \<Rightarrow> ('s \<times> bool) run) \<Rightarrow> (nat \<Rightarrow> 't) \<Rightarrow> nat \<Rightarrow> 's \<Rightarrow> 's run option" where
  "dl_loop body turns i s =
     (case body s (turns i) of
        Inl p \<Rightarrow> Some (Inl p)
      | Inr (s', ended) \<Rightarrow> if ended then Some (Inr s') else dl_loop body turns (Suc i) s')"

section \<open>Download of a process stream\<close>

fun write_buffers :: "Buffer option list \<Rightarrow> dl_event list run" where
  "write_buffers [] = Inr []"
| "write_buffers (b # bs) =
     run_bind (deref b) (\<lambda>buffer. run_bind (write_buffers bs) (\<lambda>ws. Inr (DlWrite (buf_Data buffer) # ws)))"

text \<open>
  One message: what it writes and whether it asks to close. A record that cannot be decoded is skipped
  before its sequence is looked at and before it is acknowledged.
\<close>

definition stream_msg :: "dl_codec \<Rightarrow> nat \<Rightarrow> dl_msg \<Rightarrow> (dl_event list \<times> bool) run" where
  "stream_msg dc lastSeq msg =
     (case dc_record dc (dm_Data msg) of
        Inl err \<Rightarrow> Inr ([], False)
      | Inr record0 \<Rightarrow>
          run_bind (write_buffers (str_Buffers record0)) (\<lambda>ws.
            Inr (ws @ [DlAck], at_last_seq lastSeq msg)))"

fun stream_msgs :: "dl_codec \<Rightarrow> nat \<Rightarrow> dl_msg list \<Rightarrow> (dl_event list \<times> bool) run" where
  "stream_msgs dc lastSeq [] = Inr ([], False)"
| "stream_msgs dc lastSeq (msg # msgs) =
     run_bind (stream_msg dc lastSeq msg) (\<lambda>(ws, c).
     run_bind (stream_msgs dc lastSeq msgs) (\<lambda>(ws', c'). Inr (ws @ ws', c \<or> c')))"

definition stream_turn ::
  "dl_codec \<Rightarrow> nat \<Rightarrow> bool \<Rightarrow> dl_event list \<Rightarrow> dl_turn \<Rightarrow> (dl_event list \<times> bool) run" where
  "stream_turn dc lastSeq tail out turn =
     (if (case dt_err turn of None \<Rightarrow> False | Some err \<Rightarrow> if dl_timeout err then \<not> tail else True)
      then Inr (out, True)
      else
        run_bind (stream_msgs dc lastSeq (dt_msgs turn)) (\<lambda>(ws, close).
          if \<not> tail \<and> close then Inr (out @ ws, True)
          else Inr (out @ ws @ (if tail then [DlFlush] else []), dt_done turn)))"

definition DownloadStreamService ::
  "dl_nats \<Rightarrow> dl_codec \<Rightarrow> bool \<Rightarrow> bool \<Rightarrow> string \<Rightarrow> string \<Rightarrow> string \<Rightarrow> (nat \<Rightarrow> dl_turn) \<Rightarrow>
   dl_event list run option" where
  "DownloadStreamService dn dc isFlusher tail processUid channelName startPos turns =
     (let headers = [DlHeader ''Connection'' ''Keep-Alive'', DlHeader ''X-Content-Type-Options'' ''nosniff'']
      in if \<not> isFlusher then Some (Inl (PanicMsg ''expected http.ResponseWriter to be an http.Flusher''))
         else if processUid = [] then Some (Inr (headers @ [DlError ''missing processUid'' 400]))
         else if channelName = [] then Some (Inr (headers @ [DlError ''missing streamName'' 400]))
         else
           let subject = ProcessSubjectName processUid channelName;
               streamName = ProcessStreamName processUid channelName
           in (case dn_stream_info dn streamName of
                 Inl err \<Rightarrow> Some (Inr (headers @ [DlError ''stream not found'' 404]))
               | Inr (firstSeq, lastSeq) \<Rightarrow>
                   if \<not> tail \<and> firstSeq = 0 \<and> lastSeq = 0 then Some (Inr headers)
                   else
                     (case dn_pull_subscribe dn subject streamName
                             (snd (StartSeqToSubscriptionOptions startPos)) of
                        Some err \<Rightarrow> Some (Inr (headers @ [DlError (error_text err) 500]))
                      | None \<Rightarrow>
                          map_option (\<lambda>r. run_bind r (\<lambda>out. Inr (out @ [DlFlush, DlUnsubscribe])))
                            (dl_loop (stream_turn dc lastSeq tail) turns 0 headers))))"

section \<open>Download of a mailbox channel\<close>

text \<open>The two encoders of a message; which one is used is decided by the identity of the channel name.\<close>

definition receipt_json :: "dl_codec \<Rightarrow> dl_msg \<Rightarrow> bytes run" where
  "receipt_json dc natsMsg =
     (case dc_receipt dc (dm_Data natsMsg) of
        Inl err \<Rightarrow> Inl (PanicMsg (error_text (WrapErr ''unable to unmarshal SendMessageRequest'' err)))
      | Inr sr \<Rightarrow>
          let env = (case dm_Metadata natsMsg of
                 None \<Rightarrow> None
               | Some md \<Rightarrow> Some \<lparr>sv_Sequence = dmd_Stream md, sv_Created = dmd_UnixMilli md,
                               sv_Channel = [], sv_SubscriptionId = []\<rparr>)
          in (case dc_receipt_json dc sr env of
                Inl err \<Rightarrow> Inl (PanicMsg (error_text (WrapErr ''unable to marshal Message to json'' err)))
              | Inr js \<Rightarrow> Inr js))"

definition message_json :: "dl_codec \<Rightarrow> ChannelName \<Rightarrow> dl_msg \<Rightarrow> bytes run" where
  "message_json dc channelName natsMsg =
     (case dc_message dc (dm_Data natsMsg) of
        Inl err \<Rightarrow> Inl (PanicMsg (error_text
          (WrapErr ''unable to unmarshal Message for MessageEnvelope.MessageBytes'' err)))
      | Inr msg \<Rightarrow>
          run_bind (deref (dm_Metadata natsMsg)) (\<lambda>metadata.
          run_bind (opaque_String channelName) (\<lambda>ch.
            case dc_message_json dc (msg\<lparr>msg_ServerEnvelope :=
                Some \<lparr>sv_Sequence = dmd_Stream metadata, sv_Created = dmd_UnixMilli metadata,
                      sv_Channel = ch, sv_SubscriptionId = []\<rparr>\<rparr>) of
              Inl err \<Rightarrow> Inl (PanicMsg (error_text (WrapErr ''unable to marshal Message to json'' err)))
            | Inr js \<Rightarrow> Inr js)))"

definition channel_json :: "dl_codec \<Rightarrow> ChannelName \<Rightarrow> dl_msg \<Rightarrow> bytes run" where
  "channel_json dc channelName =
     (if opaque_eq channelName RpcSent then receipt_json dc else message_json dc channelName)"

definition LF :: string where "LF = [char_of (10 :: nat)]"

text \<open>The state is what was written and \<open>firstMsg\<close>.\<close>

fun channel_msgs ::
  "(dl_msg \<Rightarrow> bytes run) \<Rightarrow> nat \<Rightarrow> dl_event list \<times> bool \<Rightarrow> dl_msg list \<Rightarrow>
   ((dl_event list \<times> bool) \<times> bool) run" where
  "channel_msgs toJsonFn lastSeq st [] = Inr (st, False)"
| "channel_msgs toJsonFn lastSeq (out, firstMsg) (msg # msgs) =
     run_bind (toJsonFn msg) (\<lambda>js.
     run_bind (channel_msgs toJsonFn lastSeq
        (out @ (if firstMsg then [] else [DlWrite (string_to_bytes (LF @ ''  ,''))]) @ [DlWrite js, DlAck],
         False) msgs) (\<lambda>(st', c). Inr (st', at_last_seq lastSeq msg \<or> c)))"

text \<open>A timeout ends the loop; another error of \<open>Fetch\<close> does not.\<close>

definition channel_turn ::
  "(dl_msg \<Rightarrow> bytes run) \<Rightarrow> nat \<Rightarrow> dl_event list \<times> bool \<Rightarrow> dl_turn \<Rightarrow>
   ((dl_event list \<times> bool) \<times> bool) run" where
  "channel_turn toJsonFn lastSeq st turn =
     (if (case dt_err turn of None \<Rightarrow> False | Some err \<Rightarrow> dl_timeout err) then Inr (st, True)
      else
        run_bind (channel_msgs toJsonFn lastSeq st (dt_msgs turn)) (\<lambda>(st', close).
          if close then Inr (st', True) else Inr (st', dt_done turn)))"

text \<open>What precedes the loop: the response so far and, when there is a subscription, its channel.\<close>

definition open_channel ::
  "'w hermes_ext \<Rightarrow> dl_nats \<Rightarrow> string \<Rightarrow> string \<Rightarrow> string \<Rightarrow>
   ('w, dl_event list \<times> (ChannelName \<times> nat) option) hop" where
  "open_channel ext dn adminKeyVar channelVar startPos =
     (let headers = [DlHeader ''Content-Type'' ''application/json''];
          fail = (\<lambda>msg code. (headers @ [DlError msg code], None))
      in st_bind (with_alloc (NewAdminKey adminKeyVar)) (\<lambda>adminKey.
         st_bind (with_alloc (NewChannelName channelVar)) (\<lambda>channelName.
         st_bind (st_lift (opaque_IsEmpty adminKey)) (\<lambda>e1.
           if e1 then st_return (fail ''missing adminKey'' 400)
           else
             st_bind (st_lift (opaque_IsEmpty channelName)) (\<lambda>e2.
               if e2 then st_return (fail ''missing channelName'' 400)
               else
                 st_bind (FetchMailboxByAdminKey ext adminKey) (\<lambda>found.
                   case found of
                     None \<Rightarrow> st_return (fail ''mbox not found'' 404)
                   | Some i \<Rightarrow>
                       st_bind (mbox_get i) (\<lambda>mbox.
                       st_bind (st_lift (mbox_NatsSubject mbox channelName)) (\<lambda>subject.
                       st_bind (st_lift (mbox_NatsStreamName mbox channelName)) (\<lambda>streamName.
                         case dn_stream_info dn streamName of
                           Inl err \<Rightarrow> st_return (fail ''stream not found'' 404)
                         | Inr (firstSeq, lastSeq) \<Rightarrow>
                             if firstSeq = 0 \<and> lastSeq = 0
                             then st_return (headers @ [DlWrite (string_to_bytes ''[]'')], None)
                             else
                               (case dn_pull_subscribe dn subject streamName
                                       (snd (StartSeqToSubscriptionOptions startPos)) of
                                  Some err \<Rightarrow> st_return (fail (error_text err) 500)
                                | None \<Rightarrow> st_return (headers, Some (channelName, lastSeq))))))))))))"

text \<open>The loop and what closes the response; \<open>isFlusher\<close> is the type test on the writer.\<close>

definition send_channel ::
  "dl_codec \<Rightarrow> bool \<Rightarrow> ChannelName \<Rightarrow> nat \<Rightarrow> (nat \<Rightarrow> dl_turn) \<Rightarrow> dl_event list run option" where
  "send_channel dc isFlusher channelName lastSeq turns =
     map_option (\<lambda>r. run_bind r (\<lambda>(out, firstMsg).
         Inr (out @ [DlWrite (string_to_bytes (LF @ '']''))] @ (if isFlusher then [DlFlush] else []) @
              [DlUnsubscribe])))
       (dl_loop (channel_turn (channel_json dc channelName) lastSeq) turns 0
          ([DlWrite (string_to_bytes (''['' @ LF @ ''  ''))], True))"

definition DownloadChannelService ::
  "'w hermes_ext \<Rightarrow> dl_nats \<Rightarrow> dl_codec \<Rightarrow> bool \<Rightarrow> string \<Rightarrow> string \<Rightarrow> string \<Rightarrow> (nat \<Rightarrow> dl_turn) \<Rightarrow>
   'w hermes \<Rightarrow> (dl_event list \<times> 'w hermes) run option" where
  "DownloadChannelService ext dn dc isFlusher adminKeyVar channelVar startPos turns h =
     (case open_channel ext dn adminKeyVar channelVar startPos h of
        Inl p \<Rightarrow> Some (Inl p)
      | Inr ((out, None), h') \<Rightarrow> Some (Inr (out, h'))
      | Inr ((out, Some (channelName, lastSeq)), h') \<Rightarrow>
          map_option (\<lambda>r. run_bind r (\<lambda>out'. Inr (out @ out', h')))
            (send_channel dc isFlusher channelName lastSeq turns))"

section \<open>When a download returns, and what it has written\<close>

lemma dl_loop_returns:
  assumes "dl_loop body turns i s = Some r"
    and "\<And>s j. body s (turns j) = Inr (step s (turns j), ends (turns j))"
  shows "\<exists>k \<ge> i. ends (turns k)"
proof -
  have "(\<forall>s j. body s (turns j) = Inr (step s (turns j), ends (turns j))) \<longrightarrow> (\<exists>k \<ge> i. ends (turns k))"
  proof (rule dl_loop.raw_induct [OF _ assms(1), where P = "\<lambda>body turns i s r.
      (\<forall>s j. body s (turns j) = Inr (step s (turns j), ends (turns j))) \<longrightarrow> (\<exists>k \<ge> i. ends (turns k))"])
    fix loop body turns i s r
    assume hyp: "\<And>body turns i s r. loop body turns i s = Some r \<Longrightarrow>
        (\<forall>s j. body s (turns j) = Inr (step s (turns j), ends (turns j))) \<longrightarrow> (\<exists>k \<ge> i. ends (turns k))"
      and eq: "(case body s (turns i) of Inl p \<Rightarrow> Some (Inl p)
        | Inr (s', ended) \<Rightarrow> if ended then Some (Inr s') else loop body turns (Suc i) s') = Some r"
    show "(\<forall>s j. body s (turns j) = Inr (step s (turns j), ends (turns j))) \<longrightarrow> (\<exists>k \<ge> i. ends (turns k))"
    proof (intro impI)
      assume b: "\<forall>s j. body s (turns j) = Inr (step s (turns j), ends (turns j))"
      show "\<exists>k \<ge> i. ends (turns k)"
      proof (cases "ends (turns i)")
        case False
        with eq b have "loop body turns (Suc i) (step s (turns i)) = Some r" by simp
        from hyp [OF this] b show ?thesis by (meson Suc_leD)
      qed blast
    qed
  qed
  with assms(2) show ?thesis by blast
qed

lemma dl_loop_first:
  assumes "\<And>s j. body s (turns j) = Inr (step s (turns j), ends (turns j))"
    and "i \<le> k" and "ends (turns k)" and "\<And>j. i \<le> j \<Longrightarrow> j < k \<Longrightarrow> \<not> ends (turns j)"
  shows "dl_loop body turns i s = Some (Inr (fold (\<lambda>t s. step s t) (map turns [i ..< Suc k]) s))"
  using assms(2,4)
proof (induction "k - i" arbitrary: i s)
  case 0
  then have "i = k" by simp
  then show ?case by (subst dl_loop.simps) (simp add: assms(1,3))
next
  case (Suc d)
  then have lt: "i < k" by simp
  have "dl_loop body turns i s = dl_loop body turns (Suc i) (step s (turns i))"
    by (subst dl_loop.simps) (simp add: assms(1) Suc.prems(2) lt)
  also have "\<dots> = Some (Inr (fold (\<lambda>t s. step s t) (map turns [Suc i ..< Suc k]) (step s (turns i))))"
    using Suc by (intro Suc.hyps(1)) auto
  also have "[i ..< Suc k] = i # [Suc i ..< Suc k]"
    using lt by (simp add: upt_conv_Cons del: upt_Suc)
  ultimately show ?case by (simp del: upt_Suc)
qed

text \<open>A turn seen from outside: whether its error ends the download, the records it delivers, what it
  writes, and whether it is the last.\<close>

definition turn_broken :: "bool \<Rightarrow> dl_turn \<Rightarrow> bool" where
  "turn_broken tail turn \<longleftrightarrow> (\<exists>err. dt_err turn = Some err \<and> (dl_timeout err \<longrightarrow> \<not> tail))"

definition dl_delivered :: "dl_codec \<Rightarrow> dl_msg list \<Rightarrow> (dl_msg \<times> StreamRecord) list" where
  "dl_delivered dc msgs =
     List.map_filter (\<lambda>m. case dc_record dc (dm_Data m) of Inl _ \<Rightarrow> None | Inr r \<Rightarrow> Some (m, r)) msgs"

definition record_data :: "StreamRecord \<Rightarrow> bytes list" where
  "record_data r = map (\<lambda>b. buf_Data (the b)) (str_Buffers r)"

definition turn_delivers :: "dl_codec \<Rightarrow> bool \<Rightarrow> dl_turn \<Rightarrow> (dl_msg \<times> StreamRecord) list" where
  "turn_delivers dc tail turn = (if turn_broken tail turn then [] else dl_delivered dc (dt_msgs turn))"

definition stream_ends :: "dl_codec \<Rightarrow> nat \<Rightarrow> bool \<Rightarrow> dl_turn \<Rightarrow> bool" where
  "stream_ends dc lastSeq tail turn \<longleftrightarrow>
     turn_broken tail turn \<or> dt_done turn \<or>
     (\<not> tail \<and> (\<exists>(m, r) \<in> set (dl_delivered dc (dt_msgs turn)). at_last_seq lastSeq m))"

definition dl_written :: "dl_event list \<Rightarrow> bytes list" where
  "dl_written evs = List.map_filter (\<lambda>ev. case ev of DlWrite b \<Rightarrow> Some b | _ \<Rightarrow> None) evs"

definition acks :: "dl_event list \<Rightarrow> nat" where
  "acks evs = length (filter (\<lambda>ev. ev = DlAck) evs)"

definition whole_records :: "dl_codec \<Rightarrow> bool" where
  "whole_records dc \<longleftrightarrow> (\<forall>bs r. dc_record dc bs = Inr r \<longrightarrow> None \<notin> set (str_Buffers r))"

lemma dl_written_simps [simp]:
  "dl_written (xs @ ys) = dl_written xs @ dl_written ys" "dl_written (DlWrite b # xs) = b # dl_written xs"
  "dl_written (DlAck # xs) = dl_written xs" "dl_written (DlFlush # xs) = dl_written xs"
  "dl_written (DlUnsubscribe # xs) = dl_written xs" "dl_written (DlHeader k v # xs) = dl_written xs" "dl_written [] = []"
  by (simp_all add: dl_written_def map_filter_def)

lemma acks_simps [simp]:
  "acks (xs @ ys) = acks xs + acks ys" "acks (DlWrite b # xs) = acks xs" "acks (DlAck # xs) = Suc (acks xs)"
  "acks (DlFlush # xs) = acks xs" "acks (DlUnsubscribe # xs) = acks xs"
  "acks (DlHeader k v # xs) = acks xs" "acks [] = 0"
  by (simp_all add: acks_def)

lemma dl_delivered_simps [simp]:
  "dl_delivered dc [] = []"
  "dc_record dc (dm_Data m) = Inl err \<Longrightarrow> dl_delivered dc (m # ms) = dl_delivered dc ms"
  "dc_record dc (dm_Data m) = Inr r \<Longrightarrow> dl_delivered dc (m # ms) = (m, r) # dl_delivered dc ms"
  by (simp_all add: dl_delivered_def map_filter_def)

lemma write_buffers_whole:
  "None \<notin> set bs \<Longrightarrow> write_buffers bs = Inr (map (\<lambda>b. DlWrite (buf_Data (the b))) bs)"
proof (induction bs)
  case (Cons b bs)
  then show ?case by (cases b) auto
qed simp

lemma written_writes: "dl_written (map (\<lambda>b. DlWrite (f b)) bs) = map f bs" "acks (map (\<lambda>b. DlWrite (f b)) bs) = 0"
  by (induction bs) simp_all

definition record_events :: "StreamRecord \<Rightarrow> dl_event list" where
  "record_events r = map (\<lambda>b. DlWrite (buf_Data (the b))) (str_Buffers r) @ [DlAck]"

lemma written_records:
  "dl_written (concat (map (\<lambda>(m, r). record_events r) ds)) = concat (map (\<lambda>(m, r). record_data r) ds)"
  "acks (concat (map (\<lambda>(m, r). record_events r) ds)) = length ds"
  by (induction ds) (auto simp: record_events_def record_data_def written_writes)

lemma stream_msgs_whole:
  assumes "whole_records dc"
  shows "stream_msgs dc lastSeq msgs =
    Inr (concat (map (\<lambda>(m, r). record_events r) (dl_delivered dc msgs)),
         \<exists>(m, r) \<in> set (dl_delivered dc msgs). at_last_seq lastSeq m)"
proof (induction msgs)
  case (Cons m ms)
  show ?case
  proof (cases "dc_record dc (dm_Data m)")
    case (Inr r)
    then have "None \<notin> set (str_Buffers r)" using assms by (auto simp: whole_records_def)
    with Inr Cons show ?thesis by (simp add: stream_msg_def write_buffers_whole record_events_def)
  qed (use Cons in \<open>simp add: stream_msg_def\<close>)
qed simp

definition turn_events :: "dl_codec \<Rightarrow> nat \<Rightarrow> bool \<Rightarrow> dl_turn \<Rightarrow> dl_event list" where
  "turn_events dc lastSeq tail turn =
     concat (map (\<lambda>(m, r). record_events r) (turn_delivers dc tail turn)) @
     (if tail \<and> \<not> turn_broken tail turn then [DlFlush] else [])"

lemma stream_turn_whole:
  assumes "whole_records dc"
  shows "stream_turn dc lastSeq tail out turn =
    Inr (out @ turn_events dc lastSeq tail turn, stream_ends dc lastSeq tail turn)"
  by (cases "dt_err turn")
    (auto simp: stream_turn_def stream_msgs_whole [OF assms] turn_events_def turn_delivers_def
      turn_broken_def stream_ends_def)

lemma fold_append_events: "fold (\<lambda>t s. s @ f t) ts s = s @ concat (map f ts)"
  by (induction ts arbitrary: s) simp_all

lemma written_turns:
  "dl_written (concat (map (turn_events dc lastSeq tail) ts)) =
     concat (map (\<lambda>(m, r). record_data r) (concat (map (turn_delivers dc tail) ts)))"
  "acks (concat (map (turn_events dc lastSeq tail) ts)) = length (concat (map (turn_delivers dc tail) ts))"
  by (induction ts) (auto simp: turn_events_def written_records)

text \<open>
  C24. The download of a process stream that exists and has records returns exactly when some turn ends it:
  a fetch that fails (by a timeout only when not tailing), the end of the request, or, when not tailing,
  a record at or past the last sequence the stream had when the download began. It has then written the
  buffers of every record that could be decoded, turn by turn and in order, up to the turn that ended it,
  and acknowledged each of these records once.
\<close>

theorem stream_download_returns:
  assumes "whole_records dc" and "processUid \<noteq> []" and "channelName \<noteq> []"
    and "dn_stream_info dn (ProcessStreamName processUid channelName) = Inr (firstSeq, lastSeq)"
    and "tail \<or> firstSeq \<noteq> 0 \<or> lastSeq \<noteq> 0"
    and "dn_pull_subscribe dn (ProcessSubjectName processUid channelName)
      (ProcessStreamName processUid channelName) (snd (StartSeqToSubscriptionOptions startPos)) = None"
  shows "(DownloadStreamService dn dc True tail processUid channelName startPos turns = None \<longleftrightarrow>
      (\<forall>k. \<not> stream_ends dc lastSeq tail (turns k))) \<and>
    (\<forall>k. stream_ends dc lastSeq tail (turns k) \<and> (\<forall>j < k. \<not> stream_ends dc lastSeq tail (turns j)) \<longrightarrow>
      (\<exists>evs. DownloadStreamService dn dc True tail processUid channelName startPos turns = Some (Inr evs) \<and>
        dl_written evs = concat (map (\<lambda>(m, r). record_data r)
          (concat (map (turn_delivers dc tail) (map turns [0 ..< Suc k])))) \<and>
        acks evs = length (concat (map (turn_delivers dc tail) (map turns [0 ..< Suc k])))))"
proof -
  define hs where "hs = [DlHeader ''Connection'' ''Keep-Alive'', DlHeader ''X-Content-Type-Options'' ''nosniff'']"
  define run where "run = dl_loop (stream_turn dc lastSeq tail) turns 0 hs"
  have eq: "DownloadStreamService dn dc True tail processUid channelName startPos turns =
      map_option (\<lambda>r. run_bind r (\<lambda>out. Inr (out @ [DlFlush, DlUnsubscribe]))) run"
    unfolding DownloadStreamService_def Let_def assms(4) sum.case prod.case assms(6) option.case
    using assms(2,3,5) by (auto simp only: run_def hs_def not_gr_zero if_False simp_thms split: if_split)
  have first: "run = Some (Inr (hs @ concat (map (turn_events dc lastSeq tail) (map turns [0 ..< Suc k]))))"
    if "stream_ends dc lastSeq tail (turns k)" "\<And>j. j < k \<Longrightarrow> \<not> stream_ends dc lastSeq tail (turns j)" for k
    using dl_loop_first [of "stream_turn dc lastSeq tail" turns "\<lambda>s t. s @ turn_events dc lastSeq tail t"
        "stream_ends dc lastSeq tail" 0 k hs] that
    by (simp add: run_def stream_turn_whole [OF assms(1)] fold_append_events del: upt_Suc)
  have "run = None \<longleftrightarrow> (\<forall>k. \<not> stream_ends dc lastSeq tail (turns k))"
  proof
    assume none: "run = None"
    show "\<forall>k. \<not> stream_ends dc lastSeq tail (turns k)"
    proof (rule ccontr)
      assume "\<not> ?thesis"
      then obtain k0 where "stream_ends dc lastSeq tail (turns k0)" by blast
      then have "\<exists>k. stream_ends dc lastSeq tail (turns k)" by blast
      then obtain k where "stream_ends dc lastSeq tail (turns k)"
          "\<And>j. j < k \<Longrightarrow> \<not> stream_ends dc lastSeq tail (turns j)"
        using exists_least_iff [of "\<lambda>k. stream_ends dc lastSeq tail (turns k)"] by blast
      from first [OF this] none show False by simp
    qed
  next
    assume no: "\<forall>k. \<not> stream_ends dc lastSeq tail (turns k)"
    have "False" if "dl_loop (stream_turn dc lastSeq tail) turns 0 hs = Some r" for r
      using dl_loop_returns [OF that, of "\<lambda>s t. s @ turn_events dc lastSeq tail t"
          "stream_ends dc lastSeq tail"] stream_turn_whole [OF assms(1)] no by blast
    then show "run = None" by (cases run) (auto simp: run_def)
  qed
  moreover have "\<exists>evs. DownloadStreamService dn dc True tail processUid channelName startPos turns =
        Some (Inr evs) \<and>
      dl_written evs = concat (map (\<lambda>(m, r). record_data r)
        (concat (map (turn_delivers dc tail) (map turns [0 ..< Suc k])))) \<and>
      acks evs = length (concat (map (turn_delivers dc tail) (map turns [0 ..< Suc k])))"
    if "stream_ends dc lastSeq tail (turns k)" "\<And>j. j < k \<Longrightarrow> \<not> stream_ends dc lastSeq tail (turns j)" for k
  proof -
    define ts where "ts = map turns [0 ..< Suc k]"
    have "run = Some (Inr (hs @ concat (map (turn_events dc lastSeq tail) ts)))"
      using first [OF that] by (simp only: ts_def)
    then show ?thesis
      by (simp only: eq option.map run_bind_simps ts_def [symmetric])
        (simp add: written_turns hs_def)
  qed
  ultimately show ?thesis by (simp only: eq option.map_disc_iff) blast
qed

definition demo_codec :: dl_codec where
  "demo_codec = \<lparr>dc_record = (\<lambda>bs. if bs = [] then Inl (GoErr ''empty'')
       else Inr \<lparr>str_Timestamp = None, str_Sequence = 1,
                 str_Buffers = [Some \<lparr>buf_Timestamp = None, buf_Data = bs, buf_Transport = Stdout\<rparr>]\<rparr>),
     dc_receipt = (\<lambda>bs. Inl (GoErr ''no receipt'')), dc_message = (\<lambda>bs. Inl (GoErr ''no message'')),
     dc_receipt_json = (\<lambda>sr env. Inr []), dc_message_json = (\<lambda>m. Inr [])\<rparr>"

definition demo_dl_nats :: dl_nats where
  "demo_dl_nats = \<lparr>dn_stream_info = (\<lambda>s. Inr (1, 2)), dn_pull_subscribe = (\<lambda>su st p. None)\<rparr>"

definition demo_turns :: "nat \<Rightarrow> dl_turn" where
  "demo_turns k = (if k = 0
     then \<lparr>dt_err = None, dt_msgs = [\<lparr>dm_Data = [7], dm_Metadata = Some \<lparr>dmd_Stream = 1, dmd_UnixMilli = 5\<rparr>\<rparr>],
           dt_done = False\<rparr>
     else \<lparr>dt_err = None, dt_msgs = [\<lparr>dm_Data = [], dm_Metadata = None\<rparr>,
             \<lparr>dm_Data = [8, 9], dm_Metadata = Some \<lparr>dmd_Stream = 2, dmd_UnixMilli = 6\<rparr>\<rparr>],
           dt_done = False\<rparr>)"

theorem stream_download_returns_witness:
  "\<exists>evs. DownloadStreamService demo_dl_nats demo_codec True False ''p'' ''stdout'' ''all'' demo_turns =
       Some (Inr evs) \<and> dl_written evs = [[7], [8, 9]] \<and> acks evs = 2"
proof -
  have w: "whole_records demo_codec" by (auto simp: whole_records_def demo_codec_def)
  have e: "\<not> stream_ends demo_codec 2 False (demo_turns 0)" "stream_ends demo_codec 2 False (demo_turns 1)"
    by (simp_all add: stream_ends_def turn_broken_def demo_turns_def demo_codec_def dl_delivered_def
        map_filter_def at_last_seq_def)
  have r: "record_data r = [bs]" if "dc_record demo_codec bs = Inr r" for bs r
    using that by (auto simp: demo_codec_def record_data_def split: if_splits)
  have d: "concat (map (\<lambda>(m, r). record_data r)
      (concat (map (turn_delivers demo_codec False) (map demo_turns [0 ..< Suc 1])))) = [[7], [8, 9]]"
    "length (concat (map (turn_delivers demo_codec False) (map demo_turns [0 ..< Suc 1]))) = 2"
    by (simp_all add: turn_delivers_def turn_broken_def demo_turns_def demo_codec_def dl_delivered_def
        map_filter_def record_data_def)
  have "dn_stream_info demo_dl_nats s = Inr (1, 2)" "dn_pull_subscribe demo_dl_nats su s q = None" for s su q
    by (simp_all add: demo_dl_nats_def)
  note t = stream_download_returns [OF w _ _ this(1) _ this(2), of "''p''" "''stdout''" False "''all''" demo_turns]
  have "\<not> stream_ends demo_codec 2 False (demo_turns j)" if "j < 1" for j using that e by simp
  with t e(2) show ?thesis unfolding d [symmetric] by blast
qed

text \<open>
  A channel download whose fetches fail with anything but a timeout never returns while the request
  lasts: the error is not looked at again, and the loop fetches once more.
\<close>

theorem failed_channel_download_spins:
  assumes "\<And>k. \<exists>err. dt_err (turns k) = Some err \<and> \<not> dl_timeout err"
    and "\<And>k. dt_msgs (turns k) = [] \<and> \<not> dt_done (turns k)"
  shows "send_channel dc isFlusher channelName lastSeq turns = None"
proof -
  have "channel_turn f lastSeq st (turns k) = Inr (st, False)" for f st k
    using assms(1) [of k] assms(2) [of k] by (auto simp: channel_turn_def)
  then have "dl_loop (channel_turn (channel_json dc channelName) lastSeq) turns 0 s = None" for s
    using dl_loop_returns [of "channel_turn (channel_json dc channelName) lastSeq" turns 0 s _
        "\<lambda>s t. s" "\<lambda>t. False"] by (cases "dl_loop (channel_turn (channel_json dc channelName) lastSeq) turns 0 s") auto
  then show ?thesis by (simp add: send_channel_def)
qed

theorem failed_channel_download_spins_witness:
  "send_channel demo_codec True None 9
     (\<lambda>k. \<lparr>dt_err = Some (GoErr ''nats: connection closed''), dt_msgs = [], dt_done = False\<rparr>) = None"
  by (rule failed_channel_download_spins) (simp_all add: dl_timeout_def)

text \<open>
  No channel can be downloaded: whatever the mailbox buckets hold, a request with an admin key and a
  channel name is answered with \<open>mbox not found\<close> (unless the lookup panics), because the mailbox is
  looked up by a key that is a new pointer.
\<close>

theorem channel_download_not_found:
  assumes "decoded_fresh ext" and "adminKeyVar \<noteq> []" and "channelVar \<noteq> []"
  shows "\<exists>r. DownloadChannelService ext dn dc isFlusher adminKeyVar channelVar startPos turns h = Some r \<and>
    (\<forall>evs h'. r = Inr (evs, h') \<longrightarrow>
       evs = [DlHeader ''Content-Type'' ''application/json'', DlError ''mbox not found'' 404])"
proof -
  define nf where "nf = ([DlHeader ''Content-Type'' ''application/json'', DlError ''mbox not found'' 404],
    None :: (ChannelName \<times> nat) option)"
  have f: "st_post (FetchMailboxByAdminKey ext (Some \<lparr>ref_addr = hm_alloc h, ref_text = adminKeyVar\<rparr>))
      (h\<lparr>hm_alloc := Suc (Suc (hm_alloc h))\<rparr>) (\<lambda>r h'. r = None)"
    by (rule st_post_mono [OF fetch_by_admin_key_post [OF assms(1)]]) (auto simp: allocated_def)
  have "st_post (open_channel ext dn adminKeyVar channelVar startPos) h (\<lambda>r h'. r = nf)"
    unfolding open_channel_def nf_def using assms(2,3)
    by (auto simp: wp_simps new_opaques new_opaque_def Let_def intro!: st_post_mono [OF f])
  then show ?thesis
    by (cases "open_channel ext dn adminKeyVar channelVar startPos h")
      (auto simp: DownloadChannelService_def nf_def dest!: st_postD)
qed

theorem channel_download_not_found_witness:
  "\<exists>evs h'. DownloadChannelService demo_hext demo_dl_nats demo_codec True ''zzb'' ''console'' ''first''
       demo_turns (demo_store demo_full) = Some (Inr (evs, h')) \<and>
     evs = [DlHeader ''Content-Type'' ''application/json'', DlError ''mbox not found'' 404]"
proof -
  define evs0 where "evs0 = [DlHeader ''Content-Type'' ''application/json'', DlError ''mbox not found'' 404]"
  have "\<exists>h'. open_channel demo_hext demo_dl_nats ''zzb'' ''console'' ''first'' (demo_store demo_full) =
      Inr ((evs0, None), h')"
    by (simp add: open_channel_def FetchMailboxByAdminKey_def st_eval demo_hext_def demo_store_def
        demo_full_def mbox_AdminKey_def demo_mailbox_def opaque_eq_def ref_eq_def evs0_def
        Let_def)
  then have "\<exists>h'. DownloadChannelService demo_hext demo_dl_nats demo_codec True ''zzb'' ''console'' ''first''
       demo_turns (demo_store demo_full) = Some (Inr (evs0, h'))"
    by (auto simp: DownloadChannelService_def)
  with channel_download_not_found [OF demo_hext_laws(1), of "''zzb''" "''console''" demo_dl_nats demo_codec
      True "''first''" demo_turns "demo_store demo_full"]
  show ?thesis by auto
qed

end
