(* ===== verification/HermesRpcClient.thy ===== *)
theory HermesRpcClient
  imports HermesServer
begin

text \<open>
  The clients of a hermes server: the JSON rpc caller of \<open>src/jsonrpc/jsonrpc.go\<close> and the rpc client of
  \<open>src/hermes/rpcclient/hermes_rpcclient.go\<close> over its web socket and grpc transports. Encoders, the http
  client, dialling and the transports are parameters; logging and the two mutexes are left out.
\<close>

section \<open>jsonrpc\<close>

record Url =
  url_Scheme :: string
  url_Host :: string
  url_Path :: string

definition AppendPath :: "Url \<Rightarrow> string \<Rightarrow> Url" where
  "AppendPath url0 path =
     url0\<lparr>url_Path := strings_TrimRight (url_Path url0) ''/'' @ ''/'' @ strings_TrimLeft path ''/''\<rparr>"

record JsonRpcClientS =
  jc_rootUrl :: Url
  jc_headers :: "(string \<times> string) list"

definition NewJsonRpcClient :: "Url option \<Rightarrow> (string \<times> string) list option \<Rightarrow> JsonRpcClientS run" where
  "NewJsonRpcClient rootUrl headers =
     run_bind (deref rootUrl) (\<lambda>u.
       Inr \<lparr>jc_rootUrl = u, jc_headers = (case headers of None \<Rightarrow> [] | Some hs \<Rightarrow> hs)\<rparr>)"

text \<open>
  The request of a call and its answer: \<open>http_do\<close> makes the request of a method, an url, headers (the
  later of two values counts) and a body, and answers a status and what reading the body gives.
\<close>

record http_request =
  hrq_Method :: string
  hrq_Url :: string
  hrq_Headers :: "(string \<times> string) list"
  hrq_Body :: bytes

definition JsonRpcCall ::
  "(Url \<Rightarrow> string) \<Rightarrow> ('q \<Rightarrow> go_error + bytes) \<Rightarrow> (string \<Rightarrow> go_error option) \<Rightarrow>
   (http_request \<Rightarrow> go_error + (int \<times> (go_error + bytes))) \<Rightarrow> (bytes \<Rightarrow> go_error + 'r) \<Rightarrow>
   string \<Rightarrow> JsonRpcClientS \<Rightarrow> 'q \<Rightarrow> go_error + 'r" where
  "JsonRpcCall url_String json_marshal new_request http_do json_unmarshal path client req =
     (let urlStr = url_String (AppendPath (jc_rootUrl client) path)
      in (case json_marshal req of
            Inl err \<Rightarrow> Inl (WrapErr ''error marshalling request to json'' err)
          | Inr body \<Rightarrow>
         (case new_request urlStr of
            Some err \<Rightarrow> Inl (WrapErr ''error creating http request'' err)
          | None \<Rightarrow>
         (case http_do \<lparr>hrq_Method = ''POST'', hrq_Url = urlStr,
                        hrq_Headers = jc_headers client @ [(''Content-Type'', ''application/json'')],
                        hrq_Body = body\<rparr> of
            Inl err \<Rightarrow> Inl (WrapErr ''error making http request'' err)
          | Inr (statusCode, answer) \<Rightarrow>
         (case answer of
            Inl err \<Rightarrow> Inl (GoErr ''error reading http response body'')
          | Inr responseBody \<Rightarrow>
              if statusCode div 100 \<noteq> 2
              then Inl (GoErr (''invalid http response '' @ int_to_string statusCode))
              else (case json_unmarshal responseBody of
                      Inl err \<Rightarrow> Inl (WrapErr ''error Unmarshaling response body json'' err)
                    | Inr r \<Rightarrow> Inr r))))))"

section \<open>Requests and responses\<close>

record 'a body_codec =
  bc_proto_marshal :: "'a \<Rightarrow> go_error + bytes"
  bc_json_marshal :: "'a \<Rightarrow> go_error + bytes"
  bc_proto_unmarshal :: "bytes \<Rightarrow> go_error + 'a"
  bc_json_unmarshal :: "bytes \<Rightarrow> go_error + 'a"

definition request_ContentType :: "Message option \<Rightarrow> ContentType" where
  "request_ContentType m =
     (case Option.bind m msg_Header of None \<Rightarrow> UnspecifiedCT | Some h \<Rightarrow> mh_ContentType h)"

definition get_Sender :: "Message option \<Rightarrow> string" where
  "get_Sender m = (case Option.bind m msg_Header of None \<Rightarrow> [] | Some h \<Rightarrow> mh_Sender h)"

definition get_EnvelopeChannel :: "Message option \<Rightarrow> string" where
  "get_EnvelopeChannel m =
     (case Option.bind m msg_ServerEnvelope of None \<Rightarrow> [] | Some e \<Rightarrow> sv_Channel e)"

definition invalid_content_type :: go_error where
  "invalid_content_type = GoErr ''invalid content type for rpc''"

definition response_bytes :: "'a body_codec \<Rightarrow> ContentType \<Rightarrow> 'a option \<Rightarrow> go_error + bytes" where
  "response_bytes bc contentType response =
     (case response of
        None \<Rightarrow> Inr []
      | Some r \<Rightarrow>
          (case contentType of
             Protobuf \<Rightarrow> (case bc_proto_marshal bc r of
                            Inl err \<Rightarrow> Inl (WrapErr ''unable to unmarshal proto message'' err) | Inr b \<Rightarrow> Inr b)
           | Json \<Rightarrow> (case bc_json_marshal bc r of
                        Inl err \<Rightarrow> Inl (WrapErr ''unable to unmarshal proto message'' err) | Inr b \<Rightarrow> Inr b)
           | _ \<Rightarrow> Inl invalid_content_type))"

text \<open>
  The header of the answer: an error makes it an error response, and a response, set after it, makes it
  a success and takes the error away again.
\<close>

definition response_header :: "Message option \<Rightarrow> bool \<Rightarrow> go_error option \<Rightarrow> RpcHeader" where
  "response_header requestMsg hasResponse responseErr =
     (let h0 = \<lparr>rh_CorrelationId = get_CorrelationId (get_RpcHeader requestMsg),
                rh_EndPoint = get_EndPoint (get_RpcHeader requestMsg),
                rh_FrameType = UnspecifiedRFT, rh_ErrorInfo = None\<rparr>;
          h1 = (case responseErr of None \<Rightarrow> h0
                | Some err \<Rightarrow> h0\<lparr>rh_FrameType := ErrorResponse,
                    rh_ErrorInfo := Some \<lparr>rei_ErrorCode = 0, rei_Message = error_text err,
                                         rei_StackTrace = []\<rparr>\<rparr>)
      in (if hasResponse then h1\<lparr>rh_FrameType := SuccessResponse, rh_ErrorInfo := None\<rparr> else h1))"

definition MarshalResponse ::
  "'a body_codec \<Rightarrow> go_error + string \<Rightarrow> int \<Rightarrow> Message option \<Rightarrow> 'a option \<Rightarrow> go_error option \<Rightarrow>
   (go_error + SendMessageRequest) run" where
  "MarshalResponse bc uuid0 now requestMsg response responseErr =
     (let contentType = request_ContentType requestMsg
      in (case response_bytes bc contentType response of
            Inl err \<Rightarrow> Inr (Inl err)
          | Inr bs \<Rightarrow>
              run_bind (RandomUid uuid0) (\<lambda>idempotentId.
                Inr (Inr \<lparr>smr_To = [get_Sender requestMsg],
                  smr_Message = Some \<lparr>msg_Header = Some \<lparr>mh_Sender = [], mh_ContentType = contentType,
                       mh_RpcHeader = Some (response_header requestMsg (response \<noteq> None) responseErr),
                       mh_SenderSequence = 0, mh_ExtraHeaders = []\<rparr>,
                     msg_SenderEnvelope = Some \<lparr>se_Created = now\<rparr>, msg_ServerEnvelope = None,
                     msg_Data = bs\<rparr>,
                  smr_Channel = get_EnvelopeChannel requestMsg, smr_IdempotentId = idempotentId\<rparr>))))"

text \<open>
  \<open>UnmarshalRequest\<close> makes a value of the type \<open>A\<close> by reflection and asserts that it has the type
  \<open>*A\<close>. A type assertion on a value of another type panics.
\<close>

datatype go_type = NamedType string | PointerTo go_type

definition type_assert :: "go_type \<Rightarrow> go_type \<Rightarrow> unit run" where
  "type_assert wanted actual =
     (if actual = wanted then Inr () else Inl (PanicMsg ''interface conversion''))"

definition UnmarshalRequest :: "'a body_codec \<Rightarrow> go_type \<Rightarrow> Message \<Rightarrow> (go_error + 'a) run" where
  "UnmarshalRequest bc a_type msg =
     (let aType = a_type
      in run_bind (type_assert (PointerTo a_type) aType) (\<lambda>_.
           Inr (case request_ContentType (Some msg) of
                  Protobuf \<Rightarrow> map_sum (WrapErr ''unable to unmarshal proto message'') id
                                (bc_proto_unmarshal bc (msg_Data msg))
                | Json \<Rightarrow> map_sum (WrapErr ''unable to unmarshal proto message'') id
                            (bc_json_unmarshal bc (msg_Data msg))
                | _ \<Rightarrow> Inl invalid_content_type)))"

section \<open>Reading messages\<close>

text \<open>The interface \<open>HermesClient\<close> over the state of a transport; a nil message without an error is
  \<open>Inr None\<close>.\<close>

record 'c HermesClientI =
  hc_ReadMessage :: "('c, go_error + MessageToClient option) st"
  hc_Send :: "MessageFromClient \<Rightarrow> ('c, go_error option) st"

definition ReadMessageImpl ::
  "(bytes \<Rightarrow> go_error + Message) \<Rightarrow> 'c HermesClientI \<Rightarrow> ('c, go_error + Message option) st" where
  "ReadMessageImpl proto_Unmarshal client =
     st_bind (hc_ReadMessage client) (\<lambda>r.
       case r of
         Inl err \<Rightarrow> st_return (Inl (WrapErr ''error reading from client'' err))
       | Inr None \<Rightarrow> st_return (Inr None)
       | Inr (Some m2c) \<Rightarrow>
           (case m2c of
              TcPing payload \<Rightarrow> st_bind (hc_Send client (FcPong payload)) (\<lambda>_. st_return (Inr None))
            | TcSendMessageResponse response \<Rightarrow> st_return (Inr None)
            | TcPong payload \<Rightarrow> st_return (Inr None)
            | TcNotification message \<Rightarrow> st_return (Inr None)
            | TcMessageEnvelope messageBytes serverEnvelope \<Rightarrow>
                st_return (Inr (case proto_Unmarshal messageBytes of
                  Inl err \<Rightarrow> None
                | Inr msg \<Rightarrow> Some (msg\<lparr>msg_ServerEnvelope := serverEnvelope\<rparr>)))
            | _ \<Rightarrow> st_return (Inr None)))"

text \<open>\<open>HermesClientW.ReadMessage\<close>: it returns at the first message or error; \<open>None\<close> is not returning.\<close>

partial_function (option) ReadMessageW ::
  "(bytes \<Rightarrow> go_error + Message) \<Rightarrow> 'c HermesClientI \<Rightarrow> 'c \<Rightarrow> ((go_error + Message) \<times> 'c) run option" where
  "ReadMessageW proto_Unmarshal client c =
     (case ReadMessageImpl proto_Unmarshal client c of
        Inl p \<Rightarrow> Some (Inl p)
      | Inr (Inl err, c') \<Rightarrow> Some (Inr (Inl err, c'))
      | Inr (Inr (Some msg), c') \<Rightarrow> Some (Inr (Inr msg, c'))
      | Inr (Inr None, c') \<Rightarrow> ReadMessageW proto_Unmarshal client c')"

definition SendMessageRequestW :: "'c HermesClientI \<Rightarrow> SendMessageRequest \<Rightarrow> ('c, go_error option) st" where
  "SendMessageRequestW client smr = hc_Send client (FcSendMessageRequest smr)"

definition SendFirstMessage :: "'c HermesClientI \<Rightarrow> FirstMessage \<Rightarrow> ('c, go_error option) st" where
  "SendFirstMessage client fm = hc_Send client (FcFirstMessage fm)"

section \<open>Transports\<close>

record 'c web_socket =
  ws_ReadMessage :: "('c, bytes \<times> go_error option) st"
  ws_WriteMessage :: "bytes \<Rightarrow> ('c, go_error option) st"
  ws_marshal :: "MessageFromClient \<Rightarrow> go_error + bytes"
  ws_unmarshal :: "bytes \<Rightarrow> go_error + MessageToClient"

text \<open>The error of the read is wrapped and dropped; what was read is decoded all the same.\<close>

definition ws_client_ReadMessage :: "'c web_socket \<Rightarrow> ('c, go_error + MessageToClient option) st" where
  "ws_client_ReadMessage ws =
     st_bind (ws_ReadMessage ws) (\<lambda>(msgData, readErr).
       st_return (case ws_unmarshal ws msgData of
         Inl err \<Rightarrow> Inr None
       | Inr msg \<Rightarrow> Inr (Some msg)))"

definition ws_client_Send :: "'c web_socket \<Rightarrow> MessageFromClient \<Rightarrow> ('c, go_error option) st" where
  "ws_client_Send ws message =
     (case ws_marshal ws message of
        Inl err \<Rightarrow> st_return (Some (WrapErr ''error marshalling MessageFromClient to bytes'' err))
      | Inr messageBytes \<Rightarrow> ws_WriteMessage ws messageBytes)"

definition hermesWebSocket :: "'c web_socket \<Rightarrow> 'c HermesClientI" where
  "hermesWebSocket ws = \<lparr>hc_ReadMessage = ws_client_ReadMessage ws, hc_Send = ws_client_Send ws\<rparr>"

text \<open>The grpc client receives and sends messages itself.\<close>

definition hermesGrpc ::
  "('c, go_error + MessageToClient) st \<Rightarrow> (MessageFromClient \<Rightarrow> ('c, go_error option) st) \<Rightarrow> 'c HermesClientI"
  where
  "hermesGrpc recv send =
     \<lparr>hc_ReadMessage = st_bind recv (\<lambda>r. st_return (map_sum id Some r)), hc_Send = send\<rparr>"

section \<open>Connecting\<close>

record RpcClientConfig =
  rcc_HermesRootUrl :: "Url option"
  rcc_UseGrpc :: bool
  rcc_GrpcEncrypt :: bool
  rcc_RpcChannel :: ChannelName
  rcc_ExtraChannels :: "ChannelName list"

definition mailbox_request :: "string list \<Rightarrow> CreateMailboxRequest" where
  "mailbox_request channels = \<lparr>cmr_Channels = channels, cmr_PrivateMetadata = JNull,
     cmr_PublicMetadata = JNull, cmr_PurgeTimeoutInMillis = 0, cmr_CloseTimeoutInMillis = 0\<rparr>"

text \<open>The url of the web socket; another scheme is kept.\<close>

definition ws_url :: "Url \<Rightarrow> Url" where
  "ws_url root =
     (let wsUrl = AppendPath root ''/api/ws/send_receive_proto''
      in if url_Scheme wsUrl = ''http'' then wsUrl\<lparr>url_Scheme := ''ws''\<rparr>
         else if url_Scheme wsUrl = ''https'' then wsUrl\<lparr>url_Scheme := ''wss''\<rparr> else wsUrl)"

text \<open>
  The web socket client makes its mailbox with the rpc channel and the extra channels and then dials:
  \<open>create_mailbox\<close> is the caller of an end point, \<open>ws_dial\<close> the dialler.
\<close>

definition newHermesWebSocketClient ::
  "(string \<Rightarrow> JsonRpcClientS \<Rightarrow> CreateMailboxRequest \<Rightarrow> go_error + CreateMailboxResponse) \<Rightarrow>
   (Url \<Rightarrow> string) \<Rightarrow> (string \<Rightarrow> go_error + 'c) \<Rightarrow> RpcClientConfig \<Rightarrow>
   (go_error + (CreateMailboxResponse \<times> 'c)) run" where
  "newHermesWebSocketClient create_mailbox url_String ws_dial config =
     run_bind (NewJsonRpcClient (rcc_HermesRootUrl config) None) (\<lambda>jsonRpcClient.
     run_bind (run_map opaque_String (rcc_RpcChannel config # rcc_ExtraChannels config)) (\<lambda>channels.
       case create_mailbox ''/api/create_mailbox'' jsonRpcClient (mailbox_request channels) of
         Inl err \<Rightarrow> Inr (Inl err)
       | Inr clientMailbox \<Rightarrow>
           run_bind (deref (rcc_HermesRootUrl config)) (\<lambda>root.
             Inr (case ws_dial (url_String (ws_url root)) of
                    Inl err \<Rightarrow> Inl err
                  | Inr conn \<Rightarrow> Inr (clientMailbox, conn)))))"

text \<open>The grpc client makes its mailbox with the rpc channel alone.\<close>

record 'c grpc_env =
  ge_cert_pool :: "go_error option"
  ge_dial :: "bool \<Rightarrow> string \<Rightarrow> go_error option"
  ge_create_mailbox :: "CreateMailboxRequest \<Rightarrow> go_error + CreateMailboxResponse"
  ge_send_receive :: "go_error + 'c"

definition NewMailboxServicesClient :: "'c grpc_env \<Rightarrow> RpcClientConfig \<Rightarrow> go_error option run" where
  "NewMailboxServicesClient env config =
     (case (if rcc_GrpcEncrypt config then ge_cert_pool env else None) of
        Some err \<Rightarrow> Inr (Some (WrapErr ''unable to get system cert pool'' err))
      | None \<Rightarrow>
          run_bind (deref (rcc_HermesRootUrl config)) (\<lambda>root.
            Inr (case ge_dial env (rcc_GrpcEncrypt config) (url_Host root) of
                   Some err \<Rightarrow> Some (WrapErr ''unable to connect to grpc server'' err)
                 | None \<Rightarrow> None)))"

definition newHermesGrpcClient ::
  "'c grpc_env \<Rightarrow> RpcClientConfig \<Rightarrow> (go_error + (CreateMailboxResponse \<times> 'c)) run" where
  "newHermesGrpcClient env config =
     run_bind (NewMailboxServicesClient env config) (\<lambda>cerr.
       case cerr of
         Some err \<Rightarrow> Inr (Inl (WrapErr ''unable to connect to grpc server'' err))
       | None \<Rightarrow>
           run_bind (opaque_String (rcc_RpcChannel config)) (\<lambda>ch.
             Inr (case ge_create_mailbox env (mailbox_request [ch]) of
                    Inl err \<Rightarrow> Inl (WrapErr ''unable to create mailbox'' err)
                  | Inr clientMailbox \<Rightarrow>
                      (case ge_send_receive env of
                         Inl err \<Rightarrow> Inl (WrapErr ''unable to calling grpc SendReceive'' err)
                       | Inr conn \<Rightarrow> Inr (clientMailbox, conn)))))"

text \<open>The message that opens the protocol: the sender and a subscription to its rpc channel.\<close>

definition rpc_first_message :: "string \<Rightarrow> CreateMailboxResponse \<Rightarrow> FirstMessage" where
  "rpc_first_message channel clientMailbox =
     \<lparr>fm_SenderInfo = Some \<lparr>si_ReaderKey = cms_ReaderKey clientMailbox,
                            si_Address = cms_Address clientMailbox\<rparr>,
      fm_Subscriptions = [SubMailbox \<lparr>msub_Id = channel, msub_State = [],
         msub_ReaderKey = cms_ReaderKey clientMailbox, msub_Channel = channel,
         msub_StartSeq = ''first''\<rparr>]\<rparr>"

definition NewHermesClient ::
  "(go_error + (CreateMailboxResponse \<times> 'c)) run \<Rightarrow> (go_error + (CreateMailboxResponse \<times> 'c)) run \<Rightarrow>
   'c HermesClientI \<Rightarrow> RpcClientConfig \<Rightarrow> (go_error + (CreateMailboxResponse \<times> 'c)) run" where
  "NewHermesClient new_grpc new_ws client config =
     run_bind (if rcc_UseGrpc config then new_grpc else new_ws) (\<lambda>made.
       case made of
         Inl err \<Rightarrow> Inr (Inl (WrapErr ''error creating hermes client'' err))
       | Inr (clientMailbox, c) \<Rightarrow>
           run_bind (opaque_String (rcc_RpcChannel config)) (\<lambda>channel.
           run_bind (hc_Send client (FcFirstMessage (rpc_first_message channel clientMailbox)) c)
             (\<lambda>(serr, c'). Inr (case serr of
                Some err \<Rightarrow> Inl (WrapErr ''error sending first message'' err)
              | None \<Rightarrow> Inr (clientMailbox, c')))))"

section \<open>The rpc client\<close>

text \<open>
  The listeners of a client are channels, here numbered, each open or closed. The reader hands a message
  to the listener of its correlation id and closes the channel, which stays registered. The other side
  of a channel is taken to be waiting for it.
\<close>

record rpc_client =
  rcl_listeners :: "(string, nat) SyncMapS"
  rcl_closed :: "nat \<Rightarrow> bool"
  rcl_delivered :: "(nat \<times> Message) list"

definition NewRpcClient :: rpc_client where
  "NewRpcClient = \<lparr>rcl_listeners = NewSyncMap, rcl_closed = (\<lambda>ch. False), rcl_delivered = []\<rparr>"

definition reader_message :: "Message \<Rightarrow> rpc_client \<Rightarrow> rpc_client run" where
  "reader_message msg rc =
     (let correlationId = msg_CorrelationId msg
      in if correlationId = [] then Inr rc
         else (case rcl_listeners rc correlationId of
                 None \<Rightarrow> Inr rc
               | Some ch \<Rightarrow>
                   if rcl_closed rc ch then Inl (PanicMsg ''send on closed channel'')
                   else Inr (rc\<lparr>rcl_delivered := rcl_delivered rc @ [(ch, msg)],
                               rcl_closed := (rcl_closed rc)(ch := True)\<rparr>)))"

text \<open>The reader over what it reads; it ends at an error, and whether it has is the answer.\<close>

fun run_reader :: "(go_error + Message) list \<Rightarrow> rpc_client \<Rightarrow> (rpc_client \<times> bool) run" where
  "run_reader [] rc = Inr (rc, False)"
| "run_reader (Inl err # reads) rc = Inr (rc, True)"
| "run_reader (Inr msg # reads) rc = run_bind (reader_message msg rc) (\<lambda>rc'. run_reader reads rc')"

section \<open>What the client does\<close>

definition response_decodes :: "'a body_codec \<Rightarrow> bool" where
  "response_decodes bc \<longleftrightarrow>
     (\<forall>x b. bc_proto_marshal bc x = Inr b \<longrightarrow> bc_proto_unmarshal bc b = Inr x) \<and>
     (\<forall>x b. bc_json_marshal bc x = Inr b \<longrightarrow> bc_json_unmarshal bc b = Inr x)"

text \<open>
  C30. The answer to an rpc request goes to the sender of the request alone, on the channel the request
  came on, with its correlation id, its end point and its content type; a response is in its body in
  that encoding and decodes to itself, and makes the answer a success whether or not an error was given
  with it; an error without a response is an error answer with the text of the error.
\<close>

theorem response_answers_request:
  assumes "response_decodes bc"
    and "MarshalResponse bc uuid0 now (Some req) response responseErr = Inr (Inr smr)"
  shows "smr_To smr = [get_Sender (Some req)] \<and> smr_Channel smr = get_EnvelopeChannel (Some req) \<and>
    (\<exists>msg hdr rh. smr_Message smr = Some msg \<and> msg_Header msg = Some hdr \<and> mh_RpcHeader hdr = Some rh \<and>
       mh_ContentType hdr = request_ContentType (Some req) \<and>
       rh_CorrelationId rh = msg_CorrelationId req \<and> rh_EndPoint rh = get_EndPoint (get_RpcHeader (Some req)) \<and>
       (case response of
          Some r \<Rightarrow> rh_FrameType rh = SuccessResponse \<and> rh_ErrorInfo rh = None \<and>
            ((request_ContentType (Some req) = Protobuf \<and> bc_proto_unmarshal bc (msg_Data msg) = Inr r) \<or>
             (request_ContentType (Some req) = Json \<and> bc_json_unmarshal bc (msg_Data msg) = Inr r))
        | None \<Rightarrow> msg_Data msg = [] \<and>
            (case responseErr of
               Some err \<Rightarrow> rh_FrameType rh = ErrorResponse \<and>
                 map_option rei_Message (rh_ErrorInfo rh) = Some (error_text err)
             | None \<Rightarrow> rh_FrameType rh = UnspecifiedRFT)))"
proof -
  obtain bs where bs: "response_bytes bc (request_ContentType (Some req)) response = Inr bs"
    using assms(2) by (auto simp: MarshalResponse_def Let_def split: sum.splits)
  have c: "get_CorrelationId (get_RpcHeader (Some req)) = msg_CorrelationId req"
    by (simp add: get_CorrelationId_def get_RpcHeader_def msg_CorrelationId_def split: option.splits)
  have d: "(request_ContentType (Some req) = Protobuf \<and> bc_proto_unmarshal bc bs = Inr r) \<or>
      (request_ContentType (Some req) = Json \<and> bc_json_unmarshal bc bs = Inr r)" if "response = Some r" for r
    using bs that assms(1)
    by (auto simp: response_bytes_def response_decodes_def split: ContentType.splits sum.splits)
  have n: "bs = []" if "response = None" using bs that by (simp add: response_bytes_def)
  obtain uid where "smr = \<lparr>smr_To = [get_Sender (Some req)],
      smr_Message = Some \<lparr>msg_Header = Some \<lparr>mh_Sender = [], mh_ContentType = request_ContentType (Some req),
           mh_RpcHeader = Some (response_header (Some req) (response \<noteq> None) responseErr),
           mh_SenderSequence = 0, mh_ExtraHeaders = []\<rparr>,
         msg_SenderEnvelope = Some \<lparr>se_Created = now\<rparr>, msg_ServerEnvelope = None, msg_Data = bs\<rparr>,
      smr_Channel = get_EnvelopeChannel (Some req), smr_IdempotentId = uid\<rparr>"
    using assms(2) by (auto simp: MarshalResponse_def bs Let_def run_simps)
  then show ?thesis using d n
    by (auto simp: response_header_def c Let_def split: option.splits)
qed

definition demo_body :: "string body_codec" where
  "demo_body = \<lparr>bc_proto_marshal = (\<lambda>s. Inr (string_to_bytes s)), bc_json_marshal = (\<lambda>s. Inr (string_to_bytes s)),
     bc_proto_unmarshal = (\<lambda>b. Inr (bytes_to_string b)), bc_json_unmarshal = (\<lambda>b. Inr (bytes_to_string b))\<rparr>"

definition demo_request :: Message where
  "demo_request = \<lparr>msg_Header = Some \<lparr>mh_Sender = ''aab'', mh_ContentType = Json,
       mh_RpcHeader = Some \<lparr>rh_CorrelationId = ''c7'', rh_EndPoint = ''ping'', rh_FrameType = Request,
         rh_ErrorInfo = None\<rparr>, mh_SenderSequence = 0, mh_ExtraHeaders = []\<rparr>,
     msg_SenderEnvelope = None, msg_ServerEnvelope = None, msg_Data = []\<rparr>"

theorem response_answers_request_witness:
  "\<exists>smr msg. MarshalResponse demo_body (Inr ''u-1'') 5 (Some demo_request) (Some ''pong'') (Some (GoErr ''late'')) =
       Inr (Inr smr) \<and> smr_To smr = [''aab''] \<and> smr_Message smr = Some msg \<and>
     bc_json_unmarshal demo_body (msg_Data msg) = Inr ''pong''"
proof -
  have d: "response_decodes demo_body" by (auto simp: response_decodes_def demo_body_def)
  have g: "request_ContentType (Some demo_request) = Json" "get_Sender (Some demo_request) = ''aab''"
    by (simp_all add: request_ContentType_def get_Sender_def demo_request_def)
  obtain smr where e: "MarshalResponse demo_body (Inr ''u-1'') 5 (Some demo_request) (Some ''pong'')
      (Some (GoErr ''late'')) = Inr (Inr smr)"
    by (simp add: MarshalResponse_def Let_def g response_bytes_def RandomUid_def demo_body_def)
  from response_answers_request [OF d e] e g show ?thesis by auto
qed

text \<open>
  C39. A client over a web socket is never told that its connection failed: its read never answers an
  error, and once a read has failed, and so all later ones fail or panic, it gives nothing back at all: it
  reads on for ever or ends in the panic of the web socket (an empty message decodes to nothing the
  client looks at).
\<close>

theorem web_socket_error_never_seen:
  assumes "ws_unmarshal ws [] = Inr TcUnset"
    and "\<And>c. failed c \<Longrightarrow> (\<exists>p. ws_ReadMessage ws c = Inl p) \<or>
      (\<exists>err c'. ws_ReadMessage ws c = Inr (([], Some err), c') \<and> failed c')"
  shows "(\<forall>err c'. ReadMessageW proto_Unmarshal (hermesWebSocket ws) c \<noteq> Some (Inr (Inl err, c'))) \<and>
    (failed c \<longrightarrow> (\<forall>r. ReadMessageW proto_Unmarshal (hermesWebSocket ws) c \<noteq> Some (Inr r)))"
proof -
  define ok :: "'a \<Rightarrow> ((go_error + Message) \<times> 'a) run \<Rightarrow> bool" where
    "ok = (\<lambda>c r. (failed c \<longrightarrow> (\<exists>p. r = Inl p)) \<and> (\<forall>err c'. r \<noteq> Inr (Inl err, c')))"
  have noerr: "ReadMessageImpl um (hermesWebSocket ws) c \<noteq> Inr (Inl err, c')" for um c err c'
    by (auto simp: ReadMessageImpl_def hermesWebSocket_def ws_client_ReadMessage_def run_simps
        split: sum.splits option.splits MessageToClient.splits)
  have skips: "(\<exists>p. ReadMessageImpl um (hermesWebSocket ws) c = Inl p) \<or>
      (\<exists>c'. ReadMessageImpl um (hermesWebSocket ws) c = Inr (Inr None, c') \<and> failed c')" if "failed c" for um c
    using assms(2) [OF that]
    by (auto simp: ReadMessageImpl_def hermesWebSocket_def ws_client_ReadMessage_def st_bind_def
        st_return_def assms(1))
  have inv: "ok c r" if "ReadMessageW proto_Unmarshal (hermesWebSocket ws) c = Some r" for r
  proof -
    have "hermesWebSocket ws = hermesWebSocket ws \<longrightarrow> ok c r"
    proof (rule ReadMessageW.raw_induct [OF _ that, where P = "\<lambda>um client c r.
        client = hermesWebSocket ws \<longrightarrow> ok c r"])
      fix read um and client :: "'a HermesClientI" and c r
      assume hyp: "\<And>um client c r. read um client c = Some r \<Longrightarrow> client = hermesWebSocket ws \<longrightarrow> ok c r"
        and eq: "(case ReadMessageImpl um client c of
            Inl p \<Rightarrow> Some (Inl p)
          | Inr (Inl err, c') \<Rightarrow> Some (Inr (Inl err, c'))
          | Inr (Inr None, c') \<Rightarrow> read um client c'
          | Inr (Inr (Some msg), c') \<Rightarrow> Some (Inr (Inr msg, c'))) = Some r"
      show "client = hermesWebSocket ws \<longrightarrow> ok c r"
      proof (intro impI)
        assume client: "client = hermesWebSocket ws"
        show "ok c r"
          using eq noerr [of um c] skips [of c um] hyp client unfolding ok_def
          by (fastforce split: sum.splits option.splits prod.splits)
      qed
    qed
    then show ?thesis by simp
  qed
  show ?thesis
    by (cases "ReadMessageW proto_Unmarshal (hermesWebSocket ws) c") (auto dest!: inv simp: ok_def)
qed

text \<open>A web socket that panics at the thousandth read after it has failed.\<close>

definition demo_socket :: "nat web_socket" where
  "demo_socket = \<lparr>ws_ReadMessage = (\<lambda>n. if 1000 \<le> n then Inl (PanicMsg ''repeated read on failed websocket connection'')
       else Inr (([], Some (GoErr ''websocket: close 1006'')), Suc n)),
     ws_WriteMessage = (\<lambda>bs n. Inr (Some (GoErr ''closed''), n)), ws_marshal = (\<lambda>m. Inr []),
     ws_unmarshal = (\<lambda>bs. Inr TcUnset)\<rparr>"

theorem web_socket_error_never_seen_witness:
  "\<exists>err n. ws_ReadMessage demo_socket 0 = Inr (([], Some err), n) \<and>
     (\<forall>r. ReadMessageW (\<lambda>bs. Inl (GoErr ''no message'')) (hermesWebSocket demo_socket) n \<noteq> Some (Inr r))"
  using web_socket_error_never_seen [of demo_socket "\<lambda>c. True"] by (simp add: demo_socket_def)

definition answered :: "rpc_client \<Rightarrow> Message list \<Rightarrow> (nat \<times> Message) list" where
  "answered rc msgs =
     List.map_filter (\<lambda>m. if msg_CorrelationId m = [] then None
       else map_option (\<lambda>ch. (ch, m)) (rcl_listeners rc (msg_CorrelationId m))) msgs"


text \<open>No request can be decoded: the type assertion fails whatever the type of the request.\<close>

theorem unmarshal_request_panics: "UnmarshalRequest bc a_type msg = Inl (PanicMsg ''interface conversion'')"
proof -
  have "a_type \<noteq> PointerTo a_type" by (induction a_type) auto
  then show ?thesis by (simp add: UnmarshalRequest_def type_assert_def)
qed

end
