(* ===== verification/NefarioChecks.thy ===== *)
theory NefarioChecks
  imports Nefario A8Files "HOL-Library.Multiset"
begin

text \<open>
  The health checks of nefario and its minions: \<open>src/nefario/checks/checks.go\<close>. Connections, the ssh
  command, the replication slot and the ping are inputs of the checks (\<open>check_env\<close>); the ping itself is
  \<open>WalPing\<close> of theory \<open>Nefario\<close>.
\<close>

section \<open>Checks and results\<close>

record MinionConfig =
  mcf_Name :: string
  mcf_Url :: string
  mcf_SshName :: string

record ChecksConfig =
  ccf_NatsCentralUrl :: string
  ccf_DatabaseUrl :: string
  ccf_Minions :: "MinionConfig list"
  ccf_ReplicationSlotName :: string

datatype CheckStatus = RedLight | GreenLight | CheckFailed

definition status_text :: "CheckStatus \<Rightarrow> string" where
  "status_text st = (case st of RedLight \<Rightarrow> ''red'' | GreenLight \<Rightarrow> ''green'' | CheckFailed \<Rightarrow> ''error'')"

record CheckResult =
  cr_Check :: string
  cr_Status :: CheckStatus
  cr_Details :: "string list"

definition check_Result :: "string \<Rightarrow> string list \<Rightarrow> CheckStatus \<Rightarrow> CheckResult" where
  "check_Result name details status = \<lparr>cr_Check = name, cr_Status = status, cr_Details = details\<rparr>"

definition check_Error :: "string \<Rightarrow> go_error \<Rightarrow> CheckResult" where
  "check_Error name err = \<lparr>cr_Check = name, cr_Status = CheckFailed, cr_Details = [error_text err]\<rparr>"

text \<open>
  A consumer of NATS: a time that never was is nil. A row of \<open>pg_replication_slots\<close>: \<open>BoolValue\<close> and the
  number \<open>Int64Value\<close> answers for the pending bytes.
\<close>

record consumer_info =
  ci_NumPending :: nat
  ci_AckFloorLast :: "int option"
  ci_DeliveredLast :: "int option"

record slot_row =
  sl_Active :: "go_error + bool"
  sl_RetBytes :: int

record check_env =
  ce_ping :: PingResult
  ce_slot :: "string \<Rightarrow> go_error + slot_row"
  ce_ssh :: "string list \<Rightarrow> go_error + bytes"
  ce_connect :: "ConnArgs \<Rightarrow> go_error + (string \<Rightarrow> string \<Rightarrow> go_error + consumer_info)"
  ce_now :: int

definition bool_text :: "bool \<Rightarrow> string" where
  "bool_text b = (if b then ''true'' else ''false'')"

section \<open>The wal ping\<close>

definition runWalPing :: "check_env \<Rightarrow> string \<Rightarrow> CheckResult run" where
  "runWalPing env name =
     (let p = ce_ping env
      in case pres_Err p of
           Some err \<Rightarrow> Inr (check_Error name err)
         | None \<Rightarrow>
             if pres_TimeoutMsg p \<noteq> [] then Inr (check_Result name [pres_TimeoutMsg p] RedLight)
             else Inr (check_Result name
               [''full db transaction roundtrip - '' @ int_to_string (pres_Latency0InMillis p) @ '' millis'',
                ''event roundtrip - '' @ int_to_string (pres_Latency1InMillis p) @ '' millis''] GreenLight))"

section \<open>The replication slot\<close>

text \<open>
  \<open>float64(n)\<close> for an integer of 64 bits: 53 significant bits, halves to even; the division by a power
  of two that follows it is exact, and \<open>%.2f\<close> rounds the hundredths, halves to even.
\<close>

definition round_half_even :: "int \<Rightarrow> int \<Rightarrow> int" where
  "round_half_even n d =
     (let q = n div d; r = n mod d
      in if 2 * r < d then q else if d < 2 * r then q + 1 else if even q then q else q + 1)"

fun float_unit :: "nat \<Rightarrow> int \<Rightarrow> int" where
  "float_unit 0 n = 1"
| "float_unit (Suc k) n = (if n < 2 ^ 53 then 1 else 2 * float_unit k (n div 2))"

definition float64_of_int :: "int \<Rightarrow> int" where
  "float64_of_int n = (let u = float_unit 11 n in u * round_half_even n u)"

definition two_decimals :: "int \<Rightarrow> int \<Rightarrow> string" where
  "two_decimals n d =
     (let h = round_half_even (100 * n) d
      in int_to_string (h div 100) @ ''.'' @ [digit_char (nat (h div 10 mod 10)), digit_char (nat (h mod 10))])"

definition formatBytes :: "int \<Rightarrow> string" where
  "formatBytes n =
     (let KB = 1024; MB = KB * 1024; GB = MB * 1024; f = float64_of_int n
      in if n < KB then int_to_string n @ '' B''
         else if n < MB then two_decimals f KB @ '' KB''
         else if n < GB then two_decimals f MB @ '' MB''
         else two_decimals f GB @ '' GB'')"

text \<open>Where the flag cannot be read it is nil, and dereferenced.\<close>

definition replicationSlotStatus :: "check_env \<Rightarrow> string \<Rightarrow> string \<Rightarrow> CheckResult run" where
  "replicationSlotStatus env slotName name =
     (case ce_slot env slotName of
        Inl err \<Rightarrow> Inr (check_Error name err)
      | Inr row \<Rightarrow>
          let oneMeg = 1024 * 1024;
              bytesPending = sl_RetBytes row;
              active = (case sl_Active row of Inl err \<Rightarrow> None | Inr b \<Rightarrow> Some b);
              activeStr = (case active of None \<Rightarrow> ''nil'' | Some b \<Rightarrow> bool_text b)
          in run_bind (deref active) (\<lambda>act.
               Inr (check_Result name
                 [''Bytes Pending '' @ formatBytes bytesPending, ''Active '' @ activeStr]
                 (if act \<and> bytesPending < oneMeg then GreenLight else RedLight))))"

section \<open>The service of a minion\<close>

definition newline :: char where "newline = CHR 0x0A"

text \<open>One line of the answer of systemctl: \<open>None\<close> where nothing is stored.\<close>

definition key_value :: "string \<Rightarrow> (string \<times> string) option" where
  "key_value line =
     (let lineStr = strings_TrimSpace line
      in if lineStr = [] then None
         else (case strings_SplitN2 lineStr ''='' of
                 [k, v] \<Rightarrow> Some (strings_TrimSpace k, strings_TrimSpace v)
               | _ \<Rightarrow> None))"

fun key_values :: "(string \<Rightarrow> string option) \<Rightarrow> string list \<Rightarrow> string \<Rightarrow> string option" where
  "key_values result [] = result"
| "key_values result (line # lines) =
     (case key_value line of
        None \<Rightarrow> key_values result lines
      | Some (k, v) \<Rightarrow> key_values (result(k \<mapsto> v)) lines)"

definition parseKeyValuePairs :: "bytes \<Rightarrow> string \<Rightarrow> string option" where
  "parseKeyValuePairs data = key_values Map.empty (strings_Split newline (bytes_to_string data))"

type_synonym ServiceInfo = "string \<Rightarrow> string option"

definition service_value :: "ServiceInfo \<Rightarrow> string \<Rightarrow> string" where
  "service_value s k = (case s k of None \<Rightarrow> [] | Some v \<Rightarrow> v)"

definition IsRunning :: "ServiceInfo \<Rightarrow> bool" where
  "IsRunning s = (service_value s ''ActiveState'' = ''active'' \<and> service_value s ''SubState'' = ''running'')"

definition service_Exists :: "ServiceInfo \<Rightarrow> bool" where
  "service_Exists s = (service_value s ''LoadState'' = ''loaded'')"

definition FetchServiceInfo :: "check_env \<Rightarrow> string \<Rightarrow> string \<Rightarrow> go_error + ServiceInfo" where
  "FetchServiceInfo env sshName serviceName =
     (case ce_ssh env [sshName, ''--'', ''systemctl'', ''--user'', ''show'', ''--no-pager'', serviceName] of
        Inl err \<Rightarrow> Inl (WrapErr ''error getting output'' err)
      | Inr out \<Rightarrow> Inr (parseKeyValuePairs out))"

definition minionServiceCheck :: "check_env \<Rightarrow> MinionConfig \<Rightarrow> string \<Rightarrow> CheckResult run" where
  "minionServiceCheck env minion name =
     (case FetchServiceInfo env (mcf_SshName minion) ''minion'' of
        Inl err \<Rightarrow> Inr (check_Error name (WrapErr ''unable to fetch service info'' err))
      | Inr serviceInfo \<Rightarrow>
          Inr (check_Result name
            [''IsRunning '' @ bool_text (IsRunning serviceInfo), ''Exists '' @ bool_text (service_Exists serviceInfo)]
            (if IsRunning serviceInfo then GreenLight else RedLight)))"

section \<open>The consumer of a minion\<close>

text \<open>\<open>now.Sub(t)\<close> in nanoseconds, saturating, and \<open>Milliseconds\<close>, which truncates.\<close>

definition time_Sub :: "int \<Rightarrow> int \<Rightarrow> int" where
  "time_Sub now t = max int64_min (min int64_max (now - t))"

definition Milliseconds :: "int \<Rightarrow> int" where
  "Milliseconds d = sgn d * (\<bar>d\<bar> div 1000000)"

definition nefarioCentralCheck :: "check_env \<Rightarrow> MinionConfig \<Rightarrow> string \<Rightarrow> CheckResult run" where
  "nefarioCentralCheck env minion name =
     (case ce_connect env \<lparr>ca_NatsUrl = mcf_Url minion, ca_Name = mcf_Name minion, ca_MaxReconnects = 0,
                          ca_RetryWait = 0, ca_label = []\<rparr> of
        Inl err \<Rightarrow> Inr (check_Error name (WrapErr ''unable to create nats connection'' err))
      | Inr consumer \<Rightarrow>
          (case consumer ''nefario-central'' ''nefario-central'' of
             Inl err \<Rightarrow> Inr (check_Error name (WrapErr ''unable to create nats connection'' err))
           | Inr info \<Rightarrow>
               run_bind (deref (ci_AckFloorLast info)) (\<lambda>ack.
               run_bind (deref (ci_DeliveredLast info)) (\<lambda>delivered.
                 let lastAckFloor = time_Sub (ce_now env) ack;
                     lastDelivered = time_Sub (ce_now env) delivered
                 in Inr (check_Result name
                      [''NumPending '' @ nat_to_string (ci_NumPending info),
                       ''AckFloor.Last '' @ int_to_string (Milliseconds lastAckFloor),
                       ''Delivered.Last '' @ int_to_string (Milliseconds lastDelivered)]
                      (if 10 < ci_NumPending info then RedLight else GreenLight))))))"

section \<open>All checks\<close>

type_synonym check = "string \<times> (string \<Rightarrow> CheckResult run)"

definition minion_checks :: "check_env \<Rightarrow> MinionConfig \<Rightarrow> check list" where
  "minion_checks env minion =
     [(''nefario-central '' @ mcf_Name minion, nefarioCentralCheck env minion),
      (''minion-service '' @ mcf_Name minion, minionServiceCheck env minion)]"

definition BuildChecks :: "check_env \<Rightarrow> ChecksConfig \<Rightarrow> check list" where
  "BuildChecks env config =
     [(''wal ping'', runWalPing env),
      (''replication slot status'', replicationSlotStatus env (ccf_ReplicationSlotName config))] @
     concat (map (minion_checks env) (ccf_Minions config))"

text \<open>
  Each check runs in a goroutine of its own, so one that panics ends the program; \<open>order\<close> is the order
  in which they finish.
\<close>

definition RunAllChecks :: "check_env \<Rightarrow> ChecksConfig \<Rightarrow> nat list \<Rightarrow> CheckResult list run" where
  "RunAllChecks env config order =
     run_bind (run_map (\<lambda>(name, action). action name) (BuildChecks env config)) (\<lambda>results.
       Inr (RunPar results id order))"

definition report_result :: "CheckResult \<Rightarrow> string" where
  "report_result r =
     ''======= '' @ cr_Check r @ '' ======='' @ [newline] @ status_text (cr_Status r) @ [newline] @
     concat (map (\<lambda>line. ''    '' @ line @ [newline]) (cr_Details r))"

text \<open>The services of the handler: still being made, not made, or there.\<close>

datatype services_state = StillInitializing | InitFailed go_error | Initialized ChecksConfig

definition http_checks :: "check_env \<Rightarrow> nat list \<Rightarrow> services_state \<Rightarrow> ((string \<times> int) + string) run" where
  "http_checks env order st =
     (case st of
        StillInitializing \<Rightarrow> Inr (Inl (''still initializing'', 500))
      | InitFailed err \<Rightarrow> Inr (Inl (''unable to initialize services -- '' @ error_text err, 500))
      | Initialized config \<Rightarrow>
          run_bind (RunAllChecks env config order) (\<lambda>results.
            Inr (Inr (concat (map report_result results)))))"

text \<open>\<open>InitServices\<close>: the configuration, the connection to NATS and the pool of the database.\<close>

definition InitServices ::
  "(go_error + ChecksConfig) run \<Rightarrow> (ConnArgs \<Rightarrow> go_error option) \<Rightarrow> (string \<Rightarrow> go_error option) \<Rightarrow>
   (go_error + ChecksConfig) run" where
  "InitServices lookup connect new_pool =
     run_bind lookup (\<lambda>r.
       case r of
         Inl err \<Rightarrow> Inr (Inl (WrapErr ''fatal: unable to load config'' err))
       | Inr config \<Rightarrow>
           (case connect \<lparr>ca_NatsUrl = ccf_NatsCentralUrl config, ca_Name = ''nefario'',
                          ca_MaxReconnects = 0, ca_RetryWait = 0, ca_label = []\<rparr> of
              Some err \<Rightarrow> Inr (Inl (WrapErr ''unable to create nats connection'' err))
            | None \<Rightarrow>
                (case new_pool (ccf_DatabaseUrl config) of
                   Some err \<Rightarrow> Inr (Inl (WrapErr ''unable to create database connection pool'' err))
                 | None \<Rightarrow> Inr (Inr config))))"

definition services_state_of :: "(go_error + ChecksConfig) option \<Rightarrow> services_state" where
  "services_state_of r =
     (case r of None \<Rightarrow> StillInitializing | Some (Inl err) \<Rightarrow> InitFailed err | Some (Inr c) \<Rightarrow> Initialized c)"

section \<open>What the checks report\<close>

definition listed :: "string \<times> string \<Rightarrow> bool" where
  "listed kv = (case kv of (k, v) \<Rightarrow>
     trimmed k \<and> trimmed v \<and> CHR ''='' \<notin> set k \<and> newline \<notin> set k \<and> newline \<notin> set v)"

text \<open>What \<open>systemctl show\<close> prints.\<close>

definition systemctl_listing :: "(string \<times> string) list \<Rightarrow> bytes" where
  "systemctl_listing kvs = string_to_bytes (concat (map (\<lambda>(k, v). k @ CHR ''='' # v @ [newline]) kvs))"

lemma key_value_listed:
  assumes "listed (k, v)" shows "key_value (k @ CHR ''='' # v) = Some (k, v)"
proof -
  have "trimmed (k @ CHR ''='' # v)"
    using assms by (cases k; cases v rule: rev_cases) (auto simp: listed_def trimmed_def)
  then have "strings_TrimSpace (k @ CHR ''='' # v) = k @ CHR ''='' # v" by (rule trimmed_TrimSpace)
  with assms show ?thesis
    by (simp add: key_value_def listed_def strings_SplitN2_char trimmed_TrimSpace)
qed

lemma split_listing:
  "list_all listed kvs \<Longrightarrow>
     strings_Split newline (concat (map (\<lambda>(k, v). k @ CHR ''='' # v @ [newline]) kvs)) =
       map (\<lambda>(k, v). k @ CHR ''='' # v) kvs @ [[]]"
proof (induction kvs)
  case (Cons kv kvs)
  obtain k v where kv: "kv = (k, v)" by fastforce
  have "newline \<notin> set (k @ CHR ''='' # v)"
    using Cons.prems by (auto simp: kv listed_def newline_def)
  from strings_Split_cons [OF this] Cons show ?case by (simp add: kv)
qed simp

lemma key_values_listed:
  "list_all listed kvs \<Longrightarrow>
     key_values m (map (\<lambda>(k, v). k @ CHR ''='' # v) kvs @ [[]]) = fold (\<lambda>(k, v) m. m(k \<mapsto> v)) kvs m"
  by (induction kvs arbitrary: m)
    (auto simp: key_value_listed split_beta, simp add: key_value_def strings_TrimSpace_def)

lemma parse_listing:
  "list_all listed kvs \<Longrightarrow>
     parseKeyValuePairs (systemctl_listing kvs) = fold (\<lambda>(k, v) m. m(k \<mapsto> v)) kvs Map.empty"
  by (simp add: parseKeyValuePairs_def systemctl_listing_def split_listing key_values_listed)

lemma fold_map_upd: "fold (\<lambda>(k, v) m. m(k \<mapsto> v)) kvs m = m ++ map_of (rev kvs)"
  by (induction kvs arbitrary: m) (auto simp: map_add_def fun_eq_iff split: option.splits)

lemma check_keeps_name:
  "runWalPing env name = Inr r \<Longrightarrow> cr_Check r = name"
  "replicationSlotStatus env slot name = Inr r \<Longrightarrow> cr_Check r = name"
  "minionServiceCheck env minion name = Inr r \<Longrightarrow> cr_Check r = name"
  "nefarioCentralCheck env minion name = Inr r \<Longrightarrow> cr_Check r = name"
  by (auto simp: runWalPing_def replicationSlotStatus_def minionServiceCheck_def nefarioCentralCheck_def
      check_Result_def check_Error_def Let_def run_simps split: option.splits sum.splits if_splits)

lemma BuildChecks_keep_name:
  assumes "(name, action) \<in> set (BuildChecks env config)" and "action name = Inr r"
  shows "cr_Check r = name"
  using assms by (auto simp: BuildChecks_def minion_checks_def dest: check_keeps_name)

lemma run_checks_names:
  "run_map (\<lambda>(name, action). action name) checks = Inr results \<Longrightarrow>
     (\<And>name action r. (name, action) \<in> set checks \<Longrightarrow> action name = Inr r \<Longrightarrow> cr_Check r = name) \<Longrightarrow>
     map cr_Check results = map fst checks"
  by (induction checks arbitrary: results) (fastforce simp: run_simps split_beta)+

lemma run_map_fails: "x \<in> set xs \<Longrightarrow> f x = Inl p \<Longrightarrow> \<exists>q. run_map f xs = Inl q"
proof (induction xs)
  case (Cons y ys)
  then show ?case by (cases "f y"; cases "run_map f ys") auto
qed simp

text \<open>
  Every check of the configuration reports once: the two global ones and the two of each minion, in
  whatever order the goroutines finish, when none of them panics.
\<close>

theorem every_check_reports_once:
  assumes "RunAllChecks env config order = Inr results"
    and "mset order = mset [0 ..< 2 + 2 * length (ccf_Minions config)]"
  shows "mset (map cr_Check results) = {#''wal ping'', ''replication slot status''#} +
    mset (map (\<lambda>m. ''nefario-central '' @ mcf_Name m) (ccf_Minions config)) +
    mset (map (\<lambda>m. ''minion-service '' @ mcf_Name m) (ccf_Minions config))"
proof -
  obtain rs where rs: "run_map (\<lambda>(name, action). action name) (BuildChecks env config) = Inr rs"
    and res: "results = RunPar rs id order"
    using assms(1) by (auto simp: RunAllChecks_def run_simps)
  have "length (concat (map (minion_checks env) ms)) = 2 * length ms" for ms
    by (induction ms) (auto simp: minion_checks_def)
  then have "length rs = 2 + 2 * length (ccf_Minions config)"
    using run_map_length [OF rs] by (simp add: BuildChecks_def)
  with run_par_results [of order rs id] assms(2) have "mset results = mset rs" by (simp add: res)
  then have "mset (map cr_Check results) = mset (map cr_Check rs)" by simp
  also have "map cr_Check rs = map fst (BuildChecks env config)"
    by (rule run_checks_names [OF rs]) (rule BuildChecks_keep_name)
  also have "mset (map fst (concat (map (minion_checks env) ms))) =
      mset (map (\<lambda>m. ''nefario-central '' @ mcf_Name m) ms) + mset (map (\<lambda>m. ''minion-service '' @ mcf_Name m) ms)"
    for ms by (induction ms) (auto simp: minion_checks_def)
  then have "mset (map fst (BuildChecks env config)) = {#''wal ping'', ''replication slot status''#} +
      mset (map (\<lambda>m. ''nefario-central '' @ mcf_Name m) (ccf_Minions config)) +
      mset (map (\<lambda>m. ''minion-service '' @ mcf_Name m) (ccf_Minions config))"
    by (simp add: BuildChecks_def)
  finally show ?thesis .
qed

text \<open>
  C34. The light of a minion follows what its systemctl lists: it is green exactly when the last value
  listed for \<open>ActiveState\<close> is \<open>active\<close> and the last for \<open>SubState\<close> is \<open>running\<close>, and the check says
  that the unit exists exactly when \<open>LoadState\<close> is \<open>loaded\<close>.
\<close>

theorem minion_light_follows_systemctl:
  assumes "list_all listed kvs"
    and "ce_ssh env [mcf_SshName minion, ''--'', ''systemctl'', ''--user'', ''show'', ''--no-pager'', ''minion''] =
      Inr (systemctl_listing kvs)"
  shows "minionServiceCheck env minion name =
    (let vals = map_of (rev kvs);
         running = (vals ''ActiveState'' = Some ''active'' \<and> vals ''SubState'' = Some ''running'')
     in Inr \<lparr>cr_Check = name, cr_Status = (if running then GreenLight else RedLight),
             cr_Details = [''IsRunning '' @ bool_text running,
                           ''Exists '' @ bool_text (vals ''LoadState'' = Some ''loaded'')]\<rparr>)"
proof -
  have p: "parseKeyValuePairs (systemctl_listing kvs) = map_of (rev kvs)"
    using parse_listing [OF assms(1)] by (simp add: fold_map_upd)
  have v: "service_value s k = t \<longleftrightarrow> s k = Some t" if "t \<noteq> []" for s k t
    using that by (auto simp: service_value_def split: option.splits)
  show ?thesis
    by (simp add: minionServiceCheck_def FetchServiceInfo_def assms(2) p IsRunning_def service_Exists_def
        v check_Result_def Let_def)
qed

text \<open>
  A minion whose consumer has never been acknowledged or delivered anything ends the program: the
  time NATS reports for it is nil, and while one such minion is connected no check reports.
\<close>

theorem idle_consumer_breaks_all_checks:
  assumes "minion \<in> set (ccf_Minions config)"
    and "ce_connect env \<lparr>ca_NatsUrl = mcf_Url minion, ca_Name = mcf_Name minion, ca_MaxReconnects = 0,
           ca_RetryWait = 0, ca_label = []\<rparr> = Inr consumer"
    and "consumer ''nefario-central'' ''nefario-central'' = Inr info"
    and "ci_AckFloorLast info = None \<or> ci_DeliveredLast info = None"
  shows "\<exists>p. http_checks env order (Initialized config) = Inl p"
proof -
  have "\<exists>q. nefarioCentralCheck env minion name = Inl q" for name
    using assms(2-4) by (cases "ci_AckFloorLast info") (auto simp: nefarioCentralCheck_def)
  then obtain q where "nefarioCentralCheck env minion (''nefario-central '' @ mcf_Name minion) = Inl q" by blast
  moreover have "(''nefario-central '' @ mcf_Name minion, nefarioCentralCheck env minion)
      \<in> set (BuildChecks env config)"
    using assms(1) by (auto simp: BuildChecks_def minion_checks_def)
  ultimately have "\<exists>p. run_map (\<lambda>(name, action). action name) (BuildChecks env config) = Inl p"
    by (auto intro: run_map_fails)
  then show ?thesis by (auto simp: http_checks_def RunAllChecks_def)
qed

section \<open>Examples\<close>

definition demo_minion :: MinionConfig where
  "demo_minion = \<lparr>mcf_Name = ''tulip'', mcf_Url = ''nats://tulip'', mcf_SshName = ''dev@tulip''\<rparr>"

definition demo_checks :: ChecksConfig where
  "demo_checks = \<lparr>ccf_NatsCentralUrl = ''nats://central'', ccf_DatabaseUrl = ''postgres://db'',
     ccf_Minions = [demo_minion], ccf_ReplicationSlotName = ''slot''\<rparr>"

definition demo_listing :: "(string \<times> string) list" where
  "demo_listing = [(''LoadState'', ''loaded''), (''ActiveState'', ''active''), (''SubState'', ''running''),
     (''ExecStart'', ''a=b'')]"

definition demo_check_env :: "int option \<Rightarrow> check_env" where
  "demo_check_env at =
     \<lparr>ce_ping = \<lparr>pres_Latency0InMillis = 12, pres_Latency1InMillis = 7, pres_TimeoutMsg = [], pres_Err = None\<rparr>,
      ce_slot = (\<lambda>s. Inr \<lparr>sl_Active = Inr True, sl_RetBytes = 1536\<rparr>),
      ce_ssh = (\<lambda>args. Inr (systemctl_listing demo_listing)),
      ce_connect = (\<lambda>a. Inr (\<lambda>st c. Inr \<lparr>ci_NumPending = 3, ci_AckFloorLast = at, ci_DeliveredLast = at\<rparr>)),
      ce_now = 5000000000\<rparr>"

theorem every_check_reports_once_witness:
  "\<exists>results. RunAllChecks (demo_check_env (Some 0)) demo_checks [3, 1, 0, 2] = Inr results \<and>
     mset (map cr_Check results) = {#''wal ping'', ''replication slot status'',
       ''nefario-central tulip'', ''minion-service tulip''#}"
proof -
  obtain results where e: "RunAllChecks (demo_check_env (Some 0)) demo_checks [3, 1, 0, 2] = Inr results"
    by (simp add: RunAllChecks_def BuildChecks_def demo_checks_def minion_checks_def runWalPing_def
        replicationSlotStatus_def nefarioCentralCheck_def minionServiceCheck_def FetchServiceInfo_def
        demo_check_env_def Let_def)
  have "mset [3, 1, 0, 2] = mset [0 ..< 2 + 2 * length (ccf_Minions demo_checks)]"
    by (simp add: demo_checks_def upt_rec numeral_3_eq_3 numeral_2_eq_2)
  from every_check_reports_once [OF e this] e show ?thesis
    by (simp add: demo_checks_def demo_minion_def)
qed

theorem minion_light_follows_systemctl_witness:
  "minionServiceCheck (demo_check_env None) demo_minion ''m'' =
     Inr \<lparr>cr_Check = ''m'', cr_Status = GreenLight, cr_Details = [''IsRunning true'', ''Exists true'']\<rparr>"
proof -
  have l: "list_all listed demo_listing"
    by (simp add: demo_listing_def listed_def trimmed_def newline_def ascii_space_def)
  have s: "ce_ssh (demo_check_env None) args = Inr (systemctl_listing demo_listing)" for args
    by (simp add: demo_check_env_def)
  from minion_light_follows_systemctl [OF l s] show ?thesis
    by (simp add: demo_listing_def bool_text_def)
qed

theorem idle_consumer_breaks_all_checks_witness:
  "\<exists>p. http_checks (demo_check_env None) [0, 1, 2, 3] (Initialized demo_checks) = Inl p"
  by (rule idle_consumer_breaks_all_checks [of demo_minion _ _ _
        "\<lparr>ci_NumPending = 3, ci_AckFloorLast = None, ci_DeliveredLast = None\<rparr>"])
    (auto simp: demo_checks_def demo_check_env_def)

end
