(* ===== verification/Qubes.thy ===== *)
theory Qubes
  imports GoStd
begin

text \<open>
  The client of a qubes server, \<open>src/qubes/qubes.go\<close>: the rpc over http, the requests that change a row and
  the queries. The http client and the JSON encoders are parameters. What \<open>encoding/json\<close> does with the
  structs of the file is written out: it writes and reads exported fields only, so a query is sent as an
  empty object and a response of a change keeps its zero values.
\<close>

section \<open>Requests and responses\<close>

record CrudRowRequest =
  crr_Cube :: string
  crr_Fields :: bytes
  crr_Where :: string
  crr_AppSpace :: string

record CrudRowResponse =
  crp_success :: bool
  crp_errorMessage :: string
  crp_serverStackTrace :: string
  crp_numberOfRowsUpdated :: int

definition empty_crud_response :: CrudRowResponse where
  "empty_crud_response = \<lparr>crp_success = False, crp_errorMessage = [], crp_serverStackTrace = [],
     crp_numberOfRowsUpdated = 0\<rparr>"

record qubesQueryRequest =
  qqr_query :: string
  qqr_dataFormat :: string
  qqr_appSpace :: string

text \<open>
  \<open>qe_object\<close> answers the error of decoding bytes that are not a JSON object, \<open>qe_rows\<close> decodes a list
  of rows, each of which may be null.
\<close>

record 'a qubes_env =
  qe_post :: "string \<Rightarrow> bytes \<Rightarrow> go_error + (nat \<times> (go_error + bytes))"
  qe_row :: "'a option \<Rightarrow> go_error + bytes"
  qe_crud :: "CrudRowRequest \<Rightarrow> go_error + bytes"
  qe_object :: "bytes \<Rightarrow> go_error option"
  qe_rows :: "bytes \<Rightarrow> go_error + 'a option list"

record QubesClient =
  qc_rootURL :: string
  qc_authToken :: string

definition NewQubesClient :: "string \<Rightarrow> string \<Rightarrow> QubesClient" where
  "NewQubesClient rootURL authToken = \<lparr>qc_rootURL = rootURL, qc_authToken = authToken\<rparr>"

definition marshal_query :: "qubesQueryRequest \<Rightarrow> go_error + bytes" where
  "marshal_query request = Inr (string_to_bytes ''{}'')"

definition unmarshal_crud :: "'a qubes_env \<Rightarrow> bytes \<Rightarrow> go_error + CrudRowResponse" where
  "unmarshal_crud env bs = (case qe_object env bs of Some err \<Rightarrow> Inl err | None \<Rightarrow> Inr empty_crud_response)"

definition runRpc ::
  "'a qubes_env \<Rightarrow> string \<Rightarrow> QubesClient \<Rightarrow> go_error + bytes \<Rightarrow> (bytes \<Rightarrow> go_error + 'r) \<Rightarrow> go_error + 'r" where
  "runRpc env path qc request unmarshal =
     (case request of
        Inl err \<Rightarrow> Inl (WrapErr ''unable to Marshal'' err)
      | Inr requestBody \<Rightarrow>
          (case qe_post env (qc_rootURL qc @ path) requestBody of
             Inl err \<Rightarrow> Inl (WrapErr ''error processing rpc request to'' err)
           | Inr (statusCode, body) \<Rightarrow>
               if statusCode mod 100 \<noteq> 2
               then Inl (GoErr (''inavlid response code '' @ nat_to_string statusCode))
               else
                 (case body of
                    Inl err \<Rightarrow> Inl (WrapErr ''error reading response body from'' err)
                  | Inr responseBody \<Rightarrow>
                      (case unmarshal responseBody of
                         Inl err \<Rightarrow> Inl (WrapErr ''error reading marshalling json'' err)
                       | Inr resp \<Rightarrow> Inr resp))))"

section \<open>Changes\<close>

text \<open>\<open>stacktrace.Propagate\<close>, which answers nil for nil.\<close>

definition Propagate :: "string \<Rightarrow> go_error option \<Rightarrow> go_error option" where
  "Propagate msg err = map_option (WrapErr msg) err"

text \<open>The request keeps the fields it was given; a nil response with a nil error is \<open>(None, None)\<close>.\<close>

definition runCrudRequest ::
  "'a qubes_env \<Rightarrow> QubesClient \<Rightarrow> string \<Rightarrow> CrudRowRequest \<Rightarrow> 'a option \<Rightarrow>
   (CrudRowResponse option \<times> go_error option) \<times> CrudRowRequest" where
  "runCrudRequest env qc path request row =
     (case qe_row env row of
        Inl err \<Rightarrow> ((None, Propagate ''unable to marshal instance to json'' (Some err)), request\<lparr>crr_Fields := []\<rparr>)
      | Inr rowJson \<Rightarrow>
          let request' = request\<lparr>crr_Fields := rowJson\<rparr>
          in (case runRpc env path qc (qe_crud env request') (unmarshal_crud env) of
                Inl err \<Rightarrow> ((None, Propagate ''request failed'' (Some err)), request')
              | Inr responseObj \<Rightarrow>
                  if \<not> crp_success responseObj
                  then ((None, Propagate ''crud response.success = false'' None), request')
                  else ((Some responseObj, None), request')))"

definition crud_result ::
  "string \<Rightarrow> (CrudRowResponse option \<times> go_error option) \<times> CrudRowRequest \<Rightarrow>
   (CrudRowResponse option \<times> go_error option) \<times> CrudRowRequest" where
  "crud_result msg r =
     (case r of
        ((response, Some err), request') \<Rightarrow> ((None, Propagate msg (Some err)), request')
      | ((response, None), request') \<Rightarrow> ((response, None), request'))"

definition qubes_Update where
  "qubes_Update env qc request row = crud_result ''/api/update runCrudRequest'' (runCrudRequest env qc ''/api/ipdate'' request row)"

definition qubes_Insert where
  "qubes_Insert env qc request row = crud_result ''/api/insert runCrudRequest'' (runCrudRequest env qc ''/api/insert'' request row)"

definition qubes_Delete where
  "qubes_Delete env qc request row = snd (fst (crud_result ''/api/delete runCrudRequest'' (runCrudRequest env qc ''/api/delete'' request row)))"

section \<open>Queries\<close>

definition Select :: "'a qubes_env \<Rightarrow> QubesClient \<Rightarrow> string \<Rightarrow> go_error + 'a option list" where
  "Select env qc biql =
     runRpc env ''/api/query'' qc
       (marshal_query \<lparr>qqr_query = biql, qqr_dataFormat = ''verbose'', qqr_appSpace = []\<rparr>) (qe_rows env)"

definition FetchOne :: "'a qubes_env \<Rightarrow> QubesClient \<Rightarrow> string \<Rightarrow> (go_error + 'a option) run" where
  "FetchOne env qc biql =
     (case Select env qc biql of
        Inl err \<Rightarrow> Inr (Inl err)
      | Inr rows \<Rightarrow>
          if length rows = 1 then run_bind (slice_get rows 1) (\<lambda>row. Inr (Inr row))
          else Inr (Inl (GoErr (''returned '' @ nat_to_string (length rows) @ '' rows and expected 1 row''))))"

definition Fetch :: "'a qubes_env \<Rightarrow> QubesClient \<Rightarrow> string \<Rightarrow> (go_error + 'a option) run" where
  "Fetch env qc biql =
     (case Select env qc biql of
        Inl err \<Rightarrow> Inr (Inl err)
      | Inr rows \<Rightarrow>
          if length rows = 0 then Inr (Inr None)
          else if length rows = 1 then run_bind (slice_get rows 1) (\<lambda>row. Inr (Inr row))
          else Inr (Inl (GoErr (''returned '' @ nat_to_string (length rows) @ '' rows and expected 0 or 1 row''))))"

section \<open>What a caller gets\<close>

lemma runRpc_accepts:
  assumes "runRpc env path qc (Inr body) um = Inr r"
  shows "\<exists>status answer. qe_post env (qc_rootURL qc @ path) body = Inr (status, Inr answer) \<and>
    status mod 100 = 2 \<and> um answer = Inr r"
  using assms by (auto simp: runRpc_def split: sum.splits prod.splits if_splits)

lemma crud_never_confirms: "fst (fst (runCrudRequest env qc path request row)) = None"
  by (auto simp: runCrudRequest_def runRpc_def unmarshal_crud_def empty_crud_response_def Propagate_def Let_def
      split: sum.splits prod.splits option.splits if_splits)

lemma crud_result_nil: "fst (fst r) = None \<Longrightarrow> fst (fst (crud_result msg r)) = None"
  by (auto simp: crud_result_def split: prod.split option.split)

text \<open>
  No caller is given what it asks for. A change is never confirmed: it returns an error or neither a
  response nor an error. A query never returns a row: with one row found it panics, and rows are only
  looked at when the status ends in 02, which 200 does not. The text of the query is not sent.
\<close>

theorem qubes_returns_nothing:
  "fst (fst (qubes_Update env qc request row)) = None" "fst (fst (qubes_Insert env qc request row)) = None"
  "FetchOne env qc biql \<noteq> Inr (Inr found)" "Fetch env qc biql = Inr (Inr found') \<Longrightarrow> found' = None"
  "Select env qc biql = Inr rows \<Longrightarrow>
     (length rows = 1 \<longrightarrow> FetchOne env qc biql = Inl PanicIndex \<and> Fetch env qc biql = Inl PanicIndex) \<and>
     (\<exists>status answer. qe_post env (qc_rootURL qc @ ''/api/query'') (string_to_bytes ''{}'') =
        Inr (status, Inr answer) \<and> status mod 100 = 2)"
proof -
  show "fst (fst (qubes_Update env qc request row)) = None" "fst (fst (qubes_Insert env qc request row)) = None"
    by (simp_all add: qubes_Update_def qubes_Insert_def crud_never_confirms crud_result_nil)
next
  show "FetchOne env qc biql \<noteq> Inr (Inr found)"
    by (auto simp: FetchOne_def slice_get_def split: sum.splits)
next
  assume "Fetch env qc biql = Inr (Inr found')"
  then show "found' = None" by (auto simp: Fetch_def slice_get_def split: sum.splits if_splits)
next
  assume s: "Select env qc biql = Inr rows"
  from runRpc_accepts [OF s [unfolded Select_def marshal_query_def]] s
  show "(length rows = 1 \<longrightarrow> FetchOne env qc biql = Inl PanicIndex \<and> Fetch env qc biql = Inl PanicIndex) \<and>
     (\<exists>status answer. qe_post env (qc_rootURL qc @ ''/api/query'') (string_to_bytes ''{}'') =
        Inr (status, Inr answer) \<and> status mod 100 = 2)"
    by (auto simp: FetchOne_def Fetch_def slice_get_def)
qed

end
