(* ===== verification/Spec2Isabelle.thy ===== *)
theory Spec2Isabelle
  imports WalServices WalHeartbeat WalDelivery A8App A8Files Iter HermesClient NefarioProps LaunchyProps LaunchyAgentProps LaunchyJournalProps LaunchyMain DevopsNixgen A8Run HermesDownload HermesRpcClient NefarioChecks Qubes
begin

text \<open>
  Verification of the godev repository: a WAL listener for PostgreSQL, the hermes mailbox server and its
  clients, the nefario process service, the minion that launches and watches programs, and the devops
  tools that deploy them. All paths are under \<open>src/\<close>.

  The parts and how they work together.

  \<^item> \<open>wal-listener\<close> reads the replication stream of PostgreSQL, collects the actions of a transaction and
    publishes each as an event on NATS; it acknowledges a position once everything before it is
    published. \<open>cdc\<close> subscribes to the events of a table.
  \<^item> \<open>hermes\<close> keeps mailboxes in key-value buckets of NATS, with a stream per channel, and serves them over
    http, web sockets and grpc; rpc calls are messages with a correlation id.
  \<^item> \<open>nefario\<close> keeps process runs and services in PostgreSQL from the messages of launchers and agents; it
    consumes a NATS stream per server, and pings itself through the WAL listener.
  \<^item> \<open>launchy\<close> is the minion: a launcher runs a child and reports its life and output; an agent
    reconciles systemd's services with nefario and reads the journal of each of them.
  \<^item> \<open>devops\<close> deploys apps to servers, generates their configuration and installs them; the Java launcher
    fetches and caches the program it starts.
  \<^item> \<open>a8\<close>, \<open>a8nats\<close>, \<open>iter\<close>, \<open>iterable\<close>, \<open>httpserver\<close> and \<open>jsonrpc\<close> are what the others share.

  Conventions. A Go computation that may panic is a \<open>run\<close> (\<open>Inl\<close> the panic); a result with an error is a sum
  or, where the code returns both, a pair with \<open>go_error option\<close>; nil is \<open>None\<close>. State is passed
  explicitly: \<open>st\<close> for operations that may panic, \<open>eop\<close> for those that return an error, a record of the
  state otherwise. Integers whose width matters are words, the others \<open>int\<close> or \<open>nat\<close>; bytes are words of
  8 bits. What the code does to the outside is a trace in its state. Goroutines are step relations where
  their interleaving matters, and inputs in a given order where it does not. A loop that may not end is a
  partial function over \<open>option\<close>, where \<open>None\<close> is not returning, or reads a list of inputs.

  The theories, by part.

  \<^item> \<open>Prelude\<close>, \<open>GoStd\<close>: panics, errors, bytes, byte orders, and the functions of \<open>strings\<close>,
    \<open>strconv\<close> and slices the code calls. \<open>Host\<close>: paths, a file system with links, and calls that may be
    refused.
  \<^item> \<open>WalProtocol\<close> (\<open>protocol.go\<close>, \<open>errors.go\<close>, \<open>pg_type.go\<close>), \<open>WalBuffer\<close> and \<open>WalParser\<close>
    (\<open>parser.go\<close>), \<open>WalTransaction\<close> (\<open>wal_transaction.go\<close>, \<open>event.go\<close>), \<open>WalListener\<close> and
    \<open>WalHeartbeat\<close> (\<open>listener.go\<close>: the stream, and its interleaving with the goroutine of heartbeats),
    \<open>WalServices\<close> (\<open>publisher/nats.go\<close>, \<open>repository.go\<close>, \<open>metrics.go\<close>, wiring). \<open>WalTypes\<close>: the values
    of a transaction have the types of their columns. \<open>WalDelivery\<close>: from a commit to the listener of a
    table, across the publisher and \<open>cdc\<close>.
  \<^item> \<open>A8\<close>, \<open>A8Files\<close>, \<open>A8App\<close>, \<open>A8Run\<close> (\<open>a8/a8.go\<close>: utilities, files and configuration, sub-processes,
    the running of apps and contexts), \<open>A8Nats\<close> (\<open>a8nats.go\<close>), \<open>Iter\<close> (\<open>iter.go\<close>, \<open>iterable.go\<close>).
  \<^item> \<open>Opaques\<close> (\<open>hermes/model\<close>), \<open>HermesProto\<close> (\<open>hproto\<close>), \<open>HermesMailbox\<close>, \<open>HermesPublish\<close> and
    \<open>HermesStore\<close> (\<open>mailbox.go\<close>, \<open>mailbox-store.go\<close>, \<open>hermes-api.go\<close>), \<open>HermesRpc\<close> (\<open>rpcserver\<close>),
    \<open>HermesServer\<close> (\<open>server.go\<close>, \<open>hermes-main.go\<close>, \<open>grpc-service.go\<close>, \<open>httpserver\<close>, \<open>directclient\<close>),
    \<open>HermesClient\<close> (\<open>activews.go\<close>), \<open>HermesDownload\<close> (\<open>download-builders.go\<close>), \<open>HermesRpcClient\<close>
    (\<open>jsonrpc\<close>, \<open>rpcclient\<close>).
  \<^item> \<open>NefarioDb\<close> (\<open>db/query.sql.go\<close>, \<open>db/models.go\<close>), \<open>Nefario\<close> and \<open>NefarioProps\<close> (\<open>nefario.go\<close>,
    \<open>nefario_rpc.proto\<close>, \<open>change-data-capture.go\<close>, \<open>nefario-service-client.go\<close>), \<open>NefarioChecks\<close>
    (\<open>checks/checks.go\<close>).
  \<^item> \<open>LaunchyController\<close> and \<open>LaunchyProps\<close> (\<open>launchy-controller.go\<close>, \<open>process-stream-writer.go\<close>,
    \<open>old-launchy-main.go\<close>), \<open>LaunchyAgent\<close> and \<open>LaunchyAgentProps\<close> (\<open>agent.go\<close>, \<open>systemctl-utils.go\<close>),
    \<open>LaunchyJournal\<close> and \<open>LaunchyJournalProps\<close> (\<open>journalctl-utils.go\<close>), \<open>LaunchyJava\<close>
    (\<open>java-launchy.go\<close>), \<open>LaunchyMain\<close> (the main programs and their rpc services).
  \<^item> \<open>Devops\<close>, \<open>DevopsDeploy\<close>, \<open>DevopsNixgen\<close>, \<open>DevopsInstall\<close> (\<open>config.go\<close>, \<open>deploy.go\<close>,
    \<open>nix-deploy.go\<close>, \<open>nixgen.go\<close>, \<open>install.go\<close>); \<open>Qubes\<close> (\<open>qubes.go\<close>).

  What the lemmas show.

  \<^item> WAL: the parser inverts the format of the server, stays inside the bytes it is given and only ever
    stores values of the type of their column; no action is lost between a message and the publisher; a
    position is acknowledged only when nothing committed waits, and every status sent is bounded by it
    under any interleaving; a listener of a table is given exactly the rows that have a uid, and so no
    deletion.
  \<^item> hermes: mailboxes are created as asked and purged from every index; publications and rpc calls are
    answered once; identifiers are compared by their pointers, so no lookup by a received key succeeds, no
    address is ever verified and no channel can be downloaded; a download of a process returns exactly when
    a turn ends it and has then written what it received, once and in order.
  \<^item> nefario: what is recorded is never undone, the consumers after a cycle are those of the listed
    servers, every message that decodes is acknowledged, and services come back as they were sent.
  \<^item> launchy: a service has one live run, each completed once; a run of a child reports its output in
    order; a pass over the services leaves nefario with what systemd shows, and a second one has nothing to
    do; the mailbox of the mains is made without a key, which panics.
  \<^item> devops: a commit follows only complete deployments; a backup loses nothing; a second installation
    into a place never succeeds.
  \<^item> shared: the wait group and \<open>RunApp\<close>, \<open>RunMultiRoutineApp\<close> return only when all they wait for has
    ended, and always can; cancelling reaches exactly the contexts below; a work queue settles every
    message.

  Interfaces are locales, each interpreted on the model where its provider is: \<open>sync_map\<close> (\<open>A8\<close>),
  \<open>finite_iterator\<close> (\<open>Iter\<close>), \<open>wire_format\<close> (\<open>WalBuffer\<close>, for tuples and columns), \<open>wal_parser\<close>
  (\<open>WalTransaction\<close>, for the binary parser) and \<open>ending_steps\<close> (\<open>A8Run\<close>, for both runners).

  What is assumed. Third-party code is a parameter: NATS, PostgreSQL's answers, protobuf, JSON, HOCON and
  template encoders, uuids, the clock, ssh, systemctl, the transports. Where a theorem needs a law of it, the
  law is a hypothesis by name: \<open>decoded_fresh\<close> (decoding a stored mailbox makes new pointers),
  \<open>bucket_laws\<close> (a key that is deleted is gone, and no deletion brings one back), \<open>parses_back\<close>, \<open>whole_records\<close> and
  \<open>response_decodes\<close> (a decoder inverts its encoder, records have no nil buffers), \<open>tail_matches\<close> (the wildcard
  of a subject), \<open>keeps_places\<close> (a command leaves what is in place where it is), \<open>status_law\<close>
  (a status is for the position it was made for). Each has a witness.

  Bounds. \<open>max_links\<close> is the 40 links after which the kernel refuses a path, so no path that resolves needs
  more. \<open>max_levels\<close> is 2048 levels of a copied directory: a path of Linux has at most 4096 bytes, and
  each level takes two of them. The fuel of \<open>float_unit\<close> is the 11 bits by which an integer of 64 bits
  exceeds the 53 of a float.

  Not modelled. The text of an error is abridged to its message and its cause. Case mapping and white space
  are those of ASCII. Mutexes are left out, since the operations under one run one at a time; so are
  logging, file permissions and times, and the truncation of exit codes to 32 bits. Empty and nil bytes are
  the same. Concatenation of iterables, whose iterators have states of different types, the http routes and
  the listening sockets, the upgrade and pings of a web socket, the start of journalctl, the goroutine group of
  \<open>Listener.Process\<close>, and the wiring of services have no definition: they call what is modelled. Generated
  code, the code generator, the cobra commands, \<open>log\<close>, test programs, \<open>zoo\<close>, \<open>nix\<close> and \<open>sandbox\<close> are
  glue or not part of the program.
\<close>

end
